(* ===== verification/Js_Prelude.thy ===== *)
theory Js_Prelude
  imports Main "HOL-Library.Word"
begin

text \<open>
  What every other theory of the library shares: JavaScript strings as lists of UTF-16 code
  units, the decimal numerals that string templates print, the exception-and-state functions
  the asynchronous code is written in, and the theorem collections of the library.

  A string is a list of 16-bit words, one per UTF-16 code unit, because that is what
  \<open>length\<close>, \<open>slice\<close>, \<open>padStart\<close> and the comparison operators of the language count. ASCII
  text is written \<open>js ''abc''\<close>; the Chinese texts of the interface are written as their code
  units.
\<close>

section \<open>Theorem collections\<close>

named_theorems js_str "evaluation of string literals and string operations"
named_theorems js_run "equations that run an asynchronous program step by step"
named_theorems js_shape "facts on the runtime shape of values"

section \<open>Strings\<close>

type_synonym unit16 = "16 word"
type_synonym jstr = "16 word list"

definition js :: "string \<Rightarrow> jstr" where
  "js s = map of_char s"

lemma js_Nil [simp]: "js [] = []"
  by (simp add: js_def)

lemma js_Cons: "js (c # s) = of_char c # js s"
  by (simp add: js_def)

lemma js_append: "js (s @ t) = js s @ js t"
  by (simp add: js_def)

lemma length_js [simp]: "length (js s) = length s"
  by (simp add: js_def)

lemma unat_of_nat16 [simp]: "n < 65536 \<Longrightarrow> unat (of_nat n :: unit16) = n"
  by (simp add: unsigned_of_nat take_bit_eq_mod)

lemma unat_of_char16: "unat (of_char c :: unit16) = of_char c"
proof -
  have "of_char c mod 256 < (256 :: nat)"
    by (rule mod_less_divisor) simp
  then have "of_char c < (256 :: nat)"
    by (simp only: of_char_mod_256)
  then have "of_char c < (65536 :: nat)"
    by (rule less_trans) simp
  then have "unat (of_nat (of_char c) :: unit16) = of_char c"
    by (rule unat_of_nat16)
  then show ?thesis
    by (simp add: of_nat_of_char)
qed

lemma of_char16_eq_iff [simp]: "(of_char c :: unit16) = of_char d \<longleftrightarrow> c = d"
proof
  assume "(of_char c :: unit16) = of_char d"
  then have "(of_char c :: nat) = of_char d"
    by (metis unat_of_char16)
  then show "c = d" by simp
qed simp

lemma js_eq_iff [simp]: "js s = js t \<longleftrightarrow> s = t"
  by (simp add: js_def inj_map_eq_map inj_def)

lemma js_eq_Nil [simp]: "js s = [] \<longleftrightarrow> s = []" "[] = js s \<longleftrightarrow> s = []"
  by (auto simp: js_def)

text \<open>Literals are compared as literals; \<open>js_lit\<close> opens them up into code units.\<close>

lemmas js_lit = js_def list.map of_char_Char

text \<open>Membership of a code unit in a class given by ASCII characters.\<close>

abbreviation cu :: "char \<Rightarrow> unit16" where
  "cu c \<equiv> of_char c"

section \<open>Decimal numerals\<close>

definition digit_unit :: "int \<Rightarrow> unit16" where
  "digit_unit d = of_int (48 + d)"

definition is_digit :: "unit16 \<Rightarrow> bool" where
  "is_digit u \<longleftrightarrow> 48 \<le> uint u \<and> uint u \<le> 57"

definition digit_value :: "unit16 \<Rightarrow> int" where
  "digit_value u = uint u - 48"

text \<open>The numeral of a number that is not negative.\<close>

fun show_dec :: "int \<Rightarrow> jstr" where
  "show_dec n = (if n < 10 then [digit_unit n] else show_dec (n div 10) @ [digit_unit (n mod 10)])"

declare show_dec.simps [simp del]

definition show_int :: "int \<Rightarrow> jstr" where
  "show_int i = (if i < 0 then js ''-'' @ show_dec (- i) else show_dec i)"

fun read_digits :: "int \<Rightarrow> jstr \<Rightarrow> int" where
  "read_digits acc [] = acc"
| "read_digits acc (u # us) = read_digits (10 * acc + digit_value u) us"

lemma uint_digit_unit: "0 \<le> d \<Longrightarrow> d < 10 \<Longrightarrow> uint (digit_unit d) = 48 + d"
  by (simp add: digit_unit_def unsigned_of_int take_bit_eq_mod del: of_int_add)

lemma digit_unit_is_digit [simp]: "0 \<le> d \<Longrightarrow> d < 10 \<Longrightarrow> is_digit (digit_unit d)"
  by (simp add: is_digit_def uint_digit_unit)

lemma digit_value_digit_unit [simp]: "0 \<le> d \<Longrightarrow> d < 10 \<Longrightarrow> digit_value (digit_unit d) = d"
  by (simp add: digit_value_def uint_digit_unit)

lemma read_digits_append: "read_digits acc (us @ vs) = read_digits (read_digits acc us) vs"
  by (induction acc us rule: read_digits.induct) simp_all

lemma show_dec_digits: "0 \<le> n \<Longrightarrow> \<forall>u \<in> set (show_dec n). is_digit u"
proof (induction n rule: show_dec.induct)
  case (1 n)
  then show ?case
    by (cases "n < 10") (auto simp: show_dec.simps [of n])
qed

lemma show_dec_not_Nil [simp]: "show_dec n \<noteq> []"
  by (simp add: show_dec.simps)

lemma read_show_dec: "0 \<le> n \<Longrightarrow> read_digits 0 (show_dec n) = n"
proof (induction n rule: show_dec.induct)
  case (1 n)
  then show ?case
    by (cases "n < 10") (auto simp: show_dec.simps [of n] read_digits_append)
qed

lemma show_dec_inject: "0 \<le> m \<Longrightarrow> 0 \<le> n \<Longrightarrow> show_dec m = show_dec n \<longleftrightarrow> m = n"
  by (metis read_show_dec)

lemma length_show_dec: "n < 10 ^ k \<Longrightarrow> 0 < k \<Longrightarrow> length (show_dec n) \<le> k"
proof (induction n arbitrary: k rule: show_dec.induct)
  case (1 n)
  show ?case
  proof (cases "n < 10")
    case True
    with "1.prems" show ?thesis by (simp add: show_dec.simps [of n])
  next
    case False
    with "1.prems" obtain j where j: "k = Suc j" "0 < j"
      by (cases k; cases "k - 1") auto
    with "1.prems" have "n div 10 < 10 ^ j"
      by (simp add: div_less_iff_less_mult mult.commute)
    with "1.IH" [OF False] j have "length (show_dec (n div 10)) \<le> j" by simp
    with False j show ?thesis by (simp add: show_dec.simps [of n])
  qed
qed

text \<open>A numeral padded with leading zeros to a given width, as \<open>padStart(w, '0')\<close> gives it.\<close>

definition pad_start :: "nat \<Rightarrow> unit16 \<Rightarrow> jstr \<Rightarrow> jstr" where
  "pad_start w c s = replicate (w - length s) c @ s"

lemma length_pad_start [simp]: "length (pad_start w c s) = max w (length s)"
  by (simp add: pad_start_def)

lemma read_digits_zeros [simp]: "read_digits 0 (replicate k (digit_unit 0)) = 0"
  by (induction k) simp_all

lemma read_pad_start: "read_digits 0 (pad_start w (digit_unit 0) s) = read_digits 0 s"
  by (simp add: pad_start_def read_digits_append)

lemma pad_start_digits:
  "\<forall>u \<in> set s. is_digit u \<Longrightarrow> \<forall>u \<in> set (pad_start w (digit_unit 0) s). is_digit u"
  by (auto simp: pad_start_def)

section \<open>Programs that may throw\<close>

text \<open>
  An \<open>async\<close> function of the source is a function from the world to either the value it
  rejects with (\<open>Inl\<close>) or the value it resolves to (\<open>Inr\<close>), and the new world.
  \<open>try_catch\<close> is the \<open>try\<close>/\<open>catch\<close> statement, \<open>try_finally\<close> the \<open>finally\<close> clause.
\<close>

type_synonym ('w, 'e, 'a) prog = "'w \<Rightarrow> ('e + 'a) \<times> 'w"

definition return :: "'a \<Rightarrow> ('w, 'e, 'a) prog" where
  "return a = (\<lambda>w. (Inr a, w))"

definition throw :: "'e \<Rightarrow> ('w, 'e, 'a) prog" where
  "throw e = (\<lambda>w. (Inl e, w))"

definition bind :: "('w, 'e, 'a) prog \<Rightarrow> ('a \<Rightarrow> ('w, 'e, 'b) prog) \<Rightarrow> ('w, 'e, 'b) prog" where
  "bind m f = (\<lambda>w. case m w of (Inl e, w') \<Rightarrow> (Inl e, w') | (Inr a, w') \<Rightarrow> f a w')"

definition try_catch :: "('w, 'e, 'a) prog \<Rightarrow> ('e \<Rightarrow> ('w, 'e, 'a) prog) \<Rightarrow> ('w, 'e, 'a) prog" where
  "try_catch m h = (\<lambda>w. case m w of (Inl e, w') \<Rightarrow> h e w' | (Inr a, w') \<Rightarrow> (Inr a, w'))"

definition try_finally :: "('w, 'e, 'a) prog \<Rightarrow> ('w, 'e, unit) prog \<Rightarrow> ('w, 'e, 'a) prog" where
  "try_finally m f = (\<lambda>w. case m w of (r, w') \<Rightarrow>
     (case f w' of (Inl e, w'') \<Rightarrow> (Inl e, w'') | (Inr u, w'') \<Rightarrow> (r, w'')))"

definition effect :: "('w \<Rightarrow> 'w) \<Rightarrow> ('w, 'e, unit) prog" where
  "effect f = (\<lambda>w. (Inr (), f w))"

definition lift_sum :: "('e + 'a) \<Rightarrow> ('w, 'e, 'a) prog" where
  "lift_sum r = (\<lambda>w. (r, w))"

lemma bind_return [simp, js_run]: "bind (return a) f = f a"
  by (simp add: bind_def return_def)

lemma bind_throw [simp, js_run]: "bind (throw e) f = throw e"
  by (simp add: bind_def throw_def fun_eq_iff)

lemma bind_assoc [js_run]: "bind (bind m f) g = bind m (\<lambda>x. bind (f x) g)"
  by (auto simp: bind_def fun_eq_iff split: prod.splits sum.splits)

lemma prog_run_bind [js_run]:
  "m w = (Inr a, w') \<Longrightarrow> bind m f w = f a w'"
  "m w = (Inl e, w') \<Longrightarrow> bind m f w = (Inl e, w')"
  by (simp_all add: bind_def)

lemma run_simps [js_run]:
  "return a w = (Inr a, w)" "throw e w = (Inl e, w)" "effect g w = (Inr (), g w)"
  "lift_sum r w = (r, w)"
  by (simp_all add: return_def throw_def effect_def lift_sum_def)

lemma run_try_catch [js_run]:
  "m w = (Inr a, w') \<Longrightarrow> try_catch m h w = (Inr a, w')"
  "m w = (Inl e, w') \<Longrightarrow> try_catch m h w = h e w'"
  by (simp_all add: try_catch_def)

text \<open>The pure steps of such a program, and the callback of an array method that may throw.\<close>

definition sbind :: "'e + 'a \<Rightarrow> ('a \<Rightarrow> 'e + 'b) \<Rightarrow> 'e + 'b" where
  "sbind m f = (case m of Inl e \<Rightarrow> Inl e | Inr a \<Rightarrow> f a)"

fun smap :: "('a \<Rightarrow> 'e + 'b) \<Rightarrow> 'a list \<Rightarrow> 'e + 'b list" where
  "smap f [] = Inr []"
| "smap f (x # xs) = sbind (f x) (\<lambda>y. sbind (smap f xs) (\<lambda>ys. Inr (y # ys)))"

fun sfilter :: "('a \<Rightarrow> 'e + bool) \<Rightarrow> 'a list \<Rightarrow> 'e + 'a list" where
  "sfilter f [] = Inr []"
| "sfilter f (x # xs) = sbind (f x) (\<lambda>b. sbind (sfilter f xs) (\<lambda>ys. Inr (if b then x # ys else ys)))"

lemma sbind_simps [simp, js_run]: "sbind (Inr a) f = f a" "sbind (Inl e) f = Inl e"
  by (simp_all add: sbind_def)

lemma sbind_eq_Inr: "sbind m f = Inr b \<longleftrightarrow> (\<exists>a. m = Inr a \<and> f a = Inr b)"
  by (cases m) simp_all

lemma smap_Inr: "(\<And>x. x \<in> set xs \<Longrightarrow> f x = Inr (g x)) \<Longrightarrow> smap f xs = Inr (map g xs)"
  by (induction xs) simp_all

lemma smap_eq_Inr: "smap f xs = Inr ys \<longleftrightarrow> list_all2 (\<lambda>x y. f x = Inr y) xs ys"
  by (induction xs arbitrary: ys) (auto simp: sbind_eq_Inr list_all2_Cons1)

lemma smap_throws: "\<exists>x \<in> set xs. \<exists>e. f x = Inl e \<Longrightarrow> \<exists>e. smap f xs = Inl e"
proof (induction xs)
  case (Cons x xs)
  then show ?case by (cases "f x"; cases "smap f xs") auto
qed simp

lemma smap_eq_Inl: "smap f xs = Inl e \<Longrightarrow> \<exists>x \<in> set xs. f x = Inl e"
proof (induction xs)
  case (Cons x xs)
  then show ?case by (cases "f x"; cases "smap f xs") auto
qed simp

lemma smap_total: "\<forall>x \<in> set xs. \<exists>y. f x = Inr y \<Longrightarrow> \<exists>ys. smap f xs = Inr ys"
  by (metis smap_eq_Inl sum.exhaust sum.distinct(1))

lemma sfilter_Inr: "(\<And>x. x \<in> set xs \<Longrightarrow> f x = Inr (P x)) \<Longrightarrow> sfilter f xs = Inr (filter P xs)"
  by (induction xs) auto

lemma sfilter_throws: "\<exists>x \<in> set xs. \<exists>e. f x = Inl e \<Longrightarrow> \<exists>e. sfilter f xs = Inl e"
proof (induction xs)
  case (Cons x xs)
  then show ?case by (cases "f x"; cases "sfilter f xs") auto
qed simp

lemma sfilter_eq_Inl: "sfilter f xs = Inl e \<Longrightarrow> \<exists>x \<in> set xs. f x = Inl e"
proof (induction xs)
  case (Cons x xs)
  then show ?case by (cases "f x"; cases "sfilter f xs") auto
qed simp

lemma bind_lift_sum [simp, js_run]:
  "bind (lift_sum (Inr a)) f = f a" "bind (lift_sum (Inl e)) f = throw e"
  by (auto simp: bind_def lift_sum_def throw_def fun_eq_iff)

section \<open>Lists\<close>

lemma filter_map_length_le: "length (filter p (map f xs)) \<le> length xs"
  by (metis length_filter_le length_map)

lemma map_of_Some_in_snd: "map_of xs k = Some v \<Longrightarrow> v \<in> snd ` set xs"
  by (force dest: map_of_SomeD)

end
