(* ===== verification/Js_Number.thy ===== *)
theory Js_Number
  imports Js_Prelude Complex_Main "HOL-Library.Log_Nat"
begin

text \<open>
  The numbers of the language: IEEE 754 doubles. A finite double is the rational it denotes;
  an operation computes the exact rational and rounds it with \<open>fl\<close>, which rounds to 53
  significant bits (fewer for subnormal numbers), ties to even. A result of magnitude
  \<open>2 ^ 1024\<close> or more is an infinity. The two zeros are one number here: nothing in the
  modelled code tells them apart.

  The last section is the interface the money computations rely on: a locale of the three
  laws of a correctly rounding arithmetic, interpreted on \<open>fl\<close>.
\<close>

section \<open>Rounding to a double\<close>

definition ilog2 :: "rat \<Rightarrow> int" where
  "ilog2 x =
     (let (p, q) = quotient_of x; k = bitlen p - bitlen q
      in if (2 :: rat) powi k \<le> x then k else k - 1)"

definition rnd_even :: "rat \<Rightarrow> int" where
  "rnd_even x =
     (let f = \<lfloor>x\<rfloor>; d = x - of_int f
      in if d < 1 / 2 then f else if 1 / 2 < d then f + 1 else if even f then f else f + 1)"

definition fexp :: "rat \<Rightarrow> int" where
  "fexp x = max (ilog2 \<bar>x\<bar> - 52) (- 1074)"

definition fl :: "rat \<Rightarrow> rat" where
  "fl x = (if x = 0 then 0 else of_int (rnd_even (x / 2 powi fexp x)) * 2 powi fexp x)"

subsection \<open>The exponent\<close>

lemma powi2_pos [simp]: "0 < (2 :: rat) powi e"
  by (simp add: zero_less_power_int)

lemma powi2_add: "(2 :: rat) powi (a + b) = 2 powi a * 2 powi b"
  by (simp add: power_int_add)

lemma powi2_diff: "(2 :: rat) powi (a - b) = 2 powi a / 2 powi b"
  by (simp add: power_int_diff)

lemma powi2_mono: "a \<le> b \<Longrightarrow> (2 :: rat) powi a \<le> 2 powi b"
  by (simp add: power_int_increasing)

lemma powi2_less_iff: "(2 :: rat) powi a < 2 powi b \<longleftrightarrow> a < b"
  by (meson powi2_mono linorder_not_le power_int_strict_increasing one_less_numeral_iff
      semiring_norm(76))

lemma bitlen_powi:
  assumes "0 < p"
  shows "(2 :: rat) powi (bitlen p - 1) \<le> of_int p" and "of_int p < (2 :: rat) powi bitlen p"
proof -
  from assms have b: "2 ^ nat (bitlen p - 1) \<le> p" "p < 2 ^ nat (bitlen p)"
    using bitlen_bounds by auto
  have n: "1 \<le> bitlen p"
    using assms by (simp add: bitlen_ge_iff_power)
  have "(2 :: rat) powi (bitlen p - 1) = of_int (2 ^ nat (bitlen p - 1))"
    using n by (simp add: power_int_def)
  with b(1) show "(2 :: rat) powi (bitlen p - 1) \<le> of_int p"
    by (simp only: of_int_le_iff)
  have "(2 :: rat) powi bitlen p = of_int (2 ^ nat (bitlen p))"
    using n by (simp add: power_int_def)
  with b(2) show "of_int p < (2 :: rat) powi bitlen p"
    by (simp only: of_int_less_iff)
qed

lemma ilog2_bounds:
  assumes "0 < x"
  shows "2 powi ilog2 x \<le> x" and "x < 2 powi (ilog2 x + 1)"
proof -
  obtain p q where pq: "quotient_of x = (p, q)" by force
  then have q: "0 < q" by (rule quotient_of_denom_pos)
  from pq have x: "x = of_int p / of_int q" by (rule quotient_of_div)
  with assms q have p: "0 < p"
    by (simp add: zero_less_divide_iff)
  let ?k = "bitlen p - bitlen q"
  have "2 powi (?k - 1) = (2 :: rat) powi (bitlen p - 1) / 2 powi bitlen q"
    by (simp add: powi2_diff [symmetric] algebra_simps)
  also have "\<dots> \<le> x"
    unfolding x using bitlen_powi [OF p] bitlen_powi [OF q] q p
    by (intro frac_le) auto
  finally have lo: "2 powi (?k - 1) \<le> x" .
  have "x < (2 :: rat) powi bitlen p / 2 powi (bitlen q - 1)"
    unfolding x using bitlen_powi [OF p] bitlen_powi [OF q] q p
    by (intro frac_less) auto
  also have "\<dots> = 2 powi (?k + 1)"
    by (simp add: powi2_diff [symmetric] algebra_simps)
  finally have hi: "x < 2 powi (?k + 1)" .
  have i: "ilog2 x = (if (2 :: rat) powi ?k \<le> x then ?k else ?k - 1)"
    by (simp add: ilog2_def pq)
  show "2 powi ilog2 x \<le> x" and "x < 2 powi (ilog2 x + 1)"
    using lo hi by (simp_all add: i split: if_splits)
qed

lemma ilog2_unique:
  assumes "2 powi e \<le> x" and "x < 2 powi (e + 1)"
  shows "ilog2 x = e"
proof -
  have "0 < x" using assms(1) powi2_pos [of e] by linarith
  note b = ilog2_bounds [OF this]
  have "2 powi e < (2 :: rat) powi (ilog2 x + 1)" using assms(1) b(2) by linarith
  moreover have "2 powi ilog2 x < (2 :: rat) powi (e + 1)" using assms(2) b(1) by linarith
  ultimately show ?thesis by (simp add: powi2_less_iff)
qed

lemma ilog2_mono:
  assumes "0 < x" and "x \<le> y"
  shows "ilog2 x \<le> ilog2 y"
proof -
  have "2 powi ilog2 x < (2 :: rat) powi (ilog2 y + 1)"
    using ilog2_bounds [of x] ilog2_bounds [of y] assms by linarith
  then show ?thesis by (simp add: powi2_less_iff)
qed

subsection \<open>Rounding to an integer\<close>

lemma rnd_even_cases:
  "rnd_even x = \<lfloor>x\<rfloor> \<and> x - of_int \<lfloor>x\<rfloor> \<le> 1 / 2 \<or>
   rnd_even x = \<lfloor>x\<rfloor> + 1 \<and> 1 / 2 \<le> x - of_int \<lfloor>x\<rfloor>"
  by (auto simp: rnd_even_def Let_def)

lemma rnd_even_error: "\<bar>of_int (rnd_even x) - x\<bar> \<le> 1 / 2"
proof -
  have "of_int \<lfloor>x\<rfloor> \<le> x" and "x < of_int \<lfloor>x\<rfloor> + 1" by linarith+
  with rnd_even_cases [of x] show ?thesis
    by (elim disjE) (auto simp: abs_le_iff)
qed

lemma rnd_even_of_int [simp]: "rnd_even (of_int m) = m"
  by (simp add: rnd_even_def)

lemma rnd_even_mono:
  assumes "x \<le> y"
  shows "rnd_even x \<le> rnd_even y"
proof (cases "\<lfloor>x\<rfloor> = \<lfloor>y\<rfloor>")
  case True
  with assms show ?thesis by (auto simp: rnd_even_def Let_def)
next
  case False
  moreover have "\<lfloor>x\<rfloor> \<le> \<lfloor>y\<rfloor>" using assms by (rule floor_mono)
  ultimately have "\<lfloor>x\<rfloor> + 1 \<le> \<lfloor>y\<rfloor>" by simp
  moreover have "rnd_even x \<le> \<lfloor>x\<rfloor> + 1" and "\<lfloor>y\<rfloor> \<le> rnd_even y"
    using rnd_even_cases [of x] rnd_even_cases [of y] by auto
  ultimately show ?thesis by linarith
qed

subsection \<open>Laws of the rounding\<close>

lemma fl_0 [simp]: "fl 0 = 0"
  by (simp add: fl_def)

lemma fl_error: "\<bar>fl x - x\<bar> \<le> 2 powi fexp x / 2"
proof (cases "x = 0")
  case False
  let ?u = "2 powi fexp x :: rat"
  have "fl x - x = (of_int (rnd_even (x / ?u)) - x / ?u) * ?u"
    using False by (simp add: fl_def algebra_simps)
  then have "\<bar>fl x - x\<bar> = \<bar>of_int (rnd_even (x / ?u)) - x / ?u\<bar> * ?u"
    by (simp add: abs_mult)
  also have "\<dots> \<le> 1 / 2 * ?u"
    by (intro mult_right_mono rnd_even_error) simp
  finally show ?thesis by simp
qed simp

lemma fl_relative:
  assumes "2 powi (- 1022) \<le> \<bar>x\<bar>"
  shows "\<bar>fl x - x\<bar> \<le> \<bar>x\<bar> / 2 ^ 53"
proof -
  have x: "0 < \<bar>x\<bar>" using assms powi2_pos [of "- 1022"] by linarith
  note b = ilog2_bounds [OF x]
  have "2 powi (- 1022) < (2 :: rat) powi (ilog2 \<bar>x\<bar> + 1)" using assms b(2) by linarith
  then have "- 1022 < ilog2 \<bar>x\<bar> + 1"
    by (simp only: powi2_less_iff)
  then have "fexp x = ilog2 \<bar>x\<bar> - 52"
    by (simp add: fexp_def)
  then have "2 powi fexp x = 2 powi ilog2 \<bar>x\<bar> / (2 :: rat) ^ 52"
    by (simp only: powi2_diff power_int_numeral)
  then have "2 powi fexp x / 2 \<le> \<bar>x\<bar> / 2 ^ 53"
    using b(1) by (simp add: field_simps)
  with fl_error [of x] show ?thesis by linarith
qed

lemma fl_representable:
  assumes "\<bar>m\<bar> < 2 ^ 53" and "- 1074 \<le> k"
  shows "fl (of_int m * 2 powi k) = of_int m * 2 powi k"
proof (cases "m = 0")
  case False
  let ?x = "of_int m * 2 powi k :: rat"
  have x: "0 < \<bar>?x\<bar>" using False by simp
  have "\<bar>of_int m :: rat\<bar> < 2 ^ 53"
    using assms(1) by (metis of_int_abs of_int_less_iff of_int_numeral of_int_power)
  then have "\<bar>?x\<bar> < 2 powi 53 * 2 powi k"
    by (simp add: abs_mult power_int_def)
  then have "\<bar>?x\<bar> < 2 powi (53 + k)"
    by (simp only: powi2_add)
  with ilog2_bounds(1) [OF x] have "2 powi ilog2 \<bar>?x\<bar> < (2 :: rat) powi (53 + k)"
    by (rule le_less_trans)
  then have "ilog2 \<bar>?x\<bar> < 53 + k"
    by (simp only: powi2_less_iff)
  with assms(2) have e: "fexp ?x \<le> k" by (simp add: fexp_def)
  have "(2 :: rat) powi k / 2 powi fexp ?x = 2 powi (k - fexp ?x)"
    by (simp only: powi2_diff)
  also have "\<dots> = of_int (2 ^ nat (k - fexp ?x))"
    using e by (simp add: power_int_def)
  finally have "?x / 2 powi fexp ?x = of_int (m * 2 ^ nat (k - fexp ?x))"
    by (simp only: times_divide_eq_right [symmetric] of_int_mult)
  then have "of_int (rnd_even (?x / 2 powi fexp ?x)) = ?x / 2 powi fexp ?x"
    by (metis rnd_even_of_int)
  then show ?thesis
    using False by (simp add: fl_def)
qed simp

lemma fl_of_int:
  assumes "\<bar>m\<bar> \<le> 2 ^ 53"
  shows "fl (of_int m) = of_int m"
proof (cases "\<bar>m\<bar> = 2 ^ 53")
  case True
  then have "m = sgn m * 2 ^ 53" by (metis mult_sgn_abs)
  then have m: "of_int m = of_int (sgn m) * (2 :: rat) powi 53"
    by (metis of_int_mult of_int_numeral of_int_power power_int_numeral)
  have "\<bar>sgn m\<bar> < 2 ^ 53" by (simp add: abs_sgn_eq)
  then show ?thesis
    unfolding m by (rule fl_representable) simp
next
  case False
  with assms fl_representable [of m 0] show ?thesis by simp
qed

lemma rnd_even_uminus: "rnd_even (- x) = - rnd_even x"
proof (cases "x = of_int \<lfloor>x\<rfloor>")
  case True
  then have "rnd_even x = \<lfloor>x\<rfloor>" and "rnd_even (- x) = - \<lfloor>x\<rfloor>"
    by (metis rnd_even_of_int, metis rnd_even_of_int of_int_minus)
  then show ?thesis by simp
next
  case False
  then have "\<lfloor>- x\<rfloor> = - \<lfloor>x\<rfloor> - 1"
    by (simp add: floor_eq_iff) linarith
  then show ?thesis
    by (auto simp: rnd_even_def Let_def)
qed

lemma fl_uminus: "fl (- x) = - fl x"
  by (simp add: fl_def fexp_def rnd_even_uminus)

lemma fl_nonneg: "0 \<le> x \<Longrightarrow> 0 \<le> fl x"
  using rnd_even_mono [of 0 "x / 2 powi fexp x"] rnd_even_of_int [of 0]
  by (simp add: fl_def)

lemma fl_mono_pos:
  assumes "0 < x" and "x \<le> y"
  shows "fl x \<le> fl y"
proof (cases "fexp x = fexp y")
  case True
  have "rnd_even (x / 2 powi fexp y) \<le> rnd_even (y / 2 powi fexp y)"
    using assms(2) by (intro rnd_even_mono divide_right_mono) simp_all
  with True assms show ?thesis by (simp add: fl_def)
next
  case False
  have y: "0 < y" using assms by linarith
  have il: "ilog2 x \<le> ilog2 y" using assms by (rule ilog2_mono)
  with False assms y have lt: "fexp x < ilog2 y - 52" and ey: "fexp y = ilog2 y - 52"
    and il': "ilog2 x + 1 \<le> ilog2 y"
    by (auto simp: fexp_def)
  let ?z = "2 powi ilog2 y :: rat"
  have "x < 2 powi (ilog2 x + 1)" using assms(1) by (rule ilog2_bounds)
  also have "\<dots> \<le> ?z" using il' by (rule powi2_mono)
  finally have xz: "x / 2 powi fexp x \<le> ?z / 2 powi fexp x"
    by (intro divide_right_mono) simp_all
  have "?z / 2 powi fexp x = 2 powi (ilog2 y - fexp x)" by (simp only: powi2_diff)
  also have "\<dots> = of_int (2 ^ nat (ilog2 y - fexp x))"
    using lt by (simp add: power_int_def)
  finally have zx: "?z / 2 powi fexp x = of_int (2 ^ nat (ilog2 y - fexp x))" .
  have "rnd_even (x / 2 powi fexp x) \<le> 2 ^ nat (ilog2 y - fexp x)"
    using rnd_even_mono [OF xz] unfolding zx by (simp only: rnd_even_of_int)
  then have "of_int (rnd_even (x / 2 powi fexp x)) \<le> ?z / 2 powi fexp x"
    unfolding zx by (simp only: of_int_le_iff)
  then have "fl x \<le> ?z"
    using assms(1) by (simp add: fl_def pos_le_divide_eq)
  moreover have "?z \<le> fl y"
  proof -
    have "?z / 2 powi fexp y = 2 powi (ilog2 y - fexp y)" by (simp only: powi2_diff)
    also have "\<dots> = of_int (2 ^ 52)" by (simp add: ey power_int_def)
    finally have zy: "?z / 2 powi fexp y = of_int (2 ^ 52)" .
    have "?z / 2 powi fexp y \<le> y / 2 powi fexp y"
      using ilog2_bounds(1) [OF y] by (intro divide_right_mono) simp_all
    from rnd_even_mono [OF this] have "2 ^ 52 \<le> rnd_even (y / 2 powi fexp y)"
      unfolding zy by (simp only: rnd_even_of_int)
    then have "?z / 2 powi fexp y \<le> of_int (rnd_even (y / 2 powi fexp y))"
      unfolding zy by (simp only: of_int_le_iff)
    then show ?thesis
      using y by (simp add: fl_def pos_divide_le_eq)
  qed
  ultimately show ?thesis by linarith
qed

lemma fl_mono:
  assumes "x \<le> y"
  shows "fl x \<le> fl y"
proof -
  consider "0 < x" | "x \<le> 0" "0 \<le> y" | "y < 0" by linarith
  then show ?thesis
  proof cases
    case 1
    then show ?thesis using assms by (rule fl_mono_pos)
  next
    case 2
    then show ?thesis using fl_nonneg [of y] fl_nonneg [of "- x"] by (simp add: fl_uminus)
  next
    case 3
    then show ?thesis using assms fl_mono_pos [of "- y" "- x"] by (simp add: fl_uminus)
  qed
qed

section \<open>Numbers and their operations\<close>

datatype jsnum = NaN | PInf | NInf | Fin rat

definition to_num :: "rat \<Rightarrow> jsnum" where
  "to_num x =
     (let y = fl x in if 2 ^ 1024 \<le> y then PInf else if y \<le> - (2 ^ 1024) then NInf else Fin y)"

abbreviation num_int :: "int \<Rightarrow> jsnum" where
  "num_int i \<equiv> Fin (of_int i)"

fun num_add :: "jsnum \<Rightarrow> jsnum \<Rightarrow> jsnum" where
  "num_add NaN _ = NaN"
| "num_add _ NaN = NaN"
| "num_add PInf NInf = NaN"
| "num_add NInf PInf = NaN"
| "num_add PInf _ = PInf"
| "num_add NInf _ = NInf"
| "num_add _ PInf = PInf"
| "num_add _ NInf = NInf"
| "num_add (Fin x) (Fin y) = to_num (x + y)"

fun num_neg :: "jsnum \<Rightarrow> jsnum" where
  "num_neg NaN = NaN"
| "num_neg PInf = NInf"
| "num_neg NInf = PInf"
| "num_neg (Fin x) = Fin (- x)"

definition num_sub :: "jsnum \<Rightarrow> jsnum \<Rightarrow> jsnum" where
  "num_sub a b = num_add a (num_neg b)"

definition signed_inf :: "rat \<Rightarrow> jsnum" where
  "signed_inf x = (if 0 < x then PInf else if x < 0 then NInf else NaN)"

fun num_mul :: "jsnum \<Rightarrow> jsnum \<Rightarrow> jsnum" where
  "num_mul NaN _ = NaN"
| "num_mul _ NaN = NaN"
| "num_mul PInf (Fin y) = signed_inf y"
| "num_mul NInf (Fin y) = signed_inf (- y)"
| "num_mul (Fin x) PInf = signed_inf x"
| "num_mul (Fin x) NInf = signed_inf (- x)"
| "num_mul (Fin x) (Fin y) = to_num (x * y)"
| "num_mul PInf PInf = PInf"
| "num_mul NInf NInf = PInf"
| "num_mul PInf NInf = NInf"
| "num_mul NInf PInf = NInf"

fun num_div :: "jsnum \<Rightarrow> jsnum \<Rightarrow> jsnum" where
  "num_div (Fin x) (Fin y) = (if y = 0 then signed_inf x else to_num (x / y))"
| "num_div PInf (Fin y) = (if y < 0 then NInf else PInf)"
| "num_div NInf (Fin y) = (if y < 0 then PInf else NInf)"
| "num_div (Fin x) PInf = Fin 0"
| "num_div (Fin x) NInf = Fin 0"
| "num_div _ _ = NaN"

text \<open>The remainder operator truncates the quotient, and is exact.\<close>

definition trunc :: "rat \<Rightarrow> int" where
  "trunc x = (if 0 \<le> x then \<lfloor>x\<rfloor> else - \<lfloor>- x\<rfloor>)"

fun num_rem :: "jsnum \<Rightarrow> jsnum \<Rightarrow> jsnum" where
  "num_rem (Fin x) (Fin y) = (if y = 0 then NaN else Fin (x - y * of_int (trunc (x / y))))"
| "num_rem (Fin x) PInf = Fin x"
| "num_rem (Fin x) NInf = Fin x"
| "num_rem _ _ = NaN"

text \<open>Comparisons are false when an operand is \<open>NaN\<close>.\<close>

fun num_lt :: "jsnum \<Rightarrow> jsnum \<Rightarrow> bool" where
  "num_lt (Fin x) (Fin y) = (x < y)"
| "num_lt NInf (Fin y) = True"
| "num_lt NInf PInf = True"
| "num_lt (Fin x) PInf = True"
| "num_lt _ _ = False"

definition num_eq :: "jsnum \<Rightarrow> jsnum \<Rightarrow> bool" where
  "num_eq a b \<longleftrightarrow> a \<noteq> NaN \<and> a = b"

definition num_le :: "jsnum \<Rightarrow> jsnum \<Rightarrow> bool" where
  "num_le a b \<longleftrightarrow> num_lt a b \<or> num_eq a b"

fun on_fin :: "(rat \<Rightarrow> rat) \<Rightarrow> jsnum \<Rightarrow> jsnum" where
  "on_fin f (Fin x) = Fin (f x)"
| "on_fin f n = n"

definition math_floor :: "jsnum \<Rightarrow> jsnum" where
  "math_floor = on_fin (\<lambda>x. of_int \<lfloor>x\<rfloor>)"

definition math_ceil :: "jsnum \<Rightarrow> jsnum" where
  "math_ceil = on_fin (\<lambda>x. of_int \<lceil>x\<rceil>)"

text \<open>\<open>Math.round\<close>: the nearest integer, a tie going up.\<close>

definition math_round :: "jsnum \<Rightarrow> jsnum" where
  "math_round = on_fin (\<lambda>x. of_int \<lfloor>x + 1 / 2\<rfloor>)"

fun math_abs :: "jsnum \<Rightarrow> jsnum" where
  "math_abs NaN = NaN"
| "math_abs PInf = PInf"
| "math_abs NInf = PInf"
| "math_abs (Fin x) = Fin \<bar>x\<bar>"

definition math_min :: "jsnum \<Rightarrow> jsnum \<Rightarrow> jsnum" where
  "math_min a b = (if a = NaN \<or> b = NaN then NaN else if num_lt b a then b else a)"

definition math_max :: "jsnum \<Rightarrow> jsnum \<Rightarrow> jsnum" where
  "math_max a b = (if a = NaN \<or> b = NaN then NaN else if num_lt a b then b else a)"

lemma to_num_fl: "\<bar>fl x\<bar> < 2 ^ 1024 \<Longrightarrow> to_num x = Fin (fl x)"
  by (auto simp: to_num_def Let_def abs_less_iff)

lemma to_num_int: "\<bar>m\<bar> \<le> 2 ^ 53 \<Longrightarrow> to_num (of_int m) = num_int m"
proof -
  assume m: "\<bar>m\<bar> \<le> 2 ^ 53"
  then have "\<bar>of_int m :: rat\<bar> \<le> 2 ^ 53"
    by (metis of_int_abs of_int_le_iff of_int_numeral of_int_power)
  then have "\<bar>fl (of_int m)\<bar> < 2 ^ 1024"
    using m by (simp add: fl_of_int)
  with m show ?thesis by (simp add: to_num_fl fl_of_int)
qed

section \<open>Correctly rounding arithmetic, as an interface\<close>

locale correctly_rounded =
  fixes rd :: "rat \<Rightarrow> rat"
  assumes rd_int: "\<bar>m\<bar> \<le> 2 ^ 53 \<Longrightarrow> rd (of_int m) = of_int m"
    and rd_mono: "x \<le> y \<Longrightarrow> rd x \<le> rd y"
    and rd_relative: "2 powi (- 1022) \<le> \<bar>x\<bar> \<Longrightarrow> \<bar>rd x - x\<bar> \<le> \<bar>x\<bar> / 2 ^ 53"
begin

lemma rd_between:
  assumes "of_int a \<le> x" and "x \<le> of_int b" and "\<bar>a\<bar> \<le> 2 ^ 53" and "\<bar>b\<bar> \<le> 2 ^ 53"
  shows "of_int a \<le> rd x" and "rd x \<le> of_int b"
  using rd_mono [OF assms(1)] rd_mono [OF assms(2)] rd_int [OF assms(3)] rd_int [OF assms(4)]
  by simp_all

text \<open>A whole number of hundredths survives the division, up to a relative error.\<close>

lemma rd_hundredths:
  "\<bar>rd (of_int c / 100) * 100 - of_int c\<bar> \<le> \<bar>of_int c\<bar> / 2 ^ 53"
proof (cases "c = 0")
  case True
  then show ?thesis using rd_int [of 0] by simp
next
  case False
  then have "1 \<le> \<bar>of_int c :: rat\<bar>" by simp
  then have "(2 :: rat) powi (- 1022) \<le> \<bar>of_int c / 100\<bar>"
    using powi2_mono [of "- 1022" "- 7"] by (simp add: power_int_def field_simps)
  from rd_relative [OF this] show ?thesis
    by (simp add: field_simps abs_le_iff)
qed

lemma rd_hundredths_close:
  assumes "\<bar>c\<bar> \<le> 2 ^ 50"
  shows "\<bar>rd (of_int c / 100) * 100 - of_int c\<bar> \<le> 1 / 8"
proof -
  have "\<bar>of_int c :: rat\<bar> \<le> 2 ^ 50"
    using assms by (metis of_int_abs of_int_le_iff of_int_numeral of_int_power)
  then have "\<bar>of_int c :: rat\<bar> / 2 ^ 53 \<le> 1 / 8" by simp
  with rd_hundredths [of c] show ?thesis by linarith
qed

text \<open>Dividing by 100 and multiplying back is off by less than half, so rounding gives the integer.\<close>

lemma rd_hundredths_back:
  assumes c: "\<bar>c\<bar> \<le> 2 ^ 50"
  shows "\<bar>rd (rd (of_int c / 100) * 100) - of_int c\<bar> \<le> 3 / 8"
proof -
  let ?y = "rd (of_int c / 100) * 100"
  have lo: "of_int c - 1 / 8 \<le> ?y" and hi: "?y \<le> of_int c + 1 / 8"
    using rd_hundredths_close [OF c] by linarith+
  have "rd ?y - ?y \<le> 1 / 4 \<and> ?y - rd ?y \<le> 1 / 4"
  proof (cases "2 powi (- 1022) \<le> \<bar>?y\<bar>")
    case True
    have "\<bar>of_int c :: rat\<bar> \<le> 2 ^ 50"
      using c by (metis of_int_abs of_int_le_iff of_int_numeral of_int_power)
    with lo hi have "\<bar>?y\<bar> \<le> 2 ^ 51" by (simp add: abs_le_iff)
    then have "\<bar>?y\<bar> / 2 ^ 53 \<le> 1 / 4" by simp
    with rd_relative [OF True] have "\<bar>rd ?y - ?y\<bar> \<le> 1 / 4" by linarith
    then show ?thesis by linarith
  next
    case False
    have "(2 :: rat) powi (- 1022) \<le> 2 powi (- 3)" by (rule powi2_mono) simp
    moreover have "(2 :: rat) powi (- 3) = 1 / 8" by (simp add: power_int_minus)
    ultimately have "(2 :: rat) powi (- 1022) \<le> 1 / 8" by (simp only:)
    with False have "\<bar>?y\<bar> < 1 / 8" by linarith
    with lo hi have "c = 0" by (simp add: abs_less_iff)
    then show ?thesis using rd_int [of 0] by simp
  qed
  with lo hi show ?thesis by linarith
qed

lemma rd_hundredths_roundtrip:
  assumes c: "\<bar>c\<bar> \<le> 2 ^ 50"
  shows "\<lfloor>rd (rd (of_int c / 100) * 100) + 1 / 2\<rfloor> = c"
  unfolding floor_eq_iff using rd_hundredths_back [OF c] by linarith

end

interpretation dbl: correctly_rounded fl
  by unfold_locales (rule fl_of_int fl_mono fl_relative; assumption)+

lemma to_num_bounded: "\<bar>x\<bar> \<le> 2 ^ 53 \<Longrightarrow> to_num x = Fin (fl x)"
proof -
  assume "\<bar>x\<bar> \<le> 2 ^ 53"
  then have "of_int (- (2 ^ 53)) \<le> fl x" "fl x \<le> of_int (2 ^ 53)"
    by (intro dbl.rd_between [where a = "- (2 ^ 53)" and b = "2 ^ 53"]; simp add: abs_le_iff)+
  then show ?thesis by (intro to_num_fl) (simp add: abs_less_iff)
qed

text \<open>Whole numbers divided by a small divisor: rounding does not move the quotient past an integer.\<close>

lemma ceiling_quotient_upper:
  fixes m k :: int
  assumes m: "0 \<le> m" "m \<le> 2 ^ 50" and k: "1 \<le> k" "k \<le> 1000"
  shows "m \<le> \<lceil>fl (of_int m / of_int k)\<rceil> * k"
proof (rule ccontr)
  define q where "q = (of_int m / of_int k :: rat)"
  define n where "n = \<lceil>fl q\<rceil>"
  have s: "1 \<le> (of_int k :: rat)" "of_int k \<le> (1000 :: rat)" and t: "of_int m \<le> (2 ^ 50 :: rat)"
    using m k by (simp_all flip: of_int_le_iff)
  have q0: "0 \<le> q" and n0: "0 \<le> (of_int n :: rat)"
    using m(1) k(1) fl_nonneg [of q] by (simp_all add: q_def n_def)
  assume "\<not> m \<le> \<lceil>fl (of_int m / of_int k)\<rceil> * k"
  then have "of_int (n * k + 1) \<le> (of_int m :: rat)" by (simp only: of_int_le_iff n_def q_def)
  then have "(of_int n * of_int k + 1) / of_int k \<le> (of_int m / of_int k :: rat)"
    using s by (intro divide_right_mono) simp_all
  then have a: "of_int n + 1 / of_int k \<le> q" using s by (simp add: q_def add_divide_distrib)
  have "1 / 1000 \<le> 1 / (of_int k :: rat)" using s by (simp add: frac_le)
  with a have b: "of_int n + 1 / 1000 \<le> q" by linarith
  have f: "fl q \<le> of_int n" by (simp add: n_def)
  have "\<bar>fl q - q\<bar> \<le> \<bar>q\<bar> / 2 ^ 53"
    using powi2_mono [of "- 1022" "- 10"] b n0 by (intro fl_relative) (simp add: power_int_minus)
  then have e: "q - of_int n \<le> q / 2 ^ 53" using f q0 by linarith
  show False
  proof (cases "k = 1")
    case True
    then have "fl q = q" using fl_of_int [of m] m by (simp add: q_def)
    with f b show False by simp
  next
    case False
    have "1 / of_int k \<le> (of_int m / of_int k / 2 ^ 53 :: rat)" using a e by (simp add: q_def)
    then have "2 ^ 53 \<le> (of_int m :: rat)" using s by (simp add: field_simps)
    with t show False by simp
  qed
qed

lemma ceiling_quotient_lower:
  fixes m k :: int
  assumes m: "0 < m" and k: "1 \<le> k" and n: "0 \<le> n" "n \<le> 2 ^ 50" "n = \<lceil>fl (of_int m / of_int k)\<rceil>"
  shows "(n - 1) * k < m"
proof (rule ccontr)
  assume "\<not> (n - 1) * k < m"
  then have "(of_int m :: rat) \<le> of_int ((n - 1) * k)" by (simp only: of_int_le_iff not_less)
  moreover have "0 < (of_int k :: rat)" using k by simp
  ultimately have "of_int m / of_int k \<le> (of_int (n - 1) :: rat)" by (simp add: field_simps)
  from fl_mono [OF this] have "fl (of_int m / of_int k) \<le> fl (of_int (n - 1))" .
  also have "fl (of_int (n - 1)) = of_int (n - 1)" using n(1,2) by (intro fl_of_int) simp
  finally have "fl (of_int m / of_int k) \<le> of_int (n - 1)" .
  with ceiling_correct [of "fl (of_int m / of_int k)"] n(3) show False by simp
qed

lemma floor_quotient:
  fixes m k :: int
  assumes m: "0 \<le> m" "m \<le> 2 ^ 50" and k: "1 \<le> k" "k \<le> 1000"
  shows "\<lfloor>fl (of_int m / of_int k)\<rfloor> = m div k"
proof -
  define q where "q = (of_int m / of_int k :: rat)"
  define n where "n = m div k"
  have s: "1 \<le> (of_int k :: rat)" "of_int k \<le> (1000 :: rat)" and t: "of_int m \<le> (2 ^ 50 :: rat)" "0 \<le> (of_int m :: rat)"
    using m k by (simp_all flip: of_int_le_iff)
  have nk: "n * k \<le> m" "m + 1 \<le> n * k + k" and n: "0 \<le> n" "n \<le> m"
  proof -
    have "n * k + m mod k = m" "0 \<le> m mod k" "m mod k < k"
      using k div_mult_mod_eq [of m k] by (simp_all add: n_def)
    then show "n * k \<le> m" "m + 1 \<le> n * k + k" by linarith+
    show "0 \<le> n" "n \<le> m"
      using m k zdiv_mono2 [of m 1 k] by (simp_all add: n_def pos_imp_zdiv_nonneg_iff)
  qed
  have "(of_int (n * k) :: rat) \<le> of_int m" "(of_int (m + 1) :: rat) \<le> of_int (n * k + k)"
    using nk by (simp_all only: of_int_le_iff)
  then have lo: "of_int n \<le> q" and hi: "q + 1 / of_int k \<le> of_int n + 1"
    using s by (simp_all add: q_def field_simps)
  have n53: "\<bar>n\<bar> \<le> 2 ^ 53" using n m by simp
  have flo: "of_int n \<le> fl q" using fl_mono [OF lo] fl_of_int [OF n53] by simp
  have "fl q < of_int n + 1"
  proof (cases "m = 0")
    case True
    then show ?thesis using n by (simp add: q_def)
  next
    case False
    then have q1: "1 / 1000 \<le> q" using s m(1) by (simp add: q_def field_simps flip: of_int_le_iff)
    have "\<bar>fl q - q\<bar> \<le> \<bar>q\<bar> / 2 ^ 53"
      using powi2_mono [of "- 1022" "- 10"] q1 by (intro fl_relative) (simp add: power_int_minus)
    moreover have "\<bar>q\<bar> / 2 ^ 53 < 1 / of_int k" using s t by (simp add: q_def field_simps)
    ultimately show ?thesis using hi by linarith
  qed
  with flo show ?thesis unfolding q_def [symmetric] n_def [symmetric] floor_eq_iff by simp
qed

text \<open>A share of a whole as a percentage.\<close>

lemma fl_percent_of:
  assumes "0 \<le> a" and "a \<le> b" and "0 < b" and "b \<le> 2 ^ 50"
  shows "\<exists>x. num_mul (num_div (num_int a) (num_int b)) (num_int 100) = Fin x \<and> 0 \<le> x \<and> x \<le> 100"
proof -
  define q where "q = (of_int a / of_int b :: rat)"
  have q: "0 \<le> q" "q \<le> 1"
    using assms by (simp_all add: q_def divide_le_eq)
  have f: "0 \<le> fl q" "fl q \<le> 1"
    using fl_nonneg [OF q(1)] fl_mono [OF q(2)] fl_of_int [of 1] by simp_all
  have g: "0 \<le> fl (fl q * 100)" "fl (fl q * 100) \<le> 100"
    using f fl_nonneg [of "fl q * 100"] fl_mono [of "fl q * 100" 100] fl_of_int [of 100] by simp_all
  have "to_num q = Fin (fl q)" using q by (intro to_num_bounded) simp
  then have "num_div (num_int a) (num_int b) = Fin (fl q)" using assms(3) by (simp add: q_def)
  moreover have "to_num (fl q * 100) = Fin (fl (fl q * 100))"
    using f by (intro to_num_bounded) simp
  ultimately show ?thesis using g by simp
qed

text \<open>Evaluation: the exponent and the rounded mantissa determine the double.\<close>

lemma rnd_even_close: "\<bar>x - of_int m\<bar> < 1 / 2 \<Longrightarrow> rnd_even x = m"
proof -
  assume a: "\<bar>x - of_int m\<bar> < 1 / 2"
  have "(of_int (rnd_even x) :: rat) < of_int m + 1" "(of_int m :: rat) < of_int (rnd_even x) + 1"
    using a rnd_even_error [of x] by linarith+
  then have "(of_int (rnd_even x) :: rat) < of_int (m + 1)" "(of_int m :: rat) < of_int (rnd_even x + 1)"
    by simp_all
  then show ?thesis unfolding of_int_less_iff by simp
qed

lemma fl_eval:
  assumes k: "2 powi k \<le> x" "x < 2 powi (k + 1)" "- 1022 \<le> k"
    and m: "\<bar>x / 2 powi (k - 52) - of_int m\<bar> < 1 / 2"
  shows "fl x = of_int m * 2 powi (k - 52)"
proof -
  have "0 < x" using k(1) powi2_pos [of k] by linarith
  moreover from this have "fexp x = k - 52"
    using ilog2_unique [OF k(1,2)] k(3) by (simp add: fexp_def)
  ultimately show ?thesis using rnd_even_close [OF m] by (simp add: fl_def)
qed

text \<open>A sixteenth-multiple of moderate size is a double.\<close>

lemma fl_sixteenth:
  assumes "\<bar>m\<bar> < 2 ^ 53"
  shows "fl (of_int m / 16) = of_int m / 16"
  using fl_representable [OF assms, of "- 4"] by (simp add: power_int_minus field_simps)

section \<open>Printing numbers\<close>

subsection \<open>\<open>toFixed\<close>\<close>

text \<open>
  \<open>toFixed d\<close> picks the integer \<open>n\<close> for which \<open>n / 10 ^ d\<close> is closest to the magnitude, the
  larger one on a tie, and writes it with a point before its last \<open>d\<close> digits.
\<close>

definition scaled :: "nat \<Rightarrow> rat \<Rightarrow> int" where
  "scaled d x = \<lfloor>\<bar>x\<bar> * 10 ^ d + 1 / 2\<rfloor>"

definition point_at :: "nat \<Rightarrow> int \<Rightarrow> jstr" where
  "point_at d n =
     (let s = pad_start (Suc d) (digit_unit 0) (show_dec n); k = length s - d
      in if d = 0 then s else take k s @ js ''.'' @ drop k s)"

subsection \<open>\<open>Number.prototype.toString\<close>\<close>

text \<open>
  The shortest run of \<open>k\<close> digits \<open>s\<close> whose value \<open>s * 10 ^ (n - k)\<close> rounds to the number, the
  closest such run if there are two; 17 digits are always enough.
\<close>

fun dec_exp_small :: "nat \<Rightarrow> rat \<Rightarrow> int" where
  "dec_exp_small 0 x = 0"
| "dec_exp_small (Suc fuel) x = (if 1 / 10 \<le> x then 0 else dec_exp_small fuel (10 * x) - 1)"

definition dec_exp :: "rat \<Rightarrow> int" where
  "dec_exp x = (if 1 \<le> x then int (length (show_dec \<lfloor>x\<rfloor>)) else dec_exp_small 330 x)"

definition run_at :: "rat \<Rightarrow> nat \<Rightarrow> int option" where
  "run_at x k =
     (let u = 10 powi (dec_exp x - int k); lo = \<lfloor>x / u\<rfloor>; ok = (\<lambda>s. fl (of_int s * u) = x)
      in if ok lo \<and> ok (lo + 1) then Some (if 2 * (x / u - of_int lo) \<le> 1 then lo else lo + 1)
         else if ok lo then Some lo
         else if ok (lo + 1) then Some (lo + 1)
         else None)"

definition shortest_run :: "rat \<Rightarrow> nat \<times> int" where
  "shortest_run x =
     (case filter (\<lambda>k. run_at x k \<noteq> None) [1..<18] of
        [] \<Rightarrow> (17, \<lfloor>x / 10 powi (dec_exp x - 17)\<rfloor>)
      | k # _ \<Rightarrow> (k, the (run_at x k)))"

text \<open>The layout of the digits: \<open>n\<close> is the position of the point relative to the digits.\<close>

definition lay_out :: "jstr \<Rightarrow> int \<Rightarrow> jstr" where
  "lay_out ds n =
     (let k = int (length ds); e = n - 1 in
      if k \<le> n \<and> n \<le> 21 then ds @ replicate (nat (n - k)) (digit_unit 0)
      else if 0 < n \<and> n \<le> 21 then take (nat n) ds @ js ''.'' @ drop (nat n) ds
      else if - 6 < n \<and> n \<le> 0 then js ''0.'' @ replicate (nat (- n)) (digit_unit 0) @ ds
      else take 1 ds @ (if k = 1 then [] else js ''.'' @ drop 1 ds) @ js ''e'' @
           js (if 0 \<le> e then ''+'' else ''-'') @ show_dec \<bar>e\<bar>)"

text \<open>
  An integer of magnitude at most \<open>2 ^ 53\<close> is its decimal numeral, which is what the general
  rule gives for it; it is written out as such.
\<close>

definition pos_to_string :: "rat \<Rightarrow> jstr" where
  "pos_to_string x =
     (if x = of_int \<lfloor>x\<rfloor> \<and> x \<le> 2 ^ 53 then show_dec \<lfloor>x\<rfloor>
      else let (k, s) = shortest_run x
           in if s = 10 ^ k then lay_out (show_dec 1) (dec_exp x + 1)
              else lay_out (show_dec s) (dec_exp x))"

fun num_to_string :: "jsnum \<Rightarrow> jstr" where
  "num_to_string NaN = js ''NaN''"
| "num_to_string PInf = js ''Infinity''"
| "num_to_string NInf = js ''-Infinity''"
| "num_to_string (Fin x) =
     (if x = 0 then js ''0''
      else if x < 0 then js ''-'' @ pos_to_string (- x)
      else pos_to_string x)"

fun to_fixed :: "nat \<Rightarrow> jsnum \<Rightarrow> jstr" where
  "to_fixed d (Fin x) =
     (if 10 ^ 21 \<le> \<bar>x\<bar> then num_to_string (Fin x)
      else (if x < 0 then js ''-'' else []) @ point_at d (scaled d x))"
| "to_fixed d n = num_to_string n"

subsection \<open>\<open>toLocaleString\<close> for zh-CN\<close>

text \<open>
  Digits are grouped in threes with commas; at least \<open>lo\<close> and at most \<open>hi\<close> fraction digits are
  shown, with trailing zeros beyond \<open>lo\<close> dropped.
\<close>

fun group3 :: "jstr \<Rightarrow> jstr" where
  "group3 (a # b # c # d # s) = a # b # c # cu (CHR '','') # group3 (d # s)"
| "group3 s = s"

fun drop_zeros :: "nat \<Rightarrow> jstr \<Rightarrow> jstr" where
  "drop_zeros 0 s = s"
| "drop_zeros (Suc k) s = (case s of u # us \<Rightarrow> if u = digit_unit 0 then drop_zeros k us else s | [] \<Rightarrow> s)"

definition locale_digits :: "nat \<Rightarrow> nat \<Rightarrow> int \<Rightarrow> jstr" where
  "locale_digits lo hi n =
     (let s = pad_start (Suc hi) (digit_unit 0) (show_dec n); k = length s - hi;
          fr = rev (drop_zeros (hi - lo) (rev (drop k s)))
      in rev (group3 (rev (take k s))) @ (if fr = [] then [] else js ''.'' @ fr))"

fun to_locale :: "nat \<Rightarrow> nat \<Rightarrow> jsnum \<Rightarrow> jstr" where
  "to_locale lo hi NaN = js ''NaN''"
| "to_locale lo hi PInf = [0x221E]"
| "to_locale lo hi NInf = [0x2D, 0x221E]"
| "to_locale lo hi (Fin x) = (if x < 0 then js ''-'' else []) @ locale_digits lo hi (scaled hi x)"

subsection \<open>Facts\<close>

lemma num_to_string_int:
  assumes "\<bar>i\<bar> \<le> 2 ^ 53"
  shows "num_to_string (num_int i) = show_int i"
proof -
  have le: "(of_int j :: rat) \<le> 2 ^ 53" if "j \<le> 2 ^ 53" for j
    using that by (metis of_int_le_iff of_int_numeral of_int_power)
  show ?thesis
    using assms le [of i] le [of "- i"] floor_of_int [of "- i", where 'a = rat]
    by (auto simp: pos_to_string_def show_int_def show_dec.simps [of 0] js_def digit_unit_def
        simp flip: of_int_minus)
qed

lemma scaled_close:
  assumes "\<bar>x * 10 ^ d - of_int c\<bar> < 1 / 2"
  shows "scaled d x = \<bar>c\<bar>"
proof -
  have "\<bar>\<bar>x * 10 ^ d\<bar> - \<bar>of_int c\<bar>\<bar> < 1 / 2"
    using assms abs_triangle_ineq3 [of "x * 10 ^ d" "of_int c"] by linarith
  then have "\<bar>\<bar>x\<bar> * 10 ^ d - of_int \<bar>c\<bar>\<bar> < 1 / 2"
    by (simp add: abs_mult)
  then have "of_int \<bar>c\<bar> \<le> \<bar>x\<bar> * 10 ^ d + 1 / 2 \<and> \<bar>x\<bar> * 10 ^ d + 1 / 2 < of_int \<bar>c\<bar> + 1"
    by linarith
  then have "\<lfloor>\<bar>x\<bar> * 10 ^ d + 1 / 2\<rfloor> = \<bar>c\<bar>"
    by (simp only: floor_eq_iff)
  then show ?thesis by (simp add: scaled_def)
qed

end
