(* ===== verification/Js_Text.thy ===== *)
theory Js_Text
  imports Js_Number
begin

text \<open>
  The string methods the code calls (\<open>trim\<close>, \<open>slice\<close>, \<open>split\<close>, \<open>join\<close>, \<open>startsWith\<close>,
  \<open>endsWith\<close>, the comparison operators), the conversion of a string to a number, and
  \<open>encodeURIComponent\<close> with the percent-decoding a server applies to a query.
\<close>

section \<open>String methods\<close>

definition is_space :: "unit16 \<Rightarrow> bool" where
  "is_space u \<longleftrightarrow> u \<in> {0x9, 0xA, 0xB, 0xC, 0xD, 0x20, 0xA0, 0x1680, 0x2028, 0x2029, 0x202F, 0x205F,
      0x3000, 0xFEFF} \<or> 0x2000 \<le> uint u \<and> uint u \<le> 0x200A"

definition str_trim :: "jstr \<Rightarrow> jstr" where
  "str_trim s = rev (dropWhile is_space (rev (dropWhile is_space s)))"

definition clamp_index :: "nat \<Rightarrow> int \<Rightarrow> nat" where
  "clamp_index n i = nat (if i < 0 then max 0 (int n + i) else min (int n) i)"

text \<open>\<open>slice(i, j)\<close>; \<open>slice_from\<close> is the call with one argument.\<close>

definition str_slice :: "int \<Rightarrow> int \<Rightarrow> 'a list \<Rightarrow> 'a list" where
  "str_slice i j s =
     (let a = clamp_index (length s) i; b = clamp_index (length s) j in take (b - a) (drop a s))"

definition slice_from :: "int \<Rightarrow> 'a list \<Rightarrow> 'a list" where
  "slice_from i s = drop (clamp_index (length s) i) s"

fun starts_with :: "jstr \<Rightarrow> jstr \<Rightarrow> bool" where
  "starts_with [] s = True"
| "starts_with (p # ps) [] = False"
| "starts_with (p # ps) (u # us) = (p = u \<and> starts_with ps us)"

definition ends_with :: "jstr \<Rightarrow> jstr \<Rightarrow> bool" where
  "ends_with p s = starts_with (rev p) (rev s)"

text \<open>
  \<open>split\<close> with a separator that is not empty: \<open>acc\<close> is the piece being collected, reversed.
\<close>

function split_acc :: "jstr \<Rightarrow> jstr \<Rightarrow> jstr \<Rightarrow> jstr list" where
  "split_acc sep acc [] = [rev acc]"
| "split_acc sep acc (u # us) =
     (if sep \<noteq> [] \<and> starts_with sep (u # us)
      then rev acc # split_acc sep [] (drop (length sep) (u # us))
      else split_acc sep (u # acc) us)"
  by pat_completeness auto
termination
  by (relation "measure (\<lambda>(sep, acc, s). length s)") auto

definition str_split :: "jstr \<Rightarrow> jstr \<Rightarrow> jstr list" where
  "str_split sep s = split_acc sep [] s"

fun str_join :: "jstr \<Rightarrow> jstr list \<Rightarrow> jstr" where
  "str_join sep [] = []"
| "str_join sep [s] = s"
| "str_join sep (s # t # ss) = s @ sep @ str_join sep (t # ss)"

text \<open>The operator \<open><\<close> on strings compares code units, a proper prefix being smaller.\<close>

fun str_lt :: "jstr \<Rightarrow> jstr \<Rightarrow> bool" where
  "str_lt _ [] = False"
| "str_lt [] (v # vs) = True"
| "str_lt (u # us) (v # vs) = (u < v \<or> u = v \<and> str_lt us vs)"

definition str_le :: "jstr \<Rightarrow> jstr \<Rightarrow> bool" where
  "str_le s t \<longleftrightarrow> \<not> str_lt t s"

lemma starts_with_iff: "starts_with p s \<longleftrightarrow> (\<exists>r. s = p @ r)"
  by (induction p s rule: starts_with.induct) auto

lemma starts_with_append [simp]: "starts_with p (p @ r)"
  by (auto simp: starts_with_iff)

lemma split_acc_no_sep:
  "sep \<noteq> [] \<Longrightarrow> hd sep \<notin> set s \<Longrightarrow> split_acc sep acc s = [rev acc @ s]"
proof (induction s arbitrary: acc)
  case (Cons u us)
  then show ?case by (cases sep) auto
qed simp

lemma split_acc_piece:
  "sep \<noteq> [] \<Longrightarrow> hd sep \<notin> set s \<Longrightarrow>
   split_acc sep acc (s @ sep @ r) = (rev acc @ s) # split_acc sep [] r"
proof (induction s arbitrary: acc)
  case Nil
  then show ?case by (cases sep) (auto simp: starts_with_iff)
next
  case (Cons u us)
  then show ?case by (cases sep) auto
qed

text \<open>Joining pieces that hold no separator and splitting again gives the pieces back.\<close>

lemma split_join:
  assumes "sep \<noteq> []" and "ss \<noteq> []" and "\<And>s. s \<in> set ss \<Longrightarrow> hd sep \<notin> set s"
  shows "str_split sep (str_join sep ss) = ss"
  using assms(2,3) unfolding str_split_def
proof (induction ss)
  case (Cons s ss)
  show ?case
  proof (cases ss)
    case Nil
    with Cons.prems assms(1) show ?thesis by (simp add: split_acc_no_sep)
  next
    case (Cons t ts)
    with Cons.prems Cons.IH assms(1) show ?thesis by (simp add: split_acc_piece)
  qed
qed simp

lemma str_lt_irrefl [simp]: "\<not> str_lt s s"
  by (induction s) auto

lemma str_lt_trans: "str_lt s t \<Longrightarrow> str_lt t r \<Longrightarrow> str_lt s r"
proof (induction s r arbitrary: t rule: str_lt.induct)
  case (3 u us v vs)
  then show ?case by (cases t) (auto intro: less_trans)
next
  case (1 s)
  then show ?case by (cases t) auto
qed simp

lemma str_lt_total: "str_lt s t \<or> s = t \<or> str_lt t s"
proof (induction s t rule: str_lt.induct)
  case (1 s)
  then show ?case by (cases s) simp_all
qed auto

lemma str_le_refl [simp]: "str_le s s"
  by (simp add: str_le_def)

lemma str_lt_same_length_iff:
  "length s = length t \<Longrightarrow> str_lt (s @ x) (t @ y) \<longleftrightarrow> str_lt s t \<or> s = t \<and> str_lt x y"
  by (induction s t rule: list_induct2) auto

section \<open>Numbers from strings\<close>

definition span_digits :: "jstr \<Rightarrow> jstr \<times> jstr" where
  "span_digits s = (takeWhile is_digit s, dropWhile is_digit s)"

text \<open>A signed exponent, or nothing at all; the rest of the text must be empty.\<close>

definition read_exponent :: "jstr \<Rightarrow> int option" where
  "read_exponent s =
     (case s of
        [] \<Rightarrow> Some 0
      | e # r \<Rightarrow>
          if e = cu (CHR ''e'') \<or> e = cu (CHR ''E'') then
            (let (neg, ds) = (case r of
                 u # us \<Rightarrow> if u = cu (CHR ''-'') then (True, us) else if u = cu (CHR ''+'') then (False, us)
                            else (False, r)
               | [] \<Rightarrow> (False, []))
             in if ds \<noteq> [] \<and> list_all is_digit ds
                then Some (if neg then - read_digits 0 ds else read_digits 0 ds) else None)
          else None)"

definition read_unsigned :: "jstr \<Rightarrow> rat option" where
  "read_unsigned s =
     (let (ip, r) = span_digits s;
          (fp, r') = (case r of u # us \<Rightarrow> if u = cu (CHR ''.'') then span_digits us else ([], r)
                              | [] \<Rightarrow> ([], []))
      in if ip = [] \<and> fp = [] then None
         else map_option (\<lambda>e. of_int (read_digits 0 (ip @ fp)) * 10 powi (e - int (length fp)))
                (read_exponent r'))"

definition hex_value :: "unit16 \<Rightarrow> int option" where
  "hex_value u =
     (let n = uint u in
      if 48 \<le> n \<and> n \<le> 57 then Some (n - 48)
      else if 65 \<le> n \<and> n \<le> 70 then Some (n - 55)
      else if 97 \<le> n \<and> n \<le> 102 then Some (n - 87)
      else None)"

fun read_radix :: "int \<Rightarrow> int \<Rightarrow> jstr \<Rightarrow> int option" where
  "read_radix b acc [] = Some acc"
| "read_radix b acc (u # us) =
     (case hex_value u of
        Some d \<Rightarrow> if d < b then read_radix b (b * acc + d) us else None
      | None \<Rightarrow> None)"

definition num_of_option :: "rat option \<Rightarrow> jsnum" where
  "num_of_option r = (case r of None \<Rightarrow> NaN | Some x \<Rightarrow> to_num x)"

text \<open>\<open>Number(s)\<close>.\<close>

definition string_to_number :: "jstr \<Rightarrow> jsnum" where
  "string_to_number str =
     (let s = str_trim str;
          radix = (\<lambda>b. if drop 2 s = [] then NaN
                       else num_of_option (map_option of_int (read_radix b 0 (drop 2 s)))) in
      if s = [] then Fin 0
      else if take 2 s = js ''0x'' \<or> take 2 s = js ''0X'' then radix 16
      else if take 2 s = js ''0o'' \<or> take 2 s = js ''0O'' then radix 8
      else if take 2 s = js ''0b'' \<or> take 2 s = js ''0B'' then radix 2
      else let (neg, r) = (if hd s = cu (CHR ''-'') then (True, tl s)
                           else if hd s = cu (CHR ''+'') then (False, tl s) else (False, s));
               v = (if r = js ''Infinity'' then PInf else num_of_option (read_unsigned r))
           in if neg then num_neg v else v)"

subsection \<open>Reading a printed decimal back\<close>

definition numeral_unit :: "unit16 \<Rightarrow> bool" where
  "numeral_unit u \<longleftrightarrow> is_digit u \<or> u = 0x2E"

lemma numeral_not_space: "numeral_unit u \<Longrightarrow> \<not> is_space u"
  by (auto simp: numeral_unit_def is_digit_def is_space_def)

lemma dropWhile_none: "\<forall>u \<in> set s. \<not> P u \<Longrightarrow> dropWhile P s = s"
  by (cases s) auto

lemma str_trim_plain: "\<forall>u \<in> set s. \<not> is_space u \<Longrightarrow> str_trim s = s"
  by (simp add: str_trim_def dropWhile_none)

lemma string_to_number_numeral:
  assumes "s \<noteq> []" and "\<forall>u \<in> set s. numeral_unit u"
  shows "string_to_number s = num_of_option (read_unsigned s)"
proof -
  have t: "str_trim s = s"
    using assms(2) numeral_not_space by (intro str_trim_plain) blast
  have no: "c \<notin> set s" if "\<not> numeral_unit c" for c using assms(2) that by blast
  have n: "\<not> numeral_unit c" if "c \<in> {0x78, 0x58, 0x6F, 0x4F, 0x62, 0x42, 0x2D, 0x2B, 0x49}" for c
    using that by (auto simp: numeral_unit_def is_digit_def)
  have two: "take 2 s \<noteq> p" if "set p \<inter> {0x78, 0x58, 0x6F, 0x4F, 0x62, 0x42} \<noteq> {}" for p
    using that no [OF n] by (blast dest: in_set_takeD)
  have "take 2 s \<noteq> js ''0x''" "take 2 s \<noteq> js ''0X''" "take 2 s \<noteq> js ''0o''" "take 2 s \<noteq> js ''0O''"
    "take 2 s \<noteq> js ''0b''" "take 2 s \<noteq> js ''0B''"
    by (rule two, simp add: js_def)+
  moreover have out: "0x2D \<notin> set s" "0x2B \<notin> set s" "0x49 \<notin> set s"
    by (rule no, rule n, simp)+
  moreover have "hd s \<noteq> cu (CHR ''-'')" "hd s \<noteq> cu (CHR ''+'')"
    using hd_in_set [OF assms(1)] out(1,2) by (auto simp del: hd_in_set)
  moreover have "s \<noteq> js ''Infinity''"
    using out(3) by (auto simp: js_def)
  ultimately show ?thesis
    using assms(1) by (simp only: string_to_number_def t Let_def if_False if_True prod.case simp_thms)
qed

lemma span_digits_all: "\<forall>u \<in> set s. is_digit u \<Longrightarrow> span_digits s = (s, [])"
  by (simp add: span_digits_def takeWhile_eq_all_conv dropWhile_eq_Nil_conv)

lemma point_not_digit [simp]: "\<not> is_digit 0x2E"
  by (simp add: is_digit_def)

lemma span_digits_point: "\<forall>u \<in> set s. is_digit u \<Longrightarrow> span_digits (s @ 0x2E # r) = (s, 0x2E # r)"
  by (simp add: span_digits_def)

lemma read_unsigned_digits:
  "ip \<noteq> [] \<Longrightarrow> \<forall>u \<in> set ip. is_digit u \<Longrightarrow> read_unsigned ip = Some (of_int (read_digits 0 ip))"
  by (simp add: read_unsigned_def span_digits_all read_exponent_def)

lemma read_unsigned_point:
  assumes "ip \<noteq> []" and "\<forall>u \<in> set ip. is_digit u" and "\<forall>u \<in> set fp. is_digit u"
  shows "read_unsigned (ip @ 0x2E # fp) = Some (of_int (read_digits 0 (ip @ fp)) / 10 ^ length fp)"
  using assms
  by (simp add: read_unsigned_def span_digits_point span_digits_all read_exponent_def
      power_int_minus power_int_of_nat divide_inverse)

lemma read_point_at:
  assumes "0 \<le> n"
  shows "string_to_number (point_at d n) = to_num (of_int n / 10 ^ d)"
proof -
  define s where "s = pad_start (Suc d) (digit_unit 0) (show_dec n)"
  have dig: "\<forall>u \<in> set s. is_digit u"
    using show_dec_digits [OF assms] by (auto simp: s_def intro!: pad_start_digits)
  have val: "read_digits 0 s = n"
    using read_show_dec [OF assms] by (simp add: s_def read_pad_start)
  have len: "Suc d \<le> length s" by (simp add: s_def)
  then have ne: "s \<noteq> []" by auto
  have mem: "\<forall>u \<in> set (take k s). is_digit u" "\<forall>u \<in> set (drop k s). is_digit u" for k
    using dig by (auto dest: in_set_takeD in_set_dropD)
  show ?thesis
  proof (cases "d = 0")
    case True
    then have p: "point_at d n = s" by (simp add: point_at_def s_def)
    have "string_to_number s = num_of_option (read_unsigned s)"
      using dig len by (intro string_to_number_numeral) (auto simp: numeral_unit_def)
    with True p val read_unsigned_digits [OF ne dig] show ?thesis
      by (simp add: num_of_option_def)
  next
    case False
    then have p: "point_at d n = take (length s - d) s @ 0x2E # drop (length s - d) s"
      by (simp add: point_at_def s_def [symmetric] Let_def js_def)
    have "string_to_number (point_at d n) = num_of_option (read_unsigned (point_at d n))"
      using mem by (intro string_to_number_numeral) (auto simp: p numeral_unit_def)
    also have "read_unsigned (point_at d n) = Some (of_int n / 10 ^ d)"
      unfolding p using len mem val by (subst read_unsigned_point) auto
    finally show ?thesis by (simp add: num_of_option_def)
  qed
qed

text \<open>\<open>+x.toFixed(d)\<close> is the decimal with \<open>d\<close> places nearest to \<open>x\<close>, rounded to a double.\<close>

lemma read_to_fixed:
  assumes "0 \<le> x" and "x < 10 ^ 21"
  shows "string_to_number (to_fixed d (Fin x)) = to_num (of_int (scaled d x) / 10 ^ d)"
proof -
  have "0 \<le> scaled d x" by (simp add: scaled_def)
  with assms read_point_at [of "scaled d x" d] show ?thesis by simp
qed

section \<open>Percent encoding\<close>

text \<open>
  \<open>encodeURIComponent\<close> copies the unreserved characters and writes every other code point as
  the escapes of its UTF-8 bytes; it throws (\<open>None\<close>) on a surrogate without its partner.
\<close>

definition unreserved :: "unit16 \<Rightarrow> bool" where
  "unreserved u \<longleftrightarrow>
     (let n = uint u in 48 \<le> n \<and> n \<le> 57 \<or> 65 \<le> n \<and> n \<le> 90 \<or> 97 \<le> n \<and> n \<le> 122) \<or>
     u \<in> set (js ''-_.!~*()'') \<or> u = 39"

definition hex_unit :: "int \<Rightarrow> unit16" where
  "hex_unit d = (if d < 10 then of_int (48 + d) else of_int (55 + d))"

definition escape :: "int \<Rightarrow> jstr" where
  "escape b = [cu (CHR ''%''), hex_unit (b div 16), hex_unit (b mod 16)]"

definition utf8 :: "int \<Rightarrow> int list" where
  "utf8 c =
     (if c < 0x80 then [c]
      else if c < 0x800 then [0xC0 + c div 0x40, 0x80 + c mod 0x40]
      else if c < 0x10000 then [0xE0 + c div 0x1000, 0x80 + c div 0x40 mod 0x40, 0x80 + c mod 0x40]
      else [0xF0 + c div 0x40000, 0x80 + c div 0x1000 mod 0x40, 0x80 + c div 0x40 mod 0x40,
            0x80 + c mod 0x40])"

definition high_surrogate :: "unit16 \<Rightarrow> bool" where
  "high_surrogate u \<longleftrightarrow> 0xD800 \<le> uint u \<and> uint u \<le> 0xDBFF"

definition low_surrogate :: "unit16 \<Rightarrow> bool" where
  "low_surrogate u \<longleftrightarrow> 0xDC00 \<le> uint u \<and> uint u \<le> 0xDFFF"

definition pair_point :: "unit16 \<Rightarrow> unit16 \<Rightarrow> int" where
  "pair_point u v = (uint u - 0xD800) * 0x400 + (uint v - 0xDC00) + 0x10000"

fun encode_uri_component :: "jstr \<Rightarrow> jstr option" where
  "encode_uri_component [] = Some []"
| "encode_uri_component (u # us) =
     (if unreserved u then map_option (Cons u) (encode_uri_component us)
      else if low_surrogate u then None
      else if high_surrogate u then
        (case us of
           v # vs \<Rightarrow> if low_surrogate v
                     then map_option ((@) (concat (map escape (utf8 (pair_point u v)))))
                            (encode_uri_component vs)
                     else None
         | [] \<Rightarrow> None)
      else map_option ((@) (concat (map escape (utf8 (uint u))))) (encode_uri_component us))"

text \<open>A string whose surrogates are paired: exactly those \<open>encodeURIComponent\<close> accepts.\<close>

fun well_formed :: "jstr \<Rightarrow> bool" where
  "well_formed [] = True"
| "well_formed (u # us) =
     (if low_surrogate u then False
      else if high_surrogate u then
        (case us of v # vs \<Rightarrow> low_surrogate v \<and> well_formed vs | [] \<Rightarrow> False)
      else well_formed us)"

lemma encode_defined: "encode_uri_component s \<noteq> None \<longleftrightarrow> well_formed s"
proof (induction s rule: encode_uri_component.induct)
  case (2 u us)
  have "\<not> (unreserved u \<and> (low_surrogate u \<or> high_surrogate u))"
    by (auto simp: unreserved_def low_surrogate_def high_surrogate_def Let_def js_def)
  with 2 show ?case by (auto split: list.splits)
qed simp

subsection \<open>What a server reads\<close>

text \<open>
  A server splits a query at \<open>&\<close> and \<open>=\<close> and decodes each part: escapes to bytes, a \<open>+\<close> to a
  space, the bytes as UTF-8, the code points as UTF-16. This reader is the specification the
  encoder is checked against.
\<close>

fun unescape :: "jstr \<Rightarrow> int list option" where
  "unescape [] = Some []"
| "unescape (u # us) =
     (if u = cu (CHR ''%'') then
        (case us of
           h # l # r \<Rightarrow>
             (case (hex_value h, hex_value l) of
                (Some a, Some b) \<Rightarrow> map_option (Cons (16 * a + b)) (unescape r)
              | _ \<Rightarrow> None)
         | _ \<Rightarrow> None)
      else if u = cu (CHR ''+'') then map_option (Cons 32) (unescape us)
      else map_option (Cons (uint u)) (unescape us))"

fun utf8_decode :: "int list \<Rightarrow> int list option" where
  "utf8_decode [] = Some []"
| "utf8_decode (a # r) =
     (if a < 0x80 then map_option (Cons a) (utf8_decode r)
      else if 0xC0 \<le> a \<and> a < 0xE0 then
        (case r of b # r' \<Rightarrow> map_option (Cons ((a - 0xC0) * 0x40 + (b - 0x80))) (utf8_decode r')
         | _ \<Rightarrow> None)
      else if 0xE0 \<le> a \<and> a < 0xF0 then
        (case r of b # c # r' \<Rightarrow>
           map_option (Cons ((a - 0xE0) * 0x1000 + (b - 0x80) * 0x40 + (c - 0x80))) (utf8_decode r')
         | _ \<Rightarrow> None)
      else if 0xF0 \<le> a then
        (case r of b # c # d # r' \<Rightarrow>
           map_option (Cons ((a - 0xF0) * 0x40000 + (b - 0x80) * 0x1000 + (c - 0x80) * 0x40 + (d - 0x80)))
             (utf8_decode r')
         | _ \<Rightarrow> None)
      else None)"

definition utf16 :: "int \<Rightarrow> jstr" where
  "utf16 c =
     (if c < 0x10000 then [of_int c]
      else [of_int (0xD800 + (c - 0x10000) div 0x400), of_int (0xDC00 + (c - 0x10000) mod 0x400)])"

definition query_decode :: "jstr \<Rightarrow> jstr option" where
  "query_decode s =
     Option.bind (unescape s) (\<lambda>bs. map_option (\<lambda>cs. concat (map utf16 cs)) (utf8_decode bs))"

lemma uint16 [simp]: "0 \<le> i \<Longrightarrow> i < 65536 \<Longrightarrow> uint (of_int i :: unit16) = i"
  by (simp add: unsigned_of_int take_bit_eq_mod)

lemma hex_value_hex_unit [simp]: "0 \<le> d \<Longrightarrow> d < 16 \<Longrightarrow> hex_value (hex_unit d) = Some d"
  by (auto simp: hex_value_def hex_unit_def Let_def simp del: of_int_add)

lemma unescape_escape:
  "0 \<le> b \<Longrightarrow> b < 256 \<Longrightarrow> unescape (escape b @ r) = map_option (Cons b) (unescape r)"
  by (simp add: escape_def)

lemma unescape_escapes:
  "\<forall>b \<in> set bs. 0 \<le> b \<and> b < 256 \<Longrightarrow>
   unescape (concat (map escape bs) @ r) = map_option ((@) bs) (unescape r)"
proof (induction bs)
  case Nil
  then show ?case by (cases "unescape r") simp_all
next
  case (Cons b bs)
  then show ?case by (cases "unescape r") (simp_all add: unescape_escape)
qed

lemma utf8_bytes: "0 \<le> c \<Longrightarrow> c < 0x110000 \<Longrightarrow> \<forall>b \<in> set (utf8 c). 0 \<le> b \<and> b < 256"
  by (auto simp: utf8_def)

lemma div_mod_0x40:
  "(c :: int) div 0x1000 * 0x1000 + c div 0x40 mod 0x40 * 0x40 + c mod 0x40 = c"
  "(c :: int) div 0x40000 * 0x40000 + (c div 0x1000 mod 0x40 * 0x1000 + (c div 0x40 mod 0x40 * 0x40 +
   c mod 0x40)) = c"
proof -
  have "c div (0x40 * 0x40) = c div 0x40 div 0x40"
    by (rule zdiv_zmult2_eq) simp
  moreover have "c div (0x40 * 0x40 * 0x40) = c div (0x40 * 0x40) div 0x40"
    by (rule zdiv_zmult2_eq) simp
  ultimately have d: "c div 0x1000 = c div 0x40 div 0x40" "c div 0x40000 = c div 0x40 div 0x40 div 0x40"
    by simp_all
  define q where "q = c div 0x40"
  have "q * 0x40 + c mod 0x40 = c" "q div 0x40 * 0x40 + q mod 0x40 = q"
    "q div 0x40 div 0x40 * 0x40 + q div 0x40 mod 0x40 = q div 0x40"
    by (simp_all add: q_def)
  then show "c div 0x1000 * 0x1000 + c div 0x40 mod 0x40 * 0x40 + c mod 0x40 = c"
    and "c div 0x40000 * 0x40000 + (c div 0x1000 mod 0x40 * 0x1000 + (c div 0x40 mod 0x40 * 0x40 +
      c mod 0x40)) = c"
    unfolding d q_def [symmetric] by linarith+
qed

lemma utf8_decode_utf8:
  assumes "0 \<le> c" and "c < 0x110000"
  shows "utf8_decode (utf8 c @ r) = map_option (Cons c) (utf8_decode r)"
proof -
  consider "c < 0x80" | "0x80 \<le> c" "c < 0x800" | "0x800 \<le> c" "c < 0x10000" | "0x10000 \<le> c"
    by linarith
  then show ?thesis
  proof cases
    case 1
    then show ?thesis by (simp add: utf8_def)
  next
    case 2
    then have "2 \<le> c div 0x40" "c div 0x40 < 0x20" by presburger+
    with 2 show ?thesis by (simp add: utf8_def)
  next
    case 3
    then have "0 \<le> c div 0x1000" "c div 0x1000 < 0x10"
      using div_mult_mod_eq [of c "0x1000"] pos_mod_sign [of "0x1000" c] by linarith+
    with 3 show ?thesis by (simp add: utf8_def div_mod_0x40)
  next
    case 4
    then have "0 \<le> c div 0x40000"
      using div_mult_mod_eq [of c "0x40000"] pos_mod_bound [of "0x40000" c] by linarith
    with 4 show ?thesis by (simp add: utf8_def div_mod_0x40)
  qed
qed

lemma uint16_bounds: "0 \<le> uint (u :: unit16)" "uint (u :: unit16) < 65536"
  using uint_lt2p [of u] by simp_all

lemma of_int_uint16 [simp]: "(of_int (uint u) :: unit16) = u"
  by simp

lemma pair_point_range:
  "high_surrogate u \<Longrightarrow> low_surrogate v \<Longrightarrow> 0x10000 \<le> pair_point u v \<and> pair_point u v < 0x110000"
  by (auto simp: high_surrogate_def low_surrogate_def pair_point_def)

lemma chunk_0x400:
  "0 \<le> l \<Longrightarrow> l < 0x400 \<Longrightarrow> ((h :: int) * 0x400 + l) div 0x400 = h \<and> (h * 0x400 + l) mod 0x400 = l"
  by simp

lemma utf16_pair_point:
  assumes "high_surrogate u" and "low_surrogate v"
  shows "utf16 (pair_point u v) = [u, v]"
proof -
  let ?h = "uint u - 0xD800" and ?l = "uint v - 0xDC00"
  have l: "0 \<le> ?l" "?l < 0x400" and h: "0 \<le> ?h"
    using assms by (simp_all add: high_surrogate_def low_surrogate_def)
  have "pair_point u v - 0x10000 = ?h * 0x400 + ?l" by (simp add: pair_point_def)
  moreover have "(?h * 0x400 + ?l) div 0x400 = ?h" "(?h * 0x400 + ?l) mod 0x400 = ?l"
    using chunk_0x400 [OF l, of ?h] by blast+
  ultimately have "(pair_point u v - 0x10000) div 0x400 = ?h" "(pair_point u v - 0x10000) mod 0x400 = ?l"
    by (simp_all only:)
  moreover have "\<not> pair_point u v < 0x10000" using pair_point_range [OF assms] by simp
  ultimately show ?thesis by (simp add: utf16_def)
qed

lemma unreserved_plain:
  assumes "unreserved u"
  shows "uint u < 0x80" and "u \<noteq> cu (CHR ''%'')" and "u \<noteq> cu (CHR ''+'')"
  using assms by (auto simp: unreserved_def js_def Let_def)

text \<open>Decoding is left to right: a decoded prefix is followed by the decoded rest.\<close>

lemma query_decode_unreserved:
  "unreserved u \<Longrightarrow> query_decode (u # s) = map_option (Cons u) (query_decode s)"
  using unreserved_plain [of u] uint16_bounds [of u]
  by (cases "unescape s") (auto simp: query_decode_def utf16_def option.map_comp comp_def)

lemma query_decode_point:
  assumes "0 \<le> c" and "c < 0x110000"
  shows "query_decode (concat (map escape (utf8 c)) @ s) = map_option ((@) (utf16 c)) (query_decode s)"
  using assms unescape_escapes [OF utf8_bytes [OF assms], of s]
  by (cases "unescape s") (auto simp: query_decode_def utf8_decode_utf8 option.map_comp comp_def)

lemma query_decode_encode: "encode_uri_component s = Some t \<Longrightarrow> query_decode t = Some s"
proof (induction s arbitrary: t rule: encode_uri_component.induct)
  case 1
  then show ?case by (simp add: query_decode_def)
next
  case (2 u us)
  show ?case
  proof (cases "unreserved u")
    case True
    with 2 show ?thesis by (auto simp: query_decode_unreserved)
  next
    case False
    show ?thesis
    proof (cases "high_surrogate u")
      case True
      then have "query_decode (concat (map escape (utf8 (pair_point u v))) @ z) =
          map_option ((@) [u, v]) (query_decode z)" if "low_surrogate v" for v z
        using pair_point_range [OF True that] that
        by (simp add: query_decode_point utf16_pair_point)
      with 2 False True show ?thesis
        by (auto split: list.splits if_splits)
    next
      case hs: False
      with 2 False have "query_decode t = map_option ((@) (utf16 (uint u))) (Some us)"
        using uint16_bounds [of u] by (auto simp: query_decode_point split: if_splits)
      then show ?thesis using uint16_bounds [of u] by (simp add: utf16_def)
    qed
  qed
qed

text \<open>The encoder writes only unreserved characters and escapes, so no \<open>&\<close>, \<open>=\<close> or \<open>?\<close>.\<close>

definition component_unit :: "unit16 \<Rightarrow> bool" where
  "component_unit u \<longleftrightarrow> unreserved u \<or> u = cu (CHR ''%'') \<or> 48 \<le> uint u \<and> uint u \<le> 57 \<or>
     65 \<le> uint u \<and> uint u \<le> 70"

lemma escape_units: "0 \<le> b \<Longrightarrow> b < 256 \<Longrightarrow> \<forall>u \<in> set (escape b). component_unit u"
  by (auto simp: escape_def component_unit_def hex_unit_def simp del: of_int_add)

lemma utf8_escape_units:
  assumes "0 \<le> c" and "c < 0x110000"
  shows "\<forall>u \<in> set (concat (map escape (utf8 c))). component_unit u"
proof -
  have "\<forall>u \<in> set (escape b). component_unit u" if "b \<in> set (utf8 c)" for b
    using that utf8_bytes [OF assms] by (intro escape_units) auto
  then show ?thesis by auto
qed

lemma encode_units: "encode_uri_component s = Some t \<Longrightarrow> \<forall>u \<in> set t. component_unit u"
proof (induction s arbitrary: t rule: encode_uri_component.induct)
  case (2 u us)
  have p: "\<forall>x \<in> set (concat (map escape (utf8 (pair_point u v)))). component_unit x"
    if "high_surrogate u" "low_surrogate v" for v
    using pair_point_range [OF that] by (intro utf8_escape_units) auto
  have q: "\<forall>x \<in> set (concat (map escape (utf8 (uint u)))). component_unit x"
    using uint16_bounds [of u] by (intro utf8_escape_units) auto
  show ?case
  proof (cases "unreserved u")
    case True
    then have "component_unit u" by (simp add: component_unit_def)
    with 2 True show ?thesis by auto
  next
    case False
    show ?thesis
    proof (cases "high_surrogate u")
      case True
      with 2 False obtain v vs z where "us = v # vs" "low_surrogate v" "encode_uri_component vs = Some z"
        "t = concat (map escape (utf8 (pair_point u v))) @ z"
        by (auto split: list.splits if_splits)
      with 2 False True p [of v] show ?thesis by (auto split: if_splits simp del: set_concat)
    next
      case hs: False
      with 2 False obtain z where "encode_uri_component us = Some z" "\<not> low_surrogate u"
        "t = concat (map escape (utf8 (uint u))) @ z"
        by (auto split: if_splits)
      with 2 False hs q show ?thesis by (auto split: if_splits simp del: set_concat)
    qed
  qed
qed simp

lemma component_unit_no_separator:
  "component_unit u \<Longrightarrow> u \<noteq> cu (CHR ''&'') \<and> u \<noteq> cu (CHR ''='') \<and> u \<noteq> cu (CHR ''?'')"
  by (auto simp: component_unit_def unreserved_def js_def Let_def)

end
