(* ===== verification/Js_Value.thy ===== *)
theory Js_Value
  imports Js_Text
begin

text \<open>
  The values of the language as the client sees them: what \<open>response.json()\<close> delivers, what is
  sent with \<open>JSON.stringify\<close> and what a handler may throw. The operators whose result depends
  on the dynamic type (\<open>||\<close>, \<open>??\<close>, \<open>?.\<close>, property reads, \<open>String\<close>, arithmetic) are defined on
  them, so a response that lacks a field runs through the code the way it does at run time.

  The declared TypeScript interfaces are erased at run time. They are modelled as runtime
  shapes, and \<open>conforms\<close> says that a value has a shape.
\<close>

section \<open>Values\<close>

datatype jsval =
    JUndef
  | JNull
  | JBool bool
  | JNum jsnum
  | JStr jstr
  | JArr "jsval list"
  | JObj "(jstr \<times> jsval) list"
  | JFun jstr
  | JError jstr

abbreviation jlit :: "string \<Rightarrow> jsval" where
  "jlit s \<equiv> JStr (js s)"

abbreviation jint :: "int \<Rightarrow> jsval" where
  "jint i \<equiv> JNum (num_int i)"

text \<open>
  An object literal: its fields in order. The names below are found on every object literal
  through its prototype, so a lookup with a name that comes from outside may hit them.
\<close>

abbreviation obj :: "(string \<times> jsval) list \<Rightarrow> jsval" where
  "obj fs \<equiv> JObj (map (\<lambda>(k, v). (js k, v)) fs)"

definition proto_names :: "string list" where
  "proto_names = [''constructor'', ''__defineGetter__'', ''__defineSetter__'', ''hasOwnProperty'',
     ''__lookupGetter__'', ''__lookupSetter__'', ''isPrototypeOf'', ''propertyIsEnumerable'',
     ''toString'', ''valueOf'', ''toLocaleString'', ''__proto__'']"

definition proto_get :: "jstr \<Rightarrow> jsval" where
  "proto_get k =
     (if k = js ''__proto__'' then JObj [] else if k \<in> set (map js proto_names) then JFun k else JUndef)"

definition type_error :: jsval where
  "type_error = JError (js ''TypeError'')"

fun nullish :: "jsval \<Rightarrow> bool" where
  "nullish JUndef = True"
| "nullish JNull = True"
| "nullish _ = False"

fun truthy :: "jsval \<Rightarrow> bool" where
  "truthy JUndef = False"
| "truthy JNull = False"
| "truthy (JBool b) = b"
| "truthy (JNum n) = (n \<noteq> NaN \<and> n \<noteq> Fin 0)"
| "truthy (JStr s) = (s \<noteq> [])"
| "truthy _ = True"

definition js_or :: "jsval \<Rightarrow> jsval \<Rightarrow> jsval" where
  "js_or a b = (if truthy a then a else b)"

definition js_coalesce :: "jsval \<Rightarrow> jsval \<Rightarrow> jsval" where
  "js_coalesce a b = (if nullish a then b else a)"

text \<open>\<open>field k v\<close> is the value of \<open>v.k\<close> where \<open>v\<close> is not nullish; \<open>get\<close> throws where it is.\<close>

fun field :: "jstr \<Rightarrow> jsval \<Rightarrow> jsval" where
  "field k (JObj fs) = (case map_of fs k of Some v \<Rightarrow> v | None \<Rightarrow> proto_get k)"
| "field k (JError m) = (if k = js ''message'' then JStr m else proto_get k)"
| "field k (JStr s) = (if k = js ''length'' then jint (int (length s)) else JUndef)"
| "field k (JArr vs) = (if k = js ''length'' then jint (int (length vs)) else JUndef)"
| "field k _ = JUndef"

definition get :: "string \<Rightarrow> jsval \<Rightarrow> jsval + jsval" where
  "get k v = (if nullish v then Inl type_error else Inr (field (js k) v))"

definition opt_get :: "string \<Rightarrow> jsval \<Rightarrow> jsval" where
  "opt_get k v = (if nullish v then JUndef else field (js k) v)"

definition has_own :: "jstr \<Rightarrow> jsval \<Rightarrow> bool" where
  "has_own k v = (case v of JObj fs \<Rightarrow> k \<in> fst ` set fs | JError m \<Rightarrow> k = js ''message'' | _ \<Rightarrow> False)"

text \<open>Strict equality on the primitive values the code compares.\<close>

fun strict_eq :: "jsval \<Rightarrow> jsval \<Rightarrow> bool" where
  "strict_eq (JNum a) (JNum b) = num_eq a b"
| "strict_eq a b = (a = b)"

section \<open>Conversions\<close>

fun to_str :: "jsval \<Rightarrow> jstr" where
  "to_str JUndef = js ''undefined''"
| "to_str JNull = js ''null''"
| "to_str (JBool b) = (if b then js ''true'' else js ''false'')"
| "to_str (JNum n) = num_to_string n"
| "to_str (JStr s) = s"
| "to_str (JArr vs) = str_join (js '','') (map (\<lambda>v. if nullish v then [] else to_str v) vs)"
| "to_str (JObj fs) = js ''[object Object]''"
| "to_str (JFun k) = js ''function''"
| "to_str (JError m) = (if m = [] then js ''Error'' else js ''Error: '' @ m)"

fun to_number :: "jsval \<Rightarrow> jsnum" where
  "to_number JUndef = NaN"
| "to_number JNull = Fin 0"
| "to_number (JBool b) = (if b then Fin 1 else Fin 0)"
| "to_number (JNum n) = n"
| "to_number (JStr s) = string_to_number s"
| "to_number v = string_to_number (to_str v)"

section \<open>\<open>JSON.stringify\<close>\<close>

definition hex4 :: "unit16 \<Rightarrow> jstr" where
  "hex4 u = map (\<lambda>d. if d < 10 then of_int (48 + d) else of_int (87 + d))
     [uint u div 0x1000, uint u div 0x100 mod 16, uint u div 16 mod 16, uint u mod 16]"

definition quote_unit :: "unit16 \<Rightarrow> jstr" where
  "quote_unit u =
     (if u = 0x22 then [0x5C, 0x22] else if u = 0x5C then [0x5C, 0x5C]
      else if u = 8 then js [CHR 0x5C, CHR ''b''] else if u = 12 then js [CHR 0x5C, CHR ''f'']
      else if u = 10 then js [CHR 0x5C, CHR ''n''] else if u = 13 then js [CHR 0x5C, CHR ''r'']
      else if u = 9 then js [CHR 0x5C, CHR ''t'']
      else if u < 32 then js [CHR 0x5C, CHR ''u''] @ hex4 u
      else [u])"

fun quote_units :: "jstr \<Rightarrow> jstr" where
  "quote_units [] = []"
| "quote_units (u # us) =
     (if high_surrogate u then
        (case us of
           v # vs \<Rightarrow> if low_surrogate v then u # v # quote_units vs
                     else js [CHR 0x5C, CHR ''u''] @ hex4 u @ quote_units us
         | [] \<Rightarrow> js [CHR 0x5C, CHR ''u''] @ hex4 u)
      else if low_surrogate u then js [CHR 0x5C, CHR ''u''] @ hex4 u @ quote_units us
      else quote_unit u @ quote_units us)"

definition json_quote :: "jstr \<Rightarrow> jstr" where
  "json_quote s = [0x22] @ quote_units s @ [0x22]"

text \<open>\<open>None\<close> is the result \<open>undefined\<close>: such a field is left out of its object.\<close>

fun json_stringify :: "jsval \<Rightarrow> jstr option" where
  "json_stringify JUndef = None"
| "json_stringify (JFun k) = None"
| "json_stringify JNull = Some (js ''null'')"
| "json_stringify (JBool b) = Some (if b then js ''true'' else js ''false'')"
| "json_stringify (JNum n) =
     Some (case n of Fin x \<Rightarrow> num_to_string n | _ \<Rightarrow> js ''null'')"
| "json_stringify (JStr s) = Some (json_quote s)"
| "json_stringify (JArr vs) =
     Some (js ''['' @ str_join (js '','')
       (map (\<lambda>v. case json_stringify v of None \<Rightarrow> js ''null'' | Some s \<Rightarrow> s) vs) @ js '']'')"
| "json_stringify (JObj fs) =
     Some ([0x7B] @ str_join (js '','')
       (concat (map (\<lambda>(k, v). case json_stringify v of None \<Rightarrow> []
                              | Some s \<Rightarrow> [json_quote k @ js '':'' @ s]) fs)) @ [0x7D])"
| "json_stringify (JError m) = Some [0x7B, 0x7D]"

section \<open>Object literals and spreads\<close>

fun set_field :: "jstr \<Rightarrow> 'v \<Rightarrow> (jstr \<times> 'v) list \<Rightarrow> (jstr \<times> 'v) list" where
  "set_field k v [] = [(k, v)]"
| "set_field k v ((k', v') # fs) = (if k = k' then (k, v) # fs else (k', v') # set_field k v fs)"

definition spread :: "(jstr \<times> 'v) list \<Rightarrow> (jstr \<times> 'v) list \<Rightarrow> (jstr \<times> 'v) list" where
  "spread fs gs = fold (\<lambda>(k, v). set_field k v) gs fs"

text \<open>
  The own fields a spread or \<open>Object.entries\<close> visits; a string or an array has its indices, and
  a value with no fields adds nothing.
\<close>

fun own_fields :: "jsval \<Rightarrow> (jstr \<times> jsval) list" where
  "own_fields (JObj fs) = fs"
| "own_fields (JArr vs) = zip (map (\<lambda>i. show_dec (int i)) [0..<length vs]) vs"
| "own_fields (JStr s) = zip (map (\<lambda>i. show_dec (int i)) [0..<length s]) (map (\<lambda>u. JStr [u]) s)"
| "own_fields v = []"

text \<open>The receiver of an array method.\<close>

definition as_array :: "jsval \<Rightarrow> jsval + jsval list" where
  "as_array v = (case v of JArr vs \<Rightarrow> Inr vs | _ \<Rightarrow> Inl type_error)"

text \<open>A literal table indexed with a name that comes from outside.\<close>

definition table_get :: "(jstr \<times> jsval) list \<Rightarrow> jstr \<Rightarrow> jsval" where
  "table_get tbl k = field k (JObj tbl)"

lemma get_obj [js_run]:
  "get k (JObj fs) = Inr (case map_of fs (js k) of Some v \<Rightarrow> v | None \<Rightarrow> proto_get (js k))"
  by (simp add: get_def)

lemma get_undef [js_run]: "get k JUndef = Inl type_error" "get k JNull = Inl type_error"
  by (simp_all add: get_def)

lemma map_of_set_field: "map_of (set_field k v fs) = (map_of fs)(k \<mapsto> v)"
  by (induction k v fs rule: set_field.induct) auto

lemma map_of_spread: "map_of (spread fs gs) = map_of fs ++ map_of (rev gs)"
proof (induction gs arbitrary: fs)
  case Nil
  then show ?case by (simp add: spread_def)
next
  case (Cons g gs)
  obtain a v where g: "g = (a, v)" by force
  have "spread fs (g # gs) = spread (set_field a v fs) gs" by (simp add: spread_def g)
  then show ?case
    by (auto simp: Cons.IH map_of_set_field g map_add_def fun_eq_iff split: option.splits)
qed

section \<open>Runtime shapes\<close>

datatype shape =
    ShAny
  | ShNum
  | ShStr
  | ShBool
  | ShNull
  | ShLit "jstr list"
  | ShOr shape shape
  | ShArr shape
  | ShObj "(jstr \<times> bool \<times> shape) list"

text \<open>In a field list the boolean marks an optional field.\<close>

fun conforms :: "shape \<Rightarrow> jsval \<Rightarrow> bool" where
  "conforms ShAny v = True"
| "conforms ShNum v = (case v of JNum n \<Rightarrow> True | _ \<Rightarrow> False)"
| "conforms ShStr v = (case v of JStr s \<Rightarrow> True | _ \<Rightarrow> False)"
| "conforms ShBool v = (case v of JBool b \<Rightarrow> True | _ \<Rightarrow> False)"
| "conforms ShNull v = (v = JNull)"
| "conforms (ShLit ls) v = (case v of JStr s \<Rightarrow> s \<in> set ls | _ \<Rightarrow> False)"
| "conforms (ShOr s t) v = (conforms s v \<or> conforms t v)"
| "conforms (ShArr s) v = (case v of JArr vs \<Rightarrow> list_all (conforms s) vs | _ \<Rightarrow> False)"
| "conforms (ShObj fs) v =
     (case v of
        JObj kvs \<Rightarrow> list_all (\<lambda>(k, opt, s). case map_of kvs k of
            None \<Rightarrow> opt | Some u \<Rightarrow> opt \<and> u = JUndef \<or> conforms s u) fs
      | _ \<Rightarrow> False)"

abbreviation req :: "string \<Rightarrow> shape \<Rightarrow> jstr \<times> bool \<times> shape" where
  "req k s \<equiv> (js k, False, s)"

abbreviation opt :: "string \<Rightarrow> shape \<Rightarrow> jstr \<times> bool \<times> shape" where
  "opt k s \<equiv> (js k, True, s)"

end
