(* ===== verification/Js_Date.thy ===== *)
theory Js_Date
  imports Js_Text
begin

text \<open>
  The dates the code prints with \<open>toISOString\<close>: a time value is the number of milliseconds since
  1970, and its UTC calendar date is computed in the proleptic Gregorian calendar.
\<close>

definition civil :: "int \<Rightarrow> int \<times> int \<times> int" where
  "civil days =
     (let z = days + 719468; era = z div 146097; doe = z mod 146097;
          yoe = (doe - doe div 1460 + doe div 36524 - doe div 146096) div 365;
          doy = doe - (365 * yoe + yoe div 4 - yoe div 100); mp = (5 * doy + 2) div 153;
          d = doy - (153 * mp + 2) div 5 + 1; m = (if mp < 10 then mp + 3 else mp - 9)
      in (yoe + era * 400 + (if m \<le> 2 then 1 else 0), m, d))"

definition two :: "int \<Rightarrow> jstr" where
  "two n = pad_start 2 (digit_unit 0) (show_dec n)"

definition show_year :: "int \<Rightarrow> jstr" where
  "show_year y =
     (if 0 \<le> y \<and> y \<le> 9999 then pad_start 4 (digit_unit 0) (show_dec y)
      else (if y < 0 then js ''-'' else js ''+'') @ pad_start 6 (digit_unit 0) (show_dec \<bar>y\<bar>))"

definition iso_string :: "int \<Rightarrow> jstr" where
  "iso_string t =
     (case civil (t div 86400000) of (y, m, d) \<Rightarrow>
        let r = t mod 86400000
        in show_year y @ js ''-'' @ two m @ js ''-'' @ two d @ js ''T'' @ two (r div 3600000) @ js '':'' @
           two (r div 60000 mod 60) @ js '':'' @ two (r div 1000 mod 60) @ js ''.'' @
           pad_start 3 (digit_unit 0) (show_dec (r mod 1000)) @ js ''Z'')"

lemma civil_examples:
  "civil 0 = (1970, 1, 1)" "civil 11016 = (2000, 2, 29)" "civil 20522 = (2026, 3, 10)"
  by code_simp+

lemma length_two: "n < 100 \<Longrightarrow> length (two n) = 2"
  using length_show_dec [of n 2] by (simp add: two_def)

text \<open>All dates with a four-digit year print with the same length, so they sort as text.\<close>

lemma length_show_year: "0 \<le> y \<Longrightarrow> y \<le> 9999 \<Longrightarrow> length (show_year y) = 4"
  using length_show_dec [of y 4] by (simp add: show_year_def)

end
