(* ===== verification/Http.thy ===== *)
theory Http
  imports Js_Value Js_Date
begin

text \<open>
  The browser as the two clients use it: the world an asynchronous function runs in (the
  network, the local storage, the clock, the random numbers and a log of what was done to the
  outside), \<open>fetch\<close> and the \<open>Response\<close> object, and the query string builder that
  \<open>admin/src/lib/api/client.ts\<close> and \<open>portal/src/lib/api/client.ts\<close> share.

  The server is a parameter: \<open>w_net\<close> answers each request from the requests sent before it, so
  nothing is assumed of it. \<open>response_result\<close> is the specification both \<open>request\<close> functions
  are proved against, through the locale \<open>http_service\<close>.
\<close>

section \<open>Requests and responses\<close>

record httpreq =
  rq_url :: jstr
  rq_method :: jstr
  rq_headers :: "(jstr \<times> jstr) list"
  rq_body :: "jstr option"
  rq_credentials :: jstr

text \<open>\<open>rs_json\<close> is what \<open>response.json()\<close> resolves to or, left, rejects with.\<close>

record httpresp =
  rs_status :: int
  rs_status_text :: jstr
  rs_json :: "jsval + jsval"

datatype reply = Unreachable jsval | Reply httpresp

text \<open>The \<open>RequestInit\<close> fields that the callers of \<open>request\<close> set.\<close>

record options =
  o_method :: "jstr option"
  o_headers :: "(jstr \<times> jstr) list"
  o_body :: "jstr option"

definition no_options :: options where
  "no_options = \<lparr>o_method = None, o_headers = [], o_body = None\<rparr>"

definition with_method :: "string \<Rightarrow> options" where
  "with_method m = \<lparr>o_method = Some (js m), o_headers = [], o_body = None\<rparr>"

text \<open>\<open>{ method, body: JSON.stringify(v) }\<close>\<close>

definition with_json :: "string \<Rightarrow> jsval \<Rightarrow> options" where
  "with_json m v = \<lparr>o_method = Some (js m), o_headers = [], o_body = json_stringify v\<rparr>"

section \<open>The world\<close>

type_synonym query_key = "jsval list"

datatype event =
    Sent httpreq
  | Invalidated query_key
  | ToastOk jstr
  | ToastError jstr
  | ToastInfo jstr
  | Navigated jstr bool
  | Downloaded jstr jstr
  | Copied jstr

record world =
  w_net :: "httpreq list \<Rightarrow> httpreq \<Rightarrow> reply"
  w_local :: "jstr \<Rightarrow> jstr option"
  w_now :: int
  w_random :: "nat \<Rightarrow> rat"
  w_draws :: nat
  w_log :: "event list"

type_synonym ('s, 'a) app = "('s world_scheme, jsval, 'a) prog"

fun sent_of :: "event \<Rightarrow> httpreq list" where
  "sent_of (Sent r) = [r]"
| "sent_of _ = []"

definition sent :: "'s world_scheme \<Rightarrow> httpreq list" where
  "sent w = concat (map sent_of (w_log w))"

fun invalidated_of :: "event \<Rightarrow> query_key list" where
  "invalidated_of (Invalidated k) = [k]"
| "invalidated_of _ = []"

definition invalidated :: "'s world_scheme \<Rightarrow> query_key list" where
  "invalidated w = concat (map invalidated_of (w_log w))"

definition log_event :: "event \<Rightarrow> 's world_scheme \<Rightarrow> 's world_scheme" where
  "log_event e w = w\<lparr>w_log := w_log w @ [e]\<rparr>"

definition emit :: "event \<Rightarrow> ('s, unit) app" where
  "emit e = effect (log_event e)"

definition log_events :: "event list \<Rightarrow> 's world_scheme \<Rightarrow> 's world_scheme" where
  "log_events es w = w\<lparr>w_log := w_log w @ es\<rparr>"

lemma log_events_simps [simp]:
  "log_events [] w = w"
  "log_events es (log_events ds w) = log_events (ds @ es) w"
  "log_events es (log_event d w) = log_events (d # es) w"
  "log_event e (log_events ds w) = log_events (ds @ [e]) w"
  "w_log (log_events es w) = w_log w @ es"
  "w_net (log_events es w) = w_net w"
  "w_local (log_events es w) = w_local w"
  by (simp_all add: log_events_def log_event_def)

lemma log_event_simps [simp]:
  "w_log (log_event e w) = w_log w @ [e]"
  "w_net (log_event e w) = w_net w"
  "w_local (log_event e w) = w_local w"
  by (simp_all add: log_event_def)

lemma log_event_as_events: "log_event e w = log_events [e] w"
  by (simp add: log_event_def log_events_def)

lemma sent_simps [simp]:
  "sent (log_event e w) = sent w @ sent_of e"
  "sent (log_events es w) = sent w @ concat (map sent_of es)"
  by (simp_all add: sent_def)

lemma invalidated_simps [simp]:
  "invalidated (log_event e w) = invalidated w @ invalidated_of e"
  "invalidated (log_events es w) = invalidated w @ concat (map invalidated_of es)"
  by (simp_all add: invalidated_def)

lemma emit_run [js_run]: "emit e w = (Inr (), log_event e w)"
  by (simp add: emit_def effect_def)

text \<open>\<open>localStorage\<close>: \<open>getItem\<close> gives \<open>null\<close> where the key is missing.\<close>

definition get_item :: "jstr \<Rightarrow> 's world_scheme \<Rightarrow> jsval" where
  "get_item k w = (case w_local w k of None \<Rightarrow> JNull | Some s \<Rightarrow> JStr s)"

definition set_item :: "jstr \<Rightarrow> jsval \<Rightarrow> 's world_scheme \<Rightarrow> 's world_scheme" where
  "set_item k v w = w\<lparr>w_local := (w_local w)(k \<mapsto> to_str v)\<rparr>"

definition remove_item :: "jstr \<Rightarrow> 's world_scheme \<Rightarrow> 's world_scheme" where
  "remove_item k w = w\<lparr>w_local := (w_local w)(k := None)\<rparr>"

text \<open>\<open>Math.random()\<close> takes the next of the world's numbers.\<close>

definition random :: "('s, rat) app" where
  "random = (\<lambda>w. (Inr (w_random w (w_draws w)), w\<lparr>w_draws := Suc (w_draws w)\<rparr>))"

definition do_fetch :: "httpreq \<Rightarrow> ('s, httpresp) app" where
  "do_fetch r = (\<lambda>w.
     case w_net w (sent w) r of
       Unreachable e \<Rightarrow> (Inl e, log_event (Sent r) w)
     | Reply p \<Rightarrow> (Inr p, log_event (Sent r) w))"

definition resp_ok :: "httpresp \<Rightarrow> bool" where
  "resp_ok p \<longleftrightarrow> 200 \<le> rs_status p \<and> rs_status p \<le> 299"

text \<open>The body of a failed response, or the object that replaces a body that is not JSON.\<close>

definition error_body :: "httpresp \<Rightarrow> jsval" where
  "error_body p =
     (case rs_json p of
        Inr b \<Rightarrow> b
      | Inl e \<Rightarrow> obj [(''code'', jlit ''UNKNOWN''), (''message'', JStr (rs_status_text p))])"

text \<open>What a caller is promised for each reply.\<close>

definition response_result :: "reply \<Rightarrow> jsval + jsval" where
  "response_result r =
     (case r of
        Unreachable e \<Rightarrow> Inl e
      | Reply p \<Rightarrow>
          if \<not> resp_ok p then Inl (error_body p)
          else if rs_status p = 204 then Inr JUndef
          else rs_json p)"

text \<open>
  The contract of the two \<open>request\<close> functions: one request, built from the call and the world,
  and the result the reply determines.
\<close>

locale http_service =
  fixes build :: "'s world_scheme \<Rightarrow> jstr \<Rightarrow> options \<Rightarrow> httpreq"
    and call :: "jstr \<Rightarrow> options \<Rightarrow> ('s, jsval) app"
  assumes run: "call p opts w =
    (response_result (w_net w (sent w) (build w p opts)), log_event (Sent (build w p opts)) w)"
    and url: "rq_url (build w p opts) = p"
    and verb: "rq_method (build w p opts) = (case o_method opts of None \<Rightarrow> js ''GET'' | Some m \<Rightarrow> m)"
    and body: "rq_body (build w p opts) = o_body opts"
begin

lemma one_request: "sent (snd (call p opts w)) = sent w @ [build w p opts]"
  by (simp add: run)

lemma invalidates_nothing: "invalidated (snd (call p opts w)) = invalidated w"
  by (simp add: run)

lemma storage_kept: "w_local (snd (call p opts w)) = w_local w"
  by (simp add: run)

text \<open>A call resolves only where the server answered with a success status.\<close>

lemma resolves_only_on_success:
  assumes "fst (call p opts w) = Inr v"
  obtains q where "w_net w (sent w) (build w p opts) = Reply q" and "resp_ok q"
    and "rs_status q = 204 \<and> v = JUndef \<or> rs_json q = Inr v"
  using assms by (auto simp: run response_result_def split: reply.splits if_splits)

lemma failure_status_throws:
  assumes "w_net w (sent w) (build w p opts) = Reply q" and "\<not> resp_ok q"
  shows "fst (call p opts w) = Inl (error_body q)"
  using assms by (simp add: run response_result_def)

lemma success_body:
  assumes "w_net w (sent w) (build w p opts) = Reply q" and "resp_ok q" and "rs_status q \<noteq> 204"
  shows "fst (call p opts w) = rs_json q"
  using assms by (simp add: run response_result_def)

lemma run_bind:
  "bind (call p opts) f w =
     (case response_result (w_net w (sent w) (build w p opts)) of
        Inl e \<Rightarrow> (Inl e, log_event (Sent (build w p opts)) w)
      | Inr v \<Rightarrow> f v (log_event (Sent (build w p opts)) w))"
  by (simp add: bind_def run)

end

text \<open>A world with nothing stored or logged, and a response that carries a value: for examples.\<close>

definition world_of :: "(httpreq list \<Rightarrow> httpreq \<Rightarrow> reply) \<Rightarrow> world" where
  "world_of net =
     \<lparr>w_net = net, w_local = Map.empty, w_now = 0, w_random = (\<lambda>_. 0), w_draws = 0, w_log = []\<rparr>"

definition ok_json :: "jsval \<Rightarrow> httpresp" where
  "ok_json v = \<lparr>rs_status = 200, rs_status_text = js ''OK'', rs_json = Inr v\<rparr>"

lemma ok_json_simps [simp]:
  "resp_ok (ok_json v)" "rs_status (ok_json v) = 200" "rs_json (ok_json v) = Inr v"
  by (simp_all add: ok_json_def resp_ok_def)

lemma world_of_simps [simp]:
  "w_net (world_of net) = net" "w_log (world_of net) = []" "sent (world_of net) = []"
  "invalidated (world_of net) = []" "w_local (world_of net) = Map.empty"
  by (simp_all add: world_of_def sent_def invalidated_def)

section \<open>A sequence of requests\<close>

text \<open>How many requests of a sequence succeed, each answered in the light of those before it.\<close>

definition succeeds :: "reply \<Rightarrow> bool" where
  "succeeds r \<longleftrightarrow> (case response_result r of Inl e \<Rightarrow> False | Inr v \<Rightarrow> True)"

fun accepted :: "(httpreq list \<Rightarrow> httpreq \<Rightarrow> reply) \<Rightarrow> httpreq list \<Rightarrow> httpreq list \<Rightarrow> nat" where
  "accepted net past [] = 0"
| "accepted net past (r # rs) = (if succeeds (net past r) then 1 else 0) + accepted net (past @ [r]) rs"

lemma accepted_le: "accepted net past rs \<le> length rs"
  by (induction net past rs rule: accepted.induct) auto

section \<open>Query strings\<close>

text \<open>
  \<open>qs\<close> of both clients. The parameters are the entries of an object with names written in the
  code; \<open>None\<close> is the \<open>URIError\<close> that \<open>encodeURIComponent\<close> throws.
\<close>

definition query_entries :: "(jstr \<times> jsval) list \<Rightarrow> (jstr \<times> jsval) list" where
  "query_entries ps =
     filter (\<lambda>(k, v). v \<noteq> JUndef \<and> v \<noteq> JNull \<and> v \<noteq> JStr []) ps"

fun query_parts :: "(jstr \<times> jsval) list \<Rightarrow> jstr list option" where
  "query_parts [] = Some []"
| "query_parts ((k, v) # ps) =
     (case encode_uri_component (to_str v) of
        None \<Rightarrow> None
      | Some t \<Rightarrow> map_option (Cons (k @ js ''='' @ t)) (query_parts ps))"

definition qs :: "(jstr \<times> jsval) list \<Rightarrow> jstr option" where
  "qs ps =
     (case query_parts (query_entries ps) of
        None \<Rightarrow> None
      | Some [] \<Rightarrow> Some []
      | Some parts \<Rightarrow> Some (js ''?'' @ str_join (js ''&'') parts))"

definition uri_error :: jsval where
  "uri_error = JError (js ''URI malformed'')"

definition lift_uri :: "'a option \<Rightarrow> ('s, 'a) app" where
  "lift_uri x = (case x of None \<Rightarrow> throw uri_error | Some a \<Rightarrow> return a)"

text \<open>The reader of a query string: the specification of \<open>qs\<close>.\<close>

fun cut_at :: "unit16 \<Rightarrow> jstr \<Rightarrow> jstr \<times> jstr" where
  "cut_at c [] = ([], [])"
| "cut_at c (u # us) = (if u = c then ([], us) else (case cut_at c us of (a, b) \<Rightarrow> (u # a, b)))"

definition read_pair :: "jstr \<Rightarrow> (jstr \<times> jstr) option" where
  "read_pair p = (case cut_at (cu (CHR ''='')) p of (k, v) \<Rightarrow> map_option (Pair k) (query_decode v))"

fun all_some :: "'a option list \<Rightarrow> 'a list option" where
  "all_some [] = Some []"
| "all_some (None # xs) = None"
| "all_some (Some x # xs) = map_option (Cons x) (all_some xs)"

definition read_query :: "jstr \<Rightarrow> (jstr \<times> jstr) list option" where
  "read_query s =
     (case s of
        [] \<Rightarrow> Some []
      | u # r \<Rightarrow> if u = cu (CHR ''?'') then all_some (map read_pair (str_split (js ''&'') r)) else None)"

text \<open>A parameter name of the code: no separator in it.\<close>

definition plain_name :: "jstr \<Rightarrow> bool" where
  "plain_name k \<longleftrightarrow> cu (CHR ''='') \<notin> set k \<and> cu (CHR ''&'') \<notin> set k"

lemma cut_at_append: "c \<notin> set k \<Longrightarrow> cut_at c (k @ c # r) = (k, r)"
  by (induction k) auto

lemma read_pair_part:
  "plain_name k \<Longrightarrow> encode_uri_component v = Some t \<Longrightarrow> read_pair (k @ js ''='' @ t) = Some (k, v)"
  by (simp add: read_pair_def js_Cons cut_at_append plain_name_def query_decode_encode)

lemma encoded_no_ampersand: "encode_uri_component v = Some t \<Longrightarrow> 38 \<notin> set t"
  using encode_units component_unit_no_separator by fastforce

lemma query_part_no_ampersand:
  "plain_name k \<Longrightarrow> encode_uri_component v = Some t \<Longrightarrow> 38 \<notin> set (k @ js ''='' @ t)"
  by (auto simp: plain_name_def js_Cons encoded_no_ampersand)

lemma query_parts_Cons:
  "query_parts ((k, v) # ps) = Some parts \<longleftrightarrow>
     (\<exists>t rest. encode_uri_component (to_str v) = Some t \<and> query_parts ps = Some rest \<and>
        parts = (k @ js ''='' @ t) # rest)"
  by (auto split: option.splits)

lemma query_parts_read:
  assumes "query_parts ps = Some parts" and "\<forall>(k, v) \<in> set ps. plain_name k"
  shows "all_some (map read_pair parts) = Some (map (\<lambda>(k, v). (k, to_str v)) ps) \<and>
    (\<forall>p \<in> set parts. 38 \<notin> set p) \<and> length parts = length ps"
  using assms
proof (induction ps arbitrary: parts)
  case (Cons e ps)
  obtain k v where e: "e = (k, v)" by force
  with Cons.prems obtain t rest where t: "encode_uri_component (to_str v) = Some t"
    and r: "query_parts ps = Some rest" and p: "parts = (k @ js ''='' @ t) # rest" and k: "plain_name k"
    by (auto simp: query_parts_Cons simp del: query_parts.simps)
  have "all_some (map read_pair rest) = Some (map (\<lambda>(k, v). (k, to_str v)) ps) \<and>
    (\<forall>p \<in> set rest. 38 \<notin> set p) \<and> length rest = length ps"
    using Cons.IH [OF r] Cons.prems by simp
  then show ?case
    using read_pair_part [OF k t] query_part_no_ampersand [OF k t]
    by (simp add: p e del: append_assoc set_append)
qed simp

lemma query_entries_names: "\<forall>(k, v) \<in> set ps. P k \<Longrightarrow> \<forall>(k, v) \<in> set (query_entries ps). P k"
  by (auto simp: query_entries_def)

text \<open>The server reads back exactly the parameters that are set, each with its printed value.\<close>

lemma read_query_qs:
  assumes q: "qs ps = Some s" and n: "\<forall>(k, v) \<in> set ps. plain_name k"
  shows "read_query s = Some (map (\<lambda>(k, v). (k, to_str v)) (query_entries ps))"
proof -
  from q obtain parts where parts: "query_parts (query_entries ps) = Some parts"
    by (auto simp: qs_def split: option.splits)
  have r: "all_some (map read_pair parts) = Some (map (\<lambda>(k, v). (k, to_str v)) (query_entries ps))"
    "\<forall>p \<in> set parts. 38 \<notin> set p" "length parts = length (query_entries ps)"
    using query_parts_read [OF parts query_entries_names [OF n]] by blast+
  show ?thesis
  proof (cases parts)
    case Nil
    with q parts r(3) show ?thesis by (simp add: qs_def read_query_def)
  next
    case (Cons a as)
    with q parts have s: "s = js ''?'' @ str_join (js ''&'') parts" by (simp add: qs_def)
    have "str_split (js ''&'') (str_join (js ''&'') parts) = parts"
      using r(2) Cons by (intro split_join) (auto simp: js_Cons)
    then show ?thesis by (simp add: s js_Cons read_query_def r(1))
  qed
qed

lemma query_parts_defined:
  "query_parts es \<noteq> None \<longleftrightarrow> (\<forall>e \<in> set es. well_formed (to_str (snd e)))"
proof (induction es)
  case (Cons e es)
  obtain k v where e: "e = (k, v)" by force
  show ?case
    unfolding e using Cons.IH encode_defined [of "to_str v"]
    by (cases "encode_uri_component (to_str v)"; cases "query_parts es") simp_all
qed simp

lemma qs_defined: "qs ps \<noteq> None \<longleftrightarrow> (\<forall>e \<in> set (query_entries ps). well_formed (to_str (snd e)))"
  unfolding query_parts_defined [symmetric] by (auto simp: qs_def split: option.splits list.splits)

text \<open>The characters of a query: none of them ends the query part of a URL.\<close>

lemma qs_shape: "qs ps = Some s \<Longrightarrow> s = [] \<or> hd s = cu (CHR ''?'')"
  by (auto simp: qs_def js_Cons split: option.splits list.splits)

lemma qs_empty_iff: "qs ps = Some [] \<longleftrightarrow> query_entries ps = []"
proof (cases "query_entries ps")
  case (Cons e es)
  obtain k v where "e = (k, v)" by force
  then have "query_parts (query_entries ps) \<noteq> Some []" by (auto simp: Cons split: option.splits)
  with Cons show ?thesis by (auto simp: qs_def js_Cons split: option.splits list.splits)
qed (simp add: qs_def)

section \<open>Array callbacks with effects, and random values\<close>

fun map_app :: "('a \<Rightarrow> ('s, 'b) app) \<Rightarrow> 'a list \<Rightarrow> ('s, 'b list) app" where
  "map_app f [] = return []"
| "map_app f (x # xs) = bind (f x) (\<lambda>y. bind (map_app f xs) (\<lambda>ys. return (y # ys)))"

text \<open>\<open>Math.floor(a + Math.random() * b)\<close> and \<open>+(a + Math.random() * b).toFixed(d)\<close>\<close>

definition random_floor :: "int \<Rightarrow> int \<Rightarrow> ('s, jsval) app" where
  "random_floor a b = bind random (\<lambda>r.
     return (JNum (math_floor (num_add (num_int a) (num_mul (Fin r) (num_int b))))))"

definition random_fixed :: "nat \<Rightarrow> jsnum \<Rightarrow> jsnum \<Rightarrow> ('s, jsval) app" where
  "random_fixed d a b = bind random (\<lambda>r.
     return (JNum (string_to_number (to_fixed d (num_add a (num_mul (Fin r) b))))))"

text \<open>The length \<open>Array.from({ length: n })\<close> takes.\<close>

definition array_length :: "jsval \<Rightarrow> nat" where
  "array_length v = (case to_number v of Fin x \<Rightarrow> nat (trunc x) | _ \<Rightarrow> 0)"

text \<open>Reading an array at a computed index, and a time value that may be invalid.\<close>

definition array_at :: "jsval list \<Rightarrow> jsnum \<Rightarrow> jsval" where
  "array_at vs n =
     (case n of
        Fin x \<Rightarrow> if x = of_int \<lfloor>x\<rfloor> \<and> 0 \<le> x \<and> \<lfloor>x\<rfloor> < int (length vs) then vs ! nat \<lfloor>x\<rfloor> else JUndef
      | _ \<Rightarrow> JUndef)"

definition range_error :: jsval where
  "range_error = JError (js ''RangeError'')"

definition date_iso :: "jsnum \<Rightarrow> jsval + jstr" where
  "date_iso n =
     (case n of
        Fin x \<Rightarrow> if \<bar>x\<bar> \<le> 8640000000000000 then Inr (iso_string (trunc x)) else Inl range_error
      | _ \<Rightarrow> Inl range_error)"

text \<open>\<open>await new Promise((r) => setTimeout(r, ms))\<close>: the clock moves on.\<close>

definition sleep :: "int \<Rightarrow> ('s, unit) app" where
  "sleep ms = effect (\<lambda>w. w\<lparr>w_now := w_now w + ms\<rparr>)"

text \<open>The numbers \<open>Math.random()\<close> gives lie in the half-open unit interval.\<close>

definition fair :: "'s world_scheme \<Rightarrow> bool" where
  "fair w \<longleftrightarrow> (\<forall>i. 0 \<le> w_random w i \<and> w_random w i < 1)"

section \<open>Steps the client methods share\<close>

text \<open>A template reads a property of the parameters; a path with a query may throw.\<close>

definition with_field :: "string \<Rightarrow> jsval \<Rightarrow> (jsval \<Rightarrow> ('s, 'a) app) \<Rightarrow> ('s, 'a) app" where
  "with_field k v f = bind (lift_sum (get k v)) f"

definition with_query :: "(jstr \<times> jsval) list \<Rightarrow> (jstr \<Rightarrow> ('s, 'a) app) \<Rightarrow> ('s, 'a) app" where
  "with_query ps f = bind (lift_uri (qs ps)) f"

lemma with_field_obj [js_run]:
  "with_field k (JObj fs) f =
     f (case map_of fs (js k) of Some v \<Rightarrow> v | None \<Rightarrow> proto_get (js k))"
  by (simp add: with_field_def get_obj)

lemma with_query_Some [js_run]: "qs ps = Some s \<Longrightarrow> with_query ps f = f s"
  by (simp add: with_query_def lift_uri_def)

end
