(* ===== verification/Query_Client.thy ===== *)
theory Query_Client
  imports Http
begin

text \<open>
  The part of the query library (\<open>@tanstack/react-query\<close>) that the hooks rely on: a query is its
  key, its function and its options; a mutation is its function and its \<open>onSuccess\<close> handler.
  \<open>mutateAsync\<close> runs the function and, where it resolves, the handler. Which cached queries a key
  passed to \<open>invalidateQueries\<close> reaches is decided by the library: it is the argument \<open>matches\<close>
  of \<open>refreshes\<close>, and the documented rule, that a key reaches every key it is a prefix of, is a
  named hypothesis where it is used.
\<close>

section \<open>Queries and mutations\<close>

record 's query =
  qu_key :: query_key
  qu_fn :: "('s, jsval) app"
  qu_enabled :: bool
  qu_retry :: "nat option"
  qu_interval :: "int option"
  qu_stale :: "int option"

definition query_of :: "query_key \<Rightarrow> ('s, jsval) app \<Rightarrow> 's query" where
  "query_of k f = \<lparr>qu_key = k, qu_fn = f, qu_enabled = True, qu_retry = None, qu_interval = None, qu_stale = None\<rparr>"

text \<open>
  The client of both applications (\<open>app/providers.tsx\<close>) and the options a query ends up with: its own
  where it gives one, the client's otherwise. \<open>retry: false\<close> is no retry.
\<close>

record query_defaults =
  qd_stale :: int
  qd_retry :: nat
  qd_refocus :: bool

definition queryClient :: query_defaults where
  "queryClient = \<lparr>qd_stale = 5 * 60 * 1000, qd_retry = 1, qd_refocus = False\<rparr>"

definition query_stale :: "query_defaults \<Rightarrow> 's query \<Rightarrow> int" where
  "query_stale d q = (case qu_stale q of None \<Rightarrow> qd_stale d | Some t \<Rightarrow> t)"

definition query_retries :: "query_defaults \<Rightarrow> 's query \<Rightarrow> nat" where
  "query_retries d q = (case qu_retry q of None \<Rightarrow> qd_retry d | Some n \<Rightarrow> n)"

record 's mutation =
  mu_fn :: "jsval \<Rightarrow> ('s, jsval) app"
  mu_success :: "jsval \<Rightarrow> jsval \<Rightarrow> ('s, unit) app"

definition invalidate :: "query_key \<Rightarrow> ('s, unit) app" where
  "invalidate k = emit (Invalidated k)"

fun invalidate_all :: "query_key list \<Rightarrow> ('s, unit) app" where
  "invalidate_all [] = return ()"
| "invalidate_all (k # ks) = bind (invalidate k) (\<lambda>_. invalidate_all ks)"

definition mutate_async :: "'s mutation \<Rightarrow> jsval \<Rightarrow> ('s, jsval) app" where
  "mutate_async m v =
     bind (mu_fn m v) (\<lambda>r. bind (mu_success m r v) (\<lambda>_. return r))"

text \<open>The mutations that only invalidate fixed keys.\<close>

definition mutation_of :: "(jsval \<Rightarrow> ('s, jsval) app) \<Rightarrow> query_key list \<Rightarrow> 's mutation" where
  "mutation_of f ks = \<lparr>mu_fn = f, mu_success = (\<lambda>_ _. invalidate_all ks)\<rparr>"

abbreviation key :: "string list \<Rightarrow> query_key" where
  "key ks \<equiv> map jlit ks"

lemma invalidate_all_run [js_run]: "invalidate_all ks w = (Inr (), log_events (map Invalidated ks) w)"
  by (induction ks arbitrary: w) (simp_all add: return_def bind_def invalidate_def emit_run)

lemma mutate_async_fails:
  "mu_fn m v w = (Inl e, w') \<Longrightarrow> mutate_async m v w = (Inl e, w')"
  by (simp add: mutate_async_def bind_def)

lemma mutate_async_succeeds:
  "mu_fn m v w = (Inr r, w') \<Longrightarrow> mu_success m r v w' = (Inr (), w'') \<Longrightarrow> mutate_async m v w = (Inr r, w'')"
  by (simp add: mutate_async_def bind_def return_def)

lemma mutation_of_sel [simp]:
  "mu_fn (mutation_of f ks) = f" "mu_success (mutation_of f ks) r v = invalidate_all ks"
  by (simp_all add: mutation_of_def)

text \<open>A mutation of one request: its keys are invalidated where the server accepted it.\<close>

lemma mutate_async_request:
  assumes "f v w = (response_result (w_net w (sent w) rq), log_events [Sent rq] w)"
  shows "mutate_async (mutation_of f ks) v w =
     (case response_result (w_net w (sent w) rq) of
        Inl e \<Rightarrow> (Inl e, log_events [Sent rq] w)
      | Inr r \<Rightarrow> (Inr r, log_events (Sent rq # map Invalidated ks) w))"
  by (simp add: mutate_async_def assms bind_def return_def invalidate_all_run del: invalidate_all.simps
      split: sum.splits)

text \<open>
  The contract of an action that sends one request: where the server accepts it, the keys of the lists that
  show what changed are invalidated; where it does not, nothing but the request happens. The pages' actions
  satisfy it, and report how it went with one message.
\<close>

locale one_request =
  fixes act :: "'p \<Rightarrow> ('s, jsval) app"
    and rq :: "'p \<Rightarrow> httpreq"
    and ks :: "query_key list"
  assumes run: "act p w =
     (case response_result (w_net w (sent w) (rq p)) of
        Inl e \<Rightarrow> (Inl e, log_events [Sent (rq p)] w)
      | Inr r \<Rightarrow> (Inr r, log_events (Sent (rq p) # map Invalidated ks) w))"
begin

lemma no_more_sent: "concat (map (sent_of \<circ> Invalidated) ks) = []"
  by (induction ks) simp_all

lemma sends_one: "sent (snd (act p w)) = sent w @ [rq p]"
  by (simp add: run no_more_sent split: sum.splits)

lemma refreshes_on_success:
  "invalidated (snd (act p w)) = invalidated w @ (if succeeds (w_net w (sent w) (rq p)) then ks else [])"
proof -
  have "concat (map (invalidated_of \<circ> Invalidated) ks) = ks" by (induction ks) simp_all
  then show ?thesis by (simp add: run succeeds_def split: sum.splits)
qed

lemma reported:
  "try_catch (bind (act p) (\<lambda>_. emit (ToastOk good))) (\<lambda>_. emit (ToastError bad)) w =
     (Inr (), log_events (Sent (rq p) #
        (if succeeds (w_net w (sent w) (rq p)) then map Invalidated ks @ [ToastOk good] else [ToastError bad])) w)"
  by (simp add: try_catch_def bind_def run emit_run succeeds_def split: sum.splits)

end

text \<open>The cached queries that became stale between two worlds.\<close>

definition refreshes ::
    "(query_key \<Rightarrow> query_key \<Rightarrow> bool) \<Rightarrow> 's world_scheme \<Rightarrow> 's world_scheme \<Rightarrow> query_key \<Rightarrow> bool" where
  "refreshes matches w w' k \<longleftrightarrow>
     (\<exists>p \<in> set (drop (length (invalidated w)) (invalidated w')). matches p k)"

text \<open>The documented rule, on keys whose parts are compared as values.\<close>

fun key_prefix :: "query_key \<Rightarrow> query_key \<Rightarrow> bool" where
  "key_prefix [] k = True"
| "key_prefix (a # p) [] = False"
| "key_prefix (a # p) (b # k) = (a = b \<and> key_prefix p k)"

lemma key_prefix_append [simp]: "key_prefix p (p @ k)"
  by (induction p) simp_all

section \<open>What a program does to the outside\<close>

text \<open>
  \<open>footprint P n m\<close>: \<open>m\<close> only appends to the log, at most \<open>n\<close> events and each with \<open>P\<close>. The rules
  are in the collection \<open>frame\<close>.
\<close>

named_theorems frame "rules for the footprint of a program"

definition footprint :: "(event \<Rightarrow> bool) \<Rightarrow> nat \<Rightarrow> ('s, 'a) app \<Rightarrow> bool" where
  "footprint P n m \<longleftrightarrow> (\<forall>w. \<exists>es. snd (m w) = log_events es w \<and> list_all P es \<and> length es \<le> n)"

lemma footprint_return [frame]: "footprint P 0 (return a)"
  and footprint_throw [frame]: "footprint P 0 (throw e)"
  and footprint_lift_sum [frame]: "footprint P 0 (lift_sum r)"
  by (auto simp: footprint_def return_def throw_def lift_sum_def intro: exI [of _ "[]"])

lemma footprint_lift_uri [frame]: "footprint P 0 (lift_uri x)"
  by (cases x) (auto simp: lift_uri_def footprint_return footprint_throw)

lemma footprint_bind [frame]:
  fixes m :: "('s, 'a) app"
  assumes "footprint P a m" and "\<And>x. footprint P b (f x)"
  shows "footprint P (a + b) (bind m f)"
  unfolding footprint_def
proof
  fix w :: "'s world_scheme"
  obtain es where e: "snd (m w) = log_events es w" "list_all P es" "length es \<le> a"
    using assms(1) unfolding footprint_def by blast
  show "\<exists>es. snd (bind m f w) = log_events es w \<and> list_all P es \<and> length es \<le> a + b"
  proof (cases "fst (m w)")
    case (Inl x)
    with e show ?thesis by (cases "m w") (auto simp: bind_def)
  next
    case (Inr x)
    obtain ds where d: "snd (f x (snd (m w))) = log_events ds (snd (m w))" "list_all P ds" "length ds \<le> b"
      using assms(2) unfolding footprint_def by blast
    with e Inr show ?thesis
      by (cases "m w") (auto simp: bind_def intro!: exI [of _ "es @ ds"])
  qed
qed

lemma footprint_with_field [frame]:
  "(\<And>x. footprint P b (f x)) \<Longrightarrow> footprint P (0 + b) (with_field k v f)"
  unfolding with_field_def by (intro frame)

lemma footprint_with_query [frame]:
  "(\<And>x. footprint P b (f x)) \<Longrightarrow> footprint P (0 + b) (with_query ps f)"
  unfolding with_query_def by (intro frame)

lemma footprint_emit [frame]: "P e \<Longrightarrow> footprint P 1 (emit e)"
  by (auto simp: footprint_def emit_run log_event_def log_events_def intro!: exI [of _ "[e]"])

lemma footprint_le: "footprint P a m \<Longrightarrow> a \<le> b \<Longrightarrow> footprint P b m"
  unfolding footprint_def by (meson le_trans)

fun is_sent :: "event \<Rightarrow> bool" where
  "is_sent (Sent r) = True"
| "is_sent _ = False"

lemma sent_events: "list_all is_sent es \<Longrightarrow> concat (map invalidated_of es) = []"
proof (induction es)
  case (Cons e es)
  then show ?case by (cases e) auto
qed simp

lemma footprint_do_fetch [frame]: "footprint is_sent 1 (do_fetch r)"
  unfolding footprint_def
proof
  fix w :: "'s world_scheme"
  show "\<exists>es. snd (do_fetch r w) = log_events es w \<and> list_all is_sent es \<and> length es \<le> 1"
    by (rule exI [of _ "[Sent r]"]) (simp add: do_fetch_def log_event_def log_events_def split: reply.splits)
qed

lemma footprint_if [frame]:
  "footprint P a m \<Longrightarrow> footprint P b n \<Longrightarrow> footprint P (max a b) (if c then m else n)"
  by (auto intro: footprint_le)

lemma footprint_sent:
  assumes "footprint is_sent n m"
  shows "invalidated (snd (m w)) = invalidated w" and "length (sent (snd (m w))) \<le> length (sent w) + n"
    and "w_local (snd (m w)) = w_local w"
proof -
  obtain es where "snd (m w) = log_events es w" "list_all is_sent es" "length es \<le> n"
    using assms unfolding footprint_def by blast
  moreover from this(2) have "length (concat (map sent_of es)) = length es"
    by (induction es rule: list.induct) (auto elim: is_sent.elims)
  ultimately show "invalidated (snd (m w)) = invalidated w"
    "length (sent (snd (m w))) \<le> length (sent w) + n" "w_local (snd (m w)) = w_local w"
    by (simp_all add: sent_events)
qed

text \<open>
  Which of a list of named queries a program made stale, and what a mutation with fixed keys makes stale where its
  function invalidates nothing itself.
\<close>

definition refreshed ::
    "(query_key \<Rightarrow> query_key \<Rightarrow> bool) \<Rightarrow> 's world_scheme \<Rightarrow> 's world_scheme \<Rightarrow> (string \<times> 't query) list \<Rightarrow> string list" where
  "refreshed matches w w' queries = map fst (filter (\<lambda>(n, q). refreshes matches w w' (qu_key q)) queries)"

definition query_keys :: "(string \<times> 't query) list \<Rightarrow> (string \<times> query_key) list" where
  "query_keys queries = map (\<lambda>(n, q). (n, qu_key q)) queries"

lemma refreshed_keys:
  "invalidated w' = invalidated w @ ks \<Longrightarrow> refreshed matches w w' queries =
     map fst (filter (\<lambda>(n, k). list_ex (\<lambda>p. matches p k) ks) (query_keys queries))"
  by (induction queries) (auto simp: refreshed_def refreshes_def query_keys_def list_ex_iff)

lemma mutation_refreshes:
  assumes "invalidated (snd (f v w)) = invalidated w"
    and "map fst (filter (\<lambda>(n, k). list_ex (\<lambda>p. matches p k) ks) (query_keys queries)) = names"
  shows "refreshed matches w (snd (mutate_async (mutation_of f ks) v w)) queries =
    (case fst (mutate_async (mutation_of f ks) v w) of Inl e \<Rightarrow> [] | Inr r \<Rightarrow> names)"
proof (cases "f v w")
  case (Pair r w')
  with assms(1) have i: "invalidated w' = invalidated w" by simp
  have c: "concat (map (invalidated_of \<circ> Invalidated) ks) = ks" by (induction ks) simp_all
  show ?thesis
  proof (cases r)
    case (Inl e)
    with Pair i show ?thesis by (simp add: mutate_async_fails refreshed_def refreshes_def)
  next
    case (Inr a)
    with Pair have "mutate_async (mutation_of f ks) v w = (Inr a, log_events (map Invalidated ks) w')"
      by (intro mutate_async_succeeds) (simp_all add: invalidate_all_run)
    with assms(2) show ?thesis by (simp add: refreshed_keys [of _ w ks] i c)
  qed
qed

text \<open>The documented rule of the library, for keys made of texts: a key reaches every key it is a prefix of.\<close>

definition prefix_rule :: "(query_key \<Rightarrow> query_key \<Rightarrow> bool) \<Rightarrow> bool" where
  "prefix_rule matches \<longleftrightarrow> (\<forall>p k. matches (map JStr p) k = key_prefix (map JStr p) k)"

lemma prefix_rule1: "prefix_rule matches \<Longrightarrow> matches [JStr a] k = key_prefix [JStr a] k"
  unfolding prefix_rule_def by (metis list.simps(8,9))

lemma prefix_rule2: "prefix_rule matches \<Longrightarrow> matches [JStr a, JStr b] k = key_prefix [JStr a, JStr b] k"
  unfolding prefix_rule_def by (metis list.simps(8,9))

lemma prefix_rule3:
  "prefix_rule matches \<Longrightarrow> matches [JStr a, JStr b, JStr c] k = key_prefix [JStr a, JStr b, JStr c] k"
  unfolding prefix_rule_def by (metis list.simps(8,9))

lemma prefix_rule_key_prefix: "prefix_rule key_prefix"
  by (simp add: prefix_rule_def)

context http_service
begin

lemma footprint_call: "footprint is_sent 1 (call p opts)"
proof -
  have "\<exists>es. snd (call p opts w) = log_events es w \<and> list_all is_sent es \<and> length es \<le> 1" for w
    by (rule exI [of _ "[Sent (build w p opts)]"]) (simp add: run log_event_def log_events_def)
  then show ?thesis by (simp add: footprint_def)
qed

end

end
