(* ===== verification/View.thy ===== *)
theory View
  imports Query_Client
begin

text \<open>
  What a component shows. A view is the tree of elements a render returns: the component or tag,
  the attributes that carry meaning (a value, whether a control is disabled or active, a variant)
  and the children. Style classes are left out, and icons where they only decorate a text; an event
  handler is the definition of its own that models it, not part of the tree.
\<close>

datatype view =
    Txt jstr
  | El string "(string \<times> jstr) list" "view list"
  | Frag "view list"

abbreviation lit :: "string \<Rightarrow> view" where
  "lit s \<equiv> Txt (js s)"

definition nothing :: view where
  "nothing = Frag []"

definition only_if :: "bool \<Rightarrow> view \<Rightarrow> view" where
  "only_if b v = (if b then v else nothing)"

definition flag :: "string \<Rightarrow> bool \<Rightarrow> string \<times> jstr" where
  "flag k b = (k, if b then js ''true'' else js ''false'')"

text \<open>A value in braces: strings and numbers are shown, \<open>undefined\<close>, \<open>null\<close> and booleans are not.\<close>

fun show_val :: "jsval \<Rightarrow> view" where
  "show_val JUndef = Frag []"
| "show_val JNull = Frag []"
| "show_val (JBool b) = Frag []"
| "show_val v = Txt (to_str v)"

fun texts :: "view \<Rightarrow> jstr list" where
  "texts (Txt s) = [s]"
| "texts (El t as vs) = concat (map texts vs)"
| "texts (Frag vs) = concat (map texts vs)"

fun elements :: "view \<Rightarrow> (string \<times> (string \<times> jstr) list) list" where
  "elements (Txt s) = []"
| "elements (El t as vs) = (t, as) # concat (map elements vs)"
| "elements (Frag vs) = concat (map elements vs)"

text \<open>The attributes of the buttons of a view, in order.\<close>

fun buttons :: "view \<Rightarrow> (string \<times> jstr) list list" where
  "buttons (Txt s) = []"
| "buttons (El t as vs) = (if t = ''Button'' then [as] else []) @ concat (map buttons vs)"
| "buttons (Frag vs) = concat (map buttons vs)"

lemma concat_map_Nil [simp]: "concat (map (\<lambda>x. []) xs) = []"
  by (induction xs) simp_all

lemma buttons_show_val [simp]: "buttons (show_val v) = []"
  by (cases v) simp_all

lemma buttons_only_if [simp]: "buttons (only_if b v) = (if b then buttons v else [])"
  by (simp add: only_if_def nothing_def)

lemma texts_only_if [simp]: "texts (only_if b v) = (if b then texts v else [])"
  by (simp add: only_if_def nothing_def)

lemma elements_only_if [simp]: "elements (only_if b v) = (if b then elements v else [])"
  by (simp add: only_if_def nothing_def)

lemma texts_nothing [simp]: "texts nothing = []" "elements nothing = []"
  by (simp_all add: nothing_def)

end
