(* ===== verification/Shared_Views.thy ===== *)
theory Shared_Views
  imports View
begin

text \<open>
  \<open>components/shared\<close> of the console: the confirmation dialog, the statistics card, the skeleton page
  and the paginated table. The table library is a parameter: it says which columns can be sorted, how
  they are sorted, and whether its previous and next buttons are enabled.
\<close>

section \<open>Dialog, card and skeleton\<close>

record confirm_props =
  cf_trigger :: view
  cf_title :: jstr
  cf_description :: jstr
  cf_confirm :: "jstr option"
  cf_cancel :: "jstr option"
  cf_variant :: "string option"
  cf_disabled :: bool

text \<open>The colours of the confirm button are the one class that depends on a property.\<close>

definition confirm_class :: "string \<Rightarrow> string" where
  "confirm_class variant =
     (if variant = ''danger'' then ''bg-destructive text-white hover:bg-destructive/90''
      else if variant = ''warning'' then ''bg-orange-600 text-white hover:bg-orange-700''
      else '''')"

definition confirm_dialog :: "confirm_props \<Rightarrow> view" where
  "confirm_dialog p =
     (let confirmText = (case cf_confirm p of None \<Rightarrow> [0x786E, 0x8BA4] | Some t \<Rightarrow> t);
          cancelText = (case cf_cancel p of None \<Rightarrow> [0x53D6, 0x6D88] | Some t \<Rightarrow> t);
          variant = (case cf_variant p of None \<Rightarrow> ''danger'' | Some v \<Rightarrow> v)
      in El ''AlertDialog'' []
        [El ''AlertDialogTrigger'' [flag ''asChild'' True] [cf_trigger p],
         El ''AlertDialogContent'' []
           [El ''AlertDialogHeader'' []
              [El ''AlertDialogTitle'' [] [Txt (cf_title p)], El ''AlertDialogDescription'' [] [Txt (cf_description p)]],
            El ''AlertDialogFooter'' []
              [El ''AlertDialogCancel'' [] [Txt cancelText],
               El ''AlertDialogAction'' [(''onClick'', js ''onConfirm''), flag ''disabled'' (cf_disabled p), (''className'', js (confirm_class variant))] [Txt confirmText]]]])"

record stat_trend =
  tr_direction :: string
  tr_value :: jstr

record stat_props =
  sc_title :: jstr
  sc_value :: jsval
  sc_description :: "jstr option"
  sc_trend :: "stat_trend option"
  sc_loading :: bool

definition stat_card :: "stat_props \<Rightarrow> view" where
  "stat_card p =
     (if sc_loading p then
        El ''Card'' []
          [El ''CardHeader'' [] [El ''Skeleton'' [] [], El ''Skeleton'' [] []],
           El ''CardContent'' [] [El ''Skeleton'' [] [], El ''Skeleton'' [] []]]
      else
        let desc = (case sc_description p of None \<Rightarrow> [] | Some d \<Rightarrow> d) in
        El ''Card'' []
          [El ''CardHeader'' [] [El ''CardTitle'' [] [Txt (sc_title p)], El ''Icon'' [] []],
           El ''CardContent'' []
             [El ''div'' [] [show_val (sc_value p)],
              only_if (desc \<noteq> [] \<or> sc_trend p \<noteq> None)
                (El ''p'' []
                  [case sc_trend p of
                     None \<Rightarrow> nothing
                   | Some t \<Rightarrow> El ''span'' []
                       [El (if tr_direction t = ''up'' then ''TrendingUp''
                            else if tr_direction t = ''down'' then ''TrendingDown'' else ''Minus'') [] [],
                        Txt (tr_value t)],
                   Txt desc])]])"

definition skeleton_page :: view where
  "skeleton_page =
     El ''div'' []
       [El ''div'' [] [El ''Skeleton'' [] [], El ''Skeleton'' [] []],
        El ''div'' [] (replicate 4 (El ''Skeleton'' [] [])),
        El ''div'' [] (El ''Skeleton'' [] [] # replicate 5 (El ''Skeleton'' [] []))]"

section \<open>The paginated table\<close>

record pagination =
  pg_index :: int
  pg_size :: int

record 'r column =
  col_header :: view
  col_cell :: "'r \<Rightarrow> view"
  col_can_sort :: bool
  col_sorted :: "string option"

definition column :: "jstr \<Rightarrow> ('r \<Rightarrow> view) \<Rightarrow> 'r column" where
  "column h c = \<lparr>col_header = Txt h, col_cell = c, col_can_sort = True, col_sorted = None\<rparr>"

definition page_count :: "int \<Rightarrow> int \<Rightarrow> jsnum" where
  "page_count totalCount pageSize = math_ceil (num_div (num_int totalCount) (num_int pageSize))"

definition size_changed :: "jstr \<Rightarrow> jsnum \<times> jsnum" where
  "size_changed val = (num_int 0, string_to_number val)"

definition header_cell :: "'r column \<Rightarrow> view" where
  "header_cell c =
     El ''TableHead'' [flag ''sortable'' (col_can_sort c)]
       [El ''div'' [] [col_header c,
         only_if (col_can_sort c)
           (if col_sorted c = Some ''asc'' then El ''ArrowUp'' [] []
            else if col_sorted c = Some ''desc'' then El ''ArrowDown'' [] []
            else El ''ArrowUpDown'' [] [])]]"

definition data_table ::
    "'r column list \<Rightarrow> 'r list \<Rightarrow> int \<Rightarrow> pagination \<Rightarrow> bool \<Rightarrow> view \<Rightarrow> bool \<Rightarrow> bool \<Rightarrow> view" where
  "data_table columns rows totalCount p isLoading toolbar canPrev canNext =
     (let pageCount = page_count totalCount (pg_size p) in
      El ''div'' []
        [toolbar,
         El ''Table'' []
           [El ''TableHeader'' [] [El ''TableRow'' [] (map header_cell columns)],
            El ''TableBody'' []
              (if isLoading then
                 map (\<lambda>_. El ''TableRow'' [] (map (\<lambda>_. El ''TableCell'' [] [El ''Skeleton'' [] []]) columns))
                   [0..<nat (pg_size p)]
               else if rows \<noteq> [] then
                 map (\<lambda>row. El ''TableRow'' [] (map (\<lambda>c. El ''TableCell'' [] [col_cell c row]) columns)) rows
               else [El ''TableRow'' [] [El ''TableCell'' [(''colSpan'', show_dec (int (length columns)))]
                       [Txt [0x6682, 0x65E0, 0x6570, 0x636E]]]])],
         El ''div'' []
           [El ''span'' [] [Txt (([0x5171] @ js '' '')), Txt (show_int totalCount), Txt ((js '' '' @ [0x6761]))],
            El ''Select'' [(''value'', show_int (pg_size p))]
              (map (\<lambda>n. El ''SelectItem'' [(''value'', show_int n)] [Txt (show_int n @ (js '' '' @ [0x6761] @ js ''/'' @ [0x9875]))]) [10, 20, 50, 100])],
         El ''div'' []
           [El ''span'' [] [Txt (([0x7B2C] @ js '' '')), Txt (show_int (pg_index p + 1)), lit '' / '',
              show_val (js_or (JNum pageCount) (jint 1)), Txt ((js '' '' @ [0x9875]))],
            El ''Button'' [flag ''disabled'' (\<not> canPrev)] [El ''ChevronLeft'' [] []],
            El ''Button'' [flag ''disabled'' (\<not> canNext)] [El ''ChevronRight'' [] []]]])"

text \<open>
  C24: the table asks for neither too few pages nor too many: for any total up to \<open>2 ^ 50\<close> and page per
  up to 1000 the page count computed in doubles is the exact number of pages, so the pages together
  hold every row and the last page is not empty.
\<close>

theorem page_count_exact:
  assumes "0 \<le> rows_n" and "rows_n \<le> 2 ^ 50" and "1 \<le> per" and "per \<le> 1000"
  shows "\<exists>n. page_count rows_n per = num_int n \<and> rows_n \<le> n * per \<and> (0 < rows_n \<longrightarrow> (n - 1) * per < rows_n)"
proof -
  define q where "q = (of_int rows_n / of_int per :: rat)"
  have p: "1 \<le> (of_int per :: rat)" and t: "0 \<le> (of_int rows_n :: rat)" "of_int rows_n \<le> (2 ^ 50 :: rat)"
    using assms by (simp_all flip: of_int_le_iff)
  have q0: "0 \<le> q" "q \<le> 2 ^ 50"
    using p t by (simp_all add: q_def divide_le_eq mult_le_cancel_left1 order_trans [OF t(2)])
  have c: "page_count rows_n per = num_int \<lceil>fl q\<rceil>"
    using assms(3) to_num_bounded [of q] q0 by (simp add: page_count_def math_ceil_def q_def)
  have "\<lceil>fl q\<rceil> \<le> 2 ^ 50" "0 \<le> \<lceil>fl q\<rceil>"
    using fl_mono [OF q0(2)] fl_of_int [of "2 ^ 50"] fl_nonneg [OF q0(1)]
    by (simp_all add: ceiling_le_iff zero_le_ceiling)
  then show ?thesis
    using c ceiling_quotient_upper [OF assms] ceiling_quotient_lower [OF _ assms(3), of rows_n "\<lceil>fl q\<rceil>"]
    by (auto simp: q_def)
qed

theorem page_count_exact_witness:
  "\<exists>n. page_count 41 20 = num_int n \<and> 41 \<le> n * 20 \<and> (n - 1) * 20 < 41"
  using page_count_exact [of 41 20] by auto

end
