(* ===== verification/Js_Regex.thy ===== *)
theory Js_Regex
  imports Js_Text
begin

text \<open>
  The regular expressions of the applications, for \<open>test\<close> with both anchors: classes of code
  units, sequence, option and bounded repetition. A matcher gives every rest of the input it can
  leave, so the anchored test asks for the empty rest.
\<close>

datatype rx =
    RxUnit "unit16 \<Rightarrow> bool"
  | RxSeq rx rx
  | RxOpt rx
  | RxRep nat nat rx

fun reps :: "(jstr \<Rightarrow> jstr list) \<Rightarrow> nat \<Rightarrow> nat \<Rightarrow> jstr \<Rightarrow> jstr list" where
  "reps f m 0 s = (if m = 0 then [s] else [])"
| "reps f m (Suc n) s = concat (map (reps f (m - 1) n) (f s)) @ (if m = 0 then [s] else [])"

primrec rx_rest :: "rx \<Rightarrow> jstr \<Rightarrow> jstr list" where
  "rx_rest (RxUnit p) = (\<lambda>s. case s of [] \<Rightarrow> [] | u # us \<Rightarrow> if p u then [us] else [])"
| "rx_rest (RxSeq r q) = (\<lambda>s. concat (map (rx_rest q) (rx_rest r s)))"
| "rx_rest (RxOpt r) = (\<lambda>s. rx_rest r s @ [s])"
| "rx_rest (RxRep m n r) = reps (rx_rest r) m n"

definition rx_test :: "rx \<Rightarrow> jstr \<Rightarrow> bool" where
  "rx_test r s \<longleftrightarrow> [] \<in> set (rx_rest r s)"

abbreviation rx_char :: "char \<Rightarrow> rx" where
  "rx_char c \<equiv> RxUnit (\<lambda>u. u = cu c)"

abbreviation rx_digits :: "nat \<Rightarrow> nat \<Rightarrow> rx" where
  "rx_digits m n \<equiv> RxRep m n (RxUnit is_digit)"

lemma rx_unit: "t \<in> set (rx_rest (RxUnit p) s) \<longleftrightarrow> (\<exists>u. s = u # t \<and> p u)"
  by (auto split: list.splits)

lemma rx_seq: "t \<in> set (rx_rest (RxSeq r q) s) \<longleftrightarrow> (\<exists>v. v \<in> set (rx_rest r s) \<and> t \<in> set (rx_rest q v))"
  by auto

lemma rx_opt: "t \<in> set (rx_rest (RxOpt r) s) \<longleftrightarrow> t \<in> set (rx_rest r s) \<or> t = s"
  by auto

lemma rx_rep_exact:
  "t \<in> set (rx_rest (RxRep (Suc n) (Suc n) r) s) \<longleftrightarrow>
     (\<exists>v. v \<in> set (rx_rest r s) \<and> t \<in> set (rx_rest (RxRep n n r) v))"
  "t \<in> set (rx_rest (RxRep 0 0 r) s) \<longleftrightarrow> t = s"
  by auto

lemma rx_units:
  "t \<in> set (rx_rest (RxRep m n (RxUnit p)) s) \<longleftrightarrow>
     (\<exists>w. s = w @ t \<and> list_all p w \<and> m \<le> length w \<and> length w \<le> n)"
proof (induction n arbitrary: m s)
  case 0
  then show ?case by auto
next
  case (Suc n)
  have IH: "t \<in> set (reps (rx_rest (RxUnit p)) m n s) \<longleftrightarrow>
      (\<exists>w. s = w @ t \<and> list_all p w \<and> m \<le> length w \<and> length w \<le> n)" for m s
    using Suc.IH [of m s] by simp
  have "t \<in> set (rx_rest (RxRep m (Suc n) (RxUnit p)) s) \<longleftrightarrow>
      (\<exists>u v. s = u # v \<and> p u \<and> t \<in> set (reps (rx_rest (RxUnit p)) (m - 1) n v)) \<or> m = 0 \<and> t = s"
    by (cases s) (auto simp del: rx_rest.simps(1) simp: rx_rest.simps(1) split: if_splits)
  also have "\<dots> \<longleftrightarrow> (\<exists>w. s = w @ t \<and> list_all p w \<and> m \<le> length w \<and> length w \<le> Suc n)" (is "?l \<longleftrightarrow> ?r")
  proof
    assume ?l
    then consider u v where "s = u # v" "p u" "t \<in> set (reps (rx_rest (RxUnit p)) (m - 1) n v)" | "m = 0" "t = s"
      by blast
    then show ?r
    proof cases
      case 1
      then obtain w where "v = w @ t" "list_all p w" "m - 1 \<le> length w" "length w \<le> n"
        using IH by blast
      with 1 show ?thesis by (intro exI [of _ "u # w"]) auto
    qed simp
  next
    assume ?r
    then obtain w where w: "s = w @ t" "list_all p w" "m \<le> length w" "length w \<le> Suc n" by blast
    show ?l
    proof (cases w)
      case (Cons u v)
      with w have "t \<in> set (reps (rx_rest (RxUnit p)) (m - 1) n (v @ t))"
        unfolding IH by (intro exI [of _ v]) auto
      with w Cons show ?thesis by auto
    qed (use w in simp)
  qed
  finally show ?case .
qed

lemmas rx_sem = rx_seq rx_opt rx_rep_exact rx_units rx_unit

end
