(* ===== verification/Forms.thy ===== *)
theory Forms
  imports Shared_Views Js_Regex
begin

text \<open>
  What the forms and lists of the pages share: the schemas the forms are validated with, the message
  shown for a failed request, and rows read from an answer.

  The schemas are data. Validating a value with a schema is done by the schema library (\<open>zod\<close>) and the
  form library (\<open>react-hook-form\<close>): it is the argument \<open>parse\<close> of the definitions that submit a form,
  and \<open>schema_laws\<close> states what their documentation promises of it: a parsed value has no field the
  schema lacks, and every field of it passes its checks.
\<close>

section \<open>Schemas\<close>

datatype zcheck =
    CkPositive jstr
  | CkMin jsnum "jstr option"
  | CkMax jsnum "jstr option"
  | CkInt
  | CkLength nat jstr
  | CkEmail jstr
  | CkRegex rx jstr

datatype zod =
    ZString "zcheck list"
  | ZNumber "zcheck list"
  | ZCoerce "zcheck list"
  | ZBoolean
  | ZLit jstr
  | ZOptional zod
  | ZDefault zod jsval
  | ZArray "(string \<times> zod) list"

type_synonym schema = "(string \<times> zod) list"

text \<open>What a check of the library promises of a value that passed it; nothing is said of addresses.\<close>

fun passes :: "zcheck \<Rightarrow> jsval \<Rightarrow> bool" where
  "passes (CkPositive m) (JNum n) = num_lt (Fin 0) n"
| "passes (CkMin lo m) (JNum n) = num_le lo n"
| "passes (CkMax hi m) (JNum n) = num_le n hi"
| "passes CkInt (JNum n) = (case n of Fin x \<Rightarrow> x = of_int \<lfloor>x\<rfloor> | _ \<Rightarrow> False)"
| "passes (CkLength k m) (JStr s) = (k \<le> length s)"
| "passes (CkEmail m) (JStr s) = True"
| "passes (CkRegex r m) (JStr s) = rx_test r s"
| "passes _ _ = False"

fun finite_num :: "jsval \<Rightarrow> bool" where
  "finite_num (JNum (Fin x)) = True"
| "finite_num _ = False"

lemma finite_numE: "finite_num v \<Longrightarrow> (\<And>x. v = JNum (Fin x) \<Longrightarrow> P) \<Longrightarrow> P"
  by (cases v rule: finite_num.cases) auto

fun admits :: "zod \<Rightarrow> jsval \<Rightarrow> bool" where
  "admits (ZString cs) v = (conforms ShStr v \<and> list_all (\<lambda>c. passes c v) cs)"
| "admits (ZNumber cs) v = (finite_num v \<and> list_all (\<lambda>c. passes c v) cs)"
| "admits (ZCoerce cs) v = (finite_num v \<and> list_all (\<lambda>c. passes c v) cs)"
| "admits ZBoolean v = conforms ShBool v"
| "admits (ZLit l) v = (v = JStr l)"
| "admits (ZOptional z) v = (v = JUndef \<or> admits z v)"
| "admits (ZDefault z d) v = (v = d \<or> admits z v)"
| "admits (ZArray fs) v = (case v of JArr vs \<Rightarrow> True | _ \<Rightarrow> False)"

type_synonym form_errors = "(jstr \<times> jstr) list"
type_synonym parser_fn = "schema \<Rightarrow> jsval \<Rightarrow> form_errors + jsval"

definition value_at :: "(jstr \<times> jsval) list \<Rightarrow> string \<Rightarrow> jsval" where
  "value_at kvs k = (case map_of kvs (js k) of Some u \<Rightarrow> u | None \<Rightarrow> JUndef)"

definition meets :: "schema \<Rightarrow> (jstr \<times> jsval) list \<Rightarrow> bool" where
  "meets fs kvs \<longleftrightarrow>
     set (map fst kvs) \<subseteq> set (map (js \<circ> fst) fs) \<and> list_all (\<lambda>(k, z). admits z (value_at kvs k)) fs"

definition schema_laws :: "parser_fn \<Rightarrow> bool" where
  "schema_laws parse \<longleftrightarrow> (\<forall>fs v d. parse fs v = Inr d \<longrightarrow> (\<exists>kvs. d = JObj kvs \<and> meets fs kvs))"

lemma schema_lawsD:
  assumes "schema_laws parse" and "parse fs v = Inr d"
  obtains kvs where "d = JObj kvs" and "meets fs kvs"
  using assms unfolding schema_laws_def by blast

text \<open>
  A second promise: a text, a number, a boolean or a literal that is accepted is handed on as it was
  given. A coerced value or one with a default need not be.
\<close>

fun unchanged :: "zod \<Rightarrow> bool" where
  "unchanged (ZOptional z) = unchanged z"
| "unchanged (ZCoerce cs) = False"
| "unchanged (ZDefault z d) = False"
| "unchanged (ZArray fs) = False"
| "unchanged _ = True"

definition schema_keeps :: "parser_fn \<Rightarrow> bool" where
  "schema_keeps parse \<longleftrightarrow> (\<forall>fs vs kvs. parse fs (JObj vs) = Inr (JObj kvs) \<longrightarrow>
     list_all (\<lambda>(k, z). unchanged z \<longrightarrow> value_at kvs k = value_at vs k) fs)"

lemma schema_keepsD:
  "schema_keeps parse \<Longrightarrow> parse fs (JObj vs) = Inr (JObj kvs) \<Longrightarrow> (k, z) \<in> set fs \<Longrightarrow> unchanged z \<Longrightarrow>
     value_at kvs k = value_at vs k"
  unfolding schema_keeps_def list_all_iff by blast

text \<open>What an admitted value is.\<close>

lemma admits_number: "admits (ZNumber cs) (value_at kvs k) \<Longrightarrow> \<exists>x. map_of kvs (js k) = Some (JNum (Fin x))"
  by (auto simp: value_at_def elim!: finite_numE split: option.splits)

lemma admits_string: "admits (ZString cs) (value_at kvs k) \<Longrightarrow> \<exists>s. map_of kvs (js k) = Some (JStr s)"
  by (auto simp: value_at_def split: option.splits jsval.splits)

lemma value_at_Some [simp]: "map_of kvs (js k) = Some v \<Longrightarrow> value_at kvs k = v"
  by (simp add: value_at_def)

lemma absent_field: "set (map fst kvs) \<subseteq> S \<Longrightarrow> k \<notin> S \<Longrightarrow> map_of kvs k = None"
  by (auto simp: map_of_eq_None_iff)

text \<open>\<open>handleSubmit(onValid)\<close>: the parsed values go to the handler, errors stay in the form.\<close>

definition submit_form ::
    "parser_fn \<Rightarrow> schema \<Rightarrow> jsval \<Rightarrow> (form_errors \<Rightarrow> ('s, unit) app) \<Rightarrow> (jsval \<Rightarrow> ('s, unit) app) \<Rightarrow> ('s, unit) app" where
  "submit_form parse sch values onErrors onValid =
     (case parse sch values of Inl es \<Rightarrow> onErrors es | Inr d \<Rightarrow> onValid d)"

text \<open>A parser that accepts a value as it is: for examples.\<close>

definition accept_all :: parser_fn where
  "accept_all fs v =
     (case v of
        JObj kvs \<Rightarrow>
          let keep = filter (\<lambda>(k, u). k \<in> set (map (js \<circ> fst) fs)) kvs in
          if list_all (\<lambda>(k, z). admits z (value_at keep k)) fs then Inr (JObj keep) else Inl []
      | _ \<Rightarrow> Inl [])"

lemma accept_all_laws: "schema_laws accept_all"
  unfolding schema_laws_def accept_all_def meets_def
  by (auto simp: Let_def list_all_iff intro: rev_image_eqI split: jsval.splits if_splits)

lemma map_of_kept: "map_of (filter (\<lambda>(k, u). k \<in> S) kvs) x = (if x \<in> S then map_of kvs x else None)"
  by (induction kvs) auto

lemma accept_all_keeps: "schema_keeps accept_all"
proof -
  have "value_at (filter (\<lambda>(k, u). k \<in> set (map (js \<circ> fst) fs)) vs) k = value_at vs k"
    if "(k, z) \<in> set fs" for fs :: schema and vs k z
  proof -
    have "js k \<in> set (map (js \<circ> fst) fs)" using that by force
    then show ?thesis by (simp add: value_at_def map_of_kept)
  qed
  then show ?thesis
    unfolding schema_keeps_def accept_all_def list_all_iff by (auto simp: Let_def split: if_splits)
qed

section \<open>Messages and rows\<close>

text \<open>\<open>toast.error(err?.message || fallback)\<close>\<close>

definition toast_failure :: "jstr \<Rightarrow> jsval \<Rightarrow> ('s, unit) app" where
  "toast_failure fallback err =
     emit (ToastError (to_str (js_or (opt_get ''message'' err) (JStr fallback))))"

text \<open>The callback of a \<open>map\<close> over an answer: it reads the fields of each element.\<close>

definition row_of :: "(jsval \<Rightarrow> 'r) \<Rightarrow> jsval \<Rightarrow> jsval + 'r" where
  "row_of f v = (if nullish v then Inl type_error else Inr (f v))"

definition rows_of :: "(jsval \<Rightarrow> 'r) \<Rightarrow> jsval \<Rightarrow> jsval + 'r list" where
  "rows_of f v = sbind (as_array v) (smap (row_of f))"

lemma rows_of_array:
  "\<forall>v \<in> set vs. \<not> nullish v \<Longrightarrow> rows_of f (JArr vs) = Inr (map f vs)"
  unfolding rows_of_def as_array_def by (simp add: row_of_def smap_Inr)

lemma rows_of_length: "rows_of f (JArr vs) = Inr rs \<Longrightarrow> length rs = length vs"
  by (auto simp: rows_of_def as_array_def smap_eq_Inr dest: list_all2_lengthD)

section \<open>Parts of a form\<close>

text \<open>The message of a field, and a labelled input with it.\<close>

definition field_error :: "form_errors \<Rightarrow> string \<Rightarrow> view" where
  "field_error es k =
     (case map_of es (js k) of None \<Rightarrow> nothing | Some m \<Rightarrow> El ''p'' [] [Txt m])"

definition input_field :: "form_errors \<Rightarrow> string \<Rightarrow> jstr \<Rightarrow> (string \<times> jstr) list \<Rightarrow> view" where
  "input_field es k label as =
     El ''div'' [] [El ''Label'' [] [Txt label], El ''Input'' ((''id'', js k) # as) [], field_error es k]"

definition button :: "jstr \<Rightarrow> string \<Rightarrow> bool \<Rightarrow> view" where
  "button label action disabled =
     El ''Button'' [(''onClick'', js action), flag ''disabled'' disabled] [Txt label]"

section \<open>Parts of a page\<close>

text \<open>A choice, a column that is not sorted, a card with a number, and a badge from a table of labels.\<close>

definition select_of :: "jstr \<Rightarrow> jstr \<Rightarrow> (jstr \<times> jstr) list \<Rightarrow> view" where
  "select_of v placeholder options =
     El ''Select'' [(''value'', v), (''placeholder'', placeholder)]
       (map (\<lambda>(k, label). El ''SelectItem'' [(''value'', k)] [Txt label]) options)"

definition label_table :: "(string \<times> jstr) list \<Rightarrow> (jstr \<times> jsval) list" where
  "label_table t = map (\<lambda>(k, l). (js k, obj [(''label'', JStr l)])) t"

definition label_badge :: "(jstr \<times> jsval) list \<Rightarrow> jsval \<Rightarrow> view" where
  "label_badge t status =
     (let s = js_coalesce (table_get t (to_str status)) (obj [(''label'', status)])
      in El ''Badge'' [(''variant'', js ''outline'')] [show_val (opt_get ''label'' s)])"

definition no_sort :: "'r column \<Rightarrow> 'r column" where
  "no_sort c = c\<lparr>col_can_sort := False\<rparr>"

definition stat_of :: "jstr \<Rightarrow> jsval \<Rightarrow> view" where
  "stat_of title v =
     stat_card \<lparr>sc_title = title, sc_value = v, sc_description = None, sc_trend = None, sc_loading = False\<rparr>"

end
