(* ===== verification/Admin_Types.thy ===== *)
theory Admin_Types
  imports Js_Value
begin

text \<open>
  The interfaces \<open>admin/src/lib/api/client.ts\<close> declares, as runtime shapes. The type
  checker erases them, so a value of the declared type is one that conforms.
\<close>

definition Admin_LoginParams :: shape where
  "Admin_LoginParams = ShObj [req ''email'' ShStr, req ''password'' ShStr]"

definition Admin_LoginResponse :: shape where
  "Admin_LoginResponse = ShObj [req ''message'' ShStr, req ''expires_at'' ShStr]"

definition Admin_User :: shape where
  "Admin_User = ShObj [req ''id'' ShNum, req ''username'' ShStr, req ''email'' ShStr,
     req ''role'' ShStr, req ''status'' ShStr, req ''balance'' ShNum, req ''credit_limit'' ShNum,
     req ''max_concurrent'' ShNum, req ''daily_limit'' ShNum, req ''created_at'' ShStr,
     req ''updated_at'' ShStr]"

definition Admin_ListUsersParams :: shape where
  "Admin_ListUsersParams = ShObj [req ''page'' ShNum, req ''limit'' ShNum, opt ''search'' ShStr,
     opt ''status'' ShStr]"

definition Admin_ListUsersResponse :: shape where
  "Admin_ListUsersResponse = ShObj [req ''users'' (ShArr Admin_User), req ''total'' ShNum,
     req ''page'' ShNum, req ''limit'' ShNum]"

definition Admin_Alert :: shape where
  "Admin_Alert = ShObj [
     req ''type'' (ShLit [js ''bridge_rate_low'', js ''balance_low'', js ''gateway_down'',
       js ''wastage_high'']),
     req ''message'' ShStr, req ''severity'' (ShLit [js ''warning'', js ''critical''])]"

definition Admin_OverviewResponse :: shape where
  "Admin_OverviewResponse = ShObj [req ''concurrent_calls'' ShNum, req ''today_revenue'' ShNum,
     req ''today_wastage'' ShNum, req ''bridge_success_rate'' ShNum,
     req ''alerts'' (ShArr Admin_Alert)]"

definition Admin_CustomerDetail :: shape where
  "Admin_CustomerDetail = ShObj [req ''id'' ShNum, req ''username'' ShStr, req ''email'' ShStr,
     req ''role'' ShStr, req ''status'' ShStr, req ''balance'' ShNum, req ''credit_limit'' ShNum,
     req ''max_concurrent'' ShNum, req ''daily_limit'' ShNum,
     req ''rate_plan_id'' (ShOr ShNum ShNull), req ''a_leg_rate'' (ShOr ShNum ShNull),
     req ''b_leg_rate'' (ShOr ShNum ShNull), req ''webhook_url'' ShStr, req ''created_at'' ShStr,
     req ''updated_at'' ShStr]"

definition Admin_CreateUserParams :: shape where
  "Admin_CreateUserParams = ShObj [req ''username'' ShStr, req ''email'' ShStr,
     req ''password'' ShStr, opt ''credit_limit'' ShNum, opt ''max_concurrent'' ShNum,
     opt ''daily_limit'' ShNum, opt ''rate_plan_id'' (ShOr ShNum ShNull),
     opt ''a_leg_rate'' (ShOr ShNum ShNull), opt ''b_leg_rate'' (ShOr ShNum ShNull),
     opt ''webhook_url'' ShStr]"

definition Admin_Gateway :: shape where
  "Admin_Gateway = ShObj [req ''id'' ShNum, req ''name'' ShStr, req ''type'' ShStr,
     req ''host'' ShStr, req ''port'' ShNum, req ''enabled'' ShBool, req ''weight'' ShNum,
     req ''max_concurrent'' ShNum, req ''health_status'' ShStr, req ''created_at'' ShStr]"

definition Admin_CreateGatewayParams :: shape where
  "Admin_CreateGatewayParams = ShObj [req ''name'' ShStr, req ''type'' ShStr, req ''host'' ShStr,
     req ''port'' ShNum, req ''weight'' ShNum, req ''max_concurrent'' ShNum,
     req ''enabled'' ShBool]"

definition Admin_TestOriginateResult :: shape where
  "Admin_TestOriginateResult = ShObj [req ''success'' ShBool, req ''message'' ShStr,
     req ''duration_ms'' ShNum]"

definition Admin_CDR :: shape where
  "Admin_CDR = ShObj [req ''call_id'' ShStr, req ''user_id'' ShNum, req ''a_number'' ShStr,
     req ''b_number'' ShStr, req ''status'' ShStr, req ''bridge_duration_ms'' ShNum,
     req ''total_cost'' ShNum, opt ''failure_reason'' ShStr, req ''created_at'' ShStr,
     req ''caller'' ShStr, req ''callee'' ShStr, req ''duration'' ShNum, req ''cost'' ShNum]"

definition Admin_Transaction :: shape where
  "Admin_Transaction = ShObj [req ''id'' ShNum, req ''user_id'' ShNum, req ''type'' ShStr,
     req ''amount'' ShNum, req ''balance_after'' ShNum, req ''description'' ShStr,
     req ''created_at'' ShStr]"

definition Admin_RatePlan :: shape where
  "Admin_RatePlan = ShObj [req ''id'' ShNum, req ''name'' ShStr, req ''mode'' ShStr,
     req ''uniform_a_rate'' ShNum, req ''uniform_b_rate'' ShNum, opt ''description'' ShStr,
     req ''created_at'' ShStr, req ''updated_at'' ShStr]"

definition Admin_DIDNumber :: shape where
  "Admin_DIDNumber = ShObj [req ''id'' ShNum, req ''number'' ShStr, req ''status'' ShStr,
     opt ''assigned_user_id'' (ShOr ShNum ShNull), req ''created_at'' ShStr]"

definition Admin_BlacklistEntry :: shape where
  "Admin_BlacklistEntry = ShObj [req ''id'' ShNum, req ''number'' ShStr,
     req ''user_id'' (ShOr ShNum ShNull), req ''reason'' ShStr, req ''created_by'' ShNum]"

definition Admin_AuditLog :: shape where
  "Admin_AuditLog = ShObj [req ''id'' ShNum, req ''action'' ShStr, req ''actor_id'' ShNum,
     opt ''actor_name'' ShStr, req ''target_type'' ShStr, req ''target_id'' ShStr,
     req ''details'' ShStr, opt ''ip_address'' ShStr, req ''created_at'' ShStr]"

definition Admin_PaginatedParams :: shape where
  "Admin_PaginatedParams = ShObj [req ''page'' ShNum, req ''limit'' ShNum]"

lemmas admin_shapes =
  Admin_LoginParams_def Admin_LoginResponse_def Admin_User_def Admin_ListUsersParams_def
  Admin_ListUsersResponse_def Admin_Alert_def Admin_OverviewResponse_def Admin_CustomerDetail_def
  Admin_CreateUserParams_def Admin_Gateway_def Admin_CreateGatewayParams_def
  Admin_TestOriginateResult_def Admin_CDR_def Admin_Transaction_def Admin_RatePlan_def
  Admin_DIDNumber_def Admin_BlacklistEntry_def Admin_AuditLog_def Admin_PaginatedParams_def

end
