(* ===== verification/Admin_Client.thy ===== *)
theory Admin_Client
  imports Query_Client Admin_Types
begin

text \<open>
  \<open>admin/src/lib/api/client.ts\<close>: \<open>request\<close> and the methods of the five services, in the order of
  the file. A method takes its parameter object and runs in the world; the value it resolves to
  is whatever the server sent, so no shape is assumed of it.
\<close>

section \<open>\<open>request\<close>\<close>

definition admin_build :: "'s world_scheme \<Rightarrow> jstr \<Rightarrow> options \<Rightarrow> httpreq" where
  "admin_build w path opts =
     \<lparr>rq_url = path,
      rq_method = (case o_method opts of None \<Rightarrow> js ''GET'' | Some m \<Rightarrow> m),
      rq_headers = spread [(js ''Content-Type'', js ''application/json'')] (o_headers opts),
      rq_body = o_body opts,
      rq_credentials = js ''include''\<rparr>"

definition admin_request :: "jstr \<Rightarrow> options \<Rightarrow> ('s, jsval) app" where
  "admin_request path opts = (\<lambda>w.
     bind (do_fetch (admin_build w path opts)) (\<lambda>resp.
       if \<not> resp_ok resp then
         bind (try_catch (lift_sum (rs_json resp))
                (\<lambda>_. return (obj [(''code'', jlit ''UNKNOWN''),
                                  (''message'', JStr (rs_status_text resp))])))
           throw
       else if rs_status resp = 204 then return JUndef
       else lift_sum (rs_json resp)) w)"

interpretation admin_http: http_service admin_build admin_request
  by unfold_locales
    (auto simp: admin_request_def admin_build_def bind_def do_fetch_def response_result_def
      error_body_def try_catch_def lift_sum_def return_def throw_def split: reply.splits sum.splits)

text \<open>The request does not depend on the world.\<close>

definition admin_rq :: "jstr \<Rightarrow> options \<Rightarrow> httpreq" where
  "admin_rq p os = admin_build (world_of (\<lambda>_ _. Unreachable JNull)) p os"

lemma admin_request_run:
  "admin_request p os w =
     (response_result (w_net w (sent w) (admin_rq p os)), log_events [Sent (admin_rq p os)] w)"
proof -
  have "admin_build w p os = admin_rq p os" by (simp add: admin_rq_def admin_build_def)
  then show ?thesis by (simp add: admin_http.run log_event_as_events)
qed

section \<open>\<open>AuthService\<close>\<close>

definition admin_Login :: "jsval \<Rightarrow> ('s, jsval) app" where
  "admin_Login params =
     bind (do_fetch \<lparr>rq_url = js ''/api/auth/admin/login'', rq_method = js ''POST'',
             rq_headers = [(js ''Content-Type'', js ''application/json'')],
             rq_body = json_stringify params, rq_credentials = js ''include''\<rparr>) (\<lambda>resp.
       if \<not> resp_ok resp then bind (lift_sum (rs_json resp)) throw
       else lift_sum (rs_json resp))"

definition admin_Me :: "('s, jsval) app" where
  "admin_Me = admin_request (js ''/api/auth/me'') no_options"

definition admin_ListUsers :: "jsval \<Rightarrow> ('s, jsval) app" where
  "admin_ListUsers params =
     with_query (own_fields params) (\<lambda>q.
       admin_request (js ''/api/auth/admin/users'' @ q) no_options)"

definition admin_GetUser :: "jsval \<Rightarrow> ('s, jsval) app" where
  "admin_GetUser params = with_field ''user_id'' params (\<lambda>u.
     admin_request (js ''/api/auth/admin/users/'' @ to_str u) no_options)"

definition admin_CreateUser :: "jsval \<Rightarrow> ('s, jsval) app" where
  "admin_CreateUser params = admin_request (js ''/api/auth/admin/users'') (with_json ''POST'' params)"

definition admin_FreezeUser :: "jsval \<Rightarrow> ('s, jsval) app" where
  "admin_FreezeUser params = with_field ''user_id'' params (\<lambda>u.
     admin_request (js ''/api/auth/admin/users/'' @ to_str u @ js ''/freeze'') (with_method ''POST''))"

definition admin_UnfreezeUser :: "jsval \<Rightarrow> ('s, jsval) app" where
  "admin_UnfreezeUser params = with_field ''user_id'' params (\<lambda>u.
     admin_request (js ''/api/auth/admin/users/'' @ to_str u @ js ''/unfreeze'') (with_method ''POST''))"

definition admin_RegenerateApiKey :: "jsval \<Rightarrow> ('s, jsval) app" where
  "admin_RegenerateApiKey params =
     admin_request (js ''/api/auth/api-keys'') (with_json ''POST'' (JObj []))"

section \<open>\<open>BillingService\<close>\<close>

definition admin_GetOverview :: "('s, jsval) app" where
  "admin_GetOverview =
     return (obj [(''concurrent_calls'', jint 0), (''today_revenue'', jint 0),
       (''today_wastage'', jint 0), (''bridge_success_rate'', jint 100), (''alerts'', JArr [])])"

definition admin_TopUp :: "jsval \<Rightarrow> ('s, jsval) app" where
  "admin_TopUp params = with_field ''user_id'' params (\<lambda>u. with_field ''amount'' params (\<lambda>a.
     admin_request (js ''/api/billing/accounts/'' @ to_str u @ js ''/topup'')
       (with_json ''POST'' (obj [(''amount'', a)]))))"

definition admin_Deduct :: "jsval \<Rightarrow> ('s, jsval) app" where
  "admin_Deduct params =
     with_field ''user_id'' params (\<lambda>u. with_field ''amount'' params (\<lambda>a.
     with_field ''reason'' params (\<lambda>r.
     admin_request (js ''/api/billing/accounts/'' @ to_str u @ js ''/deduct'')
       (with_json ''POST'' (obj [(''amount'', a), (''reason'', r)])))))"

definition admin_ListTransactions :: "jsval \<Rightarrow> ('s, jsval) app" where
  "admin_ListTransactions params =
     with_field ''user_id'' params (\<lambda>u. with_field ''page'' params (\<lambda>p.
     with_field ''limit'' params (\<lambda>l.
     with_query [(js ''page'', p), (js ''page_size'', l)] (\<lambda>q.
     admin_request (js ''/api/billing/accounts/'' @ to_str (js_or u (jlit ''0'')) @
       js ''/transactions'' @ q) no_options))))"

definition admin_ListRatePlans :: "('s, jsval) app" where
  "admin_ListRatePlans = admin_request (js ''/api/billing/rate-plans'') no_options"

definition admin_CreateRatePlan :: "jsval \<Rightarrow> ('s, jsval) app" where
  "admin_CreateRatePlan params =
     admin_request (js ''/api/billing/rate-plans'') (with_json ''POST'' params)"

section \<open>\<open>RoutingService\<close>\<close>

definition admin_ListGateways :: "('s, jsval) app" where
  "admin_ListGateways = admin_request (js ''/api/routing/gateways'') no_options"

definition admin_ToggleGateway :: "jsval \<Rightarrow> ('s, jsval) app" where
  "admin_ToggleGateway params =
     with_field ''gateway_id'' params (\<lambda>g. with_field ''enabled'' params (\<lambda>e.
     admin_request (js ''/api/routing/gateways/'' @ to_str g @ js ''/toggle'')
       (with_json ''POST'' (obj [(''enabled'', e)]))))"

definition admin_ListDIDs :: "jsval \<Rightarrow> ('s, jsval) app" where
  "admin_ListDIDs params =
     with_field ''page'' params (\<lambda>p. with_field ''limit'' params (\<lambda>l.
     with_query [(js ''page'', p), (js ''page_size'', l)] (\<lambda>q.
     bind (admin_request (js ''/api/routing/dids'' @ q) no_options) (\<lambda>resp.
     with_field ''dids'' resp (\<lambda>ds. with_field ''total_count'' resp (\<lambda>t.
     return (obj [(''dids'', js_or ds (JArr [])), (''total'', js_or t (jint 0))])))))))"

definition admin_ImportDIDs :: "jsval \<Rightarrow> ('s, jsval) app" where
  "admin_ImportDIDs params = admin_request (js ''/api/routing/did-import'') (with_json ''POST'' params)"

definition admin_HealthCheck :: "('s, jsval) app" where
  "admin_HealthCheck = admin_request (js ''/api/routing/health-check'') (with_method ''POST'')"

definition admin_CreateGateway :: "jsval \<Rightarrow> ('s, jsval) app" where
  "admin_CreateGateway params = admin_request (js ''/api/routing/gateways'') (with_json ''POST'' params)"

text \<open>\<open>const { gateway_id, ...body } = params\<close>\<close>

definition admin_UpdateGateway :: "jsval \<Rightarrow> ('s, jsval) app" where
  "admin_UpdateGateway params = with_field ''gateway_id'' params (\<lambda>g.
     admin_request (js ''/api/routing/gateways/'' @ to_str g)
       (with_json ''PUT'' (JObj (filter (\<lambda>(k, v). k \<noteq> js ''gateway_id'') (own_fields params)))))"

definition admin_TestOriginate :: "jsval \<Rightarrow> ('s, jsval) app" where
  "admin_TestOriginate params =
     return (obj [(''success'', JBool False),
       (''message'', jlit ''Test originate not yet implemented''), (''duration_ms'', jint 0)])"

section \<open>\<open>CallbackService\<close>\<close>

text \<open>The callback of the two \<open>map\<close> calls: the computed fields of a call record.\<close>

definition admin_cdr_row :: "jsval \<Rightarrow> jsval + jsval" where
  "admin_cdr_row item =
     sbind (get ''a_number'' item) (\<lambda>a. sbind (get ''b_number'' item) (\<lambda>b.
     sbind (get ''bridge_duration_ms'' item) (\<lambda>d. sbind (get ''total_cost'' item) (\<lambda>c.
     Inr (JObj (spread (own_fields item)
       [(js ''caller'', a), (js ''callee'', b),
        (js ''duration'', JNum (math_round (num_div (to_number d) (num_int 1000)))),
        (js ''cost'', JNum (num_div (to_number c) (num_int 100)))]))))))"

definition admin_ListCDRs :: "jsval \<Rightarrow> ('s, jsval) app" where
  "admin_ListCDRs params =
     with_field ''page'' params (\<lambda>p. with_field ''limit'' params (\<lambda>l.
     with_field ''start_date'' params (\<lambda>sd. with_field ''end_date'' params (\<lambda>ed.
     with_field ''status'' params (\<lambda>st.
     with_query [(js ''page'', p), (js ''page_size'', l), (js ''date_from'', sd),
                 (js ''date_to'', ed), (js ''status'', st)] (\<lambda>q.
     bind (admin_request (js ''/api/callbacks'' @ q) no_options) (\<lambda>resp.
     with_field ''items'' resp (\<lambda>items.
     bind (lift_sum (as_array (js_or items (JArr [])))) (\<lambda>vs.
     bind (lift_sum (smap admin_cdr_row vs)) (\<lambda>cdrs.
     with_field ''total'' resp (\<lambda>t.
     return (obj [(''cdrs'', JArr cdrs), (''total'', js_or t (jint 0))]))))))))))))"

definition admin_ListActiveCalls :: "('s, jsval) app" where
  "admin_ListActiveCalls =
     with_query [(js ''page'', jint 1), (js ''page_size'', jint 100), (js ''status'', jlit ''in_progress'')] (\<lambda>q.
     bind (admin_request (js ''/api/callbacks'' @ q) no_options) (\<lambda>resp.
     with_field ''items'' resp (\<lambda>items.
     bind (lift_sum (as_array (js_or items (JArr [])))) (\<lambda>vs.
     bind (lift_sum (smap admin_cdr_row vs)) (\<lambda>calls.
     return (obj [(''calls'', JArr calls)]))))))"

definition admin_HangupCall :: "jsval \<Rightarrow> ('s, jsval) app" where
  "admin_HangupCall params = with_field ''call_id'' params (\<lambda>c.
     admin_request (js ''/api/callbacks/'' @ to_str c @ js ''/hangup'') (with_method ''POST''))"

section \<open>\<open>ComplianceService\<close>\<close>

definition admin_ListBlacklist :: "jsval \<Rightarrow> ('s, jsval) app" where
  "admin_ListBlacklist params =
     with_query (own_fields params) (\<lambda>q.
       admin_request (js ''/api/compliance/blacklist'' @ q) no_options)"

definition admin_AddBlacklist :: "jsval \<Rightarrow> ('s, jsval) app" where
  "admin_AddBlacklist params =
     admin_request (js ''/api/compliance/blacklist'') (with_json ''POST'' params)"

definition admin_RemoveBlacklist :: "jsval \<Rightarrow> ('s, jsval) app" where
  "admin_RemoveBlacklist params = with_field ''id'' params (\<lambda>i.
     admin_request (js ''/api/compliance/blacklist/'' @ to_str i) (with_method ''DELETE''))"

definition admin_ListAuditLogs :: "jsval \<Rightarrow> ('s, jsval) app" where
  "admin_ListAuditLogs params =
     with_query (own_fields params) (\<lambda>q.
       admin_request (js ''/api/compliance/audit-logs'' @ q) no_options)"

section \<open>Call records\<close>

text \<open>What the server sends for a call: the declared record without its computed fields.\<close>

definition Admin_CDR_item :: shape where
  "Admin_CDR_item = ShObj [req ''call_id'' ShStr, req ''user_id'' ShNum, req ''a_number'' ShStr,
     req ''b_number'' ShStr, req ''status'' ShStr, req ''bridge_duration_ms'' ShNum,
     req ''total_cost'' ShNum, opt ''failure_reason'' ShStr, req ''created_at'' ShStr]"

lemma conforms_num: "conforms ShNum v \<longleftrightarrow> (\<exists>n. v = JNum n)"
  and conforms_str: "conforms ShStr v \<longleftrightarrow> (\<exists>s. v = JStr s)"
  and conforms_bool: "conforms ShBool v \<longleftrightarrow> (\<exists>b. v = JBool b)"
  by (auto split: jsval.splits)

lemma cdr_item_fields:
  assumes "conforms Admin_CDR_item item"
  obtains fs a b d c where "item = JObj fs"
    and "map_of fs (js ''a_number'') = Some (JStr a)" and "map_of fs (js ''b_number'') = Some (JStr b)"
    and "map_of fs (js ''bridge_duration_ms'') = Some (JNum d)"
    and "map_of fs (js ''total_cost'') = Some (JNum c)"
  using assms by (auto simp: Admin_CDR_item_def conforms_num conforms_str split: jsval.splits option.splits)

lemma cdr_row_computes:
  assumes "map_of fs (js ''a_number'') = Some (JStr a)" and "map_of fs (js ''b_number'') = Some (JStr b)"
    and "map_of fs (js ''bridge_duration_ms'') = Some (JNum d)"
    and "map_of fs (js ''total_cost'') = Some (JNum c)"
  shows "admin_cdr_row (JObj fs) = Inr (JObj (spread fs
    [(js ''caller'', JStr a), (js ''callee'', JStr b),
     (js ''duration'', JNum (math_round (num_div d (num_int 1000)))),
     (js ''cost'', JNum (num_div c (num_int 100)))]))"
  using assms by (simp add: admin_cdr_row_def get_obj)

lemma cdr_row_conforms:
  assumes "conforms Admin_CDR_item item"
  shows "\<exists>row. admin_cdr_row item = Inr row \<and> conforms Admin_CDR row"
proof -
  from assms obtain fs a b d c where i: "item = JObj fs"
    and f: "map_of fs (js ''a_number'') = Some (JStr a)" "map_of fs (js ''b_number'') = Some (JStr b)"
      "map_of fs (js ''bridge_duration_ms'') = Some (JNum d)" "map_of fs (js ''total_cost'') = Some (JNum c)"
    by (rule cdr_item_fields)
  show ?thesis
    using assms unfolding i
    by (simp add: cdr_row_computes [OF f] Admin_CDR_def Admin_CDR_item_def map_of_spread f map_add_def)
qed

text \<open>
  What a row promises about the record it was made from: the declared shape, the two numbers, the
  duration in seconds, the cost in currency units, and every other field as received.
\<close>

definition cdr_row_ok :: "jsval \<Rightarrow> jsval \<Rightarrow> bool" where
  "cdr_row_ok i row \<longleftrightarrow> conforms Admin_CDR row \<and>
     opt_get ''caller'' row = opt_get ''a_number'' i \<and> opt_get ''callee'' row = opt_get ''b_number'' i \<and>
     opt_get ''duration'' row = JNum (math_round (num_div (to_number (opt_get ''bridge_duration_ms'' i)) (num_int 1000))) \<and>
     opt_get ''cost'' row = JNum (num_div (to_number (opt_get ''total_cost'' i)) (num_int 100)) \<and>
     (\<forall>k. k \<notin> set (map js [''caller'', ''callee'', ''duration'', ''cost'']) \<longrightarrow> field k row = field k i)"

lemma cdr_row_keeps:
  assumes "conforms Admin_CDR_item i"
  shows "\<exists>row. admin_cdr_row i = Inr row \<and> cdr_row_ok i row"
proof -
  from assms obtain fs a b d c where i: "i = JObj fs"
    and f: "map_of fs (js ''a_number'') = Some (JStr a)" "map_of fs (js ''b_number'') = Some (JStr b)"
      "map_of fs (js ''bridge_duration_ms'') = Some (JNum d)" "map_of fs (js ''total_cost'') = Some (JNum c)"
    by (rule cdr_item_fields)
  moreover obtain row where "admin_cdr_row i = Inr row" "conforms Admin_CDR row"
    using cdr_row_conforms [OF assms] by blast
  ultimately show ?thesis
    by (auto simp: cdr_row_ok_def opt_get_def cdr_row_computes [OF f] map_of_spread map_add_def f)
qed

lemma cdr_rows:
  assumes "\<forall>i \<in> set items. conforms Admin_CDR_item i"
  obtains rows where "smap admin_cdr_row items = Inr rows" and "list_all2 cdr_row_ok items rows"
proof -
  from assms have "\<exists>f. \<forall>i \<in> set items. admin_cdr_row i = Inr (f i) \<and> cdr_row_ok i (f i)"
    using cdr_row_keeps by (intro bchoice) blast
  then obtain f where f: "\<forall>i \<in> set items. admin_cdr_row i = Inr (f i) \<and> cdr_row_ok i (f i)" by blast
  then have "smap admin_cdr_row items = Inr (map f items)" by (intro smap_Inr) blast
  moreover have "list_all2 cdr_row_ok items (map f items)"
    using f by (simp add: list_all2_map2 list_all2_same)
  ultimately show ?thesis by (rule that)
qed

text \<open>The filters of a call-record query, as the server receives them.\<close>

definition cdr_query :: "jsval \<Rightarrow> (jstr \<times> jsval) list" where
  "cdr_query params =
     [(js ''page'', opt_get ''page'' params), (js ''page_size'', opt_get ''limit'' params),
      (js ''date_from'', opt_get ''start_date'' params), (js ''date_to'', opt_get ''end_date'' params),
      (js ''status'', opt_get ''status'' params)]"

lemma run_after_success:
  assumes "w_net w (sent w) (admin_build w p no_options) = Reply r"
    and "resp_ok r" and "rs_status r \<noteq> 204" and "rs_json r = Inr body"
  shows "bind (admin_request p no_options) f w =
    f body (log_event (Sent (admin_build w p no_options)) w)"
  using assms by (simp add: admin_http.run_bind response_result_def)

text \<open>
  C11: for a page of conforming call records, \<open>ListCDRs\<close> sends one request and resolves to as many
  rows, each of the declared shape: the two numbers, the duration in seconds and the cost in currency
  units are those of its record, and all other fields are as received.
\<close>

theorem list_cdrs_page:
  assumes q: "qs (cdr_query (JObj ps)) = Some q"
    and r: "w_net w (sent w) (admin_build w (js ''/api/callbacks'' @ q) no_options) = Reply r"
      "resp_ok r" "rs_status r \<noteq> 204" "rs_json r = Inr (JObj body)"
    and items: "map_of body (js ''items'') = Some (JArr items)"
      "\<forall>i \<in> set items. conforms Admin_CDR_item i"
    and total: "map_of body (js ''total'') = Some (JNum t)" "t \<noteq> NaN"
  shows "\<exists>rows. admin_ListCDRs (JObj ps) w =
      (Inr (obj [(''cdrs'', JArr rows), (''total'', JNum t)]),
       log_event (Sent (admin_build w (js ''/api/callbacks'' @ q) no_options)) w) \<and>
    list_all2 cdr_row_ok items rows"
proof -
  from items(2) obtain rows where s: "smap admin_cdr_row items = Inr rows" "list_all2 cdr_row_ok items rows"
    by (rule cdr_rows)
  have "admin_ListCDRs (JObj ps) w =
      (Inr (obj [(''cdrs'', JArr rows), (''total'', JNum t)]),
       log_event (Sent (admin_build w (js ''/api/callbacks'' @ q) no_options)) w)"
    using q total
    by (simp add: admin_ListCDRs_def with_field_obj cdr_query_def opt_get_def with_query_Some
        run_after_success [OF r] items(1) js_or_def as_array_def s return_def)
  with s(2) show ?thesis by blast
qed

definition sample_item :: jsval where
  "sample_item = obj [(''call_id'', jlit ''c1''), (''user_id'', jint 7), (''a_number'', jlit ''100''),
     (''b_number'', jlit ''200''), (''status'', jlit ''completed''), (''bridge_duration_ms'', jint 65499),
     (''total_cost'', jint 1234), (''created_at'', jlit ''2026-03-10'')]"

theorem list_cdrs_page_witness:
  "\<exists>rows. admin_ListCDRs (obj [(''page'', jint 1), (''limit'', jint 20), (''status'', jlit '''')])
      (world_of (\<lambda>_ _. Reply (ok_json (obj [(''items'', JArr [sample_item]), (''total'', jint 41)])))) =
      (Inr (obj [(''cdrs'', JArr rows), (''total'', jint 41)]),
       log_event (Sent (admin_build (world_of (\<lambda>_ _. Reply (ok_json (obj [(''items'', JArr [sample_item]),
         (''total'', jint 41)])))) (js ''/api/callbacks'' @ js ''?page=1&page_size=20'') no_options))
       (world_of (\<lambda>_ _. Reply (ok_json (obj [(''items'', JArr [sample_item]), (''total'', jint 41)]))))) \<and>
    length rows = 1"
proof -
  have q: "qs (cdr_query (obj [(''page'', jint 1), (''limit'', jint 20), (''status'', jlit '''')])) =
      Some (js ''?page=1&page_size=20'')"
    by code_simp
  have c: "conforms Admin_CDR_item sample_item" by code_simp
  show ?thesis
    using list_cdrs_page [OF q, of "world_of (\<lambda>_ _. Reply (ok_json (obj [(''items'', JArr [sample_item]),
      (''total'', jint 41)])))", of "ok_json (obj [(''items'', JArr [sample_item]), (''total'', jint 41)])"
      "[(js ''items'', JArr [sample_item]), (js ''total'', jint 41)]" "[sample_item]" "num_int 41"] c
    by (auto dest: list_all2_lengthD)
qed

section \<open>What the methods do to the outside\<close>

text \<open>Every method of the five services, applied to a parameter object.\<close>

definition admin_methods :: "jsval \<Rightarrow> ('s, jsval) app list" where
  "admin_methods v =
     [admin_Login v, admin_Me, admin_ListUsers v, admin_GetUser v, admin_CreateUser v, admin_FreezeUser v,
      admin_UnfreezeUser v, admin_RegenerateApiKey v, admin_GetOverview, admin_TopUp v, admin_Deduct v,
      admin_ListTransactions v, admin_ListRatePlans, admin_CreateRatePlan v, admin_ListGateways,
      admin_ToggleGateway v, admin_ListDIDs v, admin_ImportDIDs v, admin_HealthCheck,
      admin_CreateGateway v, admin_UpdateGateway v, admin_TestOriginate v, admin_ListCDRs v,
      admin_ListActiveCalls, admin_HangupCall v, admin_ListBlacklist v, admin_AddBlacklist v,
      admin_RemoveBlacklist v, admin_ListAuditLogs v]"

lemmas admin_method_defs =
  admin_Login_def admin_Me_def admin_ListUsers_def admin_GetUser_def admin_CreateUser_def
  admin_FreezeUser_def admin_UnfreezeUser_def admin_RegenerateApiKey_def admin_GetOverview_def
  admin_TopUp_def admin_Deduct_def admin_ListTransactions_def admin_ListRatePlans_def
  admin_CreateRatePlan_def admin_ListGateways_def admin_ToggleGateway_def admin_ListDIDs_def
  admin_ImportDIDs_def admin_HealthCheck_def admin_CreateGateway_def admin_UpdateGateway_def
  admin_TestOriginate_def admin_ListCDRs_def admin_ListActiveCalls_def admin_HangupCall_def
  admin_ListBlacklist_def admin_AddBlacklist_def admin_RemoveBlacklist_def admin_ListAuditLogs_def

lemmas admin_frame = frame admin_http.footprint_call

lemma admin_methods_frame: "list_all (footprint is_sent 1) (admin_methods v)"
  unfolding admin_methods_def list.pred_inject
  apply (intro conjI list.pred_inject(1))
  unfolding admin_method_defs
  apply (rule footprint_le, (rule admin_frame)+, simp)+
  done

text \<open>
  C29: no method of the admin client does more than send one request: nothing is retried, nothing
  is stored and no cached query is touched, whatever the server answers and the caller passes.
\<close>

theorem admin_methods_one_request:
  "list_all (\<lambda>m. length (sent (snd (m w))) \<le> Suc (length (sent w)) \<and>
     invalidated (snd (m w)) = invalidated w \<and> w_local (snd (m w)) = w_local w) (admin_methods v)"
  using admin_methods_frame
  by (rule list.pred_mono_strong) (use footprint_sent [where n = 1] in force)

end
