(* ===== verification/Admin_Hooks.thy ===== *)
theory Admin_Hooks
  imports Admin_Client
begin

text \<open>
  \<open>admin/src/lib/api/hooks.ts\<close>: one definition per hook, a query or a mutation over the admin
  client. Hooks whose function makes its data up (the endpoints are missing) draw from the world's
  random numbers and clock like the code does.
\<close>

section \<open>Auth and dashboard\<close>

definition admin_useAuth :: "'s query" where
  "admin_useAuth = (query_of (key [''auth'', ''me'']) admin_Me)\<lparr>qu_retry := Some 0\<rparr>"

definition admin_useLogin :: "'s mutation" where
  "admin_useLogin = mutation_of admin_Login [key [''auth'']]"

definition admin_useDashboardOverview :: "'s query" where
  "admin_useDashboardOverview =
     (query_of (key [''dashboard'', ''overview'']) admin_GetOverview)\<lparr>qu_interval := Some 30000\<rparr>"

definition trend_days :: "jstr list" where
  "trend_days = map js [''03-05'', ''03-06'', ''03-07'', ''03-08'', ''03-09'', ''03-10'', ''03-11'']"

definition admin_useDashboardTrends :: "'s query" where
  "admin_useDashboardTrends =
     (query_of (key [''dashboard'', ''trends''])
       (bind (map_app (\<lambda>d. bind (random_floor 5000 15000) (\<lambda>n.
           return (obj [(''date'', JStr d), (''revenue'', n)]))) trend_days) (\<lambda>revenue.
        bind (map_app (\<lambda>d. bind (random_floor 200 800) (\<lambda>n.
           return (obj [(''date'', JStr d), (''calls'', n)]))) trend_days) (\<lambda>calls.
        return (obj [(''revenue'', JArr revenue), (''calls'', JArr calls)])))))
     \<lparr>qu_stale := Some 60000\<rparr>"

section \<open>Customers\<close>

definition admin_useCustomers :: "jsval \<Rightarrow> 's query" where
  "admin_useCustomers params = query_of [jlit ''customers'', params] (admin_ListUsers params)"

definition admin_useTopUpCustomer :: "'s mutation" where
  "admin_useTopUpCustomer = mutation_of admin_TopUp [key [''customers'']]"

definition admin_useDeductCustomer :: "'s mutation" where
  "admin_useDeductCustomer = mutation_of admin_Deduct [key [''customers'']]"

definition admin_useFreezeUser :: "'s mutation" where
  "admin_useFreezeUser = mutation_of admin_FreezeUser [key [''customers'']]"

definition admin_useUnfreezeUser :: "'s mutation" where
  "admin_useUnfreezeUser = mutation_of admin_UnfreezeUser [key [''customers'']]"

definition admin_useCustomer :: "jstr \<Rightarrow> 's query" where
  "admin_useCustomer userId =
     (query_of [jlit ''customers'', JStr userId] (admin_GetUser (obj [(''user_id'', JStr userId)])))
     \<lparr>qu_enabled := (userId \<noteq> [])\<rparr>"

definition admin_useCreateCustomer :: "'s mutation" where
  "admin_useCreateCustomer = mutation_of admin_CreateUser [key [''customers'']]"

definition admin_useRegenerateApiKey :: "'s mutation" where
  "admin_useRegenerateApiKey =
     \<lparr>mu_fn = admin_RegenerateApiKey,
      mu_success = (\<lambda>_ variables. with_field ''user_id'' variables (\<lambda>u.
        invalidate [jlit ''customers'', u]))\<rparr>"

section \<open>Gateways\<close>

definition admin_useGateways :: "'s query" where
  "admin_useGateways = query_of (key [''gateways'']) admin_ListGateways"

definition admin_useToggleGateway :: "'s mutation" where
  "admin_useToggleGateway = mutation_of admin_ToggleGateway [key [''gateways'']]"

definition admin_useCreateGateway :: "'s mutation" where
  "admin_useCreateGateway = mutation_of admin_CreateGateway [key [''gateways'']]"

definition admin_useUpdateGateway :: "'s mutation" where
  "admin_useUpdateGateway = mutation_of admin_UpdateGateway [key [''gateways'']]"

definition admin_useTestOriginate :: "'s mutation" where
  "admin_useTestOriginate = mutation_of admin_TestOriginate []"

section \<open>Call records\<close>

definition admin_useCDRs :: "jsval \<Rightarrow> 's query" where
  "admin_useCDRs params = query_of [jlit ''cdr'', params] (admin_ListCDRs params)"

definition admin_useActiveCalls :: "'s query" where
  "admin_useActiveCalls = query_of (key [''admin'', ''active-calls'']) admin_ListActiveCalls"

definition admin_useHangupCall :: "'s mutation" where
  "admin_useHangupCall =
     mutation_of admin_HangupCall [key [''admin'', ''active-calls''], key [''cdr'']]"

section \<open>Finance\<close>

definition admin_useTransactions :: "jsval \<Rightarrow> 's query" where
  "admin_useTransactions params = query_of [jlit ''transactions'', params] (admin_ListTransactions params)"

definition admin_useRatePlans :: "'s query" where
  "admin_useRatePlans = query_of (key [''rate-plans'']) admin_ListRatePlans"

definition admin_useCreateRatePlan :: "'s mutation" where
  "admin_useCreateRatePlan = mutation_of admin_CreateRatePlan [key [''rate-plans'']]"

text \<open>The update hook posts to the creating endpoint.\<close>

definition admin_useUpdateRatePlan :: "'s mutation" where
  "admin_useUpdateRatePlan = mutation_of admin_CreateRatePlan [key [''rate-plans'']]"

text \<open>A row of the profit tables: three draws, each on its own.\<close>

definition profit_row :: "int \<times> int \<Rightarrow> int \<times> int \<Rightarrow> int \<times> int \<Rightarrow> jstr \<Rightarrow> ('s, jsval) app" where
  "profit_row r c p name =
     bind (random_floor (fst r) (snd r)) (\<lambda>revenue. bind (random_floor (fst c) (snd c)) (\<lambda>cost.
     bind (random_floor (fst p) (snd p)) (\<lambda>profit.
     return (obj [(''name'', JStr name), (''revenue'', revenue), (''cost'', cost), (''profit'', profit)]))))"

definition profit_customers :: "jstr list" where
  "profit_customers =
     [[0x793A, 0x4F8B, 0x79D1, 0x6280], [0x901A, 0x8FBE, 0x901A, 0x4FE1],
      [0x661F, 0x8FB0, 0x7F51, 0x7EDC], [0x4E91, 0x6865, 0x901A, 0x8BAF],
      [0x6C47, 0x8054, 0x79D1, 0x6280], [0x76DB, 0x8FBE, 0x79D1, 0x6280],
      [0x660E, 0x8FDC, 0x901A, 0x8BAF], [0x534E, 0x4FE1, 0x7F51, 0x7EDC],
      [0x8054, 0x521B, 0x79D1, 0x6280], [0x91D1, 0x6865, 0x901A, 0x4FE1]]"

definition admin_useProfitByCustomer :: "jstr \<Rightarrow> 's query" where
  "admin_useProfitByCustomer period =
     query_of [jlit ''profit'', jlit ''by-customer'', JStr period]
       (bind (map_app (profit_row (3000, 20000) (1500, 10000) (1000, 10000)) profit_customers)
         (\<lambda>rows. return (JArr rows)))"

definition profit_gateways :: "jstr list" where
  "profit_gateways = map js [''GW-SH-01'', ''GW-BJ-02'', ''GW-GZ-03'', ''GW-SZ-04'', ''GW-CD-05'']"

definition admin_useProfitByGateway :: "jstr \<Rightarrow> 's query" where
  "admin_useProfitByGateway period =
     query_of [jlit ''profit'', jlit ''by-gateway'', JStr period]
       (bind (map_app (profit_row (5000, 30000) (2500, 15000) (2000, 15000)) profit_gateways)
         (\<lambda>rows. return (JArr rows)))"

section \<open>Numbers and compliance\<close>

definition admin_useDIDs :: "jsval \<Rightarrow> 's query" where
  "admin_useDIDs params = query_of [jlit ''dids'', params] (admin_ListDIDs params)"

definition admin_useImportDIDs :: "'s mutation" where
  "admin_useImportDIDs = mutation_of admin_ImportDIDs [key [''dids'']]"

definition admin_useBlacklist :: "jsval \<Rightarrow> 's query" where
  "admin_useBlacklist params = query_of [jlit ''blacklist'', params] (admin_ListBlacklist params)"

definition admin_useAddBlacklist :: "'s mutation" where
  "admin_useAddBlacklist = mutation_of admin_AddBlacklist [key [''blacklist'']]"

definition admin_useRemoveBlacklist :: "'s mutation" where
  "admin_useRemoveBlacklist = mutation_of admin_RemoveBlacklist [key [''blacklist'']]"

definition admin_useAuditLogs :: "jsval \<Rightarrow> 's query" where
  "admin_useAuditLogs params = query_of [jlit ''audit-logs'', params] (admin_ListAuditLogs params)"

section \<open>Wastage\<close>

definition admin_useWastageSummary :: "'s query" where
  "admin_useWastageSummary =
     query_of (key [''wastage'', ''summary''])
       (return (obj [(''today_wastage_cost'', JNum (to_num (123456 / 100))),
          (''today_wastage_rate'', JNum (to_num (83 / 10))),
          (''top_failure_reason'', JStr (js ''B '' @ [0x8DEF, 0x65E0, 0x5E94, 0x7B54]))]))"

definition wastage_counts :: "jstr \<Rightarrow> jsval" where
  "wastage_counts period =
     field period (obj [(''day'', jint 24), (''week'', jint 7), (''month'', jint 30)])"

definition admin_useWastageTrend :: "jstr \<Rightarrow> 's query" where
  "admin_useWastageTrend period =
     query_of [jlit ''wastage'', jlit ''trend'', JStr period]
       (bind (map_app (\<lambda>i. bind (random_fixed 1 (num_int 5) (num_int 10)) (\<lambda>wr.
            bind (random_fixed 1 (num_int 70) (num_int 25)) (\<lambda>br.
            return (obj [(''date'', JStr (if period = js ''day'' then show_dec i @ js '':00''
                  else if period = js ''week'' then [0x7B2C] @ show_dec (i + 1) @ [0x5929]
                  else show_dec (i + 1) @ [0x65E5])),
              (''wastage_rate'', wr), (''bridge_rate'', br)]))))
          (map int [0..<array_length (wastage_counts period)])) (\<lambda>rows. return (JArr rows)))"

definition ranking_names :: "jstr list" where
  "ranking_names = map (\<lambda>c. [0x5BA2, 0x6237] @ js [c]) ''ABCDEFGHIJ''"

definition admin_useWastageRanking :: "'s query" where
  "admin_useWastageRanking =
     query_of (key [''wastage'', ''ranking''])
       (bind (map_app (\<lambda>(i, name). bind (random_floor (5000 - int i * 400) 200) (\<lambda>c.
            return (obj [(''customer_name'', JStr name), (''wastage_cost'', c)])))
          (enumerate 0 ranking_names)) (\<lambda>rows. return (JArr rows)))"

definition admin_useWastageDistribution :: "'s query" where
  "admin_useWastageDistribution =
     query_of (key [''wastage'', ''distribution''])
       (return (JArr (map (\<lambda>(r, n). obj [(''reason'', jlit r), (''count'', jint n)])
          [(''b_no_answer'', 342), (''a_connected_b_failed'', 218), (''bridge_broken_early'', 156),
           (''b_busy'', 89), (''b_rejected'', 67), (''other'', 43)])))"

section \<open>Operations and settings\<close>

definition admin_useHealthCheck :: "'s query" where
  "admin_useHealthCheck = (query_of (key [''health'']) admin_HealthCheck)\<lparr>qu_interval := Some 15000\<rparr>"

text \<open>\<open>new Date()\<close> reads the clock; both rows are made in the same turn of the event loop.\<close>

definition admin_useFSStatus :: "'s query" where
  "admin_useFSStatus =
     (query_of (key [''ops'', ''fs-status'']) (\<lambda>w. return (obj [(''instances'', JArr
        [obj [(''hostname'', jlit ''fs-primary-01''), (''connected'', JBool True), (''active_sessions'', jint 42),
           (''uptime'', jlit ''15d 8h 32m''), (''last_check'', JStr (iso_string (w_now w)))],
         obj [(''hostname'', jlit ''fs-standby-02''), (''connected'', JBool True), (''active_sessions'', jint 0),
           (''uptime'', jlit ''15d 8h 30m''), (''last_check'', JStr (iso_string (w_now w)))]])]) w))
     \<lparr>qu_interval := Some 10000\<rparr>"

definition admin_useSystemHealth :: "'s query" where
  "admin_useSystemHealth =
     (query_of (key [''ops'', ''system-health'']) (return (obj
        [(''database'', obj [(''active'', jint 8), (''idle'', jint 12), (''max'', jint 50),
            (''latency_ms'', JNum (to_num (32 / 10)))]),
         (''redis'', obj [(''connected'', JBool True), (''memory_mb'', jint 128)]),
         (''api'', obj [(''requests_per_min'', jint 340), (''error_rate'', JNum (to_num (3 / 10))),
            (''avg_latency_ms'', jint 45)])])))
     \<lparr>qu_interval := Some 30000\<rparr>"

definition system_config :: "string \<Rightarrow> string \<Rightarrow> string \<Rightarrow> jstr \<Rightarrow> string \<Rightarrow> string \<Rightarrow> jsval" where
  "system_config k v t d c u =
     obj [(''key'', jlit k), (''value'', jlit v), (''type'', jlit t), (''description'', JStr d),
       (''category'', jlit c), (''updated_at'', jlit u)]"

definition system_configs :: "jsval list" where
  "system_configs =
     [system_config ''call.max_duration'' ''3600'' ''number'' ([0x6700, 0x5927, 0x901A, 0x8BDD, 0x65F6, 0x957F] @ js ''('' @ [0x79D2] @ js '')'')
        ''call'' ''2026-03-10T10:00:00Z'',
      system_config ''call.ring_timeout'' ''30'' ''number'' ([0x632F, 0x94C3, 0x8D85, 0x65F6] @ js ''('' @ [0x79D2] @ js '')'')
        ''call'' ''2026-03-09T14:00:00Z'',
      system_config ''billing.auto_deduct'' ''true'' ''boolean'' [0x81EA, 0x52A8, 0x6263, 0x8D39]
        ''billing'' ''2026-03-08T09:00:00Z'',
      system_config ''billing.min_balance'' ''10'' ''number'' ([0x6700, 0x4F4E, 0x4F59, 0x989D, 0x8B66, 0x544A] @ js ''(CNY)'')
        ''billing'' ''2026-03-07T16:00:00Z'',
      system_config ''compliance.blacklist_enabled'' ''true'' ''boolean'' [0x542F, 0x7528, 0x9ED1, 0x540D, 0x5355, 0x8FC7, 0x6EE4]
        ''compliance'' ''2026-03-06T11:00:00Z'',
      system_config ''system.log_level'' ''info'' ''string'' [0x65E5, 0x5FD7, 0x7EA7, 0x522B]
        ''system'' ''2026-03-05T08:00:00Z'']"

definition admin_useSystemConfigs :: "'s query" where
  "admin_useSystemConfigs = query_of (key [''settings'', ''configs'']) (return (JArr system_configs))"

definition admin_useUpdateConfig :: "'s mutation" where
  "admin_useUpdateConfig = mutation_of (\<lambda>_. return JUndef) [key [''settings'', ''configs'']]"

section \<open>Which queries a mutation refreshes\<close>

text \<open>
  All queries of the console by the name of their hook: \<open>p\<close> is any parameter object of a page, \<open>u\<close> any customer,
  \<open>t\<close> any period.
\<close>

definition admin_queries :: "jsval \<Rightarrow> jstr \<Rightarrow> jstr \<Rightarrow> (string \<times> 's query) list" where
  "admin_queries p u t =
     [(''useAuth'', admin_useAuth), (''useDashboardOverview'', admin_useDashboardOverview),
      (''useDashboardTrends'', admin_useDashboardTrends), (''useCustomers'', admin_useCustomers p),
      (''useCustomer'', admin_useCustomer u), (''useGateways'', admin_useGateways), (''useCDRs'', admin_useCDRs p),
      (''useActiveCalls'', admin_useActiveCalls), (''useTransactions'', admin_useTransactions p),
      (''useRatePlans'', admin_useRatePlans), (''useProfitByCustomer'', admin_useProfitByCustomer t),
      (''useProfitByGateway'', admin_useProfitByGateway t), (''useDIDs'', admin_useDIDs p),
      (''useBlacklist'', admin_useBlacklist p), (''useAuditLogs'', admin_useAuditLogs p),
      (''useWastageSummary'', admin_useWastageSummary), (''useWastageTrend'', admin_useWastageTrend t),
      (''useWastageRanking'', admin_useWastageRanking), (''useWastageDistribution'', admin_useWastageDistribution),
      (''useHealthCheck'', admin_useHealthCheck), (''useFSStatus'', admin_useFSStatus),
      (''useSystemHealth'', admin_useSystemHealth), (''useSystemConfigs'', admin_useSystemConfigs)]"

lemmas admin_mutation_defs =
  admin_useLogin_def admin_useTopUpCustomer_def admin_useDeductCustomer_def admin_useFreezeUser_def
  admin_useUnfreezeUser_def admin_useCreateCustomer_def admin_useToggleGateway_def
  admin_useCreateGateway_def admin_useUpdateGateway_def admin_useTestOriginate_def admin_useHangupCall_def
  admin_useCreateRatePlan_def admin_useUpdateRatePlan_def admin_useImportDIDs_def
  admin_useAddBlacklist_def admin_useRemoveBlacklist_def admin_useUpdateConfig_def

lemma admin_query_keys:
  "query_keys (admin_queries p u t) =
     [(''useAuth'', key [''auth'', ''me'']), (''useDashboardOverview'', key [''dashboard'', ''overview'']),
      (''useDashboardTrends'', key [''dashboard'', ''trends'']), (''useCustomers'', [jlit ''customers'', p]),
      (''useCustomer'', [jlit ''customers'', JStr u]), (''useGateways'', key [''gateways'']),
      (''useCDRs'', [jlit ''cdr'', p]), (''useActiveCalls'', key [''admin'', ''active-calls'']),
      (''useTransactions'', [jlit ''transactions'', p]), (''useRatePlans'', key [''rate-plans'']),
      (''useProfitByCustomer'', [jlit ''profit'', jlit ''by-customer'', JStr t]),
      (''useProfitByGateway'', [jlit ''profit'', jlit ''by-gateway'', JStr t]), (''useDIDs'', [jlit ''dids'', p]),
      (''useBlacklist'', [jlit ''blacklist'', p]), (''useAuditLogs'', [jlit ''audit-logs'', p]),
      (''useWastageSummary'', key [''wastage'', ''summary'']),
      (''useWastageTrend'', [jlit ''wastage'', jlit ''trend'', JStr t]),
      (''useWastageRanking'', key [''wastage'', ''ranking'']),
      (''useWastageDistribution'', key [''wastage'', ''distribution'']), (''useHealthCheck'', key [''health'']),
      (''useFSStatus'', key [''ops'', ''fs-status'']), (''useSystemHealth'', key [''ops'', ''system-health'']),
      (''useSystemConfigs'', key [''settings'', ''configs''])]"
  by (simp add: query_keys_def admin_queries_def query_of_def admin_useAuth_def admin_useDashboardOverview_def
      admin_useDashboardTrends_def admin_useCustomers_def admin_useCustomer_def admin_useGateways_def admin_useCDRs_def
      admin_useActiveCalls_def admin_useTransactions_def admin_useRatePlans_def admin_useProfitByCustomer_def
      admin_useProfitByGateway_def admin_useDIDs_def admin_useBlacklist_def admin_useAuditLogs_def
      admin_useWastageSummary_def admin_useWastageTrend_def admin_useWastageRanking_def
      admin_useWastageDistribution_def admin_useHealthCheck_def admin_useFSStatus_def admin_useSystemHealth_def
      admin_useSystemConfigs_def)

lemma admin_method_quiet: "m \<in> set (admin_methods v) \<Longrightarrow> invalidated (snd (m w)) = invalidated w"
  by (rule footprint_sent(1) [OF bspec [OF admin_methods_frame [unfolded list_all_iff]]])

text \<open>
  C5: exactly which cached queries of the console each of its mutations with fixed keys makes stale, among all of them
  and for all their parameters: where it succeeds, those listed and no others; where it fails, none. Topping up or charging
  an account refreshes the customers only: the transactions, to which the server adds one, stay as they were, as do
  the audit logs and the dashboard after every mutation.
\<close>

theorem admin_mutations_refresh:
  assumes "prefix_rule matches"
  shows "\<forall>(m, names) \<in> set
     [(admin_useLogin, [''useAuth'']),
      (admin_useTopUpCustomer, [''useCustomers'', ''useCustomer'']),
      (admin_useDeductCustomer, [''useCustomers'', ''useCustomer'']),
      (admin_useFreezeUser, [''useCustomers'', ''useCustomer'']),
      (admin_useUnfreezeUser, [''useCustomers'', ''useCustomer'']),
      (admin_useCreateCustomer, [''useCustomers'', ''useCustomer'']),
      (admin_useToggleGateway, [''useGateways'']), (admin_useCreateGateway, [''useGateways'']),
      (admin_useUpdateGateway, [''useGateways'']), (admin_useTestOriginate, []),
      (admin_useHangupCall, [''useCDRs'', ''useActiveCalls'']),
      (admin_useCreateRatePlan, [''useRatePlans'']), (admin_useUpdateRatePlan, [''useRatePlans'']),
      (admin_useImportDIDs, [''useDIDs'']), (admin_useAddBlacklist, [''useBlacklist'']),
      (admin_useRemoveBlacklist, [''useBlacklist'']), (admin_useUpdateConfig, [''useSystemConfigs''])].
    refreshed matches w (snd (mutate_async m v w)) (admin_queries p u t) =
      (case fst (mutate_async m v w) of Inl e \<Rightarrow> [] | Inr r \<Rightarrow> names)"
proof -
  have null: "invalidated (snd (return x w)) = invalidated w" for x by (simp add: return_def)
  show ?thesis
    unfolding list.set ball_simps prod.case
    unfolding admin_mutation_defs
    by (intro conjI TrueI; rule mutation_refreshes; (rule null | rule admin_method_quiet [where v = v])?)
      (simp_all add: admin_methods_def admin_query_keys prefix_rule1 [OF assms] prefix_rule2 [OF assms])
qed

theorem admin_mutations_refresh_witness:
  "refreshed key_prefix (world_of (\<lambda>_ _. Reply (ok_json JNull)))
     (snd (mutate_async admin_useHangupCall (obj [(''call_id'', jlit ''c1'')])
        (world_of (\<lambda>_ _. Reply (ok_json JNull)))))
     (admin_queries (obj [(''page'', jint 2)]) (js ''7'') (js ''day'') :: (string \<times> unit query) list) =
   [''useCDRs'', ''useActiveCalls'']"
proof -
  define w0 where "w0 = world_of (\<lambda>_ _. Reply (ok_json JNull))"
  define v where "v = obj [(''call_id'', jlit ''c1'')]"
  have r: "fst (mutate_async admin_useHangupCall v w0) = Inr JNull"
    by (simp add: w0_def v_def mutate_async_def admin_useHangupCall_def admin_HangupCall_def with_field_obj
        response_result_def bind_def invalidate_all_run return_def admin_http.run del: invalidate_all.simps)
  note all = admin_mutations_refresh [where v = v and w = w0 and p = "obj [(''page'', jint 2)]" and u = "js ''7''"
      and t = "js ''day''", OF prefix_rule_key_prefix]
  show ?thesis
    using bspec [OF all, of "(admin_useHangupCall, [''useCDRs'', ''useActiveCalls''])"] r
    by (simp add: w0_def v_def)
qed

text \<open>
  The session query is never tried again, and every other query of the console at most once; only the
  trends of the dashboard go stale before five minutes.
\<close>

lemma admin_query_options:
  "query_retries queryClient admin_useAuth = 0" "query_stale queryClient admin_useAuth = 300000"
  "query_retries queryClient admin_useDashboardTrends = 1"
  "query_stale queryClient admin_useDashboardTrends = 60000"
  "query_retries queryClient (admin_useCustomers p) = 1"
  "query_stale queryClient (admin_useCustomers p) = 300000"
  by (simp_all add: query_retries_def query_stale_def queryClient_def admin_useAuth_def query_of_def
      admin_useDashboardTrends_def admin_useCustomers_def)

end
