(* ===== verification/Customers.thy ===== *)
theory Customers
  imports Forms Admin_Hooks
begin

text \<open>
  \<open>features/customers\<close> of the console without the detail page: the list of customers, opening an
  account, freezing it, and the dialog that tops up or charges an account. The state of the two forms
  is part of the page. Money is shown in units and sent in cents, in doubles. Dates are shown through
  the browser's locale database, the argument \<open>fmt_date\<close>.
\<close>

section \<open>State and rows\<close>

record customer =
  cu_id :: jstr
  cu_company :: jsval
  cu_email :: jsval
  cu_balance :: jsnum
  cu_status :: jsval
  cu_max_concurrent :: jsval
  cu_daily_limit :: jsval
  cu_created_at :: jsval

datatype balance_mode = TopUpMode | DeductMode

record customers_page = world +
  cp_pagination :: pagination
  cp_search :: jstr
  cp_create_open :: bool
  cp_balance_open :: bool
  cp_mode :: balance_mode
  cp_selected :: "customer option"
  cp_detail :: "jstr option"
  cp_balance_form :: jsval
  cp_balance_errors :: form_errors
  cp_create_form :: jsval
  cp_create_errors :: form_errors

type_synonym ('s, 'a) customers_prog = "('s customers_page_scheme, jsval, 'a) prog"

definition customers_query :: "'s customers_page_scheme \<Rightarrow> 't query" where
  "customers_query s = admin_useCustomers
     (obj [(''page'', jint (pg_index (cp_pagination s) + 1)), (''limit'', jint (pg_size (cp_pagination s))),
           (''search'', JStr (cp_search s))])"

definition customer_of :: "jsval \<Rightarrow> customer" where
  "customer_of u =
     \<lparr>cu_id = to_str (opt_get ''id'' u), cu_company = opt_get ''username'' u, cu_email = opt_get ''email'' u,
      cu_balance = num_div (to_number (opt_get ''balance'' u)) (num_int 100),
      cu_status = opt_get ''status'' u, cu_max_concurrent = opt_get ''max_concurrent'' u,
      cu_daily_limit = opt_get ''daily_limit'' u, cu_created_at = opt_get ''created_at'' u\<rparr>"

definition customer_rows :: "jsval \<Rightarrow> jsval + customer list" where
  "customer_rows data = rows_of customer_of (js_or (opt_get ''users'' data) (JArr []))"

section \<open>Handlers of the page\<close>

definition create_params :: "jsval \<Rightarrow> jsval" where
  "create_params d = obj
     [(''username'', opt_get ''company'' d), (''email'', opt_get ''email'' d),
      (''password'', opt_get ''password'' d),
      (''credit_limit'', JNum (num_mul (to_number (js_or (opt_get ''credit_limit'' d) (jint 0))) (num_int 100))),
      (''max_concurrent'', js_or (opt_get ''max_concurrent'' d) (jint 10)),
      (''daily_limit'', js_or (opt_get ''daily_limit'' d) (jint 1000))]"

definition handleCreateSubmit :: "jsval \<Rightarrow> ('s, unit) customers_prog" where
  "handleCreateSubmit formData =
     try_catch
       (bind (lift_sum (row_of create_params formData)) (\<lambda>p.
        bind (mutate_async admin_useCreateCustomer p) (\<lambda>_.
        bind (emit (ToastOk [0x5BA2, 0x6237, 0x521B, 0x5EFA, 0x6210, 0x529F])) (\<lambda>_.
        effect (\<lambda>s. s\<lparr>cp_create_open := False\<rparr>)))))
       (toast_failure [0x521B, 0x5EFA, 0x5931, 0x8D25])"

definition open_balance :: "balance_mode \<Rightarrow> customer \<Rightarrow> 's customers_page_scheme \<Rightarrow> 's customers_page_scheme" where
  "open_balance m c s = s\<lparr>cp_selected := Some c, cp_mode := m, cp_balance_open := True\<rparr>"

definition handleTopUp :: "customer \<Rightarrow> 's customers_page_scheme \<Rightarrow> 's customers_page_scheme" where
  "handleTopUp = open_balance TopUpMode"

definition handleDeduct :: "customer \<Rightarrow> 's customers_page_scheme \<Rightarrow> 's customers_page_scheme" where
  "handleDeduct = open_balance DeductMode"

definition user_action :: "'s customers_page_ext mutation \<Rightarrow> jstr \<Rightarrow> jstr \<Rightarrow> customer \<Rightarrow> ('s, unit) customers_prog" where
  "user_action m done_text fallback c =
     try_catch
       (bind (mutate_async m (obj [(''user_id'', JStr (cu_id c))])) (\<lambda>_.
        emit (ToastOk (to_str (cu_company c) @ js '' '' @ done_text))))
       (toast_failure fallback)"

definition handleFreeze :: "customer \<Rightarrow> ('s, unit) customers_prog" where
  "handleFreeze = user_action admin_useFreezeUser [0x5DF2, 0x51BB, 0x7ED3] [0x51BB, 0x7ED3, 0x5931, 0x8D25]"

definition handleUnfreeze :: "customer \<Rightarrow> ('s, unit) customers_prog" where
  "handleUnfreeze = user_action admin_useUnfreezeUser [0x5DF2, 0x89E3, 0x51BB] [0x89E3, 0x51BB, 0x5931, 0x8D25]"

text \<open>\<open>formData.amount * 100\<close>, and the request of either mode.\<close>

definition cents :: "jsnum \<Rightarrow> jsnum" where
  "cents amount = num_mul amount (num_int 100)"

definition balance_change :: "balance_mode \<Rightarrow> customer \<Rightarrow> jsval \<Rightarrow> ('s, jsval) customers_prog" where
  "balance_change m c d =
     with_field ''amount'' d (\<lambda>a.
     case m of
       TopUpMode \<Rightarrow> mutate_async admin_useTopUpCustomer
         (obj [(''user_id'', JStr (cu_id c)), (''amount'', JNum (cents (to_number a)))])
     | DeductMode \<Rightarrow> with_field ''remark'' d (\<lambda>r. mutate_async admin_useDeductCustomer
         (obj [(''user_id'', JStr (cu_id c)), (''amount'', JNum (cents (to_number a))),
               (''reason'', js_or r (JStr [0x7BA1, 0x7406, 0x5458, 0x6263, 0x6B3E]))])))"

text \<open>\<open>formData.amount.toFixed(2)\<close>, a method that only numbers have.\<close>

definition fixed2 :: "jsval \<Rightarrow> jsval + jstr" where
  "fixed2 v = (case v of JNum n \<Rightarrow> Inr (to_fixed 2 n) | _ \<Rightarrow> Inl type_error)"

definition handleBalanceSubmit :: "jsval \<Rightarrow> ('s, unit) customers_prog" where
  "handleBalanceSubmit d = (\<lambda>s.
     case cp_selected s of
       None \<Rightarrow> (Inr (), s)
     | Some c \<Rightarrow> try_catch
         (bind (balance_change (cp_mode s) c d) (\<lambda>_.
          with_field ''amount'' d (\<lambda>a.
          bind (lift_sum (fixed2 a)) (\<lambda>shown.
          bind (emit (ToastOk ((if cp_mode s = TopUpMode then [0x5145, 0x503C] else [0x6263, 0x6B3E]) @ (js '' '' @ [0x00A5]) @
            shown @ (js '' '' @ [0x6210, 0x529F])))) (\<lambda>_.
          effect (\<lambda>s. s\<lparr>cp_balance_open := False\<rparr>))))))
         (toast_failure [0x64CD, 0x4F5C, 0x5931, 0x8D25]) s)"

section \<open>The balance dialog\<close>

definition topup_schema :: schema where
  "topup_schema =
     [(''amount'', ZNumber [CkPositive ([0x91D1, 0x989D, 0x5FC5, 0x987B, 0x5927, 0x4E8E] @ js ''0'')]), (''remark'', ZOptional (ZString []))]"

definition deduct_schema :: schema where
  "deduct_schema =
     [(''amount'', ZNumber [CkPositive ([0x91D1, 0x989D, 0x5FC5, 0x987B, 0x5927, 0x4E8E] @ js ''0'')]),
      (''remark'', ZString [CkLength 1 [0x6263, 0x6B3E, 0x5FC5, 0x987B, 0x586B, 0x5199, 0x5907, 0x6CE8]])]"

definition balance_schema :: "balance_mode \<Rightarrow> schema" where
  "balance_schema m = (if m = TopUpMode then topup_schema else deduct_schema)"

definition balance_defaults :: jsval where
  "balance_defaults = obj [(''amount'', jint 0), (''remark'', JStr [])]"

definition reset_balance :: "'s customers_page_scheme \<Rightarrow> 's customers_page_scheme" where
  "reset_balance s = s\<lparr>cp_balance_form := balance_defaults, cp_balance_errors := []\<rparr>"

definition balance_onFormSubmit :: "jsval \<Rightarrow> ('s, unit) customers_prog" where
  "balance_onFormSubmit d =
     bind (handleBalanceSubmit d) (\<lambda>_. effect (\<lambda>s. (reset_balance s)\<lparr>cp_balance_open := False\<rparr>))"

definition balance_submit :: "parser_fn \<Rightarrow> ('s, unit) customers_prog" where
  "balance_submit parse = (\<lambda>s.
     submit_form parse (balance_schema (cp_mode s)) (cp_balance_form s)
       (\<lambda>es. effect (\<lambda>s. s\<lparr>cp_balance_errors := es\<rparr>)) balance_onFormSubmit s)"

definition balance_open_change :: "bool \<Rightarrow> 's customers_page_scheme \<Rightarrow> 's customers_page_scheme" where
  "balance_open_change v s = (if \<not> v then reset_balance s else s)\<lparr>cp_balance_open := v\<rparr>"

definition exceeds_balance :: "balance_mode \<Rightarrow> customer option \<Rightarrow> jsval \<Rightarrow> bool" where
  "exceeds_balance m c amount \<longleftrightarrow>
     m = DeductMode \<and> (case c of None \<Rightarrow> False | Some c \<Rightarrow> num_lt (cu_balance c) (to_number amount))"

definition balance_dialog :: "bool \<Rightarrow> 's customers_page_scheme \<Rightarrow> view" where
  "balance_dialog isSubmitting s =
     (case cp_selected s of
        None \<Rightarrow> nothing
      | Some c \<Rightarrow>
          let topup = (cp_mode s = TopUpMode); es = cp_balance_errors s in
          El ''Dialog'' [flag ''open'' (cp_balance_open s)]
            [El ''DialogTitle'' [] [Txt (if topup then [0x5145, 0x503C] else [0x6263, 0x6B3E])],
             El ''DialogDescription'' [] [Txt ([0x5BA2, 0x6237] @ js '': ''), show_val (cu_company c)],
             El ''div'' [] [Txt ([0x5F53, 0x524D, 0x4F59, 0x989D] @ js '': ''), El ''span'' [] [Txt ([0x00A5] @ to_locale 2 3 (cu_balance c))]],
             El ''div'' []
               [El ''Label'' [] [Txt (if topup then [0x5145, 0x503C, 0x91D1, 0x989D] else [0x6263, 0x6B3E, 0x91D1, 0x989D]), Txt (js '' ('' @ [0x00A5] @ js '') *'')],
                El ''Input'' [(''id'', js ''amount''), (''type'', js ''number''), (''min'', js ''0.01''),
                  (''placeholder'', [0x8BF7, 0x8F93, 0x5165, 0x91D1, 0x989D])] [],
                field_error es ''amount'',
                only_if (exceeds_balance (cp_mode s) (cp_selected s) (opt_get ''amount'' (cp_balance_form s)))
                  (El ''p'' [] [Txt ([0x6263, 0x6B3E, 0x91D1, 0x989D, 0x8D85, 0x8FC7, 0x5F53, 0x524D, 0x4F59, 0x989D, 0xFF0C, 0x8BF7, 0x6CE8, 0x610F] @ js ''!'')])],
             El ''div'' []
               [El ''Label'' [] [Txt ([0x5907, 0x6CE8] @ js '' ''), Txt (if topup then [] else js ''*'')],
                El ''Input'' [(''id'', js ''remark''), (''placeholder'', if topup then [0x9009, 0x586B] else [0x8BF7, 0x586B, 0x5199, 0x6263, 0x6B3E, 0x539F, 0x56E0])] [],
                field_error es ''remark''],
             button [0x53D6, 0x6D88] ''cancel'' False,
             button (if isSubmitting then ([0x5904, 0x7406, 0x4E2D] @ js ''...'') else if topup then [0x786E, 0x8BA4, 0x5145, 0x503C] else [0x786E, 0x8BA4, 0x6263, 0x6B3E])
               ''submit'' isSubmitting])"

section \<open>The form that opens an account\<close>

definition create_customer_schema :: schema where
  "create_customer_schema =
     [(''company'', ZString [CkLength 1 [0x8BF7, 0x8F93, 0x5165, 0x516C, 0x53F8, 0x540D, 0x79F0]]),
      (''email'', ZString [CkEmail [0x8BF7, 0x8F93, 0x5165, 0x6709, 0x6548, 0x7684, 0x90AE, 0x7BB1, 0x5730, 0x5740]]),
      (''password'', ZString [CkLength 8 ([0x5BC6, 0x7801, 0x81F3, 0x5C11] @ js ''8'' @ [0x4E2A, 0x5B57, 0x7B26])]),
      (''phone'', ZOptional (ZString [])),
      (''max_concurrent'', ZDefault (ZNumber [CkInt, CkMin (num_int 1) (Some ([0x81F3, 0x5C11, 0x4E3A] @ js ''1''))]) (jint 10)),
      (''daily_limit'', ZDefault (ZNumber [CkInt, CkMin (num_int 1) (Some ([0x81F3, 0x5C11, 0x4E3A] @ js ''1''))]) (jint 1000)),
      (''initial_balance'', ZDefault (ZNumber [CkMin (num_int 0) (Some [0x4E0D, 0x80FD, 0x4E3A, 0x8D1F, 0x6570])]) (jint 0))]"

definition create_defaults :: jsval where
  "create_defaults = obj
     [(''company'', JStr []), (''email'', JStr []), (''password'', JStr []), (''phone'', JStr []),
      (''max_concurrent'', jint 10), (''daily_limit'', jint 1000), (''initial_balance'', jint 0)]"

definition create_onFormSubmit :: "jsval \<Rightarrow> ('s, unit) customers_prog" where
  "create_onFormSubmit d =
     bind (handleCreateSubmit d) (\<lambda>_. effect (\<lambda>s. s\<lparr>cp_create_form := create_defaults,
       cp_create_errors := [], cp_create_open := False\<rparr>))"

definition create_submit :: "parser_fn \<Rightarrow> ('s, unit) customers_prog" where
  "create_submit parse = (\<lambda>s.
     submit_form parse create_customer_schema (cp_create_form s)
       (\<lambda>es. effect (\<lambda>s. s\<lparr>cp_create_errors := es\<rparr>)) create_onFormSubmit s)"

definition create_sheet :: "bool \<Rightarrow> 's customers_page_scheme \<Rightarrow> view" where
  "create_sheet isSubmitting s =
     (let es = cp_create_errors s in
      El ''Sheet'' [flag ''open'' (cp_create_open s)]
        [El ''SheetTitle'' [] [Txt [0x65B0, 0x5EFA, 0x5BA2, 0x6237]],
         El ''SheetDescription'' [] [Txt [0x586B, 0x5199, 0x5BA2, 0x6237, 0x4FE1, 0x606F, 0x4EE5, 0x521B, 0x5EFA, 0x65B0, 0x8D26, 0x6237]],
         input_field es ''company'' ([0x516C, 0x53F8, 0x540D, 0x79F0] @ js '' *'') [(''placeholder'', [0x8BF7, 0x8F93, 0x5165, 0x516C, 0x53F8, 0x540D, 0x79F0])],
         input_field es ''email'' ([0x90AE, 0x7BB1] @ js '' *'') [(''type'', js ''email''), (''placeholder'', [0x8BF7, 0x8F93, 0x5165, 0x90AE, 0x7BB1])],
         input_field es ''password'' ([0x5BC6, 0x7801] @ js '' *'') [(''type'', js ''password''), (''placeholder'', ([0x81F3, 0x5C11] @ js ''8'' @ [0x4E2A, 0x5B57, 0x7B26]))],
         El ''div'' [] [El ''Label'' [] [Txt [0x7535, 0x8BDD]],
           El ''Input'' [(''id'', js ''phone''), (''placeholder'', [0x8BF7, 0x8F93, 0x5165, 0x7535, 0x8BDD, 0x53F7, 0x7801])] []],
         input_field es ''max_concurrent'' [0x5E76, 0x53D1, 0x4E0A, 0x9650] [(''type'', js ''number'')],
         input_field es ''daily_limit'' [0x65E5, 0x547C, 0x53EB, 0x9650, 0x989D] [(''type'', js ''number'')],
         input_field es ''initial_balance'' ([0x521D, 0x59CB, 0x4F59, 0x989D] @ js '' ('' @ [0x00A5] @ js '')'') [(''type'', js ''number'')],
         button [0x53D6, 0x6D88] ''cancel'' False,
         button (if isSubmitting then ([0x521B, 0x5EFA, 0x4E2D] @ js ''...'') else [0x521B, 0x5EFA, 0x5BA2, 0x6237]) ''submit'' isSubmitting])"

section \<open>The table and the page\<close>

definition status_badge :: "jsval \<Rightarrow> view" where
  "status_badge status =
     (let active = (status = jlit ''active'') in
      El ''Badge'' []
        [Txt (if active then [0x6B63, 0x5E38] else [0x5DF2, 0x51BB, 0x7ED3])])"

definition customer_actions :: "customer \<Rightarrow> view" where
  "customer_actions c =
     El ''DropdownMenu'' []
       [El ''DropdownMenuItem'' [(''onClick'', js ''view'')] [Txt [0x67E5, 0x770B, 0x8BE6, 0x60C5]],
        El ''DropdownMenuSeparator'' [] [],
        El ''DropdownMenuItem'' [(''onClick'', js ''topup'')] [Txt [0x5145, 0x503C]],
        El ''DropdownMenuItem'' [(''onClick'', js ''deduct'')] [Txt [0x6263, 0x6B3E]],
        El ''DropdownMenuSeparator'' [] [],
        if cu_status c = jlit ''active'' then El ''DropdownMenuItem'' [(''onClick'', js ''freeze'')] [Txt [0x51BB, 0x7ED3]]
        else El ''DropdownMenuItem'' [(''onClick'', js ''unfreeze'')] [Txt [0x89E3, 0x51BB]]]"

definition customer_columns :: "(jsval \<Rightarrow> jstr) \<Rightarrow> customer column list" where
  "customer_columns fmt_date =
     [(column [0x516C, 0x53F8, 0x540D, 0x79F0] (\<lambda>c. show_val (cu_company c)))\<lparr>col_can_sort := False\<rparr>,
      (column [0x90AE, 0x7BB1] (\<lambda>c. show_val (cu_email c)))\<lparr>col_can_sort := False\<rparr>,
      column [0x4F59, 0x989D] (\<lambda>c. El ''span'' [] [Txt ([0x00A5] @ to_locale 2 3 (cu_balance c))]),
      (column [0x72B6, 0x6001] (\<lambda>c. status_badge (cu_status c)))\<lparr>col_can_sort := False\<rparr>,
      (column [0x5E76, 0x53D1, 0x4E0A, 0x9650] (\<lambda>c. show_val (cu_max_concurrent c)))\<lparr>col_can_sort := False\<rparr>,
      (column [0x65E5, 0x9650, 0x989D] (\<lambda>c. show_val (cu_daily_limit c)))\<lparr>col_can_sort := False\<rparr>,
      column [0x521B, 0x5EFA, 0x65F6, 0x95F4] (\<lambda>c. Txt (fmt_date (cu_created_at c))),
      (column [0x64CD, 0x4F5C] customer_actions)\<lparr>col_can_sort := False\<rparr>]"

definition customer_table ::
    "(jsval \<Rightarrow> jstr) \<Rightarrow> customer list \<Rightarrow> int \<Rightarrow> pagination \<Rightarrow> jstr \<Rightarrow> bool \<Rightarrow> bool \<Rightarrow> bool \<Rightarrow> view" where
  "customer_table fmt_date rows totalCount p search isLoading canPrev canNext =
     data_table (customer_columns fmt_date) rows totalCount p isLoading
       (El ''div'' [] [El ''Search'' [] [],
         El ''Input'' [(''placeholder'', ([0x641C, 0x7D22, 0x516C, 0x53F8, 0x540D, 0x79F0, 0x6216, 0x90AE, 0x7BB1] @ js ''...'')), (''value'', search)] []])
       canPrev canNext"

definition customers_view ::
    "(jsval \<Rightarrow> jstr) \<Rightarrow> (jstr \<Rightarrow> view) \<Rightarrow> customer list \<Rightarrow> int \<Rightarrow> bool \<Rightarrow> bool \<Rightarrow> bool \<Rightarrow> bool \<Rightarrow>
     's customers_page_scheme \<Rightarrow> view" where
  "customers_view fmt_date detail rows totalCount isLoading isSubmitting canPrev canNext s =
     (if cp_detail s \<noteq> None \<and> the (cp_detail s) \<noteq> [] then El ''div'' [] [detail (the (cp_detail s))]
      else El ''div'' []
        [El ''h1'' [] [Txt [0x5BA2, 0x6237, 0x7BA1, 0x7406]], El ''p'' [] [Txt [0x5BA2, 0x6237, 0x5217, 0x8868, 0x3001, 0x5F00, 0x6237, 0x3001, 0x5145, 0x503C, 0x4E0E, 0x51BB, 0x7ED3]],
         El ''Button'' [(''onClick'', js ''create'')] [El ''Plus'' [] [], Txt [0x65B0, 0x5EFA, 0x5BA2, 0x6237]],
         customer_table fmt_date rows totalCount (cp_pagination s) (cp_search s) isLoading canPrev canNext,
         create_sheet isSubmitting s,
         balance_dialog isSubmitting s])"

section \<open>Properties\<close>

text \<open>The request of either mode, over the amount in cents and the reason.\<close>

definition balance_rq :: "balance_mode \<Rightarrow> customer \<Rightarrow> jsnum \<Rightarrow> jsval \<Rightarrow> httpreq" where
  "balance_rq m c y r =
     (case m of
        TopUpMode \<Rightarrow> admin_rq (js ''/api/billing/accounts/'' @ cu_id c @ js ''/topup'')
          (with_json ''POST'' (obj [(''amount'', JNum y)]))
      | DeductMode \<Rightarrow> admin_rq (js ''/api/billing/accounts/'' @ cu_id c @ js ''/deduct'')
          (with_json ''POST'' (obj [(''amount'', JNum y), (''reason'', r)])))"

definition reason_of :: "jsval \<Rightarrow> jsval" where
  "reason_of d = js_or (opt_get ''remark'' d) (JStr [0x7BA1, 0x7406, 0x5458, 0x6263, 0x6B3E])"

definition change_rq :: "balance_mode \<Rightarrow> customer \<Rightarrow> jsval \<Rightarrow> httpreq" where
  "change_rq m c d = balance_rq m c (cents (to_number (opt_get ''amount'' d))) (reason_of d)"

lemma with_field_present: "\<not> nullish v \<Longrightarrow> with_field k v f = f (opt_get k v)"
  by (simp add: with_field_def get_def opt_get_def)

lemma balance_change_run:
  assumes "\<not> nullish d"
  shows "balance_change m c d w =
     (case response_result (w_net w (sent w) (change_rq m c d)) of
        Inl e \<Rightarrow> (Inl e, log_events [Sent (change_rq m c d)] w)
      | Inr r \<Rightarrow> (Inr r, log_events [Sent (change_rq m c d), Invalidated (key [''customers''])] w))"
proof (cases m)
  case TopUpMode
  let ?v = "obj [(''user_id'', JStr (cu_id c)), (''amount'', JNum (cents (to_number (opt_get ''amount'' d))))]"
  have "admin_TopUp ?v w = (response_result (w_net w (sent w) (change_rq m c d)), log_events [Sent (change_rq m c d)] w)"
    by (simp add: admin_TopUp_def with_field_obj admin_request_run change_rq_def balance_rq_def TopUpMode)
  from mutate_async_request [where f = admin_TopUp, OF this] show ?thesis
    by (simp only: TopUpMode balance_change_def with_field_present [OF assms] balance_mode.case
        admin_useTopUpCustomer_def list.map)
next
  case DeductMode
  let ?v = "obj [(''user_id'', JStr (cu_id c)), (''amount'', JNum (cents (to_number (opt_get ''amount'' d)))),
    (''reason'', reason_of d)]"
  have "admin_Deduct ?v w = (response_result (w_net w (sent w) (change_rq m c d)), log_events [Sent (change_rq m c d)] w)"
    by (simp add: admin_Deduct_def with_field_obj admin_request_run change_rq_def balance_rq_def DeductMode)
  from mutate_async_request [where f = admin_Deduct, OF this] show ?thesis
    by (simp only: DeductMode balance_change_def with_field_present [OF assms] balance_mode.case
        admin_useDeductCustomer_def list.map reason_of_def)
qed

lemma customers_frame:
  "sent (s\<lparr>cp_balance_open := a\<rparr>) = sent s" "sent (s\<lparr>cp_balance_form := b\<rparr>) = sent s"
  "sent (s\<lparr>cp_balance_errors := e\<rparr>) = sent s" "sent (s\<lparr>cp_create_open := a\<rparr>) = sent s"
  "sent (s\<lparr>cp_create_form := b\<rparr>) = sent s" "sent (s\<lparr>cp_create_errors := e\<rparr>) = sent s"
  "invalidated (s\<lparr>cp_balance_open := a\<rparr>) = invalidated s" "invalidated (s\<lparr>cp_balance_form := b\<rparr>) = invalidated s"
  "invalidated (s\<lparr>cp_balance_errors := e\<rparr>) = invalidated s"
  by (simp_all add: sent_def invalidated_def)

text \<open>What the dialog hands on, by the promises of the schema library: a positive amount, and a reason where one is due.\<close>

lemma balance_parsed:
  assumes "schema_laws parse" and "parse (balance_schema m) v = Inr d"
  obtains kvs x where "d = JObj kvs" and "map_of kvs (js ''amount'') = Some (JNum (Fin x))" and "0 < x"
    and "m = DeductMode \<Longrightarrow> \<exists>r. map_of kvs (js ''remark'') = Some (JStr r) \<and> r \<noteq> []"
proof -
  from assms obtain kvs where d: "d = JObj kvs" and m: "meets (balance_schema m) kvs"
    by (rule schema_lawsD)
  then have a: "admits (ZNumber [CkPositive ([0x91D1, 0x989D, 0x5FC5, 0x987B, 0x5927, 0x4E8E] @ js ''0'')]) (value_at kvs ''amount'')"
    by (auto simp: meets_def balance_schema_def deduct_schema_def topup_schema_def split: if_splits)
  obtain x where x: "map_of kvs (js ''amount'') = Some (JNum (Fin x))"
    using admits_number [OF a] by blast
  have "\<exists>r. map_of kvs (js ''remark'') = Some (JStr r) \<and> r \<noteq> []" if "m = DeductMode"
  proof -
    from m that have r: "admits (ZString [CkLength 1 [0x6263, 0x6B3E, 0x5FC5, 0x987B, 0x586B, 0x5199, 0x5907, 0x6CE8]]) (value_at kvs ''remark'')"
      by (simp add: meets_def balance_schema_def deduct_schema_def)
    with admits_string [OF r] show ?thesis by auto
  qed
  with d x a show ?thesis by (intro that) auto
qed

lemma cents_finite:
  assumes "1 / 100 \<le> x \<and> x \<le> 2 ^ 1000"
  shows "num_mul (Fin x) (num_int 100) = Fin (fl (100 * x)) \<and> 1 \<le> fl (100 * x)"
proof -
  have l: "1 \<le> fl (100 * x)"
    using fl_mono [of 1 "100 * x"] fl_of_int [of 1] assms by simp
  have "100 * x \<le> 2 ^ 1007"
    using assms by (simp add: power_add [of 2 1000 7, simplified])
  then have "fl (100 * x) \<le> 2 ^ 1007"
    using fl_mono [of "100 * x" "2 ^ 1007"] fl_representable [of 1 1007] by (simp add: power_int_def)
  also have "(2 :: rat) ^ 1007 < 2 ^ 1024" by (intro power_strict_increasing) simp_all
  finally have "\<bar>fl (100 * x)\<bar> < 2 ^ 1024" using l by simp
  with l show ?thesis by (simp add: to_num_fl mult.commute)
qed

lemma cents_infinite:
  assumes "2 ^ 1018 \<le> x"
  shows "num_mul (Fin x) (num_int 100) = PInf"
proof -
  have "2 ^ 1024 = (2 ^ 6 :: rat) * 2 ^ 1018" by (simp only: power_add [symmetric]) simp
  also have "\<dots> \<le> x * 100" using assms by simp
  finally have "fl (2 ^ 1024) \<le> fl (x * 100)" by (rule fl_mono)
  then have "2 ^ 1024 \<le> fl (x * 100)"
    using fl_representable [of 1 1024] by (simp add: power_int_def)
  then show ?thesis by (simp add: to_num_def)
qed

lemma balance_submit_run:
  assumes "cp_selected s = Some c" and "map_of kvs (js ''amount'') = Some (JNum n)"
  shows "let rq = change_rq (cp_mode s) c (JObj kvs) in
    snd (balance_onFormSubmit (JObj kvs) s) =
      (log_events (Sent rq # (case response_result (w_net s (sent s) rq) of
          Inr r \<Rightarrow> [Invalidated (key [''customers'']), ToastOk ((if cp_mode s = TopUpMode then [0x5145, 0x503C] else [0x6263, 0x6B3E]) @
            (js '' '' @ [0x00A5]) @ to_fixed 2 n @ (js '' '' @ [0x6210, 0x529F]))]
        | Inl e \<Rightarrow> [ToastError (to_str (js_or (opt_get ''message'' e) (JStr [0x64CD, 0x4F5C, 0x5931, 0x8D25])))])) s)
      \<lparr>cp_balance_form := balance_defaults, cp_balance_errors := [], cp_balance_open := False\<rparr>"
proof -
  have a: "opt_get ''amount'' (JObj kvs) = JNum n" using assms(2) by (simp add: opt_get_def)
  show ?thesis
    by (cases "response_result (w_net s (sent s) (change_rq (cp_mode s) c (JObj kvs)))")
      (simp_all add: balance_onFormSubmit_def handleBalanceSubmit_def assms(1) bind_def balance_change_run
        with_field_present a fixed2_def lift_sum_def return_def try_catch_def emit_run effect_def toast_failure_def
        reset_balance_def Let_def log_events_def log_event_def)
qed

text \<open>
  C31: submitting the balance dialog. Values the schema refuses send nothing and only show their errors. Otherwise
  the amount is a positive number and one request is sent for the selected customer, over the amount in cents
  and, for a charge, the remark as its reason. Where the server accepts it the customers are refreshed and the amount is
  confirmed; where it does not, the server's message is shown. The dialog is closed and its form emptied in both
  cases, so a refused change has to be typed again.
\<close>

theorem balance_dialog_outcome:
  assumes laws: "schema_laws parse" and sel: "cp_selected s = Some c"
  shows "let s' = snd (balance_submit parse s); m = cp_mode s in
    case parse (balance_schema m) (cp_balance_form s) of
      Inl es \<Rightarrow> s' = s\<lparr>cp_balance_errors := es\<rparr>
    | Inr d \<Rightarrow> \<exists>x. opt_get ''amount'' d = JNum (Fin x) \<and> 0 < x \<and>
        (let rq = balance_rq m c (num_mul (Fin x) (num_int 100)) (js_or (opt_get ''remark'' d) (JStr [0x7BA1, 0x7406, 0x5458, 0x6263, 0x6B3E])) in
         w_log s' = w_log s @ Sent rq # (case response_result (w_net s (sent s) rq) of
             Inr r \<Rightarrow> [Invalidated (key [''customers'']), ToastOk ((if m = TopUpMode then [0x5145, 0x503C] else [0x6263, 0x6B3E]) @
               (js '' '' @ [0x00A5]) @ to_fixed 2 (Fin x) @ (js '' '' @ [0x6210, 0x529F]))]
           | Inl e \<Rightarrow> [ToastError (to_str (js_or (opt_get ''message'' e) (JStr [0x64CD, 0x4F5C, 0x5931, 0x8D25])))])) \<and>
        \<not> cp_balance_open s' \<and> cp_balance_form s' = balance_defaults \<and> cp_balance_errors s' = []"
proof (cases "parse (balance_schema (cp_mode s)) (cp_balance_form s)")
  case (Inl es)
  then show ?thesis by (simp add: balance_submit_def submit_form_def effect_def)
next
  case (Inr d)
  from laws Inr obtain kvs x where d: "d = JObj kvs" "map_of kvs (js ''amount'') = Some (JNum (Fin x))" "0 < x"
    by (rule balance_parsed)
  then have a: "opt_get ''amount'' (JObj kvs) = JNum (Fin x)" by (simp add: opt_get_def)
  have "snd (balance_submit parse s) = snd (balance_onFormSubmit (JObj kvs) s)"
    using Inr d(1) by (simp add: balance_submit_def submit_form_def)
  with Inr a d(1,3) show ?thesis
    using balance_submit_run [OF sel d(2)]
    by (simp add: Let_def change_rq_def reason_of_def cents_def del: num_mul.simps to_fixed.simps)
qed

lemma create_run:
  "mutate_async admin_useCreateCustomer v w =
     (case response_result (w_net w (sent w) (admin_rq (js ''/api/auth/admin/users'') (with_json ''POST'' v))) of
        Inl e \<Rightarrow> (Inl e, log_events [Sent (admin_rq (js ''/api/auth/admin/users'') (with_json ''POST'' v))] w)
      | Inr r \<Rightarrow> (Inr r, log_events [Sent (admin_rq (js ''/api/auth/admin/users'') (with_json ''POST'' v)),
          Invalidated (key [''customers''])] w))"
  using mutate_async_request [of admin_CreateUser v w "admin_rq (js ''/api/auth/admin/users'') (with_json ''POST'' v)"
      "[key [''customers'']]"]
  by (simp add: admin_useCreateCustomer_def admin_CreateUser_def admin_request_run split: sum.splits)

interpretation customer_create: one_request "mutate_async admin_useCreateCustomer"
  "\<lambda>v. admin_rq (js ''/api/auth/admin/users'') (with_json ''POST'' v)" "[key [''customers'']]"
  by unfold_locales (simp add: create_run split: sum.splits)

interpretation customer_balance: one_request "\<lambda>(m, c, kvs). balance_change m c (JObj kvs)"
  "\<lambda>(m, c, kvs). change_rq m c (JObj kvs)" "[key [''customers'']]"
  by unfold_locales (simp add: balance_change_run split: sum.splits prod.splits)

lemma create_submit_sent:
  "sent (snd (create_onFormSubmit (JObj kvs) s)) = sent s @
     [admin_rq (js ''/api/auth/admin/users'') (with_json ''POST'' (create_params (JObj kvs)))]"
  by (cases "response_result (w_net s (sent s)
        (admin_rq (js ''/api/auth/admin/users'') (with_json ''POST'' (create_params (JObj kvs)))))")
    (simp_all add: create_onFormSubmit_def handleCreateSubmit_def row_of_def bind_def lift_sum_def create_run
      try_catch_def emit_run effect_def toast_failure_def customers_frame)

definition sample_customer :: customer where
  "sample_customer = customer_of (obj [(''id'', jint 7), (''username'', jlit ''acme''), (''email'', jlit ''a@b.c''),
     (''balance'', jint 1250), (''status'', jlit ''active''), (''max_concurrent'', jint 10),
     (''daily_limit'', jint 1000), (''created_at'', jlit ''2026-01-01'')])"

definition sample_customers :: customers_page where
  "sample_customers =
     \<lparr>w_net = (\<lambda>past r. Unreachable (JError (js ''offline''))),
      w_local = Map.empty, w_now = 0, w_random = (\<lambda>_. 0), w_draws = 0, w_log = [],
      cp_pagination = \<lparr>pg_index = 0, pg_size = 10\<rparr>, cp_search = [], cp_create_open = True, cp_balance_open = True,
      cp_mode = DeductMode, cp_selected = Some sample_customer, cp_detail = None,
      cp_balance_form = obj [(''amount'', jint 5), (''remark'', jlit ''fee'')], cp_balance_errors = [],
      cp_create_form = obj [(''company'', jlit ''acme''), (''email'', jlit ''a@b.c''), (''password'', jlit ''12345678''),
        (''max_concurrent'', jint 10), (''daily_limit'', jint 1000), (''initial_balance'', jint 500)],
      cp_create_errors = []\<rparr>"

lemma sample_accepted:
  "accept_all (balance_schema (cp_mode sample_customers)) (cp_balance_form sample_customers) =
     Inr (obj [(''amount'', jint 5), (''remark'', jlit ''fee'')])"
  by (simp add: sample_customers_def balance_schema_def deduct_schema_def accept_all_def Let_def value_at_def)

theorem balance_dialog_outcome_witness:
  "let s' = snd (balance_submit accept_all sample_customers) in
     last (w_log s') = ToastError (js ''offline'') \<and> \<not> cp_balance_open s' \<and> cp_balance_form s' = balance_defaults"
proof -
  have s: "cp_selected sample_customers = Some sample_customer" by (simp add: sample_customers_def)
  have "response_result (w_net sample_customers (sent sample_customers) r) = Inl (JError (js ''offline''))" for r
    by (simp add: sample_customers_def response_result_def)
  then show ?thesis
    using balance_dialog_outcome [OF accept_all_laws s]
    by (auto simp: Let_def sample_accepted opt_get_def js_or_def)
qed

text \<open>
  C32: a charge reaches the server only for the typed positive amount and with a reason: whatever was typed, for
  every schema library that keeps its promises, submitting the dialog in its charging mode sends nothing,
  or one charge of the selected customer whose amount is the typed amount times a hundred, in doubles, and whose reason is the typed
  text, which is not empty. For an amount from a cent up to \<open>2 ^ 1000\<close> what is sent is the double
  nearest to a hundred times it, at least 1; from \<open>2 ^ 1018\<close> on the product is infinite, which JSON
  cannot write.
\<close>

theorem deduct_guarded:
  assumes laws: "schema_laws parse" "schema_keeps parse" and form: "cp_balance_form s = JObj vs"
    and mode: "cp_mode s = DeductMode" and sel: "cp_selected s = Some c"
  shows "sent (snd (balance_submit parse s)) = sent s \<or>
    (\<exists>x y r. value_at vs ''amount'' = JNum (Fin x) \<and> 0 < x \<and> value_at vs ''remark'' = JStr r \<and> r \<noteq> [] \<and>
       sent (snd (balance_submit parse s)) = sent s @
         [admin_rq (js ''/api/billing/accounts/'' @ cu_id c @ js ''/deduct'')
            (with_json ''POST'' (obj [(''amount'', JNum y), (''reason'', JStr r)]))] \<and>
       y = num_mul (Fin x) (num_int 100) \<and>
       (1 / 100 \<le> x \<and> x \<le> 2 ^ 1000 \<longrightarrow> y = Fin (fl (100 * x)) \<and> 1 \<le> fl (100 * x)) \<and>
       (2 ^ 1018 \<le> x \<longrightarrow> y = PInf))"
proof (cases "parse (balance_schema DeductMode) (JObj vs)")
  case (Inl es)
  then have "sent (snd (balance_submit parse s)) = sent s"
    by (simp add: balance_submit_def mode form submit_form_def effect_def sent_def)
  then show ?thesis ..
next
  case (Inr d)
  from laws(1) Inr obtain kvs x where d: "d = JObj kvs" "map_of kvs (js ''amount'') = Some (JNum (Fin x))" "0 < x"
    and "\<exists>r. map_of kvs (js ''remark'') = Some (JStr r) \<and> r \<noteq> []"
    by (rule balance_parsed) auto
  then obtain r where r: "map_of kvs (js ''remark'') = Some (JStr r)" "r \<noteq> []" by blast
  have keep: "value_at kvs k = value_at vs k" if "k \<in> {''amount'', ''remark''}" for k
    using schema_keepsD [OF laws(2) Inr [unfolded d(1)]] that
    by (auto simp: balance_schema_def deduct_schema_def)
  have t: "value_at vs ''amount'' = JNum (Fin x)" "value_at vs ''remark'' = JStr r"
    using keep [of "''amount''"] keep [of "''remark''"] d(2) r(1) by simp_all
  have g: "change_rq DeductMode c (JObj kvs) = balance_rq DeductMode c (num_mul (Fin x) (num_int 100)) (JStr r)"
    using d(2) r by (simp add: change_rq_def reason_of_def cents_def opt_get_def js_or_def del: num_mul.simps)
  have "sent (snd (balance_submit parse s)) = sent s @ [change_rq DeductMode c (JObj kvs)]"
    using Inr d(1) balance_submit_run [OF sel d(2)]
    by (simp add: balance_submit_def mode form submit_form_def customers_frame Let_def split: sum.splits)
  moreover have "num_mul (Fin x) (num_int 100) = Fin (fl (100 * x)) \<and> 1 \<le> fl (100 * x)"
    if "1 / 100 \<le> x \<and> x \<le> 2 ^ 1000"
    using cents_finite [of x] that by blast
  moreover have "num_mul (Fin x) (num_int 100) = PInf" if "2 ^ 1018 \<le> x"
    using cents_infinite [OF that] .
  ultimately show ?thesis
    using t d(3) r(2) unfolding g balance_rq_def balance_mode.case by blast
qed

theorem deduct_guarded_witness:
  "\<exists>y. sent (snd (balance_submit accept_all sample_customers)) =
     [admin_rq (js ''/api/billing/accounts/'' @ cu_id sample_customer @ js ''/deduct'')
        (with_json ''POST'' (obj [(''amount'', JNum y), (''reason'', jlit ''fee'')]))] \<and> y = num_int 500"
proof -
  let ?vs = "[(js ''amount'', jint 5), (js ''remark'', jlit ''fee'')]"
  have f: "cp_balance_form sample_customers = JObj ?vs" "cp_mode sample_customers = DeductMode"
    "cp_selected sample_customers = Some sample_customer" "sent sample_customers = []"
    by (simp_all add: sample_customers_def sent_def)
  have n: "sent (snd (balance_submit accept_all sample_customers)) \<noteq> sent sample_customers"
    using balance_submit_run [OF f(3), of ?vs "num_int 5"] sample_accepted
    by (simp add: balance_submit_def submit_form_def customers_frame Let_def split: sum.splits)
  have "fl 500 = 500" using fl_of_int [of 500] by simp
  with n show ?thesis
    using deduct_guarded [OF accept_all_laws accept_all_keeps f(1-3)] f(4)
    by (auto simp: value_at_def)
qed

lemma double_19_99:
  "fl (1999 / 100) = 5626684784446013 / 281474976710656"
  "fl (5626684784446013 / 281474976710656 * 100) = 8791694975696895 / 4398046511104"
  using fl_eval [of 4 "1999 / 100" 5626684784446013]
    fl_eval [of 10 "5626684784446013 / 281474976710656 * 100" 8791694975696895]
  by (simp_all add: power_int_def power_one_over)

lemma cents_19_99: "cents (to_num (1999 / 100)) = Fin (8791694975696895 / 4398046511104)"
  by (simp add: cents_def to_num_bounded double_19_99 del: times_divide_eq_left)

text \<open>
  C33: the amount sent for a top-up is close to the typed cents but need not be a number of cents: for
  every amount typed with two decimals, up to \<open>2 ^ 50\<close> cents, it is off by less than half a cent, so
  rounding it would give the typed amount; the page does not round, and for 19.99 it sends a fraction.
\<close>

theorem cents_of_typed:
  assumes "0 \<le> c" and "c \<le> 2 ^ 50"
  shows "\<exists>y. cents (string_to_number (point_at 2 c)) = Fin y \<and> \<bar>y - of_int c\<bar> \<le> 3 / 8 \<and> \<lfloor>y + 1 / 2\<rfloor> = c \<and>
    (c = 1999 \<longrightarrow> y < 1999)"
proof -
  have c: "(of_int c :: rat) \<le> 2 ^ 50" "0 \<le> (of_int c :: rat)"
    using assms by (simp_all flip: of_int_le_iff)
  have p: "string_to_number (point_at 2 c) = Fin (fl (of_int c / 100))"
    using read_point_at [OF assms(1), of 2] c by (simp add: to_num_bounded)
  have "\<bar>fl (of_int c / 100) * 100 - of_int c\<bar> \<le> 1 / 8"
    using dbl.rd_hundredths_close [of c] assms by simp
  then have "\<bar>fl (of_int c / 100) * 100\<bar> \<le> of_int c + 1" using c(2) by linarith
  then have b: "\<bar>fl (of_int c / 100) * 100\<bar> \<le> 2 ^ 53" by (rule order_trans) (use c(1) in simp)
  then have q: "cents (string_to_number (point_at 2 c)) = Fin (fl (fl (of_int c / 100) * 100))"
    by (simp add: cents_def p to_num_bounded)
  have "\<bar>fl (fl (of_int c / 100) * 100) - of_int c\<bar> \<le> 3 / 8" "\<lfloor>fl (fl (of_int c / 100) * 100) + 1 / 2\<rfloor> = c"
    using dbl.rd_hundredths_back [of c] dbl.rd_hundredths_roundtrip [of c] assms by simp_all
  moreover have "fl (fl (of_int c / 100) * 100) < 1999" if "c = 1999"
    unfolding that of_int_numeral double_19_99 by simp
  ultimately show ?thesis using q by blast
qed

theorem cents_of_typed_witness:
  "\<exists>y. cents (string_to_number (js ''19.99'')) = Fin y \<and> \<lfloor>y + 1 / 2\<rfloor> = 1999 \<and> y < 1999"
proof -
  have "point_at 2 1999 = js ''19.99''" by code_simp
  with cents_of_typed [of 1999] show ?thesis by auto
qed

text \<open>
  An account is always opened without credit, whatever was typed as its initial balance: for every
  schema library that keeps its promises, submitting the form sends nothing or one request whose credit
  limit is zero and which has no field for a balance, since the form's schema and the page's handler do
  not name the same fields.
\<close>

lemma create_drops_balance:
  assumes laws: "schema_laws parse"
  shows "sent (snd (create_submit parse s)) = sent s \<or>
    (\<exists>name email password max_concurrent daily_limit. sent (snd (create_submit parse s)) = sent s @
       [admin_rq (js ''/api/auth/admin/users'') (with_json ''POST'' (obj
         [(''username'', name), (''email'', email), (''password'', password), (''credit_limit'', jint 0),
          (''max_concurrent'', max_concurrent), (''daily_limit'', daily_limit)]))])"
proof (cases "parse create_customer_schema (cp_create_form s)")
  case (Inl es)
  then have "sent (snd (create_submit parse s)) = sent s"
    by (simp add: create_submit_def submit_form_def effect_def customers_frame)
  then show ?thesis ..
next
  case (Inr d)
  from laws Inr obtain kvs where d: "d = JObj kvs" and m: "meets create_customer_schema kvs"
    by (rule schema_lawsD)
  then have "map_of kvs (js ''credit_limit'') = None"
    by (intro absent_field [of _ "set (map (js \<circ> fst) create_customer_schema)"])
      (auto simp: meets_def create_customer_schema_def)
  then have "opt_get ''credit_limit'' d = JUndef"
    by (simp add: d opt_get_def proto_get_def proto_names_def)
  then have "create_params d = obj
     [(''username'', opt_get ''company'' d), (''email'', opt_get ''email'' d), (''password'', opt_get ''password'' d),
      (''credit_limit'', jint 0), (''max_concurrent'', js_or (opt_get ''max_concurrent'' d) (jint 10)),
      (''daily_limit'', js_or (opt_get ''daily_limit'' d) (jint 1000))]"
    using to_num_int [of 0] by (simp add: create_params_def js_or_def)
  moreover have "sent (snd (create_submit parse s)) = sent s @
      [admin_rq (js ''/api/auth/admin/users'') (with_json ''POST'' (create_params d))]"
    using Inr by (simp add: create_submit_def submit_form_def create_submit_sent d)
  ultimately show ?thesis by metis
qed

end
