(* ===== verification/Customer_Detail.thy ===== *)
theory Customer_Detail
  imports Forms
begin

text \<open>
  \<open>features/customers/components/customer-detail.tsx\<close>: the detail page of a customer. It shows fixed
  sample data for every customer; the address whitelist is edited in the page only. Dates and times are
  shown through the browser's locale database, the arguments \<open>fmt_date\<close> and \<open>fmt_time\<close>.
\<close>

section \<open>The data shown\<close>

record detail_call =
  dc_id :: jstr
  dc_caller :: jstr
  dc_callee :: jstr
  dc_duration :: int
  dc_cost :: jsnum
  dc_started_at :: jstr

record customer_detail =
  de_id :: jstr
  de_company :: jstr
  de_email :: jstr
  de_status :: jstr
  de_balance :: jsnum
  de_credit_limit :: jsnum
  de_max_concurrent :: int
  de_daily_limit :: int
  de_created_at :: jstr
  de_api_key :: jstr
  de_ip_whitelist :: "jstr list"
  de_recent_calls :: "detail_call list"

definition mock_call :: "string \<Rightarrow> string \<Rightarrow> string \<Rightarrow> int \<Rightarrow> rat \<Rightarrow> string \<Rightarrow> detail_call" where
  "mock_call i a b d c t =
     \<lparr>dc_id = js i, dc_caller = js a, dc_callee = js b, dc_duration = d, dc_cost = to_num c, dc_started_at = js t\<rparr>"

definition mockCustomerDetail :: customer_detail where
  "mockCustomerDetail =
     \<lparr>de_id = js ''1'', de_company = [0x793A, 0x4F8B, 0x79D1, 0x6280, 0x6709, 0x9650, 0x516C, 0x53F8], de_email = js ''admin@example.com'',
      de_status = js ''active'', de_balance = to_num (25001 / 2), de_credit_limit = num_int 5000,
      de_max_concurrent = 50, de_daily_limit = 2000, de_created_at = js ''2025-12-01T08:00:00Z'',
      de_api_key = js ''bos_sk_a1b2c3d4e5f6g7h8i9j0k1l2m3n4o5p6'',
      de_ip_whitelist = [js ''192.168.1.100'', js ''10.0.0.1'', js ''172.16.0.50''],
      de_recent_calls =
        [mock_call ''c1'' ''13800001111'' ''02188889999'' 120 (24 / 10) ''2026-03-10T14:30:00Z'',
         mock_call ''c2'' ''13900002222'' ''01066667777'' 45 (9 / 10) ''2026-03-10T14:15:00Z'',
         mock_call ''c3'' ''13700003333'' ''02155554444'' 300 6 ''2026-03-10T13:50:00Z'',
         mock_call ''c4'' ''13600004444'' ''07588883333'' 60 (12 / 10) ''2026-03-10T13:20:00Z'',
         mock_call ''c5'' ''13500005555'' ''02866662222'' 180 (36 / 10) ''2026-03-10T12:45:00Z'']\<rparr>"

definition maskedKey :: "jstr \<Rightarrow> jstr" where
  "maskedKey k = str_slice 0 8 k @ js ''...'' @ slice_from (- 4) k"

section \<open>State and handlers\<close>

record detail_page = world +
  dt_ip_input :: jstr
  dt_ip_list :: "jstr list"

type_synonym ('s, 'a) detail_prog = "('s detail_page_scheme, jsval, 'a) prog"

definition handleCopyKey :: "('s, unit) detail_prog" where
  "handleCopyKey =
     bind (emit (Copied (de_api_key mockCustomerDetail))) (\<lambda>_. emit (ToastOk (js ''API Key '' @ [0x5DF2, 0x590D, 0x5236, 0x5230, 0x526A, 0x8D34, 0x677F])))"

text \<open>The regular expression of an address, with an optional prefix length.\<close>

definition ip_regex :: rx where
  "ip_regex =
     RxSeq (RxRep 3 3 (RxSeq (rx_digits 1 3) (rx_char (CHR ''.''))))
       (RxSeq (rx_digits 1 3) (RxOpt (RxSeq (rx_char (CHR ''/'')) (rx_digits 1 2))))"

definition handleAddIp :: "('s, unit) detail_prog" where
  "handleAddIp = (\<lambda>s.
     let trimmed = str_trim (dt_ip_input s) in
     if trimmed = [] then (Inr (), s)
     else if \<not> rx_test ip_regex trimmed then emit (ToastError (js ''IP '' @ [0x5730, 0x5740, 0x683C, 0x5F0F, 0x4E0D, 0x6B63, 0x786E])) s
     else if trimmed \<in> set (dt_ip_list s) then emit (ToastError ([0x8BE5] @ js '' IP '' @ [0x5DF2, 0x5B58, 0x5728])) s
     else bind (effect (\<lambda>s. s\<lparr>dt_ip_list := dt_ip_list s @ [trimmed], dt_ip_input := []\<rparr>)) (\<lambda>_.
          emit (ToastOk (js ''IP '' @ [0x5DF2, 0x6DFB, 0x52A0]))) s)"

definition handleRemoveIp :: "jstr \<Rightarrow> ('s, unit) detail_prog" where
  "handleRemoveIp ip =
     bind (effect (\<lambda>s. s\<lparr>dt_ip_list := filter (\<lambda>i. i \<noteq> ip) (dt_ip_list s)\<rparr>)) (\<lambda>_.
     emit (ToastOk (js ''IP '' @ [0x5DF2, 0x79FB, 0x9664])))"

definition new_detail :: "'s detail_page_scheme \<Rightarrow> 's detail_page_scheme" where
  "new_detail s = s\<lparr>dt_ip_input := [], dt_ip_list := de_ip_whitelist mockCustomerDetail\<rparr>"

text \<open>What can be done to the whitelist: type, press enter or the button, remove an entry.\<close>

datatype ip_action = TypeIp jstr | AddIp | RemoveIp jstr

fun ip_act :: "ip_action \<Rightarrow> 's detail_page_scheme \<Rightarrow> 's detail_page_scheme" where
  "ip_act (TypeIp t) s = s\<lparr>dt_ip_input := t\<rparr>"
| "ip_act AddIp s = snd (handleAddIp s)"
| "ip_act (RemoveIp ip) s = snd (handleRemoveIp ip s)"

section \<open>The view\<close>

definition info_line :: "jstr \<Rightarrow> view \<Rightarrow> view" where
  "info_line label v = El ''div'' [] [El ''span'' [] [Txt label], v]"

definition detail_card :: "jstr \<Rightarrow> view list \<Rightarrow> view" where
  "detail_card title vs =
     El ''Card'' [] [El ''CardHeader'' [] [El ''CardTitle'' [] [Txt title]], El ''CardContent'' [] vs]"

definition info_card :: "(jstr \<Rightarrow> jstr) \<Rightarrow> customer_detail \<Rightarrow> view" where
  "info_card fmt_date c =
     (let active = (de_status c = js ''active'') in
      detail_card [0x57FA, 0x672C, 0x4FE1, 0x606F]
        [info_line [0x516C, 0x53F8, 0x540D, 0x79F0] (Txt (de_company c)),
         info_line [0x90AE, 0x7BB1] (Txt (de_email c)),
         info_line [0x72B6, 0x6001] (El ''Badge'' []
           [Txt (if active then [0x6B63, 0x5E38] else [0x5DF2, 0x51BB, 0x7ED3])]),
         info_line [0x5E76, 0x53D1, 0x4E0A, 0x9650] (Txt (show_int (de_max_concurrent c))),
         info_line [0x65E5, 0x9650, 0x989D] (Txt (show_int (de_daily_limit c))),
         info_line [0x521B, 0x5EFA, 0x65F6, 0x95F4] (Txt (fmt_date (de_created_at c)))])"

definition balance_card :: "customer_detail \<Rightarrow> view" where
  "balance_card c =
     detail_card [0x4F59, 0x989D, 0x4FE1, 0x606F]
       [El ''p'' [] [Txt [0x5F53, 0x524D, 0x4F59, 0x989D]],
        El ''p'' [] [Txt ([0x00A5] @ to_locale 2 3 (de_balance c))],
        info_line [0x4FE1, 0x7528, 0x989D, 0x5EA6] (Txt ([0x00A5] @ to_locale 2 3 (de_credit_limit c))),
        El ''Separator'' [] [],
        El ''Button'' [(''onClick'', js ''topup'')] [El ''Wallet'' [] [], Txt [0x5145, 0x503C]],
        El ''Button'' [(''onClick'', js ''deduct'')] [El ''MinusCircle'' [] [], Txt [0x6263, 0x6B3E]]]"

definition topup_info :: "('s, unit) detail_prog" where
  "topup_info = emit (ToastInfo [0x5145, 0x503C, 0x529F, 0x80FD, 0x5F85, 0x63A5, 0x5165])"

definition deduct_info :: "('s, unit) detail_prog" where
  "deduct_info = emit (ToastInfo [0x6263, 0x6B3E, 0x529F, 0x80FD, 0x5F85, 0x63A5, 0x5165])"

definition key_card :: "customer_detail \<Rightarrow> view" where
  "key_card c =
     detail_card (js ''API Key'')
       [El ''code'' [] [Txt (maskedKey (de_api_key c))],
        El ''Tooltip'' [] [El ''Button'' [(''onClick'', js ''copy'')] [El ''Copy'' [] []],
          El ''TooltipContent'' [] [Txt [0x590D, 0x5236]]],
        confirm_dialog
          \<lparr>cf_trigger = El ''Button'' [] [El ''RefreshCw'' [] []],
           cf_title = ([0x91CD, 0x65B0, 0x751F, 0x6210] @ js '' API Key''),
           cf_description = ([0x91CD, 0x65B0, 0x751F, 0x6210, 0x540E, 0xFF0C, 0x65E7, 0x7684] @ js '' API Key '' @ [0x5C06, 0x7ACB, 0x5373, 0x5931, 0x6548, 0x3002, 0x5BA2, 0x6237, 0x9700, 0x8981, 0x66F4, 0x65B0, 0x5176, 0x96C6, 0x6210, 0x914D, 0x7F6E, 0x3002, 0x786E, 0x5B9A, 0x8981, 0x7EE7, 0x7EED, 0x5417, 0xFF1F]),
           cf_confirm = Some [0x91CD, 0x65B0, 0x751F, 0x6210], cf_cancel = None, cf_variant = Some ''warning'', cf_disabled = False\<rparr>]"

definition regenerate_key :: "('s, unit) detail_prog" where
  "regenerate_key = emit (ToastOk (js ''API Key '' @ [0x5DF2, 0x91CD, 0x65B0, 0x751F, 0x6210]))"

definition ip_card :: "'s detail_page_scheme \<Rightarrow> view" where
  "ip_card s =
     detail_card (js ''IP '' @ [0x767D, 0x540D, 0x5355])
       [El ''Input'' [(''placeholder'', ([0x8F93, 0x5165] @ js '' IP '' @ [0x5730, 0x5740])), (''value'', dt_ip_input s)] [],
        El ''Button'' [(''onClick'', js ''add'')] [El ''Plus'' [] []],
        El ''div'' []
          (if dt_ip_list s = [] then [El ''p'' [] [Txt ([0x6682, 0x65E0] @ js '' IP '' @ [0x767D, 0x540D, 0x5355])]]
           else map (\<lambda>ip. El ''div'' [] [El ''span'' [] [Txt ip],
             El ''Button'' [(''onClick'', js ''remove'')] [El ''X'' [] []]]) (dt_ip_list s))]"

definition calls_card :: "(jstr \<Rightarrow> jstr) \<Rightarrow> customer_detail \<Rightarrow> view" where
  "calls_card fmt_time c =
     detail_card [0x6700, 0x8FD1, 0x901A, 0x8BDD]
       [El ''Table'' []
         [El ''TableHeader'' [] [El ''TableRow'' []
            (map (\<lambda>h. El ''TableHead'' [] [Txt h]) [[0x4E3B, 0x53EB], [0x88AB, 0x53EB], ([0x65F6, 0x957F] @ js ''('' @ [0x79D2] @ js '')''), [0x8D39, 0x7528], [0x65F6, 0x95F4]])],
          El ''TableBody'' []
            (map (\<lambda>k. El ''TableRow'' []
               (map (\<lambda>t. El ''TableCell'' [] [Txt t])
                 [dc_caller k, dc_callee k, show_int (dc_duration k), [0x00A5] @ to_fixed 2 (dc_cost k),
                  fmt_time (dc_started_at k)])) (de_recent_calls c))]]"

definition freeze_block :: "customer_detail \<Rightarrow> view" where
  "freeze_block c =
     (if de_status c = js ''active'' then
        confirm_dialog
          \<lparr>cf_trigger = El ''Button'' [] [Txt [0x51BB, 0x7ED3, 0x8D26, 0x6237]], cf_title = [0x786E, 0x8BA4, 0x51BB, 0x7ED3, 0x8D26, 0x6237],
           cf_description = [0x51BB, 0x7ED3, 0x540E, 0xFF0C] @ de_company c @ (js '' '' @ [0x5C06, 0x65E0, 0x6CD5, 0x53D1, 0x8D77, 0x65B0, 0x7684, 0x547C, 0x53EB, 0xFF0C, 0x4E14] @ js '' API '' @ [0x8BBF, 0x95EE, 0x5C06, 0x88AB, 0x62D2, 0x7EDD, 0x3002, 0x786E, 0x5B9A, 0x8981, 0x51BB, 0x7ED3, 0x8BE5, 0x5BA2, 0x6237, 0x5417, 0xFF1F]),
           cf_confirm = Some [0x786E, 0x8BA4, 0x51BB, 0x7ED3], cf_cancel = None, cf_variant = Some ''danger'', cf_disabled = False\<rparr>
      else
        confirm_dialog
          \<lparr>cf_trigger = El ''Button'' [] [Txt [0x89E3, 0x51BB, 0x8D26, 0x6237]], cf_title = [0x786E, 0x8BA4, 0x89E3, 0x51BB, 0x8D26, 0x6237],
           cf_description = [0x89E3, 0x51BB, 0x540E, 0xFF0C] @ de_company c @ (js '' '' @ [0x5C06, 0x6062, 0x590D, 0x6B63, 0x5E38, 0x670D, 0x52A1, 0x3002, 0x786E, 0x5B9A, 0x8981, 0x89E3, 0x51BB, 0x8BE5, 0x5BA2, 0x6237, 0x5417, 0xFF1F]),
           cf_confirm = Some [0x786E, 0x8BA4, 0x89E3, 0x51BB], cf_cancel = None, cf_variant = Some ''warning'', cf_disabled = False\<rparr>)"

definition confirm_freeze :: "bool \<Rightarrow> ('s, unit) detail_prog" where
  "confirm_freeze active = emit (ToastOk (if active then [0x8D26, 0x6237, 0x5DF2, 0x51BB, 0x7ED3] else [0x8D26, 0x6237, 0x5DF2, 0x89E3, 0x51BB]))"

definition detail_view ::
    "(jstr \<Rightarrow> jstr) \<Rightarrow> (jstr \<Rightarrow> jstr) \<Rightarrow> jstr \<Rightarrow> 's detail_page_scheme \<Rightarrow> view" where
  "detail_view fmt_date fmt_time customerId s =
     (let c = mockCustomerDetail in
      El ''div'' []
        [El ''Button'' [(''onClick'', js ''back'')] [El ''ArrowLeft'' [] []],
         El ''h2'' [] [Txt (de_company c)], El ''p'' [] [Txt (de_email c)],
         info_card fmt_date c, balance_card c, key_card c, ip_card s,
         calls_card fmt_time c, freeze_block c])"

section \<open>Properties\<close>

definition digit_run :: "nat \<Rightarrow> jstr \<Rightarrow> bool" where
  "digit_run n w \<longleftrightarrow> list_all is_digit w \<and> 1 \<le> length w \<and> length w \<le> n"

text \<open>
  C34: the format check of the whitelist accepts exactly four groups of one to three digits with points
  between them and an optional prefix length of one or two digits. It does not check the ranges: an
  address no host can have, with an impossible prefix length, is accepted.
\<close>

theorem ip_format:
  "rx_test ip_regex t \<longleftrightarrow>
     (\<exists>a b c d m. t = a @ js ''.'' @ b @ js ''.'' @ c @ js ''.'' @ d @ m \<and>
        digit_run 3 a \<and> digit_run 3 b \<and> digit_run 3 c \<and> digit_run 3 d \<and>
        (m = [] \<or> (\<exists>e. m = js ''/'' @ e \<and> digit_run 2 e)))"
  (is "_ \<longleftrightarrow> ?r")
proof -
  have n: "RxRep 3 3 r = RxRep (Suc (Suc (Suc 0))) (Suc (Suc (Suc 0))) r" for r
    by (simp add: numeral_3_eq_3)
  have "rx_test ip_regex t \<longleftrightarrow>
     (\<exists>a b c d m. t = a @ cu (CHR ''.'') # b @ cu (CHR ''.'') # c @ cu (CHR ''.'') # d @ m \<and>
        digit_run 3 a \<and> digit_run 3 b \<and> digit_run 3 c \<and> digit_run 3 d \<and>
        (m = [] \<or> (\<exists>e. m = cu (CHR ''/'') # e \<and> digit_run 2 e)))"
    unfolding rx_test_def ip_regex_def n rx_sem digit_run_def by (rule iffI; clarsimp; blast)
  then show ?thesis by (simp add: js_Cons)
qed


lemma ip_format_no_ranges: "rx_test ip_regex (js ''999.999.999.999/99'')"
  by code_simp

definition ip_inv :: "'s detail_page_scheme \<Rightarrow> bool" where
  "ip_inv s \<longleftrightarrow> distinct (dt_ip_list s) \<and> list_all (rx_test ip_regex) (dt_ip_list s)"

lemma ip_act_inv: "ip_inv s \<Longrightarrow> ip_inv (ip_act a s) \<and> sent (ip_act a s) = sent s"
  by (cases a)
    (auto simp: ip_inv_def handleAddIp_def handleRemoveIp_def Let_def bind_def effect_def emit_run sent_def
      log_event_def list_all_iff)

lemma new_detail_inv: "ip_inv (new_detail s)"
proof -
  have "distinct (de_ip_whitelist mockCustomerDetail)" "list_all (rx_test ip_regex) (de_ip_whitelist mockCustomerDetail)"
    unfolding mockCustomerDetail_def customer_detail.simps by code_simp+
  then show ?thesis by (simp add: ip_inv_def new_detail_def)
qed

text \<open>
  C35: whatever is typed, added and removed on a customer's page, its whitelist holds no entry twice and
  only entries of the accepted format; nothing of it ever reaches the server.
\<close>

theorem ip_whitelist_invariant:
  "ip_inv (fold ip_act acts (new_detail s)) \<and> sent (fold ip_act acts (new_detail s)) = sent (new_detail s)"
proof -
  have "ip_inv (fold ip_act acts s) \<and> sent (fold ip_act acts s) = sent s" if "ip_inv s" for s :: "'a detail_page_scheme"
    using that by (induction acts arbitrary: s) (simp_all add: ip_act_inv)
  then show ?thesis using new_detail_inv by blast
qed

text \<open>
  The page never shows the key of the customer: of a key of more than twelve characters the text
  shown keeps the first eight and the last four and nothing of what lies between, so any two keys that
  agree there are shown alike.
\<close>

lemma masked_key_hides:
  assumes "12 < length k" and "12 < length l" and "take 8 k = take 8 l"
    and "drop (length k - 4) k = drop (length l - 4) l"
  shows "maskedKey k = maskedKey l \<and> length (maskedKey k) = 15"
  using assms by (simp add: maskedKey_def str_slice_def slice_from_def clamp_index_def nat_diff_distrib)

end
