(* ===== verification/Cdr_Page.thy ===== *)
theory Cdr_Page
  imports Forms Admin_Hooks
begin

text \<open>
  \<open>features/cdr\<close> of the console: the filters of the call records and what they send, the numbers over
  the table, the table, and the list of live calls. A picked date is a time value in milliseconds; dates
  and times are printed through the browser's locale database and its time zone, the arguments
  \<open>fmt_time\<close> and \<open>fmt_day\<close>.
\<close>

section \<open>Durations\<close>

definition two_digits :: "jsnum \<Rightarrow> jstr" where
  "two_digits n = pad_start 2 (digit_unit 0) (num_to_string n)"

definition formatDuration :: "jsnum \<Rightarrow> jstr" where
  "formatDuration seconds =
     (let m = math_floor (num_div seconds (num_int 60)); s = num_rem seconds (num_int 60)
      in two_digits m @ js '':'' @ two_digits s)"

section \<open>Filters\<close>

record cdr_filters =
  fi_start :: "int option"
  fi_end :: "int option"
  fi_customer :: jstr
  fi_status :: jstr
  fi_gateway :: jstr
  fi_search :: jstr

definition default_filters :: "int \<Rightarrow> cdr_filters" where
  "default_filters now =
     \<lparr>fi_start = Some now, fi_end = Some now, fi_customer = js ''all'', fi_status = js ''all'',
      fi_gateway = js ''all'', fi_search = []\<rparr>"

record cdr_page = world +
  cf_filters :: cdr_filters
  cf_pagination :: pagination

type_synonym ('s, 'a) cdr_prog = "('s cdr_page_scheme, jsval, 'a) prog"

definition new_cdr_page :: "'s cdr_page_scheme \<Rightarrow> 's cdr_page_scheme" where
  "new_cdr_page s =
     s\<lparr>cf_filters := default_filters (w_now s), cf_pagination := \<lparr>pg_index = 0, pg_size = 20\<rparr>\<rparr>"

text \<open>\<open>d?.toISOString().split('T')[0]\<close>\<close>

definition iso_day :: "int \<Rightarrow> jstr" where
  "iso_day t = hd (str_split (js ''T'') (iso_string t))"

definition day_param :: "int option \<Rightarrow> jsval" where
  "day_param d = (case d of None \<Rightarrow> JUndef | Some t \<Rightarrow> JStr (iso_day t))"

definition cdr_params :: "'s cdr_page_scheme \<Rightarrow> jsval" where
  "cdr_params s =
     (let f = cf_filters s in
      JObj (spread
        [(js ''page'', jint (pg_index (cf_pagination s) + 1)), (js ''limit'', jint (pg_size (cf_pagination s))),
         (js ''start_date'', day_param (fi_start f)), (js ''end_date'', day_param (fi_end f))]
        (if fi_status f \<noteq> js ''all'' then [(js ''status'', JStr (fi_status f))] else [])))"

definition cdr_list :: "'s cdr_page_scheme \<Rightarrow> 't query" where
  "cdr_list s = admin_useCDRs (cdr_params s)"

text \<open>\<open>update\<close> is the setter of one filter, \<open>reset\<close> the button.\<close>

definition filters_update :: "(cdr_filters \<Rightarrow> cdr_filters) \<Rightarrow> 's cdr_page_scheme \<Rightarrow> 's cdr_page_scheme" where
  "filters_update patch s = s\<lparr>cf_filters := patch (cf_filters s)\<rparr>"

definition filters_reset :: "'s cdr_page_scheme \<Rightarrow> 's cdr_page_scheme" where
  "filters_reset s = s\<lparr>cf_filters := default_filters (w_now s)\<rparr>"

definition MOCK_CUSTOMERS :: "jstr list" where
  "MOCK_CUSTOMERS = [[0x5168, 0x90E8], ([0x5BA2, 0x6237] @ js ''A''), ([0x5BA2, 0x6237] @ js ''B''), ([0x5BA2, 0x6237] @ js ''C''), ([0x5BA2, 0x6237] @ js ''D''), ([0x5BA2, 0x6237] @ js ''E'')]"

definition MOCK_GATEWAYS :: "jstr list" where
  "MOCK_GATEWAYS = [[0x5168, 0x90E8], ([0x7F51, 0x5173] @ js ''-'' @ [0x5317, 0x4EAC] @ js ''01''), ([0x7F51, 0x5173] @ js ''-'' @ [0x4E0A, 0x6D77] @ js ''02''), ([0x7F51, 0x5173] @ js ''-'' @ [0x5E7F, 0x5DDE] @ js ''03''), ([0x7F51, 0x5173] @ js ''-'' @ [0x6DF1, 0x5733] @ js ''04'')]"

definition STATUS_OPTIONS :: "(jstr \<times> jstr) list" where
  "STATUS_OPTIONS =
     [(js ''all'', [0x5168, 0x90E8]), (js ''completed'', [0x5DF2, 0x5B8C, 0x6210]), (js ''failed'', [0x5931, 0x8D25]), (js ''in-progress'', [0x8FDB, 0x884C, 0x4E2D])]"

definition all_option :: "jstr \<Rightarrow> jstr \<times> jstr" where
  "all_option c = (if c = [0x5168, 0x90E8] then js ''all'' else c, c)"

definition date_picker :: "(int \<Rightarrow> jstr) \<Rightarrow> int option \<Rightarrow> view" where
  "date_picker fmt_day date =
     El ''Popover'' []
       [El ''Button'' [] [El ''CalendarIcon'' [] [],
          Txt (case date of None \<Rightarrow> [0x9009, 0x62E9, 0x65E5, 0x671F] | Some t \<Rightarrow> fmt_day t)],
        El ''Calendar'' [(''mode'', js ''single'')] []]"

definition filters_bar :: "(int \<Rightarrow> jstr) \<Rightarrow> cdr_filters \<Rightarrow> view" where
  "filters_bar fmt_day f =
     El ''div'' []
       [El ''Label'' [] [Txt [0x5F00, 0x59CB, 0x65E5, 0x671F]], date_picker fmt_day (fi_start f), lit ''-'',
        El ''Label'' [] [Txt [0x7ED3, 0x675F, 0x65E5, 0x671F]], date_picker fmt_day (fi_end f),
        El ''Label'' [] [Txt [0x5BA2, 0x6237, 0x7B5B, 0x9009]],
        select_of (fi_customer f) [0x5168, 0x90E8] (map all_option MOCK_CUSTOMERS),
        El ''Label'' [] [Txt [0x72B6, 0x6001]], select_of (fi_status f) [0x5168, 0x90E8] STATUS_OPTIONS,
        El ''Label'' [] [Txt [0x7F51, 0x5173]],
        select_of (fi_gateway f) [0x5168, 0x90E8] (map all_option MOCK_GATEWAYS),
        El ''Label'' [] [Txt [0x53F7, 0x7801, 0x641C, 0x7D22]],
        El ''Input'' [(''placeholder'', ([0x4E3B] @ js ''/'' @ [0x88AB, 0x53EB, 0x53F7, 0x7801])), (''value'', fi_search f)] [],
        El ''Button'' [(''onClick'', js ''reset'')] [El ''RotateCcw'' [] [], Txt [0x91CD, 0x7F6E]]]"

section \<open>The numbers over the table\<close>

definition page_cdrs :: "jsval \<Rightarrow> jsval list" where
  "page_cdrs data = (case js_coalesce (opt_get ''cdrs'' data) (JArr []) of JArr vs \<Rightarrow> vs | _ \<Rightarrow> [])"

definition cdr_total :: "jsval \<Rightarrow> jsval" where
  "cdr_total data = js_coalesce (opt_get ''total'' data) (jint 0)"

definition is_completed :: "jsval \<Rightarrow> bool" where
  "is_completed c \<longleftrightarrow> opt_get ''status'' c = jlit ''finished'' \<or> opt_get ''status'' c = jlit ''completed''"

definition completed_count :: "jsval list \<Rightarrow> int" where
  "completed_count cdrs = int (length (filter is_completed cdrs))"

definition bridge_rate :: "jsval \<Rightarrow> jstr" where
  "bridge_rate data =
     (let cdrs = page_cdrs data in
      if num_lt (Fin 0) (to_number (cdr_total data)) then
        to_fixed 1 (num_mul (num_div (num_int (completed_count cdrs)) (num_int (max (int (length cdrs)) 1))) (num_int 100))
      else js ''0.0'')"

definition avg_duration :: "jsval list \<Rightarrow> jsnum" where
  "avg_duration cdrs =
     (if cdrs \<noteq> [] then
        math_round (num_div (fold (\<lambda>c s. num_add s (to_number (opt_get ''duration'' c))) cdrs (num_int 0))
          (num_int (int (length cdrs))))
      else num_int 0)"

definition avg_text :: "jsval list \<Rightarrow> jstr" where
  "avg_text cdrs =
     (let a = avg_duration cdrs; m = math_floor (num_div a (num_int 60)); s = num_rem a (num_int 60)
      in num_to_string m @ [0x5206] @ two_digits s @ [0x79D2])"

section \<open>The table\<close>

definition STATUS_MAP :: "(jstr \<times> jsval) list" where
  "STATUS_MAP = label_table
     [(''finished'', [0x5DF2, 0x5B8C, 0x6210]), (''completed'', [0x5DF2, 0x5B8C, 0x6210]), (''failed'', [0x5931, 0x8D25]), (''in_progress'', [0x8FDB, 0x884C, 0x4E2D]),
      (''in-progress'', [0x8FDB, 0x884C, 0x4E2D]), (''ringing'', [0x632F, 0x94C3, 0x4E2D]), (''bridged'', [0x901A, 0x8BDD, 0x4E2D])]"

definition cdr_columns :: "(jsval \<Rightarrow> jstr) \<Rightarrow> jsval column list" where
  "cdr_columns fmt_time =
     [no_sort (column ([0x547C, 0x53EB] @ js ''ID'') (\<lambda>c. El ''span'' [(''title'', to_str (opt_get ''call_id'' c))]
        [Txt (str_slice 0 8 (to_str (opt_get ''call_id'' c)))])),
      no_sort (column (js ''A'' @ [0x8DEF, 0x53F7, 0x7801]) (\<lambda>c. show_val (opt_get ''a_number'' c))),
      no_sort (column (js ''B'' @ [0x8DEF, 0x53F7, 0x7801]) (\<lambda>c. show_val (opt_get ''b_number'' c))),
      no_sort (column [0x72B6, 0x6001] (\<lambda>c. label_badge STATUS_MAP (opt_get ''status'' c))),
      column [0x5F00, 0x59CB, 0x65F6, 0x95F4] (\<lambda>c. Txt (fmt_time (opt_get ''created_at'' c))),
      column [0x65F6, 0x957F] (\<lambda>c. Txt (formatDuration (to_number (opt_get ''duration'' c)))),
      column [0x8D39, 0x7528] (\<lambda>c. Txt ([0x00A5] @ to_fixed 2 (to_number (opt_get ''cost'' c)))),
      no_sort (column [0x6302, 0x65AD, 0x539F, 0x56E0] (\<lambda>c. show_val (js_or (opt_get ''failure_reason'' c)
        (JStr (if opt_get ''status'' c = jlit ''finished'' then [0x6B63, 0x5E38, 0x6302, 0x65AD] else js ''-'')))))]"

definition cdr_table :: "(jsval \<Rightarrow> jstr) \<Rightarrow> jsval list \<Rightarrow> int \<Rightarrow> pagination \<Rightarrow> bool \<Rightarrow> view \<Rightarrow> bool \<Rightarrow> bool \<Rightarrow> view" where
  "cdr_table fmt_time = data_table (cdr_columns fmt_time)"

section \<open>Live calls\<close>

record active_call =
  ac_call_id :: jstr
  ac_customer :: jstr
  ac_a_leg :: jstr
  ac_b_leg :: jstr
  ac_started_at :: jstr
  ac_gateway :: jstr

definition LEG_STATUS_MAP :: "(jstr \<times> jsval) list" where
  "LEG_STATUS_MAP = label_table
     [(''ringing'', [0x632F, 0x94C3, 0x4E2D]), (''answered'', [0x5DF2, 0x63A5, 0x901A]), (''bridged'', [0x6865, 0x63A5, 0x4E2D]), (''failed'', [0x5931, 0x8D25])]"

text \<open>The elapsed time a tick shows; the start is the parsed date, which may be invalid.\<close>

definition live_elapsed :: "jsnum \<Rightarrow> int \<Rightarrow> jsnum" where
  "live_elapsed start now = math_floor (num_div (num_sub (num_int now) start) (num_int 1000))"

definition live_duration :: "jsnum \<Rightarrow> int \<Rightarrow> view" where
  "live_duration start now = El ''span'' [] [Txt (formatDuration (live_elapsed start now))]"

definition handleHangup :: "jstr \<Rightarrow> ('s, unit) app \<Rightarrow> ('s, unit) app" where
  "handleHangup callId onSuccess =
     try_catch
       (bind (mutate_async admin_useHangupCall (obj [(''call_id'', JStr callId)])) (\<lambda>_.
        bind (emit (ToastOk [0x5DF2, 0x6210, 0x529F, 0x6302, 0x65AD, 0x901A, 0x8BDD])) (\<lambda>_. onSuccess)))
       (\<lambda>_. emit (ToastError [0x6302, 0x65AD, 0x5931, 0x8D25, 0xFF0C, 0x8BF7, 0x91CD, 0x8BD5]))"

definition hangup_action :: "bool \<Rightarrow> view" where
  "hangup_action pending = confirm_dialog
     \<lparr>cf_trigger = El ''Button'' [] [El ''PhoneOff'' [] [], Txt [0x5F3A, 0x5236, 0x6302, 0x65AD]],
      cf_title = [0x786E, 0x8BA4, 0x5F3A, 0x5236, 0x6302, 0x65AD, 0x901A, 0x8BDD, 0xFF1F], cf_description = [0x8FD9, 0x5C06, 0x65AD, 0x5F00, 0x53CC, 0x65B9, 0x901A, 0x8BDD, 0x3002],
      cf_confirm = Some [0x786E, 0x8BA4, 0x6302, 0x65AD], cf_cancel = None, cf_variant = Some ''danger'', cf_disabled = pending\<rparr>"

text \<open>\<open>crypto.randomUUID()\<close> is the argument \<open>uuid\<close>.\<close>

definition mock_active_call :: "(nat \<Rightarrow> jstr) \<Rightarrow> int \<Rightarrow> nat \<Rightarrow> active_call" where
  "mock_active_call uuid now i =
     (let customers = [([0x5BA2, 0x6237] @ js ''A''), ([0x5BA2, 0x6237] @ js ''B''), ([0x5BA2, 0x6237] @ js ''C''), ([0x5BA2, 0x6237] @ js ''D''), ([0x5BA2, 0x6237] @ js ''E'')];
          gateways = [([0x7F51, 0x5173] @ js ''-'' @ [0x5317, 0x4EAC] @ js ''01''), ([0x7F51, 0x5173] @ js ''-'' @ [0x4E0A, 0x6D77] @ js ''02''), ([0x7F51, 0x5173] @ js ''-'' @ [0x5E7F, 0x5DDE] @ js ''03'')];
          statuses = [js ''ringing'', js ''answered'', js ''bridged'']
      in \<lparr>ac_call_id = js ''call-'' @ str_slice 0 8 (uuid i) @ js ''-'' @ show_int (int i),
          ac_customer = customers ! (i mod length customers),
          ac_a_leg = (if i < 2 then js ''ringing'' else js ''bridged''),
          ac_b_leg = statuses ! (i mod length statuses),
          ac_started_at = iso_string (now - (30 + int i * 45) * 1000),
          ac_gateway = gateways ! (i mod length gateways)\<rparr>)"

definition generateMockActiveCalls :: "(nat \<Rightarrow> jstr) \<Rightarrow> int \<Rightarrow> active_call list" where
  "generateMockActiveCalls uuid now = map (mock_active_call uuid now) [0..<8]"

text \<open>\<open>parse_date\<close> reads a date, as the browser does.\<close>

definition live_columns :: "(jstr \<Rightarrow> jsnum) \<Rightarrow> int \<Rightarrow> bool \<Rightarrow> active_call column list" where
  "live_columns parse_date now pending =
     [column ([0x547C, 0x53EB] @ js ''ID'') (\<lambda>c. El ''span'' [] [Txt (str_slice 0 12 (ac_call_id c))]),
      column [0x5BA2, 0x6237] (\<lambda>c. Txt (ac_customer c)),
      column (js ''A'' @ [0x8DEF, 0x72B6, 0x6001]) (\<lambda>c. label_badge LEG_STATUS_MAP (JStr (ac_a_leg c))),
      column (js ''B'' @ [0x8DEF, 0x72B6, 0x6001]) (\<lambda>c. label_badge LEG_STATUS_MAP (JStr (ac_b_leg c))),
      column [0x65F6, 0x957F] (\<lambda>c. live_duration (parse_date (ac_started_at c)) now),
      column [0x7F51, 0x5173] (\<lambda>c. Txt (ac_gateway c)),
      column [0x64CD, 0x4F5C] (\<lambda>c. hangup_action pending)]"

definition live_calls :: "(jstr \<Rightarrow> jsnum) \<Rightarrow> int \<Rightarrow> bool \<Rightarrow> active_call list \<Rightarrow> pagination \<Rightarrow> bool \<Rightarrow> bool \<Rightarrow> view" where
  "live_calls parse_date now pending rows p canPrev canNext =
     data_table (live_columns parse_date now pending) rows (int (length rows)) p False nothing canPrev canNext"

section \<open>The page\<close>

definition cdr_view ::
    "(jsval \<Rightarrow> jstr) \<Rightarrow> (int \<Rightarrow> jstr) \<Rightarrow> jsval \<Rightarrow> bool \<Rightarrow> int \<Rightarrow> view \<Rightarrow> bool \<Rightarrow> bool \<Rightarrow> 's cdr_page_scheme \<Rightarrow> view" where
  "cdr_view fmt_time fmt_day data isLoading totalCount live canPrev canNext s =
     (let cdrs = page_cdrs data in
      El ''div'' []
        [El ''h1'' [] [Txt [0x8BDD, 0x5355, 0x7BA1, 0x7406]], El ''p'' [] [Txt [0x5168, 0x91CF, 0x8BDD, 0x5355, 0x67E5, 0x8BE2, 0x548C, 0x5B9E, 0x65F6, 0x901A, 0x8BDD, 0x76D1, 0x63A7]],
         stat_of [0x901A, 0x8BDD, 0x603B, 0x91CF] (cdr_total data),
         stat_of [0x63A5, 0x901A, 0x7387] (JStr (bridge_rate data @ js ''%'')),
         stat_of [0x5E73, 0x5747, 0x901A, 0x8BDD, 0x65F6, 0x957F] (JStr (avg_text cdrs)),
         El ''Tabs'' [(''defaultValue'', js ''records'')]
           [El ''TabsTrigger'' [(''value'', js ''records'')] [Txt [0x901A, 0x8BDD, 0x8BB0, 0x5F55]],
            El ''TabsTrigger'' [(''value'', js ''live'')] [El ''TrendingUp'' [] [], Txt [0x5B9E, 0x65F6, 0x901A, 0x8BDD]],
            El ''TabsContent'' [(''value'', js ''records'')]
              [cdr_table fmt_time cdrs totalCount (cf_pagination s) isLoading (filters_bar fmt_day (cf_filters s))
                 canPrev canNext],
            El ''TabsContent'' [(''value'', js ''live'')] [live]]])"

section \<open>Properties\<close>

lemma two_digits_int: "0 \<le> n \<Longrightarrow> n \<le> 2 ^ 53 \<Longrightarrow> two_digits (num_int n) = two n"
  using num_to_string_int [of n] by (simp add: two_digits_def two_def show_int_def del: num_to_string.simps)

lemma minutes_of:
  assumes "0 \<le> n" and "n \<le> 2 ^ 50"
  shows "math_floor (num_div (num_int n) (num_int 60)) = num_int (n div 60)"
    and "num_rem (num_int n) (num_int 60) = num_int (n mod 60)"
proof -
  have n: "0 \<le> (of_int n :: rat)" "of_int n \<le> (2 ^ 50 :: rat)"
    using assms by (simp_all flip: of_int_le_iff)
  then have "to_num (of_int n / 60) = Fin (fl (of_int n / 60))" by (intro to_num_bounded) simp
  then show "math_floor (num_div (num_int n) (num_int 60)) = num_int (n div 60)"
    using floor_quotient [OF assms, of 60] by (simp add: math_floor_def)
  have "\<lfloor>(of_int n :: rat) / 60\<rfloor> = n div 60"
    using floor_divide_of_int_eq [of n 60, where 'a = rat] by simp
  moreover have "n - 60 * (n div 60) = n mod 60" by (simp add: minus_mult_div_eq_mod)
  then have "(of_int n - 60 * of_int (n div 60) :: rat) = of_int (n mod 60)"
    by (metis of_int_diff of_int_mult of_int_numeral)
  ultimately show "num_rem (num_int n) (num_int 60) = num_int (n mod 60)"
    using n by (simp add: trunc_def)
qed

text \<open>What a reader makes of a shown duration: the numeral before the colon and the one after it.\<close>

definition read_duration :: "jstr \<Rightarrow> int option" where
  "read_duration t =
     (case str_split (js '':'') t of
        [m, s] \<Rightarrow> Some (60 * read_digits 0 m + read_digits 0 s) | _ \<Rightarrow> None)"

lemma two_digit_units: "0 \<le> n \<Longrightarrow> \<forall>u \<in> set (two n). is_digit u"
  unfolding two_def by (intro pad_start_digits show_dec_digits)

lemma colon_not_digit: "\<not> is_digit (cu (CHR '':''))"
  by code_simp

text \<open>
  C36: a duration is shown without loss: for every whole number of seconds up to \<open>2 ^ 50\<close> the minutes and
  seconds computed in doubles are exact, the seconds have two digits and are below sixty, and the text
  reads back to the number.
\<close>

theorem duration_roundtrip:
  assumes "0 \<le> n" and "n \<le> 2 ^ 50"
  shows "formatDuration (num_int n) = two (n div 60) @ js '':'' @ two (n mod 60) \<and>
    length (two (n mod 60)) = 2 \<and> read_duration (formatDuration (num_int n)) = Some n"
proof -
  have d: "0 \<le> n div 60" "n div 60 \<le> 2 ^ 53" "0 \<le> n mod 60" "n mod 60 < 60"
    using assms zdiv_mono2 [of n 1 60] by (simp_all add: pos_imp_zdiv_nonneg_iff)
  have f: "formatDuration (num_int n) = two (n div 60) @ js '':'' @ two (n mod 60)"
    using two_digits_int [OF d(1,2)] two_digits_int [of "n mod 60"] d(3,4)
    by (simp only: formatDuration_def Let_def minutes_of [OF assms]) simp
  have "str_split (js '':'') (str_join (js '':'') [two (n div 60), two (n mod 60)]) = [two (n div 60), two (n mod 60)]"
    using two_digit_units [of "n div 60"] two_digit_units [of "n mod 60"] d(1,3) colon_not_digit
    by (intro split_join) (auto simp: js_Cons)
  moreover have "read_digits 0 (two k) = k" if "0 \<le> k" for k
    using that by (simp add: two_def read_pad_start read_show_dec)
  ultimately have "read_duration (formatDuration (num_int n)) = Some (60 * (n div 60) + n mod 60)"
    using d by (simp add: f read_duration_def)
  with f d show ?thesis by (simp add: length_two)
qed

theorem duration_roundtrip_witness:
  "formatDuration (num_int 3725) = js ''62:05''"
proof -
  have "two (3725 div 60) @ js '':'' @ two (3725 mod 60) = js ''62:05''" by code_simp
  with duration_roundtrip [of 3725] show ?thesis by simp
qed

text \<open>The first piece of a split at a single code unit; the day of a printed date depends on the day only.\<close>

lemma hd_split_unit: "hd (str_split [c] s) = takeWhile (\<lambda>u. u \<noteq> c) s"
proof -
  have "hd (split_acc [c] acc s) = rev acc @ takeWhile (\<lambda>u. u \<noteq> c) s" for acc
    by (induction s arbitrary: acc) auto
  then show ?thesis by (simp add: str_split_def)
qed

lemma iso_day_same:
  assumes "t div 86400000 = u div 86400000"
  shows "iso_day t = iso_day u"
proof -
  obtain y m d where c: "civil (t div 86400000) = (y, m, d)" by (metis prod_cases3)
  define p where "p = show_year y @ js ''-'' @ two m @ js ''-'' @ two d"
  have "iso_day v = takeWhile (\<lambda>x. x \<noteq> 0x54) p" if v: "v div 86400000 = t div 86400000" for v
  proof -
    obtain r where "iso_string v = p @ 0x54 # r"
      by (simp add: iso_string_def v c Let_def js_Cons p_def)
    then show ?thesis by (simp add: iso_day_def js_Cons hd_split_unit takeWhile_tail)
  qed
  then show ?thesis using assms by simp
qed

text \<open>
  C37: a day picked in a time zone east of Greenwich is sent as the day before: the picker gives local
  midnight, and the filter sends its UTC date.
\<close>

theorem picked_day_before:
  assumes "0 < offset" and "offset \<le> 86400000"
  shows "day_param (Some (day * 86400000 - offset)) = JStr (iso_day ((day - 1) * 86400000))"
proof -
  have "(day * 86400000 - offset) div 86400000 = day - 1"
    using assms by (intro int_div_pos_eq [where r = "86400000 - offset"]) simp_all
  moreover have "(day - 1) * 86400000 div 86400000 = day - 1" by simp
  ultimately have "iso_day (day * 86400000 - offset) = iso_day ((day - 1) * 86400000)"
    by (intro iso_day_same) simp
  then show ?thesis by (simp add: day_param_def)
qed

theorem picked_day_before_witness:
  "day_param (Some (20522 * 86400000 - 8 * 3600000)) = JStr (js ''2026-03-09'')"
proof -
  have "iso_day ((20522 - 1) * 86400000) = js ''2026-03-09''" by code_simp
  with picked_day_before [of "8 * 3600000" 20522] show ?thesis by simp
qed

text \<open>
  Of the filters of the call records only the dates and the status are applied: changing the customer,
  the gateway or the searched number asks the server for exactly the same records.
\<close>

lemma cdr_filters_ignored:
  "cdr_params (filters_update (\<lambda>f. f\<lparr>fi_customer := c, fi_gateway := g, fi_search := t\<rparr>) s) = cdr_params s"
  by (simp add: cdr_params_def filters_update_def Let_def)

text \<open>
  The bridge rate over the table is a percentage: for every page of records, the number shown before
  the sign reads back to a number from 0 to 100, after all roundings; with no records at all it is 0.
\<close>

lemma bridge_rate_range:
  assumes "int (length (page_cdrs data)) \<le> 2 ^ 50"
  shows "\<exists>x. string_to_number (bridge_rate data) = Fin x \<and> 0 \<le> x \<and> x \<le> 100"
proof (cases "num_lt (Fin 0) (to_number (cdr_total data))")
  case False
  moreover have "js ''0.0'' = point_at 1 0" by code_simp
  then have "string_to_number (js ''0.0'') = Fin 0"
    using read_point_at [of 0 1] to_num_int [of 0] by simp
  ultimately show ?thesis by (simp add: bridge_rate_def)
next
  case True
  let ?cs = "page_cdrs data"
  let ?n = "max (int (length ?cs)) 1"
  have "0 \<le> completed_count ?cs" "completed_count ?cs \<le> ?n" "0 < ?n" "?n \<le> 2 ^ 50"
    using assms by (simp_all add: completed_count_def le_max_iff_disj)
  from fl_percent_of [OF this] obtain x where r: "0 \<le> x" "x \<le> 100"
    and x: "num_mul (num_div (num_int (completed_count ?cs)) (num_int ?n)) (num_int 100) = Fin x"
    by blast
  have s: "0 \<le> scaled 1 x" "scaled 1 x \<le> 1000"
    using r by (simp_all add: scaled_def floor_le_iff)
  then have "0 \<le> (of_int (scaled 1 x) :: rat)" "of_int (scaled 1 x) \<le> (1000 :: rat)"
    by (simp_all flip: of_int_le_iff)
  then have b: "0 \<le> (of_int (scaled 1 x) / 10 :: rat)" "of_int (scaled 1 x) / 10 \<le> (100 :: rat)" by simp_all
  then have "0 \<le> fl (of_int (scaled 1 x) / 10)" "fl (of_int (scaled 1 x) / 10) \<le> 100"
    using fl_nonneg [OF b(1)] fl_mono [OF b(2)] fl_of_int [of 100] by simp_all
  moreover have "bridge_rate data = to_fixed 1 (Fin x)"
    using True by (simp only: bridge_rate_def Let_def x if_True)
  then have "string_to_number (bridge_rate data) = Fin (fl (of_int (scaled 1 x) / 10))"
    using r b read_to_fixed [of x 1] to_num_bounded [of "of_int (scaled 1 x) / 10"] by simp
  ultimately show ?thesis by blast
qed

end
