(* ===== verification/Rate_Plans.thy ===== *)
theory Rate_Plans
  imports Forms Admin_Hooks
begin

text \<open>
  \<open>features/finance/index.tsx\<close> and its rate plan sheet: the list of rate plans, the form that creates or
  edits one, and what is sent when it is saved. The form library's \<open>reset(values)\<close> also makes the values
  the new defaults, so \<open>reset()\<close> goes back to them: they are the field \<open>fp_defaults\<close>.
\<close>

section \<open>State\<close>

record finance_page = world +
  fp_pagination :: pagination
  fp_sheet_open :: bool
  fp_editing :: "jsval option"
  fp_form :: jsval
  fp_defaults :: jsval
  fp_errors :: form_errors

type_synonym ('s, 'a) finance_prog = "('s finance_page_scheme, jsval, 'a) prog"

definition rate_plans :: "jsval \<Rightarrow> jsval list" where
  "rate_plans data = (case js_coalesce (opt_get ''plans'' data) (JArr []) of JArr vs \<Rightarrow> vs | _ \<Rightarrow> [])"

section \<open>The form\<close>

definition prefixRateSchema :: schema where
  "prefixRateSchema =
     [(''prefix'', ZString [CkRegex (rx_digits 3 3) ([0x8BF7, 0x8F93, 0x5165] @ js ''3'' @ [0x4F4D, 0x6570, 0x5B57, 0x524D, 0x7F00])]),
      (''rate'', ZNumber [CkPositive ([0x8D39, 0x7387, 0x5FC5, 0x987B, 0x5927, 0x4E8E] @ js ''0'')])]"

definition ratePlanSchema :: schema where
  "ratePlanSchema =
     [(''name'', ZString [CkLength 1 [0x8BF7, 0x8F93, 0x5165, 0x6A21, 0x677F, 0x540D, 0x79F0]]),
      (''description'', ZOptional (ZString [])),
      (''rate_per_minute'', ZNumber [CkPositive ([0x8D39, 0x7387, 0x5FC5, 0x987B, 0x5927, 0x4E8E] @ js ''0'')]),
      (''b_leg_rates'', ZArray prefixRateSchema),
      (''billing_increment'', ZDefault (ZNumber [CkInt, CkMin (num_int 1) (Some ([0x81F3, 0x5C11, 0x4E3A] @ js ''1'' @ [0x79D2]))]) (jint 6)),
      (''min_billing_duration'', ZDefault (ZNumber [CkInt, CkMin (num_int 0) (Some [0x4E0D, 0x80FD, 0x4E3A, 0x8D1F, 0x6570])]) (jint 0))]"

definition new_plan_values :: jsval where
  "new_plan_values = obj
     [(''name'', JStr []), (''description'', JStr []), (''rate_per_minute'', JNum (to_num (15 / 100))),
      (''b_leg_rates'', JArr []), (''billing_increment'', jint 6), (''min_billing_duration'', jint 0)]"

definition edit_plan_values :: "jsval \<Rightarrow> jsval" where
  "edit_plan_values p = obj
     [(''name'', opt_get ''name'' p), (''description'', js_coalesce (opt_get ''description'' p) (JStr [])),
      (''rate_per_minute'', opt_get ''rate_per_minute'' p),
      (''b_leg_rates'', js_coalesce (opt_get ''b_leg_rates'' p) (JArr [])),
      (''billing_increment'', opt_get ''billing_increment'' p),
      (''min_billing_duration'', js_coalesce (opt_get ''min_billing_duration'' p) (jint 0))]"

text \<open>\<open>reset(values)\<close> and \<open>reset()\<close>; the effect that runs when the sheet opens.\<close>

definition reset_to :: "jsval \<Rightarrow> 's finance_page_scheme \<Rightarrow> 's finance_page_scheme" where
  "reset_to v s = s\<lparr>fp_form := v, fp_defaults := v, fp_errors := []\<rparr>"

definition reset_form :: "'s finance_page_scheme \<Rightarrow> 's finance_page_scheme" where
  "reset_form s = s\<lparr>fp_form := fp_defaults s, fp_errors := []\<rparr>"

definition sheet_effect :: "'s finance_page_scheme \<Rightarrow> 's finance_page_scheme" where
  "sheet_effect s =
     (if fp_sheet_open s then
        reset_to (case fp_editing s of Some p \<Rightarrow> edit_plan_values p | None \<Rightarrow> new_plan_values) s
      else s)"

text \<open>The rows of the B-leg table: \<open>append\<close> and \<open>remove\<close>.\<close>

definition form_rates :: "jsval \<Rightarrow> jsval list" where
  "form_rates v = (case opt_get ''b_leg_rates'' v of JArr rs \<Rightarrow> rs | _ \<Rightarrow> [])"

definition set_rates :: "jsval list \<Rightarrow> 's finance_page_scheme \<Rightarrow> 's finance_page_scheme" where
  "set_rates rs s = s\<lparr>fp_form := JObj (set_field (js ''b_leg_rates'') (JArr rs) (own_fields (fp_form s)))\<rparr>"

definition append_rate :: "'s finance_page_scheme \<Rightarrow> 's finance_page_scheme" where
  "append_rate s = set_rates (form_rates (fp_form s) @ [obj [(''prefix'', JStr []), (''rate'', jint 0)]]) s"

definition remove_rate :: "nat \<Rightarrow> 's finance_page_scheme \<Rightarrow> 's finance_page_scheme" where
  "remove_rate i s = (let rs = form_rates (fp_form s) in set_rates (take i rs @ drop (Suc i) rs) s)"

section \<open>Handlers\<close>

definition handleCreatePlan :: "'s finance_page_scheme \<Rightarrow> 's finance_page_scheme" where
  "handleCreatePlan s = s\<lparr>fp_editing := None, fp_sheet_open := True\<rparr>"

definition plan_for_edit :: "jsval \<Rightarrow> jsval" where
  "plan_for_edit plan = obj
     [(''id'', JStr (to_str (opt_get ''id'' plan))), (''name'', opt_get ''name'' plan),
      (''description'', opt_get ''description'' plan),
      (''rate_per_minute'', JNum (num_div (to_number (opt_get ''uniform_a_rate'' plan)) (num_int 100))),
      (''billing_increment'', jint 6), (''connection_fee'', jint 0)]"

definition handleEditPlan :: "jsval \<Rightarrow> 's finance_page_scheme \<Rightarrow> 's finance_page_scheme" where
  "handleEditPlan plan s = s\<lparr>fp_editing := Some (plan_for_edit plan), fp_sheet_open := True\<rparr>"

definition handleDeletePlan :: "jsval \<Rightarrow> ('s, unit) finance_prog" where
  "handleDeletePlan plan = emit (ToastOk (([0x5DF2, 0x5220, 0x9664, 0x6A21, 0x677F] @ js '': '') @ to_str (opt_get ''name'' plan)))"

definition rate_cents :: "jsval \<Rightarrow> jsnum" where
  "rate_cents rate = math_round (num_mul (to_number rate) (num_int 100))"

definition plan_params :: "jsval \<Rightarrow> jsval" where
  "plan_params d = obj
     [(''name'', opt_get ''name'' d), (''mode'', jlit ''uniform''),
      (''uniform_a_rate'', JNum (rate_cents (opt_get ''rate_per_minute'' d))),
      (''uniform_b_rate'', JNum (rate_cents (opt_get ''rate_per_minute'' d))),
      (''description'', opt_get ''description'' d), (''created_at'', JStr []), (''updated_at'', JStr [])]"

definition handleSubmitPlan :: "jsval \<Rightarrow> ('s, unit) finance_prog" where
  "handleSubmitPlan d = (\<lambda>s.
     try_catch
       (bind (lift_sum (row_of plan_params d)) (\<lambda>p.
        bind (mutate_async admin_useCreateRatePlan p) (\<lambda>_.
        emit (ToastOk (if fp_editing s \<noteq> None then [0x6A21, 0x677F, 0x5DF2, 0x66F4, 0x65B0] else [0x6A21, 0x677F, 0x5DF2, 0x521B, 0x5EFA])))))
       (\<lambda>_. emit (ToastError [0x64CD, 0x4F5C, 0x5931, 0x8D25])) s)"

definition plan_onFormSubmit :: "jsval \<Rightarrow> ('s, unit) finance_prog" where
  "plan_onFormSubmit d =
     bind (handleSubmitPlan d) (\<lambda>_. effect (\<lambda>s. (reset_form s)\<lparr>fp_sheet_open := False\<rparr>))"

definition plan_submit :: "parser_fn \<Rightarrow> ('s, unit) finance_prog" where
  "plan_submit parse = (\<lambda>s.
     submit_form parse ratePlanSchema (fp_form s) (\<lambda>es. effect (\<lambda>s. s\<lparr>fp_errors := es\<rparr>)) plan_onFormSubmit s)"

section \<open>Views\<close>

definition ratePlanColumns :: "jsval column list" where
  "ratePlanColumns =
     [column [0x540D, 0x79F0] (\<lambda>p. show_val (opt_get ''name'' p)),
      column [0x6A21, 0x5F0F] (\<lambda>p. show_val (opt_get ''mode'' p)),
      column (js ''A'' @ [0x8DEF, 0x8D39, 0x7387] @ js ''('' @ [0x5206] @ js ''/'' @ [0x5206, 0x949F] @ js '')'') (\<lambda>p. El ''span'' [] [show_val (opt_get ''uniform_a_rate'' p)]),
      column (js ''B'' @ [0x8DEF, 0x8D39, 0x7387] @ js ''('' @ [0x5206] @ js ''/'' @ [0x5206, 0x949F] @ js '')'') (\<lambda>p. El ''span'' [] [show_val (opt_get ''uniform_b_rate'' p)]),
      column [0x63CF, 0x8FF0] (\<lambda>p. show_val (opt_get ''description'' p))]"

definition rpColumnsWithActions :: "jsval column list" where
  "rpColumnsWithActions =
     ratePlanColumns @
     [column [0x64CD, 0x4F5C] (\<lambda>p. El ''DropdownMenu'' []
        [El ''DropdownMenuItem'' [(''onClick'', js ''edit'')] [El ''Pencil'' [] [], Txt [0x7F16, 0x8F91]],
         El ''DropdownMenuItem'' [(''onClick'', js ''delete'')] [El ''Trash2'' [] [], Txt [0x5220, 0x9664]]])]"

text \<open>One row of the B-leg table, with the errors of its two inputs.\<close>

definition rate_row :: "jstr option \<Rightarrow> jstr option \<Rightarrow> view" where
  "rate_row prefix_error rate_error =
     (let err = (\<lambda>e. case e of None \<Rightarrow> nothing | Some m \<Rightarrow> El ''p'' [] [Txt m]) in
      El ''div'' []
        [El ''Input'' [(''placeholder'', ([0x524D, 0x7F00] @ js '' (3'' @ [0x4F4D] @ js '')'')), (''maxLength'', js ''3'')] [], err prefix_error,
         El ''Input'' [(''type'', js ''number''), (''placeholder'', ([0x8D39, 0x7387] @ js '' (CNY/'' @ [0x5206] @ js '')''))] [], err rate_error,
         El ''Button'' [(''onClick'', js ''remove'')] [El ''Trash2'' [] []]])"

definition rate_plan_sheet :: "(nat \<Rightarrow> jstr option \<times> jstr option) \<Rightarrow> bool \<Rightarrow> 's finance_page_scheme \<Rightarrow> view" where
  "rate_plan_sheet rate_errors isSubmitting s =
     (let create = (fp_editing s = None); es = fp_errors s; rates = form_rates (fp_form s) in
      El ''Sheet'' [flag ''open'' (fp_sheet_open s)]
        [El ''SheetTitle'' [] [Txt (if create then [0x65B0, 0x5EFA, 0x8D39, 0x7387, 0x6A21, 0x677F] else [0x7F16, 0x8F91, 0x8D39, 0x7387, 0x6A21, 0x677F])],
         El ''SheetDescription'' [] [Txt (if create then [0x521B, 0x5EFA, 0x65B0, 0x7684, 0x8D39, 0x7387, 0x6A21, 0x677F, 0x7528, 0x4E8E, 0x5BA2, 0x6237, 0x8BA1, 0x8D39] else [0x4FEE, 0x6539, 0x8D39, 0x7387, 0x6A21, 0x677F, 0x4FE1, 0x606F])],
         El ''div'' [] [El ''Label'' [] [Txt ([0x6A21, 0x677F, 0x540D, 0x79F0] @ js '' *'')],
           El ''Input'' [(''id'', js ''rp-name''), (''placeholder'', [0x8BF7, 0x8F93, 0x5165, 0x6A21, 0x677F, 0x540D, 0x79F0])] [], field_error es ''name''],
         El ''div'' [] [El ''Label'' [] [Txt [0x63CF, 0x8FF0]],
           El ''Input'' [(''id'', js ''rp-desc''), (''placeholder'', [0x53EF, 0x9009, 0x63CF, 0x8FF0, 0x4FE1, 0x606F])] []],
         El ''div'' [] [El ''Label'' [] [Txt (js ''A'' @ [0x8DEF, 0x8D39, 0x7387] @ js ''/'' @ [0x5206, 0x949F] @ js '' (CNY) *'')],
           El ''Input'' [(''id'', js ''rp-rate''), (''type'', js ''number''), (''placeholder'', js ''0.15'')] [],
           field_error es ''rate_per_minute''],
         El ''Separator'' [] [],
         El ''Label'' [] [Txt (js ''B'' @ [0x8DEF, 0x8D39, 0x7387, 0x8868])],
         El ''Button'' [(''onClick'', js ''append'')] [El ''Plus'' [] [], Txt [0x6DFB, 0x52A0, 0x524D, 0x7F00, 0x8D39, 0x7387]],
         only_if (rates = []) (El ''p'' [] [Txt ([0x6682, 0x65E0] @ js ''B'' @ [0x8DEF, 0x8D39, 0x7387, 0x89C4, 0x5219, 0xFF0C, 0x70B9, 0x51FB, 0x4E0A, 0x65B9, 0x6309, 0x94AE, 0x6DFB, 0x52A0])]),
         Frag (map (\<lambda>i. rate_row (fst (rate_errors i)) (snd (rate_errors i))) [0..<length rates]),
         El ''Separator'' [] [],
         El ''div'' [] [El ''Label'' [] [Txt ([0x8BA1, 0x8D39, 0x589E, 0x91CF] @ js '' ('' @ [0x79D2] @ js '')'')],
           El ''Input'' [(''id'', js ''rp-increment''), (''type'', js ''number'')] [], field_error es ''billing_increment''],
         El ''div'' [] [El ''Label'' [] [Txt ([0x6700, 0x4F4E, 0x8BA1, 0x8D39, 0x65F6, 0x957F] @ js '' ('' @ [0x79D2] @ js '')'')],
           El ''Input'' [(''id'', js ''rp-min''), (''type'', js ''number'')] [], field_error es ''min_billing_duration''],
         button [0x53D6, 0x6D88] ''cancel'' False,
         button (if isSubmitting then ([0x4FDD, 0x5B58, 0x4E2D] @ js ''...'') else if create then [0x521B, 0x5EFA, 0x6A21, 0x677F] else [0x4FDD, 0x5B58, 0x4FEE, 0x6539]) ''submit'' isSubmitting])"

definition finance_view ::
    "view \<Rightarrow> view \<Rightarrow> (nat \<Rightarrow> jstr option \<times> jstr option) \<Rightarrow> bool \<Rightarrow> jsval \<Rightarrow> bool \<Rightarrow> bool \<Rightarrow> bool \<Rightarrow>
     's finance_page_scheme \<Rightarrow> view" where
  "finance_view transactions profit rate_errors isSubmitting data isLoading canPrev canNext s =
     (let plans = rate_plans data in
      El ''div'' []
        [El ''h1'' [] [Txt [0x8D22, 0x52A1, 0x4E2D, 0x5FC3]], El ''p'' [] [Txt [0x5BF9, 0x8D26, 0x3001, 0x6D41, 0x6C34, 0x3001, 0x8D39, 0x7387, 0x6A21, 0x677F, 0x548C, 0x6BDB, 0x5229, 0x5206, 0x6790]],
         El ''Tabs'' [(''defaultValue'', js ''transactions'')]
           [El ''TabsTrigger'' [(''value'', js ''transactions'')] [Txt [0x4EA4, 0x6613, 0x6D41, 0x6C34]],
            El ''TabsTrigger'' [(''value'', js ''rate-plans'')] [Txt [0x8D39, 0x7387, 0x6A21, 0x677F]],
            El ''TabsTrigger'' [(''value'', js ''profit'')] [Txt [0x6BDB, 0x5229, 0x5206, 0x6790]],
            El ''TabsContent'' [(''value'', js ''transactions'')] [transactions],
            El ''TabsContent'' [(''value'', js ''rate-plans'')]
              [data_table rpColumnsWithActions plans (int (length plans)) (fp_pagination s) isLoading
                 (El ''div'' [] [El ''Button'' [(''onClick'', js ''create'')] [El ''Plus'' [] [], Txt [0x65B0, 0x5EFA, 0x6A21, 0x677F]]])
                 canPrev canNext,
               rate_plan_sheet rate_errors isSubmitting s],
            El ''TabsContent'' [(''value'', js ''profit'')] [profit]]])"

section \<open>Properties\<close>

definition plan_rq :: "jsval \<Rightarrow> httpreq" where
  "plan_rq v = admin_rq (js ''/api/billing/rate-plans'') (with_json ''POST'' v)"

lemma create_plan_run:
  "mutate_async admin_useCreateRatePlan v w =
     (case response_result (w_net w (sent w) (plan_rq v)) of
        Inl e \<Rightarrow> (Inl e, log_events [Sent (plan_rq v)] w)
      | Inr r \<Rightarrow> (Inr r, log_events [Sent (plan_rq v), Invalidated (key [''rate-plans''])] w))"
  using mutate_async_request [of admin_CreateRatePlan v w "plan_rq v" "[key [''rate-plans'']]"]
  by (simp add: admin_useCreateRatePlan_def admin_CreateRatePlan_def admin_request_run plan_rq_def split: sum.splits)

interpretation plan_create: one_request "mutate_async admin_useCreateRatePlan" plan_rq "[key [''rate-plans'']]"
  by unfold_locales (simp add: create_plan_run split: sum.splits)

lemma finance_frame:
  "sent (s\<lparr>fp_form := a\<rparr>) = sent s" "sent (s\<lparr>fp_errors := e\<rparr>) = sent s" "sent (s\<lparr>fp_sheet_open := b\<rparr>) = sent s"
  "sent (s\<lparr>fp_editing := p\<rparr>) = sent s" "sent (s\<lparr>fp_defaults := a\<rparr>) = sent s"
  by (simp_all add: sent_def)

lemma plan_submit_run:
  "let s' = snd (plan_onFormSubmit (JObj kvs) s); rq = plan_rq (plan_params (JObj kvs)) in
     sent s' = sent s @ [rq] \<and>
     last (w_log s') = (if succeeds (w_net s (sent s) rq)
       then ToastOk (if fp_editing s \<noteq> None then [0x6A21, 0x677F, 0x5DF2, 0x66F4, 0x65B0] else [0x6A21, 0x677F, 0x5DF2, 0x521B, 0x5EFA]) else ToastError [0x64CD, 0x4F5C, 0x5931, 0x8D25]) \<and>
     \<not> fp_sheet_open s'"
  by (cases "response_result (w_net s (sent s) (plan_rq (plan_params (JObj kvs))))")
    (simp_all add: plan_onFormSubmit_def handleSubmitPlan_def row_of_def bind_def lift_sum_def create_plan_run
      try_catch_def emit_run effect_def reset_form_def succeeds_def finance_frame Let_def)

lemma rate_cents_back:
  assumes "\<bar>c\<bar> \<le> 2 ^ 50"
  shows "rate_cents (JNum (num_div (num_int c) (num_int 100))) = num_int c"
proof -
  have c: "\<bar>of_int c :: rat\<bar> \<le> 2 ^ 50"
    using assms by (metis of_int_abs of_int_le_iff of_int_numeral of_int_power)
  have a: "to_num (of_int c / 100) = Fin (fl (of_int c / 100))"
    by (intro to_num_bounded) (use c in simp)
  have "\<bar>fl (of_int c / 100) * 100 - of_int c\<bar> \<le> 1 / 8"
    using dbl.rd_hundredths_close [OF assms] .
  then have "\<bar>fl (of_int c / 100) * 100\<bar> \<le> \<bar>of_int c\<bar> + 1" by linarith
  then have "\<bar>fl (of_int c / 100) * 100\<bar> \<le> 2 ^ 53" by (rule order_trans) (use c in simp)
  then have "to_num (fl (of_int c / 100) * 100) = Fin (fl (fl (of_int c / 100) * 100))"
    by (rule to_num_bounded)
  then show ?thesis
    using dbl.rd_hundredths_roundtrip [OF assms] by (simp add: rate_cents_def a math_round_def)
qed

lemma fl_pos_int: "0 < fl (of_int a / 100) \<Longrightarrow> 0 < a"
  using fl_mono [of "of_int a / 100" 0] by (cases "0 < a") (simp_all add: not_less divide_nonpos_pos)

text \<open>What the form holds after a plan was opened for editing, and what comes of it once the schema accepted it.\<close>

lemma edited_plan_parsed:
  assumes laws: "schema_laws parse" "schema_keeps parse"
    and rate: "opt_get ''uniform_a_rate'' plan = jint a" and a: "\<bar>a\<bar> \<le> 2 ^ 50"
    and parsed: "parse ratePlanSchema (edit_plan_values (plan_for_edit plan)) = Inr d"
  obtains kvs name where "d = JObj kvs" and "0 < a" and "opt_get ''name'' plan = JStr name" and "name \<noteq> []"
    and "plan_params d = obj [(''name'', JStr name), (''mode'', jlit ''uniform''),
        (''uniform_a_rate'', jint a), (''uniform_b_rate'', jint a),
        (''description'', js_coalesce (opt_get ''description'' plan) (JStr [])),
        (''created_at'', JStr []), (''updated_at'', JStr [])]"
proof -
  obtain vs where v: "edit_plan_values (plan_for_edit plan) = JObj vs" by (simp add: edit_plan_values_def)
  have vs: "value_at vs ''name'' = opt_get ''name'' plan"
    "value_at vs ''rate_per_minute'' = JNum (num_div (num_int a) (num_int 100))"
    "value_at vs ''description'' = js_coalesce (opt_get ''description'' plan) (JStr [])"
    using v by (auto simp: edit_plan_values_def plan_for_edit_def opt_get_def [of _ "JObj _"] rate value_at_def
        simp del: num_div.simps)
  from laws(1) parsed obtain kvs where d: "d = JObj kvs" and m: "meets ratePlanSchema kvs"
    by (rule schema_lawsD)
  note keeps = schema_keepsD [OF laws(2) parsed [unfolded d v]]
  have k: "value_at kvs ''name'' = opt_get ''name'' plan"
    "value_at kvs ''rate_per_minute'' = JNum (num_div (num_int a) (num_int 100))"
    "value_at kvs ''description'' = js_coalesce (opt_get ''description'' plan) (JStr [])"
    by (simp_all add: keeps ratePlanSchema_def vs del: num_div.simps)
  from m have n: "admits (ZString [CkLength 1 [0x8BF7, 0x8F93, 0x5165, 0x6A21, 0x677F, 0x540D, 0x79F0]]) (value_at kvs ''name'')"
    and r: "admits (ZNumber [CkPositive ([0x8D39, 0x7387, 0x5FC5, 0x987B, 0x5927, 0x4E8E] @ js ''0'')]) (value_at kvs ''rate_per_minute'')"
    by (simp_all add: meets_def ratePlanSchema_def)
  obtain name x where nx: "map_of kvs (js ''name'') = Some (JStr name)"
      "map_of kvs (js ''rate_per_minute'') = Some (JNum (Fin x))"
    using admits_string [OF n] admits_number [OF r] by blast
  with n r have name: "map_of kvs (js ''name'') = Some (JStr name)" "name \<noteq> []"
    and x: "map_of kvs (js ''rate_per_minute'') = Some (JNum (Fin x))" "0 < x" by auto
  have "Fin x = num_div (num_int a) (num_int 100)"
    using x(1) k(2) by (simp del: num_div.simps)
  moreover have "num_div (num_int a) (num_int 100) = Fin (fl (of_int a / 100))"
  proof -
    have "\<bar>of_int a :: rat\<bar> \<le> 2 ^ 50"
      using a by (metis of_int_abs of_int_le_iff of_int_numeral of_int_power)
    then have "\<bar>of_int a / 100 :: rat\<bar> \<le> 2 ^ 53" by simp
    then show ?thesis by (simp add: to_num_bounded)
  qed
  ultimately have pos: "0 < a" using fl_pos_int x(2) by simp
  have rc: "rate_cents (opt_get ''rate_per_minute'' (JObj kvs)) = num_int a"
    using rate_cents_back [OF a] x(1) k(2) by (simp add: opt_get_def del: num_div.simps)
  have ds: "opt_get ''description'' (JObj kvs) = js_coalesce (opt_get ''description'' plan) (JStr [])"
    using k(3) by (auto simp: opt_get_def value_at_def proto_get_def proto_names_def split: option.splits)
  have nm: "opt_get ''name'' (JObj kvs) = JStr name" "opt_get ''name'' plan = JStr name"
    using name(1) k(1) by (simp_all add: opt_get_def)
  show ?thesis
    by (rule that [OF d pos nm(2) name(2)]) (simp add: d plan_params_def rc ds nm(1))
qed

text \<open>
  C38: saving a rate plan that was opened for editing and left as it is, for every schema library that keeps its
  promises. Where the schema refuses the values nothing is sent and the errors are shown; so it is for every plan
  whose A rate is not positive, or whose name is empty. Where it accepts them another plan is created: one request to
  the create route, which does not name the plan. Its A rate is the plan's, exactly, though it was divided and
  multiplied in doubles; its B rate is the A rate, whatever the plan's B rate was; on success the page says the plan was
  updated, and the sheet closes in any case.
\<close>

theorem edit_saves_new_plan:
  assumes laws: "schema_laws parse" "schema_keeps parse"
    and rate: "opt_get ''uniform_a_rate'' plan = jint a" and a: "\<bar>a\<bar> \<le> 2 ^ 50"
  shows "let s1 = sheet_effect (handleEditPlan plan s); s2 = snd (plan_submit parse s1) in
    case parse ratePlanSchema (fp_form s1) of
      Inl es \<Rightarrow> s2 = s1\<lparr>fp_errors := es\<rparr> \<and> sent s2 = sent s
    | Inr d \<Rightarrow> 0 < a \<and> (\<exists>name. name \<noteq> [] \<and> opt_get ''name'' plan = JStr name \<and>
        (let rq = plan_rq (obj [(''name'', JStr name), (''mode'', jlit ''uniform''),
            (''uniform_a_rate'', jint a), (''uniform_b_rate'', jint a),
            (''description'', js_coalesce (opt_get ''description'' plan) (JStr [])),
            (''created_at'', JStr []), (''updated_at'', JStr [])]) in
         sent s2 = sent s @ [rq] \<and>
         last (w_log s2) = (if succeeds (w_net s (sent s) rq) then ToastOk [0x6A21, 0x677F, 0x5DF2, 0x66F4, 0x65B0] else ToastError [0x64CD, 0x4F5C, 0x5931, 0x8D25]))) \<and>
        \<not> fp_sheet_open s2"
proof -
  define s1 where "s1 = sheet_effect (handleEditPlan plan s)"
  have f: "fp_form s1 = edit_plan_values (plan_for_edit plan)" and e: "fp_editing s1 \<noteq> None"
    and w: "w_net s1 = w_net s" "sent s1 = sent s"
    by (simp_all add: s1_def sheet_effect_def handleEditPlan_def reset_to_def finance_frame)
  show ?thesis
  proof (cases "parse ratePlanSchema (fp_form s1)")
    case (Inl es)
    then show ?thesis
      unfolding s1_def [symmetric] Let_def by (simp add: plan_submit_def submit_form_def effect_def finance_frame w)
  next
    case (Inr d)
    from laws rate a Inr [unfolded f] obtain kvs name where d: "d = JObj kvs" and g: "0 < a"
        "opt_get ''name'' plan = JStr name" "name \<noteq> []"
      and p: "plan_params d = obj [(''name'', JStr name), (''mode'', jlit ''uniform''),
        (''uniform_a_rate'', jint a), (''uniform_b_rate'', jint a),
        (''description'', js_coalesce (opt_get ''description'' plan) (JStr [])),
        (''created_at'', JStr []), (''updated_at'', JStr [])]"
      by (rule edited_plan_parsed)
    have r: "plan_submit parse s1 = plan_onFormSubmit (JObj kvs) s1"
      using Inr by (simp add: plan_submit_def submit_form_def d)
    from plan_submit_run [of kvs s1] show ?thesis
      unfolding s1_def [symmetric] Inr sum.case r p [unfolded d] Let_def w using e g by auto
  qed
qed

definition sample_finance :: finance_page where
  "sample_finance =
     \<lparr>w_net = (\<lambda>past r. Reply (ok_json JNull)),
      w_local = Map.empty, w_now = 0, w_random = (\<lambda>_. 0), w_draws = 0, w_log = [],
      fp_pagination = \<lparr>pg_index = 0, pg_size = 10\<rparr>, fp_sheet_open = False, fp_editing = None,
      fp_form = new_plan_values, fp_defaults = new_plan_values, fp_errors = []\<rparr>"

definition sample_plan :: jsval where
  "sample_plan = obj [(''id'', jint 3), (''name'', jlit ''std''), (''mode'', jlit ''split''),
     (''uniform_a_rate'', jint 15), (''uniform_b_rate'', jint 9)]"

theorem edit_saves_new_plan_witness:
  "let s1 = sheet_effect (handleEditPlan sample_plan sample_finance) in
     last (w_log (snd (plan_submit accept_all s1))) = ToastOk [0x6A21, 0x677F, 0x5DF2, 0x66F4, 0x65B0] \<and>
     length (sent (snd (plan_submit accept_all s1))) = 1"
proof -
  have r: "opt_get ''uniform_a_rate'' sample_plan = jint 15" by (simp add: sample_plan_def opt_get_def)
  have "succeeds (w_net sample_finance (sent sample_finance) rq)" "sent sample_finance = []" for rq
    by (simp_all add: sample_finance_def succeeds_def response_result_def sent_def)
  moreover have "\<exists>d. accept_all ratePlanSchema (fp_form (sheet_effect (handleEditPlan sample_plan sample_finance))) = Inr d"
  proof -
    have "15 / 100 = (3 / 20 :: rat)" by simp
    moreover have "fl (1 / 8) \<le> fl (3 / 20)" by (intro fl_mono) simp
    moreover have "fl (1 / 8) = 1 / 8" using fl_representable [of 1 "- 3"] by (simp add: power_int_minus)
    ultimately have q: "\<exists>x. num_div (num_int 15) (num_int 100) = Fin x \<and> 0 < x"
      using to_num_bounded [of "3 / 20"] by auto
    then obtain x where x: "num_div (num_int 15) (num_int 100) = Fin x" "0 < x" by blast
    show ?thesis
      using x by (simp add: sheet_effect_def handleEditPlan_def reset_to_def edit_plan_values_def plan_for_edit_def
          sample_plan_def opt_get_def js_coalesce_def proto_get_def proto_names_def ratePlanSchema_def
          accept_all_def value_at_def num_le_def num_eq_def del: num_div.simps)
  qed
  ultimately show ?thesis
    using edit_saves_new_plan [OF accept_all_laws accept_all_keeps r, of sample_finance] by (auto simp: Let_def)
qed

end
