(* ===== verification/Transactions.thy ===== *)
theory Transactions
  imports Forms
begin

text \<open>
  \<open>features/finance/components/transaction-table.tsx\<close>: the filters over the sample transactions, the
  totals over the table, and the table. Time stamps are compared as text, as the code does; they are
  shown through the browser's locale database, the argument \<open>fmt_time\<close>.
\<close>

section \<open>Transactions\<close>

record transaction =
  tx_id :: jstr
  tx_user_id :: jstr
  tx_customer :: jstr
  tx_type :: jstr
  tx_amount :: jsnum
  tx_balance :: jsnum
  tx_description :: jstr
  tx_created_at :: jstr

definition TYPE_CONFIG :: "(jstr \<times> jstr) list" where
  "TYPE_CONFIG =
     [(js ''topup'', [0x5145, 0x503C]), (js ''deduction'', [0x6263, 0x6B3E]), (js ''call_charge'', [0x901A, 0x8BDD, 0x6263, 0x8D39]), (js ''refund'', [0x9000, 0x6B3E])]"

definition txn :: "string \<Rightarrow> string \<Rightarrow> jstr \<Rightarrow> string \<Rightarrow> rat \<Rightarrow> rat \<Rightarrow> jstr \<Rightarrow> string \<Rightarrow> transaction" where
  "txn i u c t a b d k =
     \<lparr>tx_id = js i, tx_user_id = js u, tx_customer = c, tx_type = js t, tx_amount = to_num a,
      tx_balance = to_num b, tx_description = d, tx_created_at = js k\<rparr>"

definition mockTransactions :: "transaction list" where
  "mockTransactions =
     [txn ''txn_001abc'' ''1'' [0x793A, 0x4F8B, 0x79D1, 0x6280, 0x6709, 0x9650, 0x516C, 0x53F8] ''topup'' 5000 (1750050 / 100)
        [0x5728, 0x7EBF, 0x5145, 0x503C] ''2026-03-10T14:30:00Z'',
      txn ''txn_002def'' ''2'' [0x901A, 0x8FBE, 0x901A, 0x4FE1] ''call_charge'' (- (1250 / 100)) (318750 / 100)
        ([0x901A, 0x8BDD, 0x6263, 0x8D39] @ js '' 010-12345678'') ''2026-03-10T13:45:00Z'',
      txn ''txn_003ghi'' ''1'' [0x793A, 0x4F8B, 0x79D1, 0x6280, 0x6709, 0x9650, 0x516C, 0x53F8] ''deduction'' (- 200) (1230050 / 100)
        ([0x624B, 0x52A8, 0x6263, 0x6B3E] @ js '' - '' @ [0x8FDD, 0x7EA6, 0x91D1]) ''2026-03-10T12:00:00Z'',
      txn ''txn_004jkl'' ''4'' [0x661F, 0x8FB0, 0x7F51, 0x7EDC] ''topup'' 10000 55800
        [0x94F6, 0x884C, 0x8F6C, 0x8D26, 0x5145, 0x503C] ''2026-03-09T16:00:00Z'',
      txn ''txn_005mno'' ''2'' [0x901A, 0x8FBE, 0x901A, 0x4FE1] ''refund'' 50 3250
        [0x901A, 0x8BDD, 0x5931, 0x8D25, 0x9000, 0x6B3E] ''2026-03-09T10:20:00Z'',
      txn ''txn_006pqr'' ''5'' [0x4E91, 0x6865, 0x901A, 0x8BAF] ''call_charge'' (- (875 / 100)) (77150 / 100)
        ([0x901A, 0x8BDD, 0x6263, 0x8D39] @ js '' 021-87654321'') ''2026-03-09T09:15:00Z'',
      txn ''txn_007stu'' ''4'' [0x661F, 0x8FB0, 0x7F51, 0x7EDC] ''call_charge'' (- (3520 / 100)) (4576480 / 100)
        ([0x901A, 0x8BDD, 0x6263, 0x8D39] @ js '' 0755-11223344'') ''2026-03-08T18:30:00Z'',
      txn ''txn_008vwx'' ''1'' [0x793A, 0x4F8B, 0x79D1, 0x6280, 0x6709, 0x9650, 0x516C, 0x53F8] ''deduction'' (- 500) (1200050 / 100)
        [0x6708, 0x5EA6, 0x670D, 0x52A1, 0x8D39] ''2026-03-08T08:00:00Z'',
      txn ''txn_009yza'' ''3'' [0x6C47, 0x8054, 0x79D1, 0x6280] ''topup'' 2000 2000
        [0x5728, 0x7EBF, 0x5145, 0x503C] ''2026-03-07T15:00:00Z'',
      txn ''txn_010bcd'' ''5'' [0x4E91, 0x6865, 0x901A, 0x8BAF] ''call_charge'' (- (630 / 100)) (77395 / 100)
        ([0x901A, 0x8BDD, 0x6263, 0x8D39] @ js '' 020-55667788'') ''2026-03-07T11:45:00Z'']"

section \<open>Filters and totals\<close>

record tx_filters =
  tf_from :: jstr
  tf_to :: jstr
  tf_customer :: jstr
  tf_type :: jstr

definition new_tx_filters :: tx_filters where
  "new_tx_filters = \<lparr>tf_from = [], tf_to = [], tf_customer = js ''all'', tf_type = js ''all''\<rparr>"

definition tx_matches :: "tx_filters \<Rightarrow> transaction \<Rightarrow> bool" where
  "tx_matches f t =
     (if tf_customer f \<noteq> js ''all'' \<and> tx_user_id t \<noteq> tf_customer f then False
      else if tf_type f \<noteq> js ''all'' \<and> tx_type t \<noteq> tf_type f then False
      else if tf_from f \<noteq> [] \<and> str_lt (tx_created_at t) (tf_from f) then False
      else if tf_to f \<noteq> [] \<and> str_lt (tf_to f @ js ''T23:59:59Z'') (tx_created_at t) then False
      else True)"

definition tx_filtered :: "tx_filters \<Rightarrow> transaction list" where
  "tx_filtered f = filter (tx_matches f) mockTransactions"

definition total_in :: "transaction list \<Rightarrow> jsnum" where
  "total_in ts =
     fold (\<lambda>t s. num_add s (tx_amount t)) (filter (\<lambda>t. num_lt (Fin 0) (tx_amount t)) ts) (num_int 0)"

definition total_out :: "transaction list \<Rightarrow> jsnum" where
  "total_out ts =
     fold (\<lambda>t s. num_add s (math_abs (tx_amount t))) (filter (\<lambda>t. num_lt (tx_amount t) (Fin 0)) ts) (num_int 0)"

definition total_net :: "transaction list \<Rightarrow> jsnum" where
  "total_net ts = num_sub (total_in ts) (total_out ts)"

section \<open>Views\<close>

definition tx_type_label :: "transaction \<Rightarrow> jstr" where
  "tx_type_label t = the (map_of TYPE_CONFIG (tx_type t))"

definition tx_columns :: "(jstr \<Rightarrow> jstr) \<Rightarrow> transaction column list" where
  "tx_columns fmt_time =
     [column ([0x4EA4, 0x6613] @ js ''ID'') (\<lambda>t. El ''span'' [(''title'', tx_id t)] [Txt (str_slice 0 11 (tx_id t)), lit ''...'']),
      column [0x5BA2, 0x6237, 0x540D, 0x79F0] (\<lambda>t. Txt (tx_customer t)),
      column [0x7C7B, 0x578B] (\<lambda>t. El ''Badge'' [(''variant'', js ''outline'')] [Txt (tx_type_label t)]),
      column [0x91D1, 0x989D] (\<lambda>t. El ''span'' []
        [Txt (if num_lt (Fin 0) (tx_amount t) then js ''+'' else []), Txt (to_fixed 2 (tx_amount t))]),
      column [0x4F59, 0x989D] (\<lambda>t. El ''span'' [] [Txt ([0x00A5] @ to_fixed 2 (tx_balance t))]),
      column [0x5907, 0x6CE8] (\<lambda>t. Txt (tx_description t)),
      column [0x65F6, 0x95F4] (\<lambda>t. Txt (fmt_time (tx_created_at t)))]"

definition CUSTOMER_OPTIONS :: "(jstr \<times> jstr) list" where
  "CUSTOMER_OPTIONS =
     [(js ''all'', [0x5168, 0x90E8, 0x5BA2, 0x6237]), (js ''1'', [0x793A, 0x4F8B, 0x79D1, 0x6280, 0x6709, 0x9650, 0x516C, 0x53F8]), (js ''2'', [0x901A, 0x8FBE, 0x901A, 0x4FE1]),
      (js ''3'', [0x6C47, 0x8054, 0x79D1, 0x6280]), (js ''4'', [0x661F, 0x8FB0, 0x7F51, 0x7EDC]), (js ''5'', [0x4E91, 0x6865, 0x901A, 0x8BAF])]"

definition TYPE_OPTIONS :: "(jstr \<times> jstr) list" where
  "TYPE_OPTIONS =
     [(js ''all'', [0x5168, 0x90E8]), (js ''topup'', [0x5145, 0x503C]), (js ''deduction'', [0x6263, 0x6B3E]),
      (js ''call_charge'', [0x901A, 0x8BDD, 0x6263, 0x8D39]), (js ''refund'', [0x9000, 0x6B3E])]"

definition tx_toolbar :: "tx_filters \<Rightarrow> view" where
  "tx_toolbar f =
     (let ts = tx_filtered f; net = total_net ts; up = num_le (Fin 0) net in
      El ''div'' []
        [El ''Label'' [] [Txt [0x5F00, 0x59CB, 0x65E5, 0x671F]], El ''Input'' [(''type'', js ''date''), (''value'', tf_from f)] [],
         El ''Label'' [] [Txt [0x7ED3, 0x675F, 0x65E5, 0x671F]], El ''Input'' [(''type'', js ''date''), (''value'', tf_to f)] [],
         El ''Label'' [] [Txt [0x5BA2, 0x6237]], select_of (tf_customer f) [] CUSTOMER_OPTIONS,
         El ''Label'' [] [Txt [0x7C7B, 0x578B]], select_of (tf_type f) [] TYPE_OPTIONS,
         El ''span'' [] [Txt ([0x603B, 0x5165, 0x8D26] @ js '': ''), El ''span'' [] [Txt (js ''+'' @ [0x00A5]), Txt (to_fixed 2 (total_in ts))]],
         El ''span'' [] [Txt ([0x603B, 0x51FA, 0x8D26] @ js '': ''), El ''span'' [] [Txt (js ''-'' @ [0x00A5]), Txt (to_fixed 2 (total_out ts))]],
         El ''span'' [] [Txt ([0x51C0, 0x989D] @ js '': ''), El ''span'' []
           [Txt (if up then js ''+'' else []), Txt [0x00A5], Txt (to_fixed 2 net)]]])"

definition transaction_table :: "(jstr \<Rightarrow> jstr) \<Rightarrow> tx_filters \<Rightarrow> pagination \<Rightarrow> bool \<Rightarrow> bool \<Rightarrow> view" where
  "transaction_table fmt_time f p canPrev canNext =
     data_table (tx_columns fmt_time) (tx_filtered f) (int (length (tx_filtered f))) p False (tx_toolbar f)
       canPrev canNext"

section \<open>Properties\<close>

lemma types_have_labels: "list_all (\<lambda>t. map_of TYPE_CONFIG (tx_type t) \<noteq> None) mockTransactions"
  by (simp add: mockTransactions_def txn_def TYPE_CONFIG_def)

lemma str_lt_append:
  "length a = length b \<Longrightarrow> str_lt (a @ x) (b @ y) \<longleftrightarrow> str_lt a b \<or> a = b \<and> str_lt x y"
proof (induction a arbitrary: b)
  case (Cons u a)
  then show ?case by (cases b) auto
qed simp

lemma str_le_iff: "str_le s t \<longleftrightarrow> \<not> str_lt t s"
  using str_lt_total [of s t] str_lt_trans [of s t s] by (auto simp: str_le_def)

text \<open>
  The date filters keep exactly the days they name, the first and the last included: for time stamps
  of the form the server prints, comparing them as text with the start date and with the end of the end
  date is comparing their days; an empty filter keeps every day.
\<close>

lemma date_filter_days:
  assumes stamp: "tx_created_at t = d @ js ''T'' @ c @ js ''Z''" "length c = 8" "str_le c (js ''23:59:59'')"
    and all: "tf_customer f = js ''all''" "tf_type f = js ''all''"
    and dates: "tf_from f = [] \<or> length (tf_from f) = length d" "tf_to f = [] \<or> length (tf_to f) = length d"
  shows "tx_matches f t \<longleftrightarrow> (tf_from f = [] \<or> str_le (tf_from f) d) \<and> (tf_to f = [] \<or> str_le d (tf_to f))"
proof -
  have lo: "str_lt (tx_created_at t) (tf_from f) \<longleftrightarrow> str_lt d (tf_from f)" if "length (tf_from f) = length d"
    using str_lt_append [of d "tf_from f" "js ''T'' @ c @ js ''Z''" "[]"] that stamp(1) by (auto simp: js_Cons)
  have "\<not> str_lt (js ''T23:59:59Z'') (js ''T'' @ c @ js ''Z'')"
    using str_lt_append [of "js ''23:59:59''" c "js ''Z''" "js ''Z''"] stamp(2,3) str_le_iff
    by (auto simp: js_Cons)
  then have hi: "str_lt (tf_to f @ js ''T23:59:59Z'') (tx_created_at t) \<longleftrightarrow> str_lt (tf_to f) d"
    if "length (tf_to f) = length d"
    using str_lt_append [OF that, of "js ''T23:59:59Z''" "js ''T'' @ c @ js ''Z''"] stamp(1) by simp
  show ?thesis
    using lo hi dates by (auto simp: tx_matches_def all str_le_iff)
qed

lemma sample_types_known:
  "list_all (\<lambda>t. map_of TYPE_CONFIG (tx_type t) \<noteq> None) mockTransactions"
  by (simp add: mockTransactions_def txn_def TYPE_CONFIG_def)

end
