(* ===== verification/Profit.thy ===== *)
theory Profit
  imports Forms
begin

text \<open>
  \<open>features/finance/components/profit-analysis.tsx\<close> and the chart colours: the sample profit tables, the
  summary over a period and the two charts. A chart is drawn by the chart library from its rows and its
  bars. \<open>toLocaleString()\<close> without a locale is the argument \<open>fmt_num\<close>.
\<close>

section \<open>Chart colours\<close>

definition CHART_COLORS :: "(string \<times> jstr) list" where
  "CHART_COLORS =
     [(''primary'', js ''hsl(160, 84%, 39%)''), (''secondary'', js ''hsl(190, 80%, 45%)''),
      (''tertiary'', js ''hsl(270, 60%, 55%)''), (''warning'', js ''hsl(35, 90%, 55%)''),
      (''danger'', js ''hsl(0, 75%, 55%)''), (''muted'', js ''hsl(0, 0%, 60%)'')]"

definition chart_color :: "string \<Rightarrow> jstr" where
  "chart_color k = the (map_of CHART_COLORS k)"

definition CHART_COLORS_ARRAY :: "jstr list" where
  "CHART_COLORS_ARRAY =
     map chart_color [''primary'', ''secondary'', ''tertiary'', ''warning'', ''danger'', ''muted'']"

definition PORTAL_CHART_COLORS :: "(string \<times> jstr) list" where
  "PORTAL_CHART_COLORS =
     [(''primary'', js ''var(--chart-1)''), (''secondary'', js ''var(--chart-2)''),
      (''tertiary'', js ''var(--chart-3)''), (''quaternary'', js ''var(--chart-4)''),
      (''quinary'', js ''var(--chart-5)'')]"

definition PORTAL_CHART_COLOR_ARRAY :: "jstr list" where
  "PORTAL_CHART_COLOR_ARRAY =
     map (\<lambda>k. the (map_of PORTAL_CHART_COLORS k)) [''primary'', ''secondary'', ''tertiary'', ''quaternary'', ''quinary'']"

section \<open>Profit\<close>

record profit_line =
  pr_name :: jstr
  pr_revenue :: int
  pr_cost :: int
  pr_profit :: int

definition pr :: "jstr \<Rightarrow> int \<Rightarrow> int \<Rightarrow> int \<Rightarrow> profit_line" where
  "pr n r c p = \<lparr>pr_name = n, pr_revenue = r, pr_cost = c, pr_profit = p\<rparr>"

definition mockCustomerData :: "(jstr \<times> profit_line list) list" where
  "mockCustomerData =
     [(js ''today'',
       [pr [0x661F, 0x8FB0, 0x7F51, 0x7EDC] 4520 2100 2420,
        pr [0x793A, 0x4F8B, 0x79D1, 0x6280] 3800 1900 1900,
        pr [0x901A, 0x8FBE, 0x901A, 0x4FE1] 2200 1100 1100,
        pr [0x4E91, 0x6865, 0x901A, 0x8BAF] 1500 850 650,
        pr [0x6C47, 0x8054, 0x79D1, 0x6280] 980 600 380,
        pr [0x534E, 0x4FE1, 0x8FBE] 750 420 330,
        pr [0x76DB, 0x8054, 0x901A, 0x8BAF] 620 380 240,
        pr [0x745E, 0x901A, 0x79D1, 0x6280] 480 300 180,
        pr [0x5929, 0x7FFC, 0x8054, 0x5408] 350 230 120,
        pr [0x98DE, 0x8BAF, 0x901A, 0x4FE1] 220 150 70]),
      (js ''week'',
       [pr [0x661F, 0x8FB0, 0x7F51, 0x7EDC] 32500 15200 17300,
        pr [0x793A, 0x4F8B, 0x79D1, 0x6280] 28000 14000 14000,
        pr [0x901A, 0x8FBE, 0x901A, 0x4FE1] 18500 9200 9300,
        pr [0x4E91, 0x6865, 0x901A, 0x8BAF] 12000 7000 5000,
        pr [0x6C47, 0x8054, 0x79D1, 0x6280] 8500 5100 3400,
        pr [0x534E, 0x4FE1, 0x8FBE] 6200 3500 2700,
        pr [0x76DB, 0x8054, 0x901A, 0x8BAF] 4800 2900 1900,
        pr [0x745E, 0x901A, 0x79D1, 0x6280] 3500 2200 1300,
        pr [0x5929, 0x7FFC, 0x8054, 0x5408] 2800 1800 1000,
        pr [0x98DE, 0x8BAF, 0x901A, 0x4FE1] 1500 1000 500]),
      (js ''month'',
       [pr [0x661F, 0x8FB0, 0x7F51, 0x7EDC] 125000 58000 67000,
        pr [0x793A, 0x4F8B, 0x79D1, 0x6280] 108000 54000 54000,
        pr [0x901A, 0x8FBE, 0x901A, 0x4FE1] 72000 36000 36000,
        pr [0x4E91, 0x6865, 0x901A, 0x8BAF] 48000 28000 20000,
        pr [0x6C47, 0x8054, 0x79D1, 0x6280] 35000 21000 14000,
        pr [0x534E, 0x4FE1, 0x8FBE] 25000 14000 11000,
        pr [0x76DB, 0x8054, 0x901A, 0x8BAF] 19000 11500 7500,
        pr [0x745E, 0x901A, 0x79D1, 0x6280] 14000 8800 5200,
        pr [0x5929, 0x7FFC, 0x8054, 0x5408] 11000 7200 3800,
        pr [0x98DE, 0x8BAF, 0x901A, 0x4FE1] 6000 4000 2000])]"

definition mockGatewayData :: "(jstr \<times> profit_line list) list" where
  "mockGatewayData =
     [(js ''today'',
       [pr ([0x7F51, 0x5173] @ js ''A-'' @ [0x79FB, 0x52A8]) 5200 2800 2400,
        pr ([0x7F51, 0x5173] @ js ''B-'' @ [0x8054, 0x901A]) 3800 2100 1700,
        pr ([0x7F51, 0x5173] @ js ''C-'' @ [0x7535, 0x4FE1]) 2500 1400 1100,
        pr ([0x7F51, 0x5173] @ js ''D-'' @ [0x56FD, 0x9645]) 1800 1200 600,
        pr ([0x7F51, 0x5173] @ js ''E-VOIP'') 1120 700 420]),
      (js ''week'',
       [pr ([0x7F51, 0x5173] @ js ''A-'' @ [0x79FB, 0x52A8]) 38000 20000 18000,
        pr ([0x7F51, 0x5173] @ js ''B-'' @ [0x8054, 0x901A]) 28000 15500 12500,
        pr ([0x7F51, 0x5173] @ js ''C-'' @ [0x7535, 0x4FE1]) 19000 10500 8500,
        pr ([0x7F51, 0x5173] @ js ''D-'' @ [0x56FD, 0x9645]) 13000 8800 4200,
        pr ([0x7F51, 0x5173] @ js ''E-VOIP'') 8300 5200 3100]),
      (js ''month'',
       [pr ([0x7F51, 0x5173] @ js ''A-'' @ [0x79FB, 0x52A8]) 150000 78000 72000,
        pr ([0x7F51, 0x5173] @ js ''B-'' @ [0x8054, 0x901A]) 112000 62000 50000,
        pr ([0x7F51, 0x5173] @ js ''C-'' @ [0x7535, 0x4FE1]) 78000 43000 35000,
        pr ([0x7F51, 0x5173] @ js ''D-'' @ [0x56FD, 0x9645]) 52000 35000 17000,
        pr ([0x7F51, 0x5173] @ js ''E-VOIP'') 33000 20600 12400])]"

definition PERIOD_OPTIONS :: "(jstr \<times> jstr) list" where
  "PERIOD_OPTIONS = [(js ''today'', [0x4ECA, 0x65E5]), (js ''week'', [0x672C, 0x5468]), (js ''month'', [0x672C, 0x6708])]"

text \<open>\<open>table[period] ?? []\<close>: a period is one of the options, never a name of the prototype.\<close>

definition period_rows :: "(jstr \<times> profit_line list) list \<Rightarrow> jstr \<Rightarrow> profit_line list" where
  "period_rows tbl period = (case map_of tbl period of Some rs \<Rightarrow> rs | None \<Rightarrow> [])"

definition sum_num :: "('a \<Rightarrow> int) \<Rightarrow> 'a list \<Rightarrow> jsnum" where
  "sum_num f rs = fold (\<lambda>r s. num_add s (num_int (f r))) rs (num_int 0)"

definition margin_rate :: "profit_line list \<Rightarrow> jsnum" where
  "margin_rate rs =
     (let totalRevenue = sum_num pr_revenue rs; totalCost = sum_num pr_cost rs in
      if num_lt (Fin 0) totalRevenue then
        num_mul (num_div (num_sub totalRevenue totalCost) totalRevenue) (num_int 100)
      else num_int 0)"

definition formatCurrency :: "(jsnum \<Rightarrow> jstr) \<Rightarrow> jsnum \<Rightarrow> jstr" where
  "formatCurrency fmt_num v = [0x00A5] @ fmt_num v"

definition thousands_tick :: "jsnum \<Rightarrow> jstr" where
  "thousands_tick v = [0x00A5] @ to_fixed 0 (num_div v (num_int 1000)) @ js ''k''"

definition summary_card :: "jstr \<Rightarrow> jstr \<Rightarrow> view" where
  "summary_card label v =
     El ''Card'' [] [El ''CardContent'' [] [El ''Icon'' [] [], El ''p'' [] [Txt label], El ''p'' [] [Txt v]]]"

text \<open>A bar chart: the category of each row, and the bars with their legend, colour and values.\<close>

definition profit_chart :: "jstr \<Rightarrow> profit_line list \<Rightarrow> view" where
  "profit_chart title rs =
     (let bar = (\<lambda>label color f. El ''Bar'' [(''name'', label), (''fill'', chart_color color)]
        (map (\<lambda>r. Txt (show_int (f r))) rs)) in
      El ''Card'' []
        [El ''CardTitle'' [] [Txt title],
         El ''BarChart'' [(''layout'', js ''vertical'')]
           [El ''XAxis'' [(''type'', js ''number'')] [],
            El ''YAxis'' [(''type'', js ''category'')] (map (\<lambda>r. Txt (pr_name r)) rs),
            El ''Tooltip'' [] [], El ''Legend'' [] [],
            bar [0x6536, 0x5165] ''primary'' pr_revenue, bar [0x6210, 0x672C] ''danger'' pr_cost, bar [0x6BDB, 0x5229] ''secondary'' pr_profit]])"

definition profit_analysis :: "(jsnum \<Rightarrow> jstr) \<Rightarrow> jstr \<Rightarrow> view" where
  "profit_analysis fmt_num period =
     (let customerData = period_rows mockCustomerData period; gatewayData = period_rows mockGatewayData period in
      El ''div'' []
        [summary_card [0x603B, 0x6536, 0x5165] (formatCurrency fmt_num (sum_num pr_revenue customerData)),
         summary_card [0x603B, 0x6210, 0x672C] (formatCurrency fmt_num (sum_num pr_cost customerData)),
         summary_card [0x6BDB, 0x5229, 0x7387] (to_fixed 1 (margin_rate customerData) @ js ''%''),
         select_of period [] PERIOD_OPTIONS,
         profit_chart [0x6309, 0x5BA2, 0x6237, 0x6BDB, 0x5229, 0x5206, 0x6790] customerData,
         profit_chart [0x6309, 0x7F51, 0x5173, 0x6BDB, 0x5229, 0x5206, 0x6790] gatewayData])"

section \<open>Properties\<close>

lemma sum_num_from:
  "0 \<le> k \<Longrightarrow> list_all (\<lambda>r. 0 \<le> f r) rs \<Longrightarrow> k + sum_list (map f rs) \<le> 2 ^ 53 \<Longrightarrow>
   fold (\<lambda>r s. num_add s (num_int (f r))) rs (num_int k) = num_int (k + sum_list (map f rs))"
proof (induction rs arbitrary: k)
  case (Cons r rs)
  have "0 \<le> sum_list (map f rs)"
    using Cons.prems(2) by (intro sum_list_nonneg) (auto simp: list_all_iff)
  then have "num_add (num_int k) (num_int (f r)) = num_int (k + f r)"
    using Cons.prems to_num_int [of "k + f r"] by simp
  then show ?case using Cons.IH [of "k + f r"] Cons.prems by (simp add: add.assoc del: num_add.simps)
qed simp

lemma sum_num_exact:
  "list_all (\<lambda>r. 0 \<le> f r) rs \<Longrightarrow> sum_list (map f rs) \<le> 2 ^ 53 \<Longrightarrow> sum_num f rs = num_int (sum_list (map f rs))"
  using sum_num_from [of 0 f rs] by (simp add: sum_num_def)

text \<open>
  The margin over a table of rows is a percentage: where no row's cost is more than its revenue, the
  sums computed in doubles are exact and the rate lies between 0 and 100; without revenue it is 0.
\<close>

lemma margin_rate_range:
  assumes rows: "list_all (\<lambda>r. 0 \<le> pr_cost r \<and> pr_cost r \<le> pr_revenue r) rs"
    and size: "sum_list (map pr_revenue rs) \<le> 2 ^ 50"
  shows "sum_num pr_revenue rs = num_int (sum_list (map pr_revenue rs)) \<and>
    (\<exists>x. margin_rate rs = Fin x \<and> 0 \<le> x \<and> x \<le> 100)"
proof -
  let ?R = "sum_list (map pr_revenue rs)" and ?C = "sum_list (map pr_cost rs)"
  have le: "?C \<le> ?R" "0 \<le> ?C"
    using rows by (auto intro!: sum_list_mono sum_list_nonneg simp: list_all_iff)
  have nn: "list_all (\<lambda>r. 0 \<le> pr_cost r) rs" "list_all (\<lambda>r. 0 \<le> pr_revenue r) rs"
    using rows by (fastforce simp: list_all_iff)+
  have R: "sum_num pr_revenue rs = num_int ?R"
    using nn(2) size by (intro sum_num_exact) simp_all
  have C: "sum_num pr_cost rs = num_int ?C"
    using nn(1) size le by (intro sum_num_exact) simp_all
  have d: "num_sub (num_int ?R) (num_int ?C) = num_int (?R - ?C)"
    using to_num_int [of "?R - ?C"] le size by (simp add: num_sub_def)
  have "\<exists>x. margin_rate rs = Fin x \<and> 0 \<le> x \<and> x \<le> 100"
  proof (cases "0 < ?R")
    case True
    then have "margin_rate rs = num_mul (num_div (num_int (?R - ?C)) (num_int ?R)) (num_int 100)"
      by (simp add: margin_rate_def R C d [simplified] Let_def del: num_div.simps num_mul.simps)
    with fl_percent_of [of "?R - ?C" ?R] True le size show ?thesis by auto
  next
    case False
    then show ?thesis by (simp add: margin_rate_def R C Let_def)
  qed
  with R show ?thesis by blast
qed

lemma sample_profits_add_up:
  "list_all (\<lambda>(k, rs). list_all (\<lambda>r. pr_profit r = pr_revenue r - pr_cost r) rs) (mockCustomerData @ mockGatewayData)"
  by (simp add: mockCustomerData_def mockGatewayData_def pr_def)

end
