(* ===== verification/Call_Ws.thy ===== *)
theory Call_Ws
  imports Query_Client
begin

text \<open>
  The part \<open>use-call-ws.ts\<close> of both applications shares: the sockets and timers of the browser, the
  refs and states of the hook, its socket handlers, its effect and its clean-up, and the step
  relation of a mounted hook in which the browser, the server and the timers decide what happens
  next. What the two files do differently (how the URL is made, what a message does) is an argument.

  A socket that is closed while it is still connecting reports the code 1006; one that is closed
  after it opened reports whatever code the closing handshake ends with.
\<close>

section \<open>State\<close>

datatype ws_status = WsConnecting | WsConnected | WsDisconnected | WsError

datatype sock_state = SoConnecting | SoOpen | SoAborting | SoClosing | SoClosed

record call_ws = world +
  ws_enabled :: bool
  ws_cookie :: jstr
  ws_secure :: bool
  ws_host :: jstr
  ws_state :: ws_status
  ws_last :: jsval
  ws_socks :: "(jstr \<times> sock_state) list"
  ws_ref :: "nat option"
  ws_attempts :: nat
  ws_timer_ref :: "nat option"
  ws_timers :: "(nat \<times> jsnum) list"
  ws_next_timer :: nat

type_synonym ('s, 'a) ws_prog = "('s call_ws_scheme, jsval, 'a) prog"

definition set_status :: "ws_status \<Rightarrow> ('s, unit) ws_prog" where
  "set_status st = effect (\<lambda>s. s\<lparr>ws_state := st\<rparr>)"

text \<open>\<open>new WebSocket(url)\<close> and \<open>wsRef.current = ws\<close>\<close>

definition open_socket :: "jstr \<Rightarrow> ('s, unit) ws_prog" where
  "open_socket url = effect (\<lambda>s.
     s\<lparr>ws_socks := ws_socks s @ [(url, SoConnecting)], ws_ref := Some (length (ws_socks s))\<rparr>)"

definition sock_state_of :: "nat \<Rightarrow> 's call_ws_scheme \<Rightarrow> sock_state" where
  "sock_state_of i s = (if i < length (ws_socks s) then snd (ws_socks s ! i) else SoClosed)"

definition set_sock :: "nat \<Rightarrow> sock_state \<Rightarrow> 's call_ws_scheme \<Rightarrow> 's call_ws_scheme" where
  "set_sock i st s =
     (if i < length (ws_socks s) then s\<lparr>ws_socks := (ws_socks s)[i := (fst (ws_socks s ! i), st)]\<rparr> else s)"

text \<open>\<open>ws.close(1000)\<close>\<close>

definition close_socket :: "nat \<Rightarrow> 's call_ws_scheme \<Rightarrow> 's call_ws_scheme" where
  "close_socket i s =
     (case sock_state_of i s of
        SoConnecting \<Rightarrow> set_sock i SoAborting s
      | SoOpen \<Rightarrow> set_sock i SoClosing s
      | _ \<Rightarrow> s)"

section \<open>The handlers\<close>

definition on_open :: "'s call_ws_scheme \<Rightarrow> 's call_ws_scheme" where
  "on_open s = s\<lparr>ws_state := WsConnected, ws_attempts := 0\<rparr>"

definition on_error :: "'s call_ws_scheme \<Rightarrow> 's call_ws_scheme" where
  "on_error s = s\<lparr>ws_state := WsError\<rparr>"

text \<open>\<open>Math.min(BASE_RECONNECT_DELAY * Math.pow(2, n), MAX_RECONNECT_DELAY)\<close> in doubles\<close>

definition max_reconnect_delay :: jsnum where
  "max_reconnect_delay = num_int 30000"

definition base_reconnect_delay :: jsnum where
  "base_reconnect_delay = num_int 1000"

definition backoff :: "nat \<Rightarrow> jsnum" where
  "backoff n = math_min (num_mul base_reconnect_delay (to_num (2 ^ n))) max_reconnect_delay"

definition on_close :: "int \<Rightarrow> 's call_ws_scheme \<Rightarrow> 's call_ws_scheme" where
  "on_close code s0 =
     (let s = s0\<lparr>ws_ref := None, ws_state := WsDisconnected\<rparr> in
      if code = 1000 \<or> code = 4401 then s
      else s\<lparr>ws_attempts := Suc (ws_attempts s), ws_timer_ref := Some (ws_next_timer s),
             ws_timers := ws_timers s @ [(ws_next_timer s, backoff (ws_attempts s))],
             ws_next_timer := Suc (ws_next_timer s)\<rparr>)"

text \<open>The clean-up of the effect. Timer numbers start at 1, so a set ref is truthy.\<close>

definition cleanup :: "'s call_ws_scheme \<Rightarrow> 's call_ws_scheme" where
  "cleanup s0 =
     (let s = (case ws_timer_ref s0 of
                 None \<Rightarrow> s0
               | Some t \<Rightarrow> s0\<lparr>ws_timers := filter (\<lambda>(u, d). u \<noteq> t) (ws_timers s0)\<rparr>)
      in case ws_ref s of
           None \<Rightarrow> s
         | Some i \<Rightarrow> (close_socket i s)\<lparr>ws_ref := None\<rparr>)"

section \<open>Steps\<close>

text \<open>
  What can happen to a hook. \<open>connect\<close> is the function of the file and \<open>on_message\<close> the body of its
  message handler; the message is what \<open>JSON.parse\<close> makes of the data.
\<close>

datatype ws_event =
    Opened nat
  | Message nat "jsval + jsval"
  | Errored nat
  | Closed nat int
  | Fired nat
  | TornDown

fun is_teardown :: "ws_event \<Rightarrow> bool" where
  "is_teardown TornDown = True"
| "is_teardown _ = False"

inductive ws_step ::
    "('s, unit) ws_prog \<Rightarrow> (jsval + jsval \<Rightarrow> ('s, unit) ws_prog) \<Rightarrow>
     ws_event \<Rightarrow> 's call_ws_scheme \<Rightarrow> 's call_ws_scheme \<Rightarrow> bool"
  for connect on_message where
  opened: "sock_state_of i s = SoConnecting \<Longrightarrow>
     ws_step connect on_message (Opened i) s (on_open (set_sock i SoOpen s))"
| message: "sock_state_of i s = SoOpen \<Longrightarrow>
     ws_step connect on_message (Message i d) s (snd (on_message d s))"
| errored: "sock_state_of i s \<noteq> SoClosed \<Longrightarrow> ws_step connect on_message (Errored i) s (on_error s)"
| closed: "sock_state_of i s \<noteq> SoClosed \<Longrightarrow>
     sock_state_of i s = SoConnecting \<or> sock_state_of i s = SoAborting \<longrightarrow> code = 1006 \<Longrightarrow>
     ws_step connect on_message (Closed i code) s (on_close code (set_sock i SoClosed s))"
| fired: "t \<in> fst ` set (ws_timers s) \<Longrightarrow>
     ws_step connect on_message (Fired t) s
       (snd (connect (s\<lparr>ws_timers := filter (\<lambda>(u, d). u \<noteq> t) (ws_timers s)\<rparr>)))"
| torn_down: "ws_step connect on_message TornDown s (cleanup s)"

inductive ws_run ::
    "('s, unit) ws_prog \<Rightarrow> (jsval + jsval \<Rightarrow> ('s, unit) ws_prog) \<Rightarrow>
     's call_ws_scheme \<Rightarrow> ws_event list \<Rightarrow> 's call_ws_scheme \<Rightarrow> bool"
  for connect on_message where
  start: "ws_run connect on_message s [] s"
| more: "ws_run connect on_message s es s' \<Longrightarrow> ws_step connect on_message e s' s'' \<Longrightarrow>
     ws_run connect on_message s (es @ [e]) s''"

inductive_cases ws_step_cases: "ws_step connect on_message e s s'"

inductive_simps ws_step_simps:
  "ws_step connect on_message (Opened i) s s'"
  "ws_step connect on_message (Message i d) s s'"
  "ws_step connect on_message (Errored i) s s'"
  "ws_step connect on_message (Closed i code) s s'"
  "ws_step connect on_message (Fired t) s s'"
  "ws_step connect on_message TornDown s s'"

text \<open>The hook before its effect ran for the first time.\<close>

definition fresh :: "'s call_ws_scheme \<Rightarrow> bool" where
  "fresh s \<longleftrightarrow> ws_state s = WsDisconnected \<and> ws_socks s = [] \<and> ws_ref s = None \<and> ws_attempts s = 0 \<and>
     ws_timer_ref s = None \<and> ws_timers s = [] \<and> ws_next_timer s = 1"

definition live_socks :: "'s call_ws_scheme \<Rightarrow> nat set" where
  "live_socks s = {i. sock_state_of i s \<noteq> SoClosed}"

section \<open>The delay\<close>

lemma backoff_eq: "backoff n = num_int (min (1000 * 2 ^ n) 30000)"
proof (cases "n < 5")
  case True
  then have n: "(2 :: int) ^ n \<le> 2 ^ 5" by (intro power_increasing) simp_all
  have c: "num_mul base_reconnect_delay (to_num (2 ^ n)) = num_int (1000 * 2 ^ n)"
    using n to_num_int [of "2 ^ n"] to_num_int [of "1000 * 2 ^ n"] by (simp add: base_reconnect_delay_def)
  have m: "math_min (num_int a) (num_int b) = num_int (min a b)" for a b
    by (simp add: math_min_def min_def)
  show ?thesis by (simp only: backoff_def c max_reconnect_delay_def m)
next
  case False
  then have "(2 :: rat) ^ 5 \<le> 2 ^ n" by (intro power_increasing) simp_all
  then have p: "32 \<le> fl (2 ^ n)" using fl_mono [of 32 "2 ^ n"] fl_of_int [of 32] by simp
  have m: "(2 :: int) ^ 5 \<le> 2 ^ n" using False by (intro power_increasing) simp_all
  have big: "math_min (to_num x) (num_int 30000) = num_int 30000" if "30000 \<le> fl x" for x
    using that by (auto simp: to_num_def Let_def math_min_def not_le)
  show ?thesis
  proof (cases "2 ^ 1024 \<le> fl (2 ^ n)")
    case True
    with m show ?thesis
      by (simp add: backoff_def base_reconnect_delay_def max_reconnect_delay_def to_num_def signed_inf_def
          math_min_def min_def)
  next
    case False
    have "30000 \<le> fl (1000 * fl (2 ^ n))"
      using fl_mono [of 30000 "1000 * fl (2 ^ n)"] fl_of_int [of 30000] p by simp
    with False p m big show ?thesis
      by (simp add: backoff_def base_reconnect_delay_def max_reconnect_delay_def to_num_fl min_def)
  qed
qed

lemma backoff_bounds: "\<exists>ms. backoff n = num_int ms \<and> 1000 \<le> ms \<and> ms \<le> 30000"
  using backoff_eq [of n] by (intro exI [of _ "min (1000 * 2 ^ n) 30000"]) simp

section \<open>The contract of a hook\<close>

text \<open>What the connection logic depends on; messages, storage and the log may change otherwise.\<close>

definition same_core :: "'s call_ws_scheme \<Rightarrow> 's call_ws_scheme \<Rightarrow> bool" where
  "same_core s s' \<longleftrightarrow> ws_socks s' = ws_socks s \<and> ws_ref s' = ws_ref s \<and> ws_attempts s' = ws_attempts s \<and>
     ws_timer_ref s' = ws_timer_ref s \<and> ws_timers s' = ws_timers s \<and> ws_next_timer s' = ws_next_timer s"

definition opens_one :: "'s call_ws_scheme \<Rightarrow> 's call_ws_scheme \<Rightarrow> bool" where
  "opens_one s s' \<longleftrightarrow> (\<exists>url. ws_socks s' = ws_socks s @ [(url, SoConnecting)]) \<and>
     ws_ref s' = Some (length (ws_socks s)) \<and> ws_attempts s' = ws_attempts s \<and>
     ws_timer_ref s' = ws_timer_ref s \<and> ws_timers s' = ws_timers s \<and> ws_next_timer s' = ws_next_timer s"

text \<open>
  At any time the hook has one socket, which its ref holds, or one pending timer, whose number its
  other ref holds, or neither.
\<close>

definition ws_inv :: "'s call_ws_scheme \<Rightarrow> bool" where
  "ws_inv s \<longleftrightarrow>
     (\<forall>i. sock_state_of i s \<in> {SoConnecting, SoOpen, SoClosed}) \<and>
     (case ws_ref s of
        Some i \<Rightarrow> live_socks s = {i} \<and> ws_timers s = []
      | None \<Rightarrow> live_socks s = {} \<and>
          (ws_timers s = [] \<or> (\<exists>t d. ws_timers s = [(t, d)] \<and> ws_timer_ref s = Some t)))"

definition delays_ok :: "'s call_ws_scheme \<Rightarrow> bool" where
  "delays_ok s \<longleftrightarrow> (\<forall>(t, d) \<in> set (ws_timers s). \<exists>ms. d = num_int ms \<and> 1000 \<le> ms \<and> ms \<le> 30000)"

lemma sock_state_set [simp]:
  "sock_state_of j (set_sock i st s) =
     (if j = i \<and> i < length (ws_socks s) then st else sock_state_of j s)"
  by (auto simp: sock_state_of_def set_sock_def nth_list_update)

lemma set_sock_sel [simp]:
  "ws_ref (set_sock i st s) = ws_ref s" "ws_timers (set_sock i st s) = ws_timers s"
  "ws_timer_ref (set_sock i st s) = ws_timer_ref s" "ws_attempts (set_sock i st s) = ws_attempts s"
  "ws_next_timer (set_sock i st s) = ws_next_timer s"
  "length (ws_socks (set_sock i st s)) = length (ws_socks s)"
  by (simp_all add: set_sock_def)

lemma sock_state_upd [simp]:
  "sock_state_of j (s\<lparr>ws_state := x\<rparr>) = sock_state_of j s"
  "sock_state_of j (s\<lparr>ws_attempts := n\<rparr>) = sock_state_of j s"
  "sock_state_of j (s\<lparr>ws_ref := r\<rparr>) = sock_state_of j s"
  "sock_state_of j (s\<lparr>ws_timers := ts\<rparr>) = sock_state_of j s"
  "sock_state_of j (s\<lparr>ws_timer_ref := tr\<rparr>) = sock_state_of j s"
  "sock_state_of j (s\<lparr>ws_next_timer := n\<rparr>) = sock_state_of j s"
  by (simp_all add: sock_state_of_def)

lemma sock_state_live: "sock_state_of i s \<noteq> SoClosed \<Longrightarrow> i < length (ws_socks s)"
  by (auto simp: sock_state_of_def split: if_splits)

lemma same_core_state: "same_core s s' \<Longrightarrow> sock_state_of i s' = sock_state_of i s"
  by (simp add: same_core_def sock_state_of_def)

lemma same_core_live: "same_core s s' \<Longrightarrow> live_socks s' = live_socks s"
  by (simp add: live_socks_def same_core_state)

lemma same_core_inv: "same_core s s' \<Longrightarrow> ws_inv s \<Longrightarrow> ws_inv s'"
  using same_core_live [of s s'] same_core_state [of s s']
  by (auto simp: ws_inv_def same_core_def split: option.splits)

lemma opens_one_state:
  "opens_one s s' \<Longrightarrow>
   sock_state_of i s' = (if i = length (ws_socks s) then SoConnecting else sock_state_of i s)"
  by (auto simp: opens_one_def sock_state_of_def nth_append)

lemma opens_one_live: "opens_one s s' \<Longrightarrow> live_socks s' = insert (length (ws_socks s)) (live_socks s)"
  by (auto simp: live_socks_def opens_one_state)

lemma opens_one_inv:
  assumes "opens_one s s'" and "ws_inv s" and "ws_ref s = None" and "ws_timers s = []"
  shows "ws_inv s'"
  using assms(2-4) opens_one_live [OF assms(1)] opens_one_state [OF assms(1)] assms(1)
  by (auto simp: ws_inv_def opens_one_def)

lemma on_error_core: "same_core s (on_error s)"
  by (simp add: same_core_def on_error_def)

lemma on_open_inv:
  assumes "ws_inv s" and "sock_state_of i s = SoConnecting"
  shows "ws_inv (on_open (set_sock i SoOpen s))"
  using assms by (auto simp: ws_inv_def on_open_def live_socks_def split: option.splits)

lemma on_close_inv:
  assumes "ws_inv s" and "sock_state_of i s \<noteq> SoClosed"
  shows "ws_inv (on_close code (set_sock i SoClosed s))"
proof -
  have i: "i \<in> live_socks s" "i < length (ws_socks s)"
    using assms(2) sock_state_live [of i s] by (simp_all add: live_socks_def)
  then have r: "ws_ref s = Some i" "live_socks s = {i}" "ws_timers s = []"
    using assms(1) by (auto simp: ws_inv_def split: option.splits)
  with i have "sock_state_of j (set_sock i SoClosed s) = SoClosed" for j
    by (auto simp: live_socks_def)
  with r show ?thesis by (auto simp: ws_inv_def on_close_def live_socks_def Let_def)
qed

locale ws_client =
  fixes connect :: "('s, unit) ws_prog"
    and on_message :: "jsval + jsval \<Rightarrow> ('s, unit) ws_prog"
  assumes connect_core: "same_core s (snd (connect s)) \<or> opens_one s (snd (connect s))"
    and message_core: "same_core s (snd (on_message d s))"
begin

abbreviation step :: "ws_event \<Rightarrow> 's call_ws_scheme \<Rightarrow> 's call_ws_scheme \<Rightarrow> bool" where
  "step \<equiv> ws_step connect on_message"

abbreviation run :: "'s call_ws_scheme \<Rightarrow> ws_event list \<Rightarrow> 's call_ws_scheme \<Rightarrow> bool" where
  "run \<equiv> ws_run connect on_message"

lemma connect_inv: "ws_inv s \<Longrightarrow> ws_ref s = None \<Longrightarrow> ws_timers s = [] \<Longrightarrow> ws_inv (snd (connect s))"
  using connect_core [of s] same_core_inv opens_one_inv by blast

lemma step_inv: "step e s s' \<Longrightarrow> \<not> is_teardown e \<Longrightarrow> ws_inv s \<Longrightarrow> ws_inv s'"
proof (induction rule: ws_step.induct)
  case (opened i s)
  then show ?case by (simp add: on_open_inv)
next
  case (message i s d)
  then show ?case using message_core same_core_inv by blast
next
  case (errored i s)
  then show ?case using on_error_core same_core_inv by blast
next
  case (closed i s code)
  then show ?case by (simp add: on_close_inv)
next
  case (fired t s)
  from fired have r: "ws_ref s = None" and ts: "\<exists>d. ws_timers s = [(t, d)]"
    by (auto simp: ws_inv_def split: option.splits)
  let ?s = "s\<lparr>ws_timers := filter (\<lambda>(u, d). u \<noteq> t) (ws_timers s)\<rparr>"
  from ts have e: "ws_timers ?s = []" by auto
  have "ws_inv ?s" using fired.prems(2) r ts by (auto simp: ws_inv_def live_socks_def)
  then show ?case using r e by (intro connect_inv) simp_all
qed simp

lemma run_inv: "run s es s' \<Longrightarrow> \<not> list_ex is_teardown es \<Longrightarrow> ws_inv s \<Longrightarrow> ws_inv s'"
  by (induction rule: ws_run.induct) (auto intro: step_inv)

lemma mounted_inv: "fresh s \<Longrightarrow> ws_inv (snd (connect s))"
  by (rule connect_inv) (auto simp: fresh_def ws_inv_def live_socks_def sock_state_of_def)

end

section \<open>Delays and the end of a hook\<close>

lemma delays_ok_simps [simp]:
  "delays_ok (s\<lparr>ws_state := x\<rparr>) = delays_ok s" "delays_ok (s\<lparr>ws_attempts := n\<rparr>) = delays_ok s"
  "delays_ok (set_sock i st s) = delays_ok s"
  by (simp_all add: delays_ok_def)

lemma delays_ok_subset: "set (ws_timers s') \<subseteq> set (ws_timers s) \<Longrightarrow> delays_ok s \<Longrightarrow> delays_ok s'"
  by (auto simp: delays_ok_def)

lemma close_socket_sel [simp]:
  "ws_timers (close_socket i s) = ws_timers s" "ws_timer_ref (close_socket i s) = ws_timer_ref s"
  "length (ws_socks (close_socket i s)) = length (ws_socks s)"
  by (simp_all add: close_socket_def split: sock_state.split)

lemma cleanup_timers: "set (ws_timers (cleanup s)) \<subseteq> set (ws_timers s)"
  by (auto simp: cleanup_def Let_def split: option.splits)

lemma on_close_delays: "delays_ok s \<Longrightarrow> delays_ok (on_close code s)"
  using backoff_bounds by (auto simp: delays_ok_def on_close_def Let_def)

text \<open>A hook at rest: no timer, and every socket closed or in its closing handshake.\<close>

definition quiet :: "'s call_ws_scheme \<Rightarrow> bool" where
  "quiet s \<longleftrightarrow> ws_timers s = [] \<and> (\<forall>i. sock_state_of i s \<in> {SoClosing, SoClosed})"

fun clean_close :: "ws_event \<Rightarrow> bool" where
  "clean_close (Closed i code) = (code = 1000 \<or> code = 4401)"
| "clean_close _ = True"

text \<open>
  The failures since the last success, read off what happened: the sockets that ended other than by a
  normal close or a refused session, after the last one that opened.
\<close>

fun is_opened :: "ws_event \<Rightarrow> bool" where
  "is_opened (Opened i) = True"
| "is_opened _ = False"

definition failures :: "ws_event list \<Rightarrow> nat" where
  "failures es = length (filter (\<lambda>e. \<not> clean_close e) (takeWhile (\<lambda>e. \<not> is_opened e) (rev es)))"

lemma failures_Nil [simp]: "failures [] = 0"
  by (simp add: failures_def)

lemma failures_snoc:
  "failures (es @ [e]) =
     (if is_opened e then 0 else if clean_close e then failures es else Suc (failures es))"
  by (simp add: failures_def)

lemma sock_state_close:
  "sock_state_of j (close_socket i s) =
     (if j = i then
        (case sock_state_of i s of SoConnecting \<Rightarrow> SoAborting | SoOpen \<Rightarrow> SoClosing | st \<Rightarrow> st)
      else sock_state_of j s)"
  by (auto simp: close_socket_def sock_state_live split: sock_state.split)

lemma cleanup_quiet:
  assumes "ws_inv s" and "\<And>i. sock_state_of i s \<noteq> SoConnecting"
  shows "quiet (cleanup s)"
proof (cases "ws_ref s")
  case None
  with assms have "live_socks s = {}" and t: "ws_timers s = [] \<or> (\<exists>t d. ws_timers s = [(t, d)] \<and> ws_timer_ref s = Some t)"
    by (auto simp: ws_inv_def)
  then have "sock_state_of i s = SoClosed" for i by (auto simp: live_socks_def)
  with t None show ?thesis by (auto simp: quiet_def cleanup_def Let_def split: option.splits)
next
  case (Some i)
  with assms have l: "live_socks s = {i}" "ws_timers s = []"
    by (auto simp: ws_inv_def)
  then have "sock_state_of j s = SoClosed" if "j \<noteq> i" for j
    using that by (auto simp: live_socks_def)
  moreover have "sock_state_of i s = SoOpen"
    using l assms unfolding ws_inv_def live_socks_def by blast
  ultimately show ?thesis
    using l Some by (auto simp: quiet_def cleanup_def Let_def sock_state_close split: option.splits)
qed

lemma close_result:
  assumes "ws_inv s" and "ws_step connect on_message (Closed i code) s s'"
  shows "live_socks s' = {} \<and> ws_ref s' = None \<and> ws_state s' = WsDisconnected \<and>
    (if code = 1000 \<or> code = 4401 then ws_timers s' = []
     else ws_attempts s' = Suc (ws_attempts s) \<and>
       ws_timers s' = [(ws_next_timer s, num_int (min (1000 * 2 ^ ws_attempts s) 30000))])"
proof -
  from assms(2) have i: "sock_state_of i s \<noteq> SoClosed" and s': "s' = on_close code (set_sock i SoClosed s)"
    by (auto simp: ws_step_simps)
  have "i \<in> live_socks s" "i < length (ws_socks s)"
    using i sock_state_live [OF i] by (simp_all add: live_socks_def)
  then have l: "ws_ref s = Some i" "live_socks s = {i}" "ws_timers s = []" "i < length (ws_socks s)"
    using assms(1) by (auto simp: ws_inv_def split: option.splits)
  have "sock_state_of j s' = SoClosed" for j
    using l unfolding s' by (auto simp: on_close_def Let_def live_socks_def)
  then have "live_socks s' = {}" by (simp add: live_socks_def)
  with l show ?thesis
    by (simp add: s' on_close_def Let_def backoff_eq)
qed

context ws_client
begin

lemma step_delays: "step e s s' \<Longrightarrow> delays_ok s \<Longrightarrow> delays_ok s'"
proof (induction rule: ws_step.induct)
  case (message i s d)
  then show ?case using message_core [of s d] by (auto simp: same_core_def intro: delays_ok_subset)
next
  case (closed i s code)
  then show ?case by (simp add: on_close_delays)
next
  case (fired t s)
  let ?s = "s\<lparr>ws_timers := filter (\<lambda>(u, d). u \<noteq> t) (ws_timers s)\<rparr>"
  have "ws_timers (snd (connect ?s)) = ws_timers ?s"
    using connect_core [of ?s] by (auto simp: same_core_def opens_one_def)
  with fired.prems show ?case by (auto intro: delays_ok_subset)
next
  case (torn_down s)
  then show ?case using cleanup_timers by (rule delays_ok_subset [rotated])
qed (simp_all add: on_open_def on_error_def)

lemma run_delays: "run s es s' \<Longrightarrow> delays_ok s \<Longrightarrow> delays_ok s'"
  by (induction rule: ws_run.induct) (auto intro: step_delays)

text \<open>The counter of the hook counts exactly these failures.\<close>

lemma step_attempts:
  "step e s s' \<Longrightarrow> ws_attempts s' =
     (if is_opened e then 0 else if clean_close e then ws_attempts s else Suc (ws_attempts s))"
proof (induction rule: ws_step.induct)
  case (message i s d)
  then show ?case using message_core [of s d] by (simp add: same_core_def)
next
  case (fired t s)
  then show ?case
    using connect_core [of "s\<lparr>ws_timers := filter (\<lambda>(u, d). u \<noteq> t) (ws_timers s)\<rparr>"]
    by (auto simp: same_core_def opens_one_def)
next
  case (torn_down s)
  then show ?case
    by (simp add: cleanup_def close_socket_def set_sock_def split: option.split sock_state.split)
qed (simp_all add: on_open_def on_error_def on_close_def)

lemma run_attempts: "run s es s' \<Longrightarrow> ws_attempts s = 0 \<Longrightarrow> ws_attempts s' = failures es"
  by (induction rule: ws_run.induct) (simp_all add: failures_snoc step_attempts)

lemma mounted_attempts: "fresh s \<Longrightarrow> ws_attempts (snd (connect s)) = 0"
  using connect_core [of s] by (auto simp: fresh_def same_core_def opens_one_def)

lemma step_quiet:
  "step e s s' \<Longrightarrow> clean_close e \<Longrightarrow> quiet s \<Longrightarrow> quiet s' \<and> length (ws_socks s') = length (ws_socks s)"
proof (induction rule: ws_step.induct)
  case (opened i s)
  then have "SoConnecting \<in> {SoClosing, SoClosed}" unfolding quiet_def by metis
  then show ?case by simp
next
  case (message i s d)
  then show ?case
    using message_core [of s d] by (simp add: quiet_def same_core_state) (simp add: same_core_def)
next
  case (errored i s)
  then show ?case by (simp add: quiet_def on_error_def)
next
  case (closed i s code)
  then show ?case by (auto simp: quiet_def on_close_def Let_def)
next
  case (fired t s)
  then show ?case by (simp add: quiet_def)
next
  case (torn_down s)
  then have "ws_timers (cleanup s) = []" using cleanup_timers [of s] by (simp add: quiet_def)
  moreover have "sock_state_of j s \<noteq> SoConnecting" "sock_state_of j s \<noteq> SoOpen" for j
    using torn_down.prems(2) unfolding quiet_def
    by (metis empty_iff insert_iff sock_state.distinct)+
  then have "sock_state_of i (cleanup s) = sock_state_of i s" for i
    by (auto simp: cleanup_def Let_def sock_state_close split: option.splits sock_state.splits)
  moreover have "length (ws_socks (cleanup s)) = length (ws_socks s)"
    by (simp add: cleanup_def Let_def split: option.splits)
  ultimately show ?case using torn_down by (simp add: quiet_def)
qed

lemma run_quiet:
  "run s es s' \<Longrightarrow> list_all clean_close es \<Longrightarrow> quiet s \<Longrightarrow>
   quiet s' \<and> length (ws_socks s') = length (ws_socks s)"
proof (induction rule: ws_run.induct)
  case (more s es s' e s'')
  then show ?case using step_quiet [OF more.hyps(2)] by simp
qed simp

end

end
