(* ===== verification/Admin_Call_Ws.thy ===== *)
theory Admin_Call_Ws
  imports Call_Ws Admin_Hooks
begin

text \<open>
  \<open>admin/src/hooks/use-call-ws.ts\<close>: the token comes from the session cookie, and a message
  invalidates queries of the console.
\<close>

section \<open>The hook\<close>

text \<open>\<open>document.cookie.split('; ').find((c) => c.startsWith('session='))?.split('=')[1]\<close>\<close>

definition session_token :: "jstr \<Rightarrow> jsval" where
  "session_token cookie =
     (case List.find (starts_with (js ''session='')) (str_split (js ''; '') cookie) of
        None \<Rightarrow> JUndef
      | Some c \<Rightarrow> array_at (map JStr (str_split (js ''='') c)) (num_int 1))"

definition ws_base :: "bool \<Rightarrow> jstr \<Rightarrow> jstr" where
  "ws_base secure host = (if secure then js ''wss:'' else js ''ws:'') @ js ''//'' @ host @ js ''/ws/calls''"

definition admin_ws_url :: "bool \<Rightarrow> jstr \<Rightarrow> jsval \<Rightarrow> jstr option" where
  "admin_ws_url secure host token =
     (if truthy token then
        map_option (\<lambda>t. ws_base secure host @ js ''?token='' @ t) (encode_uri_component (to_str token))
      else Some (ws_base secure host))"

definition admin_connect :: "('s, unit) ws_prog" where
  "admin_connect = (\<lambda>s.
     if \<not> ws_enabled s then (Inr (), s)
     else bind (lift_uri (admin_ws_url (ws_secure s) (ws_host s) (session_token (ws_cookie s)))) (\<lambda>url.
          bind (set_status WsConnecting) (\<lambda>_. open_socket url)) s)"

definition admin_on_message :: "jsval + jsval \<Rightarrow> ('s, unit) ws_prog" where
  "admin_on_message parsed =
     try_catch
       (bind (lift_sum parsed) (\<lambda>data. with_field ''type'' data (\<lambda>t.
        bind (if t = jlit ''call_started'' \<or> t = jlit ''call_answered''
              then invalidate (key [''admin'', ''active-calls'']) else return ()) (\<lambda>_.
        if t = jlit ''call_ended'' \<or> t = jlit ''call_failed''
        then bind (invalidate (key [''admin'', ''active-calls''])) (\<lambda>_.
             invalidate (key [''admin'', ''dashboard'']))
        else return ()))))
       (\<lambda>_. return ())"

lemma connect_core_cases:
  "same_core s (snd (bind (lift_uri u) (\<lambda>url. bind (set_status st) (\<lambda>_. open_socket url)) s)) \<or>
   opens_one s (snd (bind (lift_uri u) (\<lambda>url. bind (set_status st) (\<lambda>_. open_socket url)) s))"
  by (cases u) (simp_all add: lift_uri_def throw_def bind_def return_def set_status_def effect_def
      open_socket_def same_core_def opens_one_def)

text \<open>The keys a message invalidates.\<close>

definition message_keys :: "jsval + jsval \<Rightarrow> query_key list" where
  "message_keys parsed =
     (case parsed of
        Inl e \<Rightarrow> []
      | Inr data \<Rightarrow>
          let t = opt_get ''type'' data in
          if t = jlit ''call_started'' \<or> t = jlit ''call_answered'' then [key [''admin'', ''active-calls'']]
          else if t = jlit ''call_ended'' \<or> t = jlit ''call_failed''
          then [key [''admin'', ''active-calls''], key [''admin'', ''dashboard'']]
          else [])"

lemma admin_message_result:
  "admin_on_message parsed s = (Inr (), log_events (map Invalidated (message_keys parsed)) s)"
proof (cases parsed)
  case (Inl e)
  then show ?thesis
    by (simp add: admin_on_message_def message_keys_def try_catch_def throw_def return_def)
next
  case (Inr data)
  then show ?thesis
    by (cases "nullish data")
      (auto simp: admin_on_message_def message_keys_def with_field_def get_def opt_get_def try_catch_def
        return_def lift_sum_def invalidate_def emit_run bind_def log_event_as_events Let_def)
qed

lemma log_events_core: "same_core s (log_events es s)"
  by (simp add: same_core_def log_events_def)

interpretation admin_ws: ws_client admin_connect admin_on_message
proof
  fix s :: "'s call_ws_scheme" and d
  show "same_core s (snd (admin_connect s)) \<or> opens_one s (snd (admin_connect s))"
  proof (cases "ws_enabled s")
    case True
    then show ?thesis unfolding admin_connect_def by (simp only: not_True_eq_False if_False connect_core_cases)
  next
    case False
    then show ?thesis by (simp add: admin_connect_def same_core_def)
  qed
  show "same_core s (snd (admin_on_message d s))"
    by (simp add: admin_message_result log_events_core)
qed

section \<open>The session token\<close>

lemma split_first: "\<exists>rest. split_acc [c] acc v = (rev acc @ takeWhile (\<lambda>u. u \<noteq> c) v) # rest"
proof (induction v arbitrary: acc)
  case (Cons u v)
  then show ?case using Cons.IH [of "u # acc"] by auto
qed simp

lemma split_session:
  "\<exists>rest. str_split (js ''='') (js ''session='' @ v) = js ''session'' # takeWhile (\<lambda>u. u \<noteq> cu (CHR ''='')) v # rest"
proof -
  have "str_split (js ''='') (js ''session'' @ js ''='' @ v) = js ''session'' # split_acc (js ''='') [] v"
    unfolding str_split_def by (subst split_acc_piece) (simp_all add: js_def)
  moreover obtain rest where "split_acc [cu (CHR ''='')] [] v = takeWhile (\<lambda>u. u \<noteq> cu (CHR ''='')) v # rest"
    using split_first [of "cu (CHR ''='')" "[]" v] by auto
  ultimately show ?thesis
    by (auto simp: js_def)
qed

lemma session_token_value:
  assumes "cs \<noteq> []" and "\<And>c. c \<in> set cs \<Longrightarrow> cu (CHR '';'') \<notin> set c"
    and "List.find (starts_with (js ''session='')) cs = Some (js ''session='' @ v)"
  shows "session_token (str_join (js ''; '') cs) = JStr (takeWhile (\<lambda>u. u \<noteq> cu (CHR ''='')) v)"
proof -
  have "str_split (js ''; '') (str_join (js ''; '') cs) = cs"
    using assms(1,2) by (intro split_join) (simp_all add: js_def)
  moreover obtain rest where "str_split (js ''='') (js ''session='' @ v) =
      js ''session'' # takeWhile (\<lambda>u. u \<noteq> cu (CHR ''='')) v # rest"
    using split_session by blast
  ultimately show ?thesis using assms(3) by (simp add: session_token_def array_at_def)
qed

text \<open>
  What \<open>document.cookie\<close> holds: the cookies of the page as name and value, without those that the
  server set \<open>HttpOnly\<close>.
\<close>

definition document_cookie :: "(jstr \<times> jstr \<times> bool) list \<Rightarrow> jstr" where
  "document_cookie jar =
     str_join (js ''; '') (map (\<lambda>(n, v, h). n @ js ''='' @ v) (filter (\<lambda>(n, v, h). \<not> h) jar))"

definition cookie_ok :: "jstr \<times> jstr \<times> bool \<Rightarrow> bool" where
  "cookie_ok = (\<lambda>(n, v, h). n \<noteq> [] \<and> cu (CHR ''='') \<notin> set n \<and> cu (CHR '';'') \<notin> set n \<and> cu (CHR '';'') \<notin> set v)"

lemma starts_withD: "starts_with p s \<Longrightarrow> \<exists>r. s = p @ r"
  by (induction p s rule: starts_with.induct) auto

lemma named_cookie:
  assumes "cu (CHR ''='') \<notin> set n" and "starts_with (js ''session='') (n @ js ''='' @ v)"
  shows "n = js ''session''"
proof -
  obtain rest where e: "n @ js ''='' @ v = js ''session'' @ js ''='' @ rest"
    using starts_withD [OF assms(2)] js_append [of "''session''" "''=''"] by auto
  have "takeWhile (\<lambda>u. u \<noteq> cu (CHR ''='')) (n @ js ''='' @ v) = n"
    using assms(1) by (subst takeWhile_append2) (auto simp: js_def)
  moreover have "takeWhile (\<lambda>u. u \<noteq> cu (CHR ''='')) (js ''session'' @ js ''='' @ rest) = js ''session''"
    by (simp add: js_def)
  ultimately show ?thesis using e by simp
qed

lemma hidden_session:
  assumes "list_all cookie_ok jar" and "list_all (\<lambda>(n, v, h). n \<noteq> js ''session'' \<or> h) jar"
  shows "session_token (document_cookie jar) = JUndef"
proof -
  let ?cs = "map (\<lambda>(n, v, h). n @ js ''='' @ v) (filter (\<lambda>(n, v, h). \<not> h) jar)"
  have none: "List.find (starts_with (js ''session='')) ?cs = None"
    using assms by (auto simp: find_None_iff cookie_ok_def list_all_iff dest!: named_cookie [rotated])
  show ?thesis
  proof (cases "?cs = []")
    case True
    then have "document_cookie jar = []" by (simp add: document_cookie_def)
    then show ?thesis by (simp add: session_token_def str_split_def js_Cons)
  next
    case False
    have "str_split (js ''; '') (str_join (js ''; '') ?cs) = ?cs"
      using assms(1) False by (intro split_join) (auto simp: js_def cookie_ok_def list_all_iff)
    with none show ?thesis by (simp add: session_token_def document_cookie_def)
  qed
qed

text \<open>What stays as it is in every step: the page, its cookies, and where each socket was opened.\<close>

definition opened_at :: "jstr \<Rightarrow> 's call_ws_scheme \<Rightarrow> 's call_ws_scheme \<Rightarrow> bool" where
  "opened_at url s s' \<longleftrightarrow> ws_cookie s' = ws_cookie s \<and> ws_secure s' = ws_secure s \<and> ws_host s' = ws_host s \<and>
     list_all (\<lambda>(u, st). u = url) (ws_socks s')"

lemma opened_at_set_sock: "opened_at url s s' \<Longrightarrow> opened_at url s (set_sock i st s')"
  by (auto simp: opened_at_def set_sock_def list_all_iff split_beta dest!: set_update_subset_insert [THEN subsetD])

lemma opened_at_handlers:
  "opened_at url s (on_open s') = opened_at url s s'"
  "opened_at url s (on_error s') = opened_at url s s'"
  "opened_at url s (on_close code s') = opened_at url s s'"
  "opened_at url s (log_events es s') = opened_at url s s'"
  by (simp_all add: opened_at_def on_open_def on_error_def on_close_def log_events_def Let_def)

lemma opened_at_cleanup:
  assumes "opened_at url s s'"
  shows "opened_at url s (cleanup s')"
proof -
  have close: "opened_at url s (close_socket i s')" if "opened_at url s s'" for i s'
    using opened_at_set_sock [OF that] by (simp add: close_socket_def that split: sock_state.split)
  have upd: "opened_at url s (s'\<lparr>ws_timers := ts\<rparr>) = opened_at url s s'"
    "opened_at url s (s'\<lparr>ws_ref := r\<rparr>) = opened_at url s s'" for s' ts r
    by (simp_all add: opened_at_def)
  show ?thesis
    using assms by (simp add: cleanup_def close upd split: option.split)
qed

lemma opened_at_connect:
  assumes "session_token (ws_cookie s) = JUndef" and "opened_at (ws_base (ws_secure s) (ws_host s)) s s'"
  shows "opened_at (ws_base (ws_secure s) (ws_host s)) s (snd (admin_connect s'))"
  using assms by (simp add: opened_at_def admin_connect_def admin_ws_url_def lift_uri_def return_def bind_def
      set_status_def open_socket_def effect_def)

lemma opened_at_step:
  assumes "ws_step admin_connect admin_on_message e s' s''" and "session_token (ws_cookie s) = JUndef"
    and "opened_at (ws_base (ws_secure s) (ws_host s)) s s'"
  shows "opened_at (ws_base (ws_secure s) (ws_host s)) s s''"
  using assms
proof (induction rule: ws_step.induct)
  case (fired t s')
  then show ?case by (intro opened_at_connect) (simp_all add: opened_at_def)
qed (simp_all add: opened_at_handlers opened_at_set_sock opened_at_cleanup admin_message_result)


section \<open>Reconnecting\<close>

text \<open>
  C4: whenever the console's live connection ends, nothing is left open and, unless the server ended
  it normally or refused the session, exactly one retry is pending. Its delay is one second, doubled for
  every connection that failed since the last one that opened, and at most thirty seconds; a connection
  that opens sets it back to one second.
\<close>

theorem admin_ws_backoff:
  assumes mounted: "fresh s" "ws_run admin_connect admin_on_message (snd (admin_connect s)) es s'"
      "\<not> list_ex is_teardown es"
    and ends: "ws_step admin_connect admin_on_message (Closed i code) s' s''"
  shows "live_socks s'' = {} \<and> ws_state s'' = WsDisconnected \<and>
    (if code = 1000 \<or> code = 4401 then ws_timers s'' = []
     else \<exists>t. ws_timers s'' = [(t, num_int (min (1000 * 2 ^ failures es) 30000))])"
proof -
  from mounted have "ws_inv s'"
    using admin_ws.mounted_inv admin_ws.run_inv by blast
  moreover have "ws_attempts s' = failures es"
    using mounted admin_ws.run_attempts admin_ws.mounted_attempts by blast
  ultimately show ?thesis
    using close_result [OF _ ends] by auto
qed

text \<open>A console before its layout is mounted, with a session cookie that scripts may read.\<close>

definition new_console :: "call_ws" where
  "new_console =
     \<lparr>w_net = (\<lambda>_ _. Reply (ok_json JNull)), w_local = Map.empty, w_now = 0, w_random = (\<lambda>_. 0),
      w_draws = 0, w_log = [], ws_enabled = True, ws_cookie = js ''session=abc'', ws_secure = True,
      ws_host = js ''bos.example'', ws_state = WsDisconnected, ws_last = JNull, ws_socks = [],
      ws_ref = None, ws_attempts = 0, ws_timer_ref = None, ws_timers = [], ws_next_timer = 1\<rparr>"

lemma new_console_fresh: "fresh new_console"
  by (simp add: fresh_def new_console_def)

lemma new_console_url:
  "admin_ws_url True (js ''bos.example'') (session_token (js ''session=abc'')) =
   Some (js ''wss://bos.example/ws/calls?token=abc'')"
  by code_simp

lemma new_console_connects:
  "snd (admin_connect new_console) =
     new_console\<lparr>ws_state := WsConnecting,
       ws_socks := [(js ''wss://bos.example/ws/calls?token=abc'', SoConnecting)], ws_ref := Some 0\<rparr>"
  by (simp add: admin_connect_def new_console_def new_console_url lift_uri_def set_status_def
      open_socket_def bind_def effect_def return_def)

theorem admin_ws_backoff_witness:
  "\<exists>s'' t. ws_step admin_connect admin_on_message (Closed 0 1006) (snd (admin_connect new_console)) s'' \<and>
     ws_timers s'' = [(t, num_int 1000)]"
proof -
  have "ws_step admin_connect admin_on_message (Closed 0 1006) (snd (admin_connect new_console))
      (on_close 1006 (set_sock 0 SoClosed (snd (admin_connect new_console))))"
    by (rule ws_step.closed) (simp_all add: new_console_connects sock_state_of_def)
  moreover note admin_ws_backoff [OF new_console_fresh ws_run.start _ this]
  ultimately show ?thesis
    by auto
qed

text \<open>The same console as the server leaves it: the session is in a cookie that scripts cannot read.\<close>

definition signed_in_console :: "call_ws" where
  "signed_in_console = new_console\<lparr>ws_cookie := js ''theme=dark''\<rparr>"


text \<open>
  C30: leaving the console while its connection is being made does not stop the retries: a run exists
  in which the hook is torn down once, before the socket opened, and later holds an open connection.
\<close>

theorem admin_ws_survives_teardown:
  "\<exists>(s :: call_ws) es s'. fresh s \<and> ws_run admin_connect admin_on_message (snd (admin_connect s)) (TornDown # es) s' \<and>
     \<not> list_ex is_teardown es \<and> (\<exists>i. sock_state_of i s' = SoOpen)"
proof -
  let ?url = "js ''wss://bos.example/ws/calls?token=abc''"
  define s0 where "s0 = snd (admin_connect new_console)"
  define s1 where "s1 = cleanup s0"
  define s2 where "s2 = on_close 1006 (set_sock 0 SoClosed s1)"
  define s3 where "s3 = snd (admin_connect (s2\<lparr>ws_timers := filter (\<lambda>(u, d). u \<noteq> 1) (ws_timers s2)\<rparr>))"
  define s4 where "s4 = on_open (set_sock 1 SoOpen s3)"
  have 0: "s0 = new_console\<lparr>ws_state := WsConnecting, ws_socks := [(?url, SoConnecting)], ws_ref := Some 0\<rparr>"
    by (simp add: s0_def new_console_connects)
  have 1: "s1 = new_console\<lparr>ws_state := WsConnecting, ws_socks := [(?url, SoAborting)], ws_ref := None\<rparr>"
    by (simp add: s1_def 0 cleanup_def close_socket_def sock_state_of_def set_sock_def new_console_def)
  have 2: "s2 = new_console\<lparr>ws_state := WsDisconnected, ws_socks := [(?url, SoClosed)], ws_ref := None,
      ws_attempts := 1, ws_timer_ref := Some 1, ws_timers := [(1, backoff 0)], ws_next_timer := 2\<rparr>"
    by (simp add: s2_def 1 on_close_def set_sock_def new_console_def)
  have 3: "s3 = new_console\<lparr>ws_state := WsConnecting, ws_socks := [(?url, SoClosed), (?url, SoConnecting)],
      ws_ref := Some 1, ws_attempts := 1, ws_timer_ref := Some 1, ws_timers := [], ws_next_timer := 2\<rparr>"
    by (simp add: s3_def 2 admin_connect_def new_console_def new_console_url lift_uri_def set_status_def
        open_socket_def bind_def effect_def return_def)
  have "ws_step admin_connect admin_on_message TornDown s0 s1"
    unfolding s1_def by (rule ws_step.torn_down)
  moreover have "ws_step admin_connect admin_on_message (Closed 0 1006) s1 s2"
    unfolding s2_def by (rule ws_step.closed) (simp_all add: 1 sock_state_of_def)
  moreover have "ws_step admin_connect admin_on_message (Fired 1) s2 s3"
    unfolding s3_def by (rule ws_step.fired) (simp add: 2)
  moreover have "ws_step admin_connect admin_on_message (Opened 1) s3 s4"
    unfolding s4_def by (rule ws_step.opened) (simp add: 3 sock_state_of_def)
  ultimately have "ws_run admin_connect admin_on_message s0
      (((([] @ [TornDown]) @ [Closed 0 1006]) @ [Fired 1]) @ [Opened 1]) s4"
    by (blast intro: ws_run.intros)
  then have "ws_run admin_connect admin_on_message (snd (admin_connect new_console))
      (TornDown # [Closed 0 1006, Fired 1, Opened 1]) s4"
    by (simp add: s0_def)
  moreover have "sock_state_of 1 s4 = SoOpen"
    by (simp add: s4_def 3 on_open_def set_sock_def sock_state_of_def)
  ultimately show ?thesis
    using new_console_fresh
    by (intro exI [of _ new_console] exI [of _ "[Closed 0 1006, Fired 1, Opened 1]"] exI [of _ s4]) auto
qed

section \<open>Messages\<close>

text \<open>
  C40: a message on the console's live connection that announces a call, its start, its answer, its end or its
  failure, makes exactly the list of live calls stale, among all queries of the console and for all their parameters:
  the key a finished call invalidates for the dashboard reaches no query. Any other message, one that is not JSON, is
  \<open>null\<close> or has another type, changes nothing at all.
\<close>

theorem admin_ws_messages:
  fixes s :: "'s call_ws_scheme"
  assumes "prefix_rule matches"
  shows "let s' = snd (admin_on_message m s);
      announced = (case m of Inl e \<Rightarrow> False | Inr d \<Rightarrow> opt_get ''type'' d \<in>
        {jlit ''call_started'', jlit ''call_answered'', jlit ''call_ended'', jlit ''call_failed''}) in
    refreshed matches s s' (admin_queries p u t :: (string \<times> 's query) list) = (if announced then [''useActiveCalls''] else []) \<and>
    (if announced then ws_socks s' = ws_socks s \<and> ws_state s' = ws_state s \<and> sent s' = sent s else s' = s)"
proof -
  have c: "concat (map (invalidated_of \<circ> Invalidated) ks) = ks" for ks by (induction ks) simp_all
  have i: "invalidated (snd (admin_on_message m s)) = invalidated s @ message_keys m"
    by (simp add: admin_message_result c)
  have k: "message_keys m = [] \<or> message_keys m = [key [''admin'', ''active-calls'']] \<or>
      message_keys m = [key [''admin'', ''active-calls''], key [''admin'', ''dashboard'']]"
    by (simp add: message_keys_def Let_def split: sum.split)
  have n: "(message_keys m \<noteq> []) = (case m of Inl e \<Rightarrow> False | Inr d \<Rightarrow> opt_get ''type'' d \<in>
      {jlit ''call_started'', jlit ''call_answered'', jlit ''call_ended'', jlit ''call_failed''})"
    by (simp add: message_keys_def Let_def split: sum.split)
  have "map fst (filter (\<lambda>(n, k). list_ex (\<lambda>p. matches p k) (message_keys m)) (query_keys (admin_queries p u t :: (string \<times> 's query) list))) =
      (if message_keys m \<noteq> [] then [''useActiveCalls''] else [])"
    using k by (elim disjE) (simp_all add: admin_query_keys prefix_rule2 [OF assms])
  then show ?thesis
    unfolding Let_def n [symmetric] refreshed_keys [OF i]
    by (simp add: admin_message_result sent_def log_events_def)
qed

theorem admin_ws_messages_witness:
  "refreshed key_prefix new_console
     (snd (admin_on_message (Inr (obj [(''type'', jlit ''call_ended''), (''call_id'', jlit ''c1'')])) new_console))
     (admin_queries (obj [(''page'', jint 2)]) (js ''7'') (js ''day'') :: (string \<times> unit query) list) =
   [''useActiveCalls'']"
  using admin_ws_messages [where p = "obj [(''page'', jint 2)]" and u = "js ''7''" and t = "js ''day''" and
      s = new_console and m = "Inr (obj [(''type'', jlit ''call_ended''), (''call_id'', jlit ''c1'')])",
      OF prefix_rule_key_prefix]
  by (simp add: Let_def opt_get_def)

end
