(* ===== verification/Portal_Types.thy ===== *)
theory Portal_Types
  imports Js_Value
begin

text \<open>
  The interfaces \<open>portal/src/lib/api/client.ts\<close> declares, as runtime shapes. The type
  checker erases them, so a value of the declared type is one that conforms.
\<close>

definition Portal_LoginParams :: shape where
  "Portal_LoginParams = ShObj [req ''email'' ShStr, req ''password'' ShStr]"

definition Portal_LoginResponse :: shape where
  "Portal_LoginResponse = ShObj [req ''token'' ShStr, req ''expires_at'' ShStr]"

definition Portal_PortalUser :: shape where
  "Portal_PortalUser = ShObj [req ''user_id'' ShNum, req ''username'' ShStr, req ''email'' ShStr,
     req ''role'' ShStr, req ''status'' ShStr]"

definition Portal_CDR :: shape where
  "Portal_CDR = ShObj [req ''id'' ShStr, req ''call_id'' ShStr, req ''a_number'' ShStr,
     req ''b_number'' ShStr, req ''status'' ShStr, req ''duration'' ShNum, req ''cost'' ShNum,
     req ''created_at'' ShStr, req ''ended_at'' ShStr]"

definition Portal_PaginatedParams :: shape where
  "Portal_PaginatedParams = ShObj [req ''page'' ShNum, req ''limit'' ShNum]"

definition Portal_Transaction :: shape where
  "Portal_Transaction = ShObj [req ''id'' ShNum, req ''type'' ShStr, req ''amount'' ShNum,
     req ''balance_after'' ShNum, req ''description'' ShStr, req ''created_at'' ShStr]"

definition Portal_CallbackInitParams :: shape where
  "Portal_CallbackInitParams = ShObj [req ''a_number'' ShStr, req ''b_number'' ShStr]"

definition Portal_CallbackInitResponse :: shape where
  "Portal_CallbackInitResponse = ShObj [req ''call_id'' ShStr, req ''status'' ShStr]"

definition Portal_UsageSummary :: shape where
  "Portal_UsageSummary = ShObj [req ''today_calls'' ShNum, req ''today_duration'' ShNum,
     req ''today_cost'' ShNum, req ''balance'' ShNum, req ''concurrent_active'' ShNum,
     req ''concurrent_limit'' ShNum]"

definition Portal_WastageSummary :: shape where
  "Portal_WastageSummary = ShObj [req ''today_wastage_cost'' ShNum,
     req ''today_wastage_rate'' ShNum, req ''top_failure_reason'' ShStr]"

definition Portal_RateQueryResult :: shape where
  "Portal_RateQueryResult = ShObj [req ''plan_name'' ShStr, req ''rate_a'' ShNum,
     req ''rate_b'' ShNum, req ''billing_unit'' ShNum, req ''effective_date'' ShStr]"

definition Portal_WebhookConfig :: shape where
  "Portal_WebhookConfig = ShObj [req ''webhook_url'' ShStr, req ''webhook_secret'' ShStr]"

definition Portal_WebhookDelivery :: shape where
  "Portal_WebhookDelivery = ShObj [req ''id'' ShStr, req ''event'' ShStr, req ''url'' ShStr,
     req ''status_code'' ShNum, req ''success'' ShBool, req ''created_at'' ShStr]"

definition Portal_WebhookTestResult :: shape where
  "Portal_WebhookTestResult = ShObj [req ''success'' ShBool, req ''status_code'' ShNum,
     req ''message'' ShStr]"

lemmas portal_shapes =
  Portal_LoginParams_def Portal_LoginResponse_def Portal_PortalUser_def Portal_CDR_def
  Portal_PaginatedParams_def Portal_Transaction_def Portal_CallbackInitParams_def
  Portal_CallbackInitResponse_def Portal_UsageSummary_def Portal_WastageSummary_def
  Portal_RateQueryResult_def Portal_WebhookConfig_def Portal_WebhookDelivery_def
  Portal_WebhookTestResult_def

end
