(* ===== verification/Portal_Client.thy ===== *)
theory Portal_Client
  imports Query_Client Portal_Types
begin

text \<open>
  \<open>portal/src/lib/api/client.ts\<close>: the token in the local storage, \<open>request\<close> with its bearer
  header, and the methods of the four services.
\<close>

section \<open>The token and \<open>request\<close>\<close>

definition token_key :: jstr where
  "token_key = js ''bos3000-portal-token''"

definition getToken :: "'s world_scheme \<Rightarrow> jsval" where
  "getToken w = get_item token_key w"

definition setToken :: "jsval \<Rightarrow> ('s, unit) app" where
  "setToken t = effect (set_item token_key t)"

definition clearToken :: "('s, unit) app" where
  "clearToken = effect (remove_item token_key)"

definition portal_headers :: "jsval \<Rightarrow> options \<Rightarrow> (jstr \<times> jstr) list" where
  "portal_headers token opts =
     (let headers = spread [(js ''Content-Type'', js ''application/json'')] (o_headers opts)
      in if truthy token then set_field (js ''Authorization'') (js ''Bearer '' @ to_str token) headers
         else headers)"

definition portal_build :: "'s world_scheme \<Rightarrow> jstr \<Rightarrow> options \<Rightarrow> httpreq" where
  "portal_build w path opts =
     \<lparr>rq_url = path,
      rq_method = (case o_method opts of None \<Rightarrow> js ''GET'' | Some m \<Rightarrow> m),
      rq_headers = portal_headers (getToken w) opts,
      rq_body = o_body opts,
      rq_credentials = js ''same-origin''\<rparr>"

definition portal_request :: "jstr \<Rightarrow> options \<Rightarrow> ('s, jsval) app" where
  "portal_request path opts = (\<lambda>w.
     bind (do_fetch (portal_build w path opts)) (\<lambda>resp.
       if \<not> resp_ok resp then
         bind (try_catch (lift_sum (rs_json resp))
                (\<lambda>_. return (obj [(''code'', jlit ''UNKNOWN''),
                                  (''message'', JStr (rs_status_text resp))])))
           throw
       else if rs_status resp = 204 then return JUndef
       else lift_sum (rs_json resp)) w)"

interpretation portal_http: http_service portal_build portal_request
  by unfold_locales
    (auto simp: portal_request_def portal_build_def bind_def do_fetch_def response_result_def
      error_body_def try_catch_def lift_sum_def return_def throw_def split: reply.splits sum.splits)

section \<open>\<open>AuthService\<close>\<close>

definition portal_login :: "jsval \<Rightarrow> ('s, jsval) app" where
  "portal_login params = portal_request (js ''/api/auth/client/login'') (with_json ''POST'' params)"

definition portal_me :: "('s, jsval) app" where
  "portal_me = portal_request (js ''/api/auth/me'') no_options"

definition portal_updateProfile :: "jsval \<Rightarrow> ('s, jsval) app" where
  "portal_updateProfile params = portal_request (js ''/api/auth/profile'') (with_json ''PUT'' params)"

definition portal_changePassword :: "jsval \<Rightarrow> ('s, jsval) app" where
  "portal_changePassword params =
     portal_request (js ''/api/auth/profile/password'') (with_json ''POST'' params)"

definition portal_regenerateApiKey :: "('s, jsval) app" where
  "portal_regenerateApiKey = portal_request (js ''/api/auth/api-keys'') (with_json ''POST'' (JObj []))"

definition portal_addIp :: "jsval \<Rightarrow> ('s, jsval) app" where
  "portal_addIp params = return JUndef"

definition portal_removeIp :: "jsval \<Rightarrow> ('s, jsval) app" where
  "portal_removeIp params = return JUndef"

section \<open>\<open>CallbackService\<close>\<close>

definition portal_initiate :: "jsval \<Rightarrow> ('s, jsval) app" where
  "portal_initiate params = portal_request (js ''/api/callbacks'') (with_json ''POST'' params)"

definition portal_listCDRs :: "jsval \<Rightarrow> ('s, jsval) app" where
  "portal_listCDRs params =
     with_field ''page'' params (\<lambda>p. with_field ''limit'' params (\<lambda>l.
     with_field ''start_date'' params (\<lambda>sd. with_field ''end_date'' params (\<lambda>ed.
     with_field ''status'' params (\<lambda>st.
     with_query [(js ''page'', p), (js ''page_size'', l), (js ''date_from'', sd),
                 (js ''date_to'', ed), (js ''status'', st)] (\<lambda>q.
     bind (portal_request (js ''/api/callbacks'' @ q) no_options) (\<lambda>resp.
     with_field ''items'' resp (\<lambda>items. with_field ''total'' resp (\<lambda>t.
     return (obj [(''cdrs'', js_or items (JArr [])), (''total'', js_or t (jint 0))]))))))))))"

definition portal_listActiveCalls :: "('s, jsval) app" where
  "portal_listActiveCalls =
     with_query [(js ''page'', jint 1), (js ''page_size'', jint 100), (js ''status'', jlit ''in_progress'')] (\<lambda>q.
     bind (portal_request (js ''/api/callbacks'' @ q) no_options) (\<lambda>resp.
     with_field ''items'' resp (\<lambda>items.
     return (obj [(''calls'', js_or items (JArr []))]))))"

definition portal_hangupCall :: "jsval \<Rightarrow> ('s, jsval) app" where
  "portal_hangupCall params = with_field ''call_id'' params (\<lambda>c.
     portal_request (js ''/api/callbacks/'' @ to_str c @ js ''/hangup'') (with_method ''POST''))"

section \<open>\<open>BillingService\<close>\<close>

definition portal_getBalance :: "('s, jsval) app" where
  "portal_getBalance =
     bind (portal_request (js ''/api/auth/me'') no_options) (\<lambda>user.
     with_field ''user_id'' user (\<lambda>u.
     bind (portal_request (js ''/api/billing/accounts/'' @ to_str u) no_options) (\<lambda>account.
     with_field ''balance'' account (\<lambda>b. with_field ''credit_limit'' account (\<lambda>c.
     return (obj [(''balance'', b), (''credit_limit'', c)]))))))"

definition portal_listTransactions :: "jsval \<Rightarrow> ('s, jsval) app" where
  "portal_listTransactions params =
     bind (portal_request (js ''/api/auth/me'') no_options) (\<lambda>user.
     with_field ''user_id'' user (\<lambda>u.
     with_field ''page'' params (\<lambda>p. with_field ''limit'' params (\<lambda>l.
     with_query [(js ''page'', p), (js ''page_size'', l)] (\<lambda>q.
     bind (portal_request (js ''/api/billing/accounts/'' @ to_str u @ js ''/transactions'' @ q) no_options)
     (\<lambda>resp. with_field ''transactions'' resp (\<lambda>ts. with_field ''total'' resp (\<lambda>t.
     return (obj [(''transactions'', js_or ts (JArr [])), (''total'', js_or t (jint 0))])))))))))"

definition portal_getUsageSummary :: "('s, jsval) app" where
  "portal_getUsageSummary =
     return (obj [(''today_calls'', jint 0), (''today_duration'', jint 0), (''today_cost'', jint 0),
       (''balance'', jint 0), (''concurrent_active'', jint 0), (''concurrent_limit'', jint 10)])"

definition portal_queryRate :: "jsval \<Rightarrow> ('s, jsval) app" where
  "portal_queryRate prefix = return JNull"

section \<open>\<open>WebhookService\<close>\<close>

definition portal_getConfig :: "('s, jsval) app" where
  "portal_getConfig = return (obj [(''webhook_url'', jlit ''''), (''webhook_secret'', jlit '''')])"

definition portal_saveConfig :: "jsval \<Rightarrow> ('s, jsval) app" where
  "portal_saveConfig params = portal_request (js ''/api/webhooks/config'') (with_json ''PUT'' params)"

definition portal_test :: "('s, jsval) app" where
  "portal_test =
     return (obj [(''success'', JBool False), (''status_code'', jint 0),
       (''message'', jlit ''Not implemented yet'')])"

definition portal_listDeliveries :: "('s, jsval) app" where
  "portal_listDeliveries =
     bind (portal_request (js ''/api/webhooks/deliveries'') no_options) (\<lambda>resp.
     with_field ''deliveries'' resp (\<lambda>ds.
     return (obj [(''deliveries'', js_or ds (JArr []))])))"

section \<open>The token reaches the requests\<close>

lemma token_after_set [simp]: "getToken (set_item token_key (JStr t) w) = JStr t"
  by (simp add: getToken_def get_item_def set_item_def)

lemma token_after_clear [simp]: "getToken (remove_item token_key w) = JNull"
  by (simp add: getToken_def get_item_def remove_item_def)

lemma token_kept [simp]: "getToken (log_event e w) = getToken w" "getToken (log_events es w) = getToken w"
  by (simp_all add: getToken_def get_item_def)

text \<open>
  What \<open>fetch\<close> makes of a header object: names are compared without case, each value loses the
  white space around it, and the values of one name are joined in the order of the entries.
\<close>

definition lower_name :: "jstr \<Rightarrow> jstr" where
  "lower_name = map (\<lambda>u. if 65 \<le> u \<and> u \<le> 90 then u + 32 else u)"

definition http_space :: "unit16 \<Rightarrow> bool" where
  "http_space u \<longleftrightarrow> u \<in> {9, 10, 13, 32}"

definition header_value :: "jstr \<Rightarrow> jstr" where
  "header_value v = rev (dropWhile http_space (rev (dropWhile http_space v)))"

definition header_values :: "jstr \<Rightarrow> (jstr \<times> jstr) list \<Rightarrow> jstr list" where
  "header_values name hs = map (header_value \<circ> snd) (filter (\<lambda>(k, v). lower_name k = lower_name name) hs)"

definition wire_header :: "jstr \<Rightarrow> (jstr \<times> jstr) list \<Rightarrow> jstr option" where
  "wire_header name hs =
     (case header_values name hs of [] \<Rightarrow> None | vs \<Rightarrow> Some (str_join (js '', '') vs))"

text \<open>The \<open>Authorization\<close> header a request carries.\<close>

definition authorization_of :: "httpreq \<Rightarrow> jstr option" where
  "authorization_of r = wire_header (js ''Authorization'') (rq_headers r)"

text \<open>The headers of the caller that this name reaches, in whatever case they are written.\<close>

abbreviation no_authorization :: "options \<Rightarrow> bool" where
  "no_authorization opts \<equiv> header_values (js ''Authorization'') (o_headers opts) = []"

lemma header_values_Cons:
  "header_values n ((k, v) # hs) =
     (if lower_name k = lower_name n then header_value v # header_values n hs else header_values n hs)"
  by (simp add: header_values_def)

lemma header_values_Nil [simp]: "header_values n [] = []"
  by (simp add: header_values_def)

lemma header_values_other:
  "lower_name k \<noteq> lower_name n \<Longrightarrow> header_values n (set_field k v hs) = header_values n hs"
  by (induction k v hs rule: set_field.induct) (auto simp: header_values_Cons)

lemma header_values_new:
  "k \<notin> fst ` set hs \<Longrightarrow> header_values n (set_field k v hs) =
     header_values n hs @ (if lower_name k = lower_name n then [header_value v] else [])"
  by (induction k v hs rule: set_field.induct) (auto simp: header_values_Cons)

lemma header_values_named: "header_values n hs = [] \<Longrightarrow> n \<notin> fst ` set hs"
  by (force simp: header_values_def filter_empty_conv)

lemma header_values_spread:
  "header_values n gs = [] \<Longrightarrow> header_values n (spread fs gs) = header_values n fs"
proof (induction gs arbitrary: fs)
  case (Cons g gs)
  obtain k v where "g = (k, v)" by force
  with Cons show ?case by (auto simp: spread_def header_values_Cons header_values_other split: if_splits)
qed (simp add: spread_def)

lemma content_type_values:
  "header_values (js ''Authorization'') [(js ''Content-Type'', js ''application/json'')] = []"
  by (simp add: header_values_Cons lower_name_def js_Cons)

lemma portal_authorization:
  assumes "no_authorization opts"
  shows "authorization_of (portal_build w p opts) =
     (if truthy (getToken w) then Some (header_value (js ''Bearer '' @ to_str (getToken w))) else None)"
proof -
  let ?hs = "spread [(js ''Content-Type'', js ''application/json'')] (o_headers opts)"
  have n: "header_values (js ''Authorization'') ?hs = []"
    using header_values_spread [OF assms] content_type_values by simp
  show ?thesis
    by (simp add: authorization_of_def wire_header_def portal_build_def portal_headers_def Let_def n
        header_values_new [OF header_values_named [OF n]])
qed

text \<open>A token that stands in a header as it is: no space and no unit outside ASCII.\<close>

definition visible :: "jstr \<Rightarrow> bool" where
  "visible t \<longleftrightarrow> list_all (\<lambda>u. 33 \<le> u \<and> u \<le> 126) t"

lemma header_value_bearer:
  assumes "visible t" "t \<noteq> []"
  shows "header_value (js ''Bearer '' @ t) = js ''Bearer '' @ t"
proof -
  have "33 \<le> last t"
    using assms by (simp add: visible_def list_all_iff)
  then have "\<not> http_space (last t)"
    by (auto simp: http_space_def)
  then have l: "dropWhile http_space (rev t @ rs) = rev t @ rs" for rs
    using assms(2) by (cases t rule: rev_cases) simp_all
  have f: "dropWhile http_space (js ''Bearer '' @ t) = js ''Bearer '' @ t"
    by (simp add: js_Cons http_space_def)
  show ?thesis
    by (simp add: header_value_def f l)
qed

lemma portal_headers_joined:
  assumes "no_authorization opts" and k: "lower_name k = js ''authorization''" "k \<noteq> js ''Authorization''"
    and "truthy tok"
  shows "wire_header (js ''Authorization'') (portal_headers tok (opts\<lparr>o_headers := o_headers opts @ [(k, x)]\<rparr>)) =
     Some (header_value x @ js '', '' @ header_value (js ''Bearer '' @ to_str tok))"
proof -
  let ?fs = "spread [(js ''Content-Type'', js ''application/json'')] (o_headers opts)"
  have n: "header_values (js ''Authorization'') ?fs = []"
    using header_values_spread [OF assms(1)] content_type_values by simp
  have e: "lower_name (js ''Authorization'') = js ''authorization''"
    by (simp add: lower_name_def js_Cons)
  have k': "k \<notin> fst ` set ?fs"
    using n k e by (force simp: header_values_def filter_empty_conv)
  have v: "header_values (js ''Authorization'') (set_field k x ?fs) = [header_value x]"
    by (simp add: header_values_new [OF k'] n k e)
  have a: "js ''Authorization'' \<notin> fst ` set (set_field k x ?fs)"
  proof -
    have "dom (map_of (set_field k x ?fs)) = insert k (fst ` set ?fs)"
      by (simp add: map_of_set_field dom_map_of_conv_image_fst)
    then show ?thesis
      using header_values_named [OF n] k by (simp add: dom_map_of_conv_image_fst)
  qed
  show ?thesis
    using assms(4) by (simp add: wire_header_def portal_headers_def Let_def header_values_new [OF a] v spread_def [of _ "_ @ _"]
        spread_def [of _ "o_headers opts", symmetric])
qed



section \<open>What the methods do to the outside\<close>

definition portal_methods :: "jsval \<Rightarrow> ('s, jsval) app list" where
  "portal_methods v =
     [portal_login v, portal_me, portal_updateProfile v, portal_changePassword v, portal_regenerateApiKey,
      portal_addIp v, portal_removeIp v, portal_initiate v, portal_listCDRs v, portal_listActiveCalls,
      portal_hangupCall v, portal_getUsageSummary, portal_queryRate v, portal_getConfig,
      portal_saveConfig v, portal_test, portal_listDeliveries]"

lemmas portal_method_defs =
  portal_login_def portal_me_def portal_updateProfile_def portal_changePassword_def
  portal_regenerateApiKey_def portal_addIp_def portal_removeIp_def portal_initiate_def
  portal_listCDRs_def portal_listActiveCalls_def portal_hangupCall_def portal_getUsageSummary_def
  portal_queryRate_def portal_getConfig_def portal_saveConfig_def portal_test_def
  portal_listDeliveries_def

lemmas portal_frame = frame portal_http.footprint_call

lemma portal_methods_frame: "list_all (footprint is_sent 1) (portal_methods v)"
  unfolding portal_methods_def list.pred_inject
  apply (intro conjI list.pred_inject(1))
  unfolding portal_method_defs
  apply (rule footprint_le, (rule portal_frame)+, simp)+
  done

lemma portal_account_frame:
  "footprint is_sent 2 portal_getBalance" "footprint is_sent 2 (portal_listTransactions v)"
  unfolding portal_getBalance_def portal_listTransactions_def
  by (rule footprint_le, (rule portal_frame)+, simp)+

text \<open>
  The account methods ask for the user first: the account of the second request is the one the
  server named, and nothing is asked where the first answer is a failure.
\<close>

lemma getBalance_after_failure:
  assumes "response_result (w_net w (sent w) (portal_build w (js ''/api/auth/me'') no_options)) = Inl e"
  shows "portal_getBalance w = (Inl e, log_event (Sent (portal_build w (js ''/api/auth/me'') no_options)) w)"
  using assms by (simp add: portal_getBalance_def portal_http.run_bind)

lemma portal_build_log [simp]:
  "portal_build (log_event e w) p opts = portal_build w p opts"
  "portal_build (log_events es w) p opts = portal_build w p opts"
  by (simp_all add: portal_build_def)

text \<open>
  C20: the balance shown is that of the signed-in user's own account: where both requests succeed,
  the second asks for the account named by the first answer, and the result holds the two fields
  of the second answer.
\<close>

theorem get_balance_own_account:
  assumes me: "w_net w (sent w) (portal_build w (js ''/api/auth/me'') no_options) = Reply (ok_json (JObj user))"
    and id: "map_of user (js ''user_id'') = Some (jint i)"
    and acc: "w_net w (sent w @ [portal_build w (js ''/api/auth/me'') no_options])
        (portal_build w (js ''/api/billing/accounts/'' @ show_int i) no_options) = Reply (ok_json (JObj account))"
    and fields: "map_of account (js ''balance'') = Some b" "map_of account (js ''credit_limit'') = Some c"
    and range: "\<bar>i\<bar> \<le> 2 ^ 53"
  shows "portal_getBalance w = (Inr (obj [(''balance'', b), (''credit_limit'', c)]),
     log_events [Sent (portal_build w (js ''/api/auth/me'') no_options),
       Sent (portal_build w (js ''/api/billing/accounts/'' @ show_int i) no_options)] w)"
  using me id acc fields num_to_string_int [OF range]
  by (simp add: portal_getBalance_def portal_http.run_bind response_result_def with_field_obj
      return_def log_event_as_events del: num_to_string.simps)

theorem get_balance_own_account_witness:
  "fst (portal_getBalance (world_of (\<lambda>past r. Reply (ok_json (if past = []
       then obj [(''user_id'', jint 7)] else obj [(''balance'', jint 250), (''credit_limit'', jint 0)]))))) =
     Inr (obj [(''balance'', jint 250), (''credit_limit'', jint 0)])"
  by (subst get_balance_own_account [where i = 7 and b = "jint 250" and c = "jint 0"
        and user = "[(js ''user_id'', jint 7)]"
        and account = "[(js ''balance'', jint 250), (js ''credit_limit'', jint 0)]"])
    simp_all

end
