(* ===== verification/Portal_Hooks.thy ===== *)
theory Portal_Hooks
  imports Portal_Client
begin

text \<open>
  \<open>portal/src/lib/api/hooks.ts\<close>: one definition per hook over the portal client. The overview of
  the dashboard combines two queries; it is a function of what they hold.
\<close>

section \<open>Auth\<close>

definition portal_useAuth :: "'s query" where
  "portal_useAuth = (query_of (key [''portal'', ''auth'', ''me'']) portal_me)\<lparr>qu_retry := Some 0\<rparr>"

definition portal_useLogin :: "'s mutation" where
  "portal_useLogin = mutation_of (\<lambda>params.
     bind (portal_login params) (\<lambda>resp. with_field ''token'' resp (\<lambda>t.
     bind (setToken t) (\<lambda>_. return resp)))) [key [''portal'', ''auth'']]"

section \<open>Dashboard\<close>

definition portal_useUsageSummary :: "'s query" where
  "portal_useUsageSummary =
     (query_of (key [''portal'', ''usage-summary'']) portal_getUsageSummary)\<lparr>qu_interval := Some 30000\<rparr>"

definition portal_useBalance :: "'s query" where
  "portal_useBalance =
     (query_of (key [''portal'', ''balance'']) portal_getBalance)\<lparr>qu_interval := Some 60000\<rparr>"

text \<open>The share of successful calls, in percent with one decimal.\<close>

definition success_rate :: "jsnum \<Rightarrow> jsnum" where
  "success_rate calls =
     (if num_lt (num_int 0) calls then
        string_to_number (to_fixed 1
          (num_mul (num_div (num_sub calls (math_floor (num_mul calls (to_num (6 / 100))))) calls) (num_int 100)))
      else num_int 100)"

definition portal_dashboard_data :: "jsval \<Rightarrow> jsval \<Rightarrow> jsval" where
  "portal_dashboard_data usage balance =
     (if truthy usage \<and> truthy balance then
        let calls = to_number (opt_get ''today_calls'' usage) in
        obj [(''today_calls'', opt_get ''today_calls'' usage), (''today_duration'', opt_get ''today_duration'' usage),
          (''today_cost'', opt_get ''today_cost'' usage), (''success_rate'', JNum (success_rate calls)),
          (''wastage_rate'', JNum (if num_lt (num_int 0) calls then to_num (62 / 10) else num_int 0)),
          (''balance'', opt_get ''balance'' balance),
          (''concurrent_active'', opt_get ''concurrent_active'' usage),
          (''concurrent_limit'', opt_get ''concurrent_limit'' usage)]
      else JUndef)"

definition portal_useDashboardOverview :: "jsval \<times> bool \<Rightarrow> jsval \<times> bool \<Rightarrow> jsval \<times> bool" where
  "portal_useDashboardOverview usage balance =
     (portal_dashboard_data (fst usage) (fst balance), snd usage \<or> snd balance)"

definition portal_trend_days :: "jstr list" where
  "portal_trend_days = map js [''03-05'', ''03-06'', ''03-07'', ''03-08'', ''03-09'', ''03-10'', ''03-11'']"

definition portal_useDashboardTrends :: "'s query" where
  "portal_useDashboardTrends =
     (query_of (key [''portal'', ''dashboard'', ''trends''])
       (bind (map_app (\<lambda>d. bind (random_floor 20 80) (\<lambda>n.
           return (obj [(''date'', JStr d), (''calls'', n)]))) portal_trend_days) (\<lambda>calls.
        bind (map_app (\<lambda>d. bind (random_floor 100 500) (\<lambda>n.
           return (obj [(''date'', JStr d), (''cost'', n)]))) portal_trend_days) (\<lambda>cost.
        return (obj [(''calls'', JArr calls), (''cost'', JArr cost)])))))
     \<lparr>qu_stale := Some 60000\<rparr>"

section \<open>Calls\<close>

definition portal_useInitiateCallback :: "'s mutation" where
  "portal_useInitiateCallback = mutation_of portal_initiate [key [''portal'', ''active-calls'']]"

definition portal_useActiveCalls :: "'s query" where
  "portal_useActiveCalls =
     (query_of (key [''portal'', ''active-calls'']) portal_listActiveCalls)\<lparr>qu_interval := Some 10000\<rparr>"

definition portal_useHangupCall :: "'s mutation" where
  "portal_useHangupCall =
     mutation_of portal_hangupCall [key [''portal'', ''active-calls''], key [''portal'', ''cdr'']]"

text \<open>A parameter that is not passed takes the default of the hook.\<close>

definition portal_useRecentCallbacks :: "jsval \<Rightarrow> 's query" where
  "portal_useRecentCallbacks arg =
     (let params = (if arg = JUndef then obj [(''page'', jint 1), (''limit'', jint 10)] else arg)
      in query_of (key [''portal'', ''cdr'', ''recent''] @ [params]) (portal_listCDRs params))"

definition portal_useCDRs :: "jsval \<Rightarrow> 's query" where
  "portal_useCDRs params = query_of (key [''portal'', ''cdr''] @ [params]) (portal_listCDRs params)"

definition Portal_CDRListParams :: shape where
  "Portal_CDRListParams = ShObj [req ''page'' ShNum, req ''limit'' ShNum, opt ''start_date'' ShStr,
     opt ''end_date'' ShStr, opt ''status'' ShStr, opt ''search'' ShStr]"

definition clean_params :: "jsval \<Rightarrow> jsval" where
  "clean_params params =
     JObj (spread (own_fields params)
       [(js ''status'', if strict_eq (opt_get ''status'' params) (jlit ''all'') then JUndef
                        else opt_get ''status'' params)])"

definition portal_useCDRList :: "jsval \<Rightarrow> 's query" where
  "portal_useCDRList params =
     query_of (key [''portal'', ''cdr'', ''list''] @ [clean_params params]) (portal_listCDRs (clean_params params))"

definition portal_useTransactions :: "jsval \<Rightarrow> 's query" where
  "portal_useTransactions params =
     query_of (key [''portal'', ''transactions''] @ [params]) (portal_listTransactions params)"

section \<open>Wastage\<close>

definition portal_useWastageSummary :: "'s query" where
  "portal_useWastageSummary =
     query_of (key [''portal'', ''wastage'', ''summary''])
       (return (obj [(''today_wastage_cost'', JNum (to_num (4567 / 100))),
          (''today_wastage_rate'', JNum (to_num (62 / 10))),
          (''top_failure_reason'', JStr (js ''B '' @ [0x8DEF, 0x65E0, 0x5E94, 0x7B54]))]))"

definition portal_wastage_counts :: "jstr \<Rightarrow> jsval" where
  "portal_wastage_counts period =
     field period (obj [(''day'', jint 24), (''week'', jint 7), (''month'', jint 30)])"

definition portal_useWastageTrend :: "jstr \<Rightarrow> 's query" where
  "portal_useWastageTrend period =
     query_of (key [''portal'', ''wastage'', ''trend''] @ [JStr period])
       (bind (map_app (\<lambda>i. bind (random_fixed 1 (num_int 3) (num_int 8)) (\<lambda>wr.
            bind (random_fixed 1 (num_int 75) (num_int 20)) (\<lambda>br.
            return (obj [(''date'', JStr (if period = js ''day'' then show_dec i @ js '':00''
                  else show_dec (i + 1))),
              (''wastage_rate'', wr), (''bridge_rate'', br)]))))
          (map int [0..<array_length (portal_wastage_counts period)])) (\<lambda>rows. return (JArr rows)))"

definition portal_useWastageDistribution :: "'s query" where
  "portal_useWastageDistribution =
     query_of (key [''portal'', ''wastage'', ''distribution''])
       (return (JArr (map (\<lambda>(r, n). obj [(''reason'', JStr r), (''count'', jint n)])
          [((js ''B'' @ [0x8DEF, 0x65E0, 0x5E94, 0x7B54]), 42),
           ((js ''A'' @ [0x8DEF, 0x63A5, 0x901A] @ js ''B'' @ [0x8DEF, 0x5931, 0x8D25]), 28),
           ([0x6865, 0x63A5, 0x540E, 0x77ED, 0x65F6, 0x6302, 0x65AD], 16),
           ((js ''B'' @ [0x8DEF, 0x5FD9, 0x7EBF]), 9),
           ([0x5176, 0x4ED6], 5)])))"

definition Portal_WastageDetail :: shape where
  "Portal_WastageDetail = ShObj [req ''id'' ShStr, req ''call_id'' ShStr, req ''caller'' ShStr,
     req ''callee'' ShStr, req ''wastage_type'' ShStr, req ''wastage_cost'' ShNum,
     req ''b_leg_reason'' ShStr, req ''started_at'' ShStr]"

definition wastage_types :: "jsval list" where
  "wastage_types =
     [JStr ((js ''A'' @ [0x8DEF, 0x63A5, 0x901A] @ js ''B'' @ [0x8DEF, 0x5931, 0x8D25])),
      JStr [0x6865, 0x63A5, 0x540E, 0x77ED, 0x65F6, 0x6302, 0x65AD],
      JStr ((js ''B'' @ [0x8DEF, 0x65E0, 0x5E94, 0x7B54])), JStr ((js ''B'' @ [0x8DEF, 0x5FD9, 0x7EBF]))]"

definition wastage_reasons :: "jsval list" where
  "wastage_reasons =
     [JStr [0x7528, 0x6237, 0x672A, 0x63A5, 0x542C], JStr [0x53F7, 0x7801, 0x4E0D, 0x5B58, 0x5728], JStr [0x7F51, 0x7EDC, 0x5F02, 0x5E38],
      JStr [0x7528, 0x6237, 0x62D2, 0x63A5], JStr [0x5360, 0x7EBF]]"

text \<open>The made-up row at position \<open>i\<close> of a page.\<close>

definition wastage_row :: "jsnum \<Rightarrow> jsnum \<Rightarrow> nat \<Rightarrow> ('s, jsval) app" where
  "wastage_row page limit i =
     (let idx = num_add (num_mul (num_sub page (num_int 1)) limit) (num_int (int i));
          tail8 = (\<lambda>n. slice_from (- 8) (num_to_string (num_add (num_int n) idx)))
      in bind (random_fixed 2 (to_num (1 / 10)) (to_num (5 / 10))) (\<lambda>cost. \<lambda>w.
         bind (lift_sum (date_iso (num_sub (num_int (w_now w)) (num_mul idx (num_int 3600000))))) (\<lambda>t.
         return (obj [(''id'', JStr (js ''wd-'' @ num_to_string idx)),
           (''call_id'', JStr (js ''call-'' @ num_to_string (num_add (num_int 1000) idx))),
           (''caller'', JStr (js ''138'' @ tail8 10000000)), (''callee'', JStr (js ''139'' @ tail8 20000000)),
           (''wastage_type'', array_at wastage_types (num_rem idx (num_int 4))), (''wastage_cost'', cost),
           (''b_leg_reason'', array_at wastage_reasons (num_rem idx (num_int 5))),
           (''started_at'', JStr t)])) w))"

definition portal_useWastageDetail :: "jsval \<Rightarrow> 's query" where
  "portal_useWastageDetail params =
     query_of (key [''portal'', ''wastage'', ''detail''] @ [params])
       (with_field ''limit'' params (\<lambda>l. with_field ''page'' params (\<lambda>p.
        bind (map_app (wastage_row (to_number p) (to_number l)) [0..<array_length l]) (\<lambda>items.
        return (obj [(''items'', JArr items), (''total'', jint 86)])))))"

section \<open>Settings\<close>

definition portal_useUpdateProfile :: "'s mutation" where
  "portal_useUpdateProfile = mutation_of portal_updateProfile [key [''portal'', ''auth'']]"

definition portal_useChangePassword :: "'s mutation" where
  "portal_useChangePassword = mutation_of portal_changePassword []"

definition portal_useRegenerateApiKey :: "'s mutation" where
  "portal_useRegenerateApiKey = mutation_of (\<lambda>_. portal_regenerateApiKey) [key [''portal'', ''auth'']]"

definition portal_useRateQuery :: "jstr \<Rightarrow> 's query" where
  "portal_useRateQuery prefix =
     (query_of (key [''portal'', ''rate-query''] @ [JStr prefix])
       (return (if prefix = [] \<or> length prefix < 2 then JNull
          else obj [(''plan_name'', JStr (([0x6807, 0x51C6, 0x5957, 0x9910] @ js ''A''))), (''rate_a'', JNum (to_num (6 / 100))),
            (''rate_b'', JNum (to_num (8 / 100))), (''billing_unit'', jint 60),
            (''effective_date'', jlit ''2026-01-01'')])))
     \<lparr>qu_enabled := False\<rparr>"

section \<open>Webhook and whitelist\<close>

definition portal_useWebhookConfig :: "'s query" where
  "portal_useWebhookConfig =
     query_of (key [''portal'', ''webhook'', ''config''])
       (return (obj [(''webhook_url'', jlit ''''), (''webhook_secret'', jlit ''whsec_mock_abc123def456'')]))"

definition portal_useSaveWebhookConfig :: "'s mutation" where
  "portal_useSaveWebhookConfig =
     mutation_of (\<lambda>_. bind (sleep 500) (\<lambda>_. return JUndef)) [key [''portal'', ''webhook'', ''config'']]"

definition portal_useTestWebhook :: "'s mutation" where
  "portal_useTestWebhook =
     mutation_of (\<lambda>_. bind (sleep 1000) (\<lambda>_. return (obj [(''success'', JBool True),
       (''status_code'', jint 200), (''message'', jlit ''Webhook delivered successfully'')]))) []"

definition delivery_events :: "jsval list" where
  "delivery_events =
     map jlit [''call.completed'', ''call.failed'', ''balance.low'', ''call.started'', ''call.completed'']"

definition portal_useRecentDeliveries :: "'s query" where
  "portal_useRecentDeliveries =
     query_of (key [''portal'', ''webhook'', ''deliveries''])
       (bind (map_app (\<lambda>i w. bind (lift_sum (date_iso (num_sub (num_int (w_now w)) (num_int (int i * 3600000))))) (\<lambda>t.
            return (obj [(''id'', JStr (js ''del-'' @ show_dec (int i))),
              (''event'', array_at delivery_events (num_int (int i))),
              (''url'', jlit ''https://example.com/webhook''),
              (''status_code'', jint (if i = 1 then 500 else 200)), (''success'', JBool (i \<noteq> 1)),
              (''created_at'', JStr t)])) w)
          [0..<5]) (\<lambda>rows. return (JArr rows)))"

definition portal_useAddIp :: "'s mutation" where
  "portal_useAddIp = mutation_of (\<lambda>_. bind (sleep 500) (\<lambda>_. return JUndef)) [key [''portal'', ''auth'']]"

definition portal_useRemoveIp :: "'s mutation" where
  "portal_useRemoveIp = mutation_of (\<lambda>_. bind (sleep 500) (\<lambda>_. return JUndef)) [key [''portal'', ''auth'']]"

section \<open>The success rate\<close>

lemma rat_le_int: "i \<le> j \<Longrightarrow> (of_int i :: rat) \<le> of_int j"
  by (simp only: of_int_le_iff)

lemma failed_share:
  assumes "1 \<le> c" and "c \<le> 2 ^ 50"
  shows "0 \<le> \<lfloor>fl (of_int c * fl (6 / 100))\<rfloor>" and "16 * \<lfloor>fl (of_int c * fl (6 / 100))\<rfloor> \<le> c"
    and "to_num (of_int c * fl (6 / 100)) = Fin (fl (of_int c * fl (6 / 100)))"
proof -
  have f: "0 \<le> fl (6 / 100)" "fl (6 / 100) \<le> 1 / 16"
    using fl_nonneg [of "6 / 100"] fl_mono [of "6 / 100" "1 / 16"] fl_sixteenth [of 1] by simp_all
  have c: "0 \<le> (of_int c :: rat)" "(of_int c :: rat) \<le> 2 ^ 50"
    using assms rat_le_int [of 0 c] rat_le_int [of c "2 ^ 50"] by simp_all
  have b: "0 \<le> of_int c * fl (6 / 100)" "of_int c * fl (6 / 100) \<le> of_int c / 16"
    using mult_left_mono [OF f(2) c(1)] c f by simp_all
  have "fl (of_int c / 16) = of_int c / 16"
    using assms by (intro fl_sixteenth) simp
  with fl_mono [OF b(2)] fl_nonneg [OF b(1)] have g: "0 \<le> fl (of_int c * fl (6 / 100))"
    "fl (of_int c * fl (6 / 100)) \<le> of_int c / 16"
    by simp_all
  then show "0 \<le> \<lfloor>fl (of_int c * fl (6 / 100))\<rfloor>" by simp
  have "of_int \<lfloor>fl (of_int c * fl (6 / 100))\<rfloor> \<le> (of_int c / 16 :: rat)"
    using g(2) by linarith
  then have "of_int (16 * \<lfloor>fl (of_int c * fl (6 / 100))\<rfloor>) \<le> (of_int c :: rat)" by simp
  then show "16 * \<lfloor>fl (of_int c * fl (6 / 100))\<rfloor> \<le> c" by (simp only: of_int_le_iff)
  show "to_num (of_int c * fl (6 / 100)) = Fin (fl (of_int c * fl (6 / 100)))"
    using b c by (intro to_num_bounded) simp
qed

lemma fl_percent:
  assumes "15 / 16 \<le> q" and "q \<le> 1"
  shows "375 / 4 \<le> fl (fl q * 100)" and "fl (fl q * 100) \<le> 100" and "to_num q = Fin (fl q)"
    and "to_num (fl q * 100) = Fin (fl (fl q * 100))"
proof -
  have q: "15 / 16 \<le> fl q" "fl q \<le> 1"
    using fl_mono [OF assms(1)] fl_mono [OF assms(2)] fl_sixteenth [of 15] fl_of_int [of 1] by simp_all
  have "fl (1500 / 16) \<le> fl (fl q * 100)" "fl (fl q * 100) \<le> fl 100"
    using q by (intro fl_mono; simp)+
  then show "375 / 4 \<le> fl (fl q * 100)" "fl (fl q * 100) \<le> 100"
    using fl_sixteenth [of 1500] fl_of_int [of 100] by simp_all
  show "to_num q = Fin (fl q)" "to_num (fl q * 100) = Fin (fl (fl q * 100))"
    using assms q by (intro to_num_bounded; simp)+
qed

text \<open>
  The success rate of the portal dashboard is a percentage: for every number of calls up to
  \<open>2 ^ 50\<close>, after all roundings of the double arithmetic, the shown number lies between 93.75 and
  100, and it is 100 where there are no calls.
\<close>

lemma success_rate_range:
  assumes "0 \<le> c" and "c \<le> 2 ^ 50"
  shows "\<exists>x. success_rate (num_int c) = Fin x \<and> 375 / 4 \<le> x \<and> x \<le> 100 \<and> (c = 0 \<longrightarrow> x = 100)"
proof (cases "c = 0")
  case True
  then show ?thesis by (simp add: success_rate_def)
next
  case False
  with assms have c1: "1 \<le> c" by simp
  define f where "f = \<lfloor>fl (of_int c * fl (6 / 100))\<rfloor>"
  define q where "q = (of_int (c - f) / of_int c :: rat)"
  note f = failed_share [OF c1 assms(2), folded f_def]
  have "(of_int (15 * c) :: rat) \<le> of_int (16 * (c - f))" "(of_int (c - f) :: rat) \<le> of_int c"
    using f by (intro rat_le_int; simp)+
  then have q: "15 / 16 \<le> q" "q \<le> 1"
    using c1 by (simp_all add: q_def field_simps)
  define y where "y = fl (fl q * 100)"
  note p = fl_percent [OF q, folded y_def]
  have s: "num_sub (num_int c) (num_int f) = num_int (c - f)"
    using f c1 assms(2) to_num_int [of "c - f"] by (simp add: num_sub_def)
  have t6: "to_num (6 / 100) = Fin (fl (6 / 100))" by (intro to_num_bounded) simp
  have d1: "math_floor (num_mul (num_int c) (to_num (6 / 100))) = num_int f"
    using f(3) unfolding t6 by (simp only: num_mul.simps math_floor_def on_fin.simps f_def)
  have d2: "num_div (num_int (c - f)) (num_int c) = Fin (fl q)"
    using p(3) c1 by (simp only: num_div.simps q_def) simp
  have d3: "num_mul (Fin (fl q)) (num_int 100) = Fin y"
    using p(4) by (simp add: y_def)
  have "num_lt (num_int 0) (num_int c)" using c1 by simp
  then have r: "success_rate (num_int c) = string_to_number (to_fixed 1 (Fin y))"
    by (simp only: success_rate_def if_True d1 s d2 d3)
  have sc: "938 \<le> scaled 1 y" "scaled 1 y \<le> 1000"
    using p(1,2) by (simp_all add: scaled_def le_floor_iff floor_le_iff)
  have b: "fl (375 / 4) \<le> fl (of_int (scaled 1 y) / 10)" "fl (of_int (scaled 1 y) / 10) \<le> fl 100"
    using rat_le_int [OF sc(1)] rat_le_int [OF sc(2)] by (intro fl_mono; simp)+
  have "success_rate (num_int c) = to_num (of_int (scaled 1 y) / 10)"
    using p(1,2) read_to_fixed [of y 1] r by simp
  also have "\<dots> = Fin (fl (of_int (scaled 1 y) / 10))"
    using rat_le_int [OF sc(2)] rat_le_int [OF sc(1)] by (intro to_num_bounded) simp
  finally show ?thesis
    using b False fl_sixteenth [of 1500] fl_of_int [of 100] by simp
qed

section \<open>Signing in\<close>

lemma portal_request_local [simp]: "w_local (snd (portal_request p opts w)) = w_local w"
  by (rule portal_http.storage_kept)

text \<open>
  A sign-in that succeeds leaves the token of the answer stored and refreshes the session query; one
  that fails leaves the stored token as it was and refreshes nothing.
\<close>

lemma portal_login_result:
  "case mutate_async portal_useLogin v w of
     (Inr r, w') \<Rightarrow> getToken w' = JStr (to_str (opt_get ''token'' r)) \<and>
       invalidated w' = invalidated w @ [key [''portal'', ''auth'']]
   | (Inl e, w') \<Rightarrow> getToken w' = getToken w \<and> invalidated w' = invalidated w"
proof (cases "response_result (w_net w (sent w) (portal_build w (js ''/api/auth/client/login'') (with_json ''POST'' v)))")
  case (Inl e)
  then show ?thesis
    by (simp add: portal_useLogin_def mutate_async_def portal_login_def portal_http.run_bind
        bind_assoc getToken_def get_item_def)
next
  case (Inr r)
  note run = portal_useLogin_def mutate_async_def portal_login_def portal_http.run with_field_def
    bind_def lift_sum_def setToken_def effect_def return_def invalidate_all_run
  show ?thesis
  proof (cases "nullish r")
    case True
    with Inr show ?thesis
      by (simp add: run get_def getToken_def get_item_def del: invalidate_all.simps)
  next
    case False
    with Inr show ?thesis
      by (simp add: run get_def opt_get_def getToken_def get_item_def set_item_def invalidated_def
          log_event_def log_events_def del: invalidate_all.simps)
  qed
qed

section \<open>Which queries a mutation refreshes\<close>

text \<open>All queries of the portal by the name of their hook, for any parameters.\<close>

definition portal_queries :: "jsval \<Rightarrow> jstr \<Rightarrow> (string \<times> 's query) list" where
  "portal_queries p t =
     [(''useAuth'', portal_useAuth), (''useUsageSummary'', portal_useUsageSummary), (''useBalance'', portal_useBalance),
      (''useDashboardTrends'', portal_useDashboardTrends), (''useActiveCalls'', portal_useActiveCalls),
      (''useRecentCallbacks'', portal_useRecentCallbacks p), (''useCDRs'', portal_useCDRs p),
      (''useCDRList'', portal_useCDRList p), (''useTransactions'', portal_useTransactions p),
      (''useWastageSummary'', portal_useWastageSummary), (''useWastageTrend'', portal_useWastageTrend t),
      (''useWastageDistribution'', portal_useWastageDistribution), (''useWastageDetail'', portal_useWastageDetail p),
      (''useRateQuery'', portal_useRateQuery t), (''useWebhookConfig'', portal_useWebhookConfig),
      (''useRecentDeliveries'', portal_useRecentDeliveries)]"

lemmas portal_mutation_defs =
  portal_useInitiateCallback_def portal_useHangupCall_def portal_useUpdateProfile_def portal_useChangePassword_def
  portal_useRegenerateApiKey_def portal_useSaveWebhookConfig_def portal_useTestWebhook_def portal_useAddIp_def
  portal_useRemoveIp_def

lemma portal_query_keys:
  "query_keys (portal_queries p t) =
     [(''useAuth'', key [''portal'', ''auth'', ''me'']), (''useUsageSummary'', key [''portal'', ''usage-summary'']),
      (''useBalance'', key [''portal'', ''balance'']), (''useDashboardTrends'', key [''portal'', ''dashboard'', ''trends'']),
      (''useActiveCalls'', key [''portal'', ''active-calls'']),
      (''useRecentCallbacks'', key [''portal'', ''cdr'', ''recent''] @
         [if p = JUndef then obj [(''page'', jint 1), (''limit'', jint 10)] else p]),
      (''useCDRs'', key [''portal'', ''cdr''] @ [p]), (''useCDRList'', key [''portal'', ''cdr'', ''list''] @ [clean_params p]),
      (''useTransactions'', key [''portal'', ''transactions''] @ [p]),
      (''useWastageSummary'', key [''portal'', ''wastage'', ''summary'']),
      (''useWastageTrend'', key [''portal'', ''wastage'', ''trend''] @ [JStr t]),
      (''useWastageDistribution'', key [''portal'', ''wastage'', ''distribution'']),
      (''useWastageDetail'', key [''portal'', ''wastage'', ''detail''] @ [p]),
      (''useRateQuery'', key [''portal'', ''rate-query''] @ [JStr t]),
      (''useWebhookConfig'', key [''portal'', ''webhook'', ''config'']),
      (''useRecentDeliveries'', key [''portal'', ''webhook'', ''deliveries''])]"
  by (simp add: query_keys_def portal_queries_def query_of_def portal_useAuth_def portal_useUsageSummary_def
      portal_useBalance_def portal_useDashboardTrends_def portal_useActiveCalls_def portal_useRecentCallbacks_def
      portal_useCDRs_def portal_useCDRList_def portal_useTransactions_def portal_useWastageSummary_def
      portal_useWastageTrend_def portal_useWastageDistribution_def portal_useWastageDetail_def portal_useRateQuery_def
      portal_useWebhookConfig_def portal_useRecentDeliveries_def Let_def)

lemma portal_method_quiet: "m \<in> set (portal_methods v) \<Longrightarrow> invalidated (snd (m w)) = invalidated w"
  by (rule footprint_sent(1) [OF bspec [OF portal_methods_frame [unfolded list_all_iff]]])

lemma sleep_quiet: "invalidated (snd (bind (sleep n) (\<lambda>_. return x) w)) = invalidated w"
  by (simp add: sleep_def bind_def return_def effect_def invalidated_def)

lemma sign_in_refreshes:
  assumes "prefix_rule matches"
  shows "refreshed matches w (snd (mutate_async portal_useLogin v w)) (portal_queries p t) =
    (case fst (mutate_async portal_useLogin v w) of Inl e \<Rightarrow> [] | Inr r \<Rightarrow> [''useAuth''])"
proof (cases "mutate_async portal_useLogin v w")
  case (Pair r w')
  have "refreshed matches w w' (portal_queries p t) = [''useAuth'']"
    if "invalidated w' = invalidated w @ [key [''portal'', ''auth'']]"
    by (subst refreshed_keys [OF that]) (simp add: portal_query_keys prefix_rule2 [OF assms])
  with Pair portal_login_result [where v = v and w = w] show ?thesis
    by (auto simp: refreshed_def refreshes_def split: sum.splits)
qed

text \<open>
  C27: exactly which cached queries of the portal each of its mutations makes stale, among all of them and for all
  their parameters: where it succeeds, those listed and no others; where it fails, none. Hanging up refreshes the live
  calls and the three lists of call records; starting a call refreshes the live calls only, so the record it creates is in
  none of the lists until they go stale, and neither refreshes the balance.
\<close>

theorem portal_mutations_refresh:
  assumes "prefix_rule matches"
  shows "\<forall>(m, names) \<in> set
     [(portal_useLogin, [''useAuth'']), (portal_useInitiateCallback, [''useActiveCalls'']),
      (portal_useHangupCall, [''useActiveCalls'', ''useRecentCallbacks'', ''useCDRs'', ''useCDRList'']),
      (portal_useUpdateProfile, [''useAuth'']), (portal_useChangePassword, []),
      (portal_useRegenerateApiKey, [''useAuth'']), (portal_useSaveWebhookConfig, [''useWebhookConfig'']),
      (portal_useTestWebhook, []), (portal_useAddIp, [''useAuth'']), (portal_useRemoveIp, [''useAuth''])].
    refreshed matches w (snd (mutate_async m v w)) (portal_queries p t) =
      (case fst (mutate_async m v w) of Inl e \<Rightarrow> [] | Inr r \<Rightarrow> names)"
  unfolding list.set ball_simps prod.case
  apply (intro conjI TrueI sign_in_refreshes [OF assms])
  unfolding portal_mutation_defs
  by (rule mutation_refreshes; (rule sleep_quiet | rule portal_method_quiet [where v = v])?;
      simp add: portal_methods_def portal_query_keys prefix_rule2 [OF assms] prefix_rule3 [OF assms])+

theorem portal_mutations_refresh_witness:
  "refreshed key_prefix (world_of (\<lambda>_ _. Reply (ok_json JNull)))
     (snd (mutate_async portal_useHangupCall (obj [(''call_id'', jlit ''c1'')])
        (world_of (\<lambda>_ _. Reply (ok_json JNull)))))
     (portal_queries (obj [(''page'', jint 2)]) (js ''day'') :: (string \<times> unit query) list) =
   [''useActiveCalls'', ''useRecentCallbacks'', ''useCDRs'', ''useCDRList'']"
proof -
  define w0 where "w0 = world_of (\<lambda>_ _. Reply (ok_json JNull))"
  define v where "v = obj [(''call_id'', jlit ''c1'')]"
  have r: "fst (mutate_async portal_useHangupCall v w0) = Inr JNull"
    by (simp add: w0_def v_def mutate_async_def portal_useHangupCall_def portal_hangupCall_def with_field_obj
        response_result_def bind_def invalidate_all_run return_def portal_http.run del: invalidate_all.simps)
  note all = portal_mutations_refresh [where v = v and w = w0 and p = "obj [(''page'', jint 2)]" and t = "js ''day''",
      OF prefix_rule_key_prefix]
  show ?thesis
    using bspec [OF all, of "(portal_useHangupCall, [''useActiveCalls'', ''useRecentCallbacks'', ''useCDRs'', ''useCDRList''])"] r
    by (simp add: w0_def v_def)
qed

section \<open>The call-record list\<close>

lemma listCDRs_cong:
  assumes "\<And>k. k \<in> set (map js [''page'', ''limit'', ''start_date'', ''end_date'', ''status'']) \<Longrightarrow>
    map_of fs k = map_of gs k"
  shows "portal_listCDRs (JObj fs) w = portal_listCDRs (JObj gs) w"
  using assms by (simp add: portal_listCDRs_def with_field_obj)

lemma clean_params_status:
  "map_of (own_fields (clean_params (JObj ps))) (js ''status'') =
     Some (if map_of ps (js ''status'') = Some (jlit ''all'') then JUndef
           else case map_of ps (js ''status'') of None \<Rightarrow> JUndef | Some v \<Rightarrow> v)"
  by (auto simp: clean_params_def opt_get_def map_of_spread map_add_def proto_get_def proto_names_def
      split: option.splits elim: strict_eq.elims)

text \<open>
  C39: the text typed into the search box of the portal's call records never reaches the server: in every world
  the list with any search text sends what the list without it sends and gives its result, though each text is cached under a key of its
  own, so every change of it asks the server again. The choice \<open>all\<close> of the status filter runs as no status.
\<close>

theorem cdr_list_search_ignored:
  fixes w :: "'s world_scheme"
  shows "qu_fn (portal_useCDRList (JObj (set_field (js ''search'') (JStr s) ps))) w = qu_fn (portal_useCDRList (JObj ps)) w \<and>
   qu_fn (portal_useCDRList (JObj (set_field (js ''status'') (jlit ''all'') ps))) w =
     qu_fn (portal_useCDRList (JObj (set_field (js ''status'') JUndef ps))) w \<and>
   (s \<noteq> t \<longrightarrow> qu_key (portal_useCDRList (JObj (set_field (js ''search'') (JStr s) ps)) :: 's query) \<noteq>
     qu_key (portal_useCDRList (JObj (set_field (js ''search'') (JStr t) ps)) :: 's query))"
proof -
  have 1: "portal_listCDRs (clean_params (JObj (set_field (js ''search'') (JStr s) ps))) w =
      portal_listCDRs (clean_params (JObj ps)) w"
    unfolding clean_params_def
    by (rule listCDRs_cong) (auto simp: map_of_spread map_of_set_field map_add_def opt_get_def)
  have 2: "portal_listCDRs (clean_params (JObj (set_field (js ''status'') (jlit ''all'') ps))) w =
      portal_listCDRs (clean_params (JObj (set_field (js ''status'') JUndef ps))) w"
    unfolding clean_params_def
    by (rule listCDRs_cong) (auto simp: map_of_spread map_of_set_field map_add_def opt_get_def)
  have "map_of (own_fields (clean_params (JObj (set_field (js ''search'') x ps)))) (js ''search'') = Some x" for x
    by (simp add: clean_params_def map_of_spread map_of_set_field map_add_def)
  then have 3: "clean_params (JObj (set_field (js ''search'') (JStr s) ps)) \<noteq>
      clean_params (JObj (set_field (js ''search'') (JStr t) ps))" if "s \<noteq> t"
    using that by (metis option.inject jsval.inject(3))
  show ?thesis
    using 1 2 3 by (simp add: portal_useCDRList_def query_of_def)
qed

theorem cdr_list_search_ignored_witness:
  "qu_fn (portal_useCDRList (obj [(''page'', jint 1), (''limit'', jint 10), (''search'', jlit ''138'')]))
     (world_of (\<lambda>_ _. Reply (ok_json JNull))) =
   qu_fn (portal_useCDRList (obj [(''page'', jint 1), (''limit'', jint 10)])) (world_of (\<lambda>_ _. Reply (ok_json JNull))) \<and>
   (qu_key (portal_useCDRList (obj [(''page'', jint 1), (''search'', jlit ''138''), (''limit'', jint 10)]) :: unit query) \<noteq>
    qu_key (portal_useCDRList (obj [(''page'', jint 1), (''search'', jlit ''139''), (''limit'', jint 10)]) :: unit query))"
  using cdr_list_search_ignored [of "js ''138''" "[(js ''page'', jint 1), (js ''limit'', jint 10)]"
      "world_of (\<lambda>_ _. Reply (ok_json JNull))" "js ''139''"]
    cdr_list_search_ignored [of "js ''138''" "[(js ''page'', jint 1), (js ''search'', jlit ''1''), (js ''limit'', jint 10)]"
      "world_of (\<lambda>_ _. Reply (ok_json JNull))" "js ''139''"]
  by simp

text \<open>The password form of the hook and the client method it calls name the old password differently.\<close>

lemma change_password_body:
  "rq_body (last (sent (snd (mutate_async portal_useChangePassword
      (obj [(''old_password'', a), (''new_password'', b)]) w)))) =
     json_stringify (obj [(''old_password'', a), (''new_password'', b)])"
  by (simp add: mutate_async_def portal_useChangePassword_def portal_changePassword_def bind_def
      portal_http.run portal_build_def with_json_def return_def split: sum.splits)

text \<open>The session query of the portal is not tried again either.\<close>

lemma portal_query_options:
  "query_retries queryClient portal_useAuth = 0" "query_stale queryClient portal_useAuth = 300000"
  "query_retries queryClient (portal_useCDRList p) = 1"
  "query_stale queryClient portal_useDashboardTrends = 60000"
  by (simp_all add: query_retries_def query_stale_def queryClient_def portal_useAuth_def query_of_def
      portal_useDashboardTrends_def portal_useCDRList_def)

end
