(* ===== verification/Portal_Call_Ws.thy ===== *)
theory Portal_Call_Ws
  imports Call_Ws Portal_Hooks
begin

text \<open>
  \<open>portal/src/hooks/use-call-ws.ts\<close>: the token comes from the local storage, a message is stored
  and handed to the callback of the component that uses the hook, and \<open>disconnect\<close> ends the
  connection by hand. The callback is a parameter: it may throw or act on the outside, and it has
  no access to the refs of the hook.
\<close>

section \<open>The hook\<close>

type_synonym event_callback = "(jsval \<Rightarrow> jsval + event list) option"

definition portal_ws_url :: "bool \<Rightarrow> jstr \<Rightarrow> jsval \<Rightarrow> jstr option" where
  "portal_ws_url secure host token =
     map_option (\<lambda>t. (if secure then js ''wss:'' else js ''ws:'') @ js ''//'' @ host @ js ''/ws/calls?token='' @ t)
       (encode_uri_component (to_str token))"

definition portal_connect :: "('s, unit) ws_prog" where
  "portal_connect = (\<lambda>s.
     if \<not> ws_enabled s then (Inr (), s)
     else
       let token = getToken s in
       if \<not> truthy token then set_status WsDisconnected s
       else bind (lift_uri (portal_ws_url (ws_secure s) (ws_host s) token)) (\<lambda>url.
            bind (set_status WsConnecting) (\<lambda>_. open_socket url)) s)"

definition call_callback :: "event_callback \<Rightarrow> jsval \<Rightarrow> ('s, unit) ws_prog" where
  "call_callback cb data =
     (case cb of
        None \<Rightarrow> return ()
      | Some f \<Rightarrow> (case f data of Inl e \<Rightarrow> throw e | Inr es \<Rightarrow> effect (log_events es)))"

definition portal_on_message :: "event_callback \<Rightarrow> jsval + jsval \<Rightarrow> ('s, unit) ws_prog" where
  "portal_on_message cb parsed =
     try_catch
       (bind (lift_sum parsed) (\<lambda>data.
        bind (effect (\<lambda>s. s\<lparr>ws_last := data\<rparr>)) (\<lambda>_. call_callback cb data)))
       (\<lambda>_. return ())"

definition disconnect :: "('s, unit) ws_prog" where
  "disconnect = bind (effect cleanup) (\<lambda>_. set_status WsDisconnected)"

lemma ws_last_core: "same_core s (s\<lparr>ws_last := d\<rparr>)" "same_core s (log_events es (s\<lparr>ws_last := d\<rparr>))"
  by (simp_all add: same_core_def log_events_def)

lemma portal_message_result:
  "fst (portal_on_message cb parsed s) = Inr () \<and> same_core s (snd (portal_on_message cb parsed s))"
proof (cases parsed)
  case (Inl e)
  then show ?thesis
    by (simp add: portal_on_message_def try_catch_def throw_def return_def same_core_def)
next
  case (Inr data)
  then show ?thesis
    using ws_last_core
    by (auto simp: portal_on_message_def call_callback_def try_catch_def throw_def return_def effect_def
        bind_def lift_sum_def split: option.splits sum.splits)
qed

lemma connect_steps_core:
  "same_core s (snd (bind (lift_uri u) (\<lambda>url. bind (set_status st) (\<lambda>_. open_socket url)) s)) \<or>
   opens_one s (snd (bind (lift_uri u) (\<lambda>url. bind (set_status st) (\<lambda>_. open_socket url)) s))"
  by (cases u) (simp_all add: lift_uri_def throw_def bind_def return_def set_status_def effect_def
      open_socket_def same_core_def opens_one_def)

lemma portal_connect_core: "same_core s (snd (portal_connect s)) \<or> opens_one s (snd (portal_connect s))"
proof (cases "ws_enabled s \<and> truthy (getToken s)")
  case True
  then show ?thesis
    unfolding portal_connect_def Let_def
    by (simp only: not_True_eq_False if_False connect_steps_core)
next
  case False
  then show ?thesis by (auto simp: portal_connect_def same_core_def set_status_def effect_def Let_def)
qed

interpretation portal_ws: ws_client portal_connect "portal_on_message cb" for cb
  using portal_connect_core portal_message_result by unfold_locales blast+

section \<open>Properties\<close>

text \<open>
  C3: while the portal stays mounted it never holds two connections and never waits to reconnect
  beside one: in every state its events can lead to, the open sockets and the pending retries
  together are at most one, and the socket is the one the hook can close.
\<close>

theorem portal_ws_one_connection:
  assumes "fresh s" and "ws_run portal_connect (portal_on_message cb) (snd (portal_connect s)) es s'"
    and "\<not> list_ex is_teardown es"
  shows "card (live_socks s') + length (ws_timers s') \<le> 1 \<and> (\<forall>i \<in> live_socks s'. ws_ref s' = Some i)"
proof -
  have "ws_inv s'"
    using assms portal_ws.mounted_inv portal_ws.run_inv by blast
  then show ?thesis by (auto simp: ws_inv_def split: option.splits)
qed

text \<open>
  C21: leaving the portal with its connection established ends it for good: if the server completes
  the closing handshake normally, no socket is ever opened again and no retry is ever scheduled.
\<close>

theorem portal_ws_ends:
  assumes mounted: "fresh s" "ws_run portal_connect (portal_on_message cb) (snd (portal_connect s)) es s'"
      "\<not> list_ex is_teardown es"
    and settled: "\<And>i. sock_state_of i s' \<noteq> SoConnecting"
    and after: "ws_run portal_connect (portal_on_message cb) (cleanup s') ds s''" "list_all clean_close ds"
  shows "ws_timers s'' = [] \<and> length (ws_socks s'') = length (ws_socks s') \<and>
    (\<forall>i. sock_state_of i s'' \<in> {SoClosing, SoClosed})"
proof -
  have "ws_inv s'"
    using mounted portal_ws.mounted_inv portal_ws.run_inv by blast
  then have "quiet (cleanup s')" using settled by (rule cleanup_quiet)
  from portal_ws.run_quiet [OF after this] have "quiet s''" "length (ws_socks s'') = length (ws_socks (cleanup s'))"
    by simp_all
  moreover have "length (ws_socks (cleanup s')) = length (ws_socks s')"
    by (simp add: cleanup_def Let_def split: option.splits)
  ultimately show ?thesis by (simp add: quiet_def)
qed

text \<open>A portal with a stored token, before its layout is mounted.\<close>

definition new_portal :: "call_ws" where
  "new_portal =
     \<lparr>w_net = (\<lambda>_ _. Reply (ok_json JNull)), w_local = [token_key \<mapsto> js ''t1''], w_now = 0, w_random = (\<lambda>_. 0),
      w_draws = 0, w_log = [], ws_enabled = True, ws_cookie = [], ws_secure = False,
      ws_host = js ''localhost:5173'', ws_state = WsDisconnected, ws_last = JNull, ws_socks = [],
      ws_ref = None, ws_attempts = 0, ws_timer_ref = None, ws_timers = [], ws_next_timer = 1\<rparr>"

lemma new_portal_fresh: "fresh new_portal"
  by (simp add: fresh_def new_portal_def)

lemma new_portal_url:
  "portal_ws_url False (js ''localhost:5173'') (jlit ''t1'') = Some (js ''ws://localhost:5173/ws/calls?token=t1'')"
  by code_simp

lemma new_portal_connects:
  "snd (portal_connect new_portal) =
     new_portal\<lparr>ws_state := WsConnecting,
       ws_socks := [(js ''ws://localhost:5173/ws/calls?token=t1'', SoConnecting)], ws_ref := Some 0\<rparr>"
  by (simp add: portal_connect_def new_portal_def new_portal_url lift_uri_def set_status_def getToken_def
      get_item_def open_socket_def bind_def effect_def return_def)

theorem portal_ws_one_connection_witness:
  "0 \<in> live_socks (snd (portal_connect new_portal)) \<and> ws_ref (snd (portal_connect new_portal)) = Some 0 \<and>
   ws_timers (snd (portal_connect new_portal)) = []"
proof -
  let ?s = "snd (portal_connect new_portal)"
  have l: "0 \<in> live_socks ?s"
    by (simp add: new_portal_connects live_socks_def sock_state_of_def)
  have t: "card (live_socks ?s) + length (ws_timers ?s) \<le> 1" "\<forall>i \<in> live_socks ?s. ws_ref ?s = Some i"
    using portal_ws_one_connection [where cb = None, OF new_portal_fresh ws_run.start] by simp_all
  have "ws_timers ?s = []" unfolding new_portal_connects by (simp add: new_portal_def)
  with l t show ?thesis by blast
qed

theorem portal_ws_ends_witness:
  "\<exists>s'. ws_step portal_connect (portal_on_message None) (Opened 0) (snd (portal_connect new_portal)) s' \<and>
     ws_timers (cleanup s') = [] \<and> length (ws_socks (cleanup s')) = 1"
proof -
  let ?s' = "on_open (set_sock 0 SoOpen (snd (portal_connect new_portal)))"
  have o: "ws_step portal_connect (portal_on_message None) (Opened 0) (snd (portal_connect new_portal)) ?s'"
    by (rule ws_step.opened) (simp add: new_portal_connects sock_state_of_def)
  have r: "ws_run portal_connect (portal_on_message None) (snd (portal_connect new_portal)) ([] @ [Opened 0]) ?s'"
    by (rule ws_run.more [OF ws_run.start o])
  have n: "sock_state_of i ?s' \<noteq> SoConnecting" for i
    by (simp add: new_portal_connects sock_state_of_def on_open_def set_sock_def)
  have l: "length (ws_socks ?s') = 1"
    by (simp add: new_portal_connects on_open_def)
  show ?thesis
    using portal_ws_ends [OF new_portal_fresh r _ n ws_run.start] o l by auto
qed

end
