(* ===== verification/Theme.thy ===== *)
theory Theme
  imports View
begin

text \<open>
  \<open>app/providers.tsx\<close> of both applications, which differ in their storage key only, and the theme
  button of the layouts. A render computes the resolved theme; an effect of the render, and a listener
  on the system preference, set the class of the root element. The listener does not render again.
\<close>

record theme_ui = world +
  th_theme :: jstr
  th_rendered :: jstr
  th_dark :: bool
  th_classes :: "jstr list"

definition admin_theme_key :: jstr where
  "admin_theme_key = js ''bos3000-theme''"

definition portal_theme_key :: jstr where
  "portal_theme_key = js ''bos3000-portal-theme''"

definition system_theme :: "'s theme_ui_scheme \<Rightarrow> jstr" where
  "system_theme s = (if th_dark s then js ''dark'' else js ''light'')"

definition stored_theme :: "jstr \<Rightarrow> 's theme_ui_scheme \<Rightarrow> jstr" where
  "stored_theme k s = to_str (js_coalesce (get_item k s) (jlit ''system''))"

definition resolved_theme :: "'s theme_ui_scheme \<Rightarrow> jstr" where
  "resolved_theme s = (if th_theme s = js ''system'' then system_theme s else th_theme s)"

text \<open>\<open>root.classList.remove('light', 'dark')\<close> and \<open>root.classList.add(t)\<close>\<close>

definition set_class :: "jstr \<Rightarrow> 's theme_ui_scheme \<Rightarrow> 's theme_ui_scheme" where
  "set_class t s =
     (let cs = filter (\<lambda>c. c \<noteq> js ''light'' \<and> c \<noteq> js ''dark'') (th_classes s)
      in s\<lparr>th_classes := (if t \<in> set cs then cs else cs @ [t])\<rparr>)"

text \<open>A render: the effect runs where the resolved theme changed.\<close>

definition render_theme :: "'s theme_ui_scheme \<Rightarrow> 's theme_ui_scheme" where
  "render_theme s =
     (let t = resolved_theme s in if t = th_rendered s then s else set_class t (s\<lparr>th_rendered := t\<rparr>))"

definition mount_theme :: "jstr \<Rightarrow> 's theme_ui_scheme \<Rightarrow> 's theme_ui_scheme" where
  "mount_theme k s0 =
     (let s = s0\<lparr>th_theme := stored_theme k s0\<rparr>; t = resolved_theme s in set_class t (s\<lparr>th_rendered := t\<rparr>))"

definition handleSetTheme :: "jstr \<Rightarrow> jstr \<Rightarrow> 's theme_ui_scheme \<Rightarrow> 's theme_ui_scheme" where
  "handleSetTheme k newTheme s = render_theme (set_item k (JStr newTheme) (s\<lparr>th_theme := newTheme\<rparr>))"

text \<open>The button of the layouts uses the theme of the last render.\<close>

definition toggleTheme :: "jstr \<Rightarrow> 's theme_ui_scheme \<Rightarrow> 's theme_ui_scheme" where
  "toggleTheme k s =
     handleSetTheme k (if th_rendered s = js ''dark'' then js ''light'' else js ''dark'') s"

text \<open>The system preference changes; the listener is there while the theme is \<open>system\<close>.\<close>

definition system_changes :: "'s theme_ui_scheme \<Rightarrow> 's theme_ui_scheme" where
  "system_changes s0 =
     (let s = s0\<lparr>th_dark := \<not> th_dark s0\<rparr>
      in if th_theme s = js ''system'' then set_class (system_theme s) s else s)"

section \<open>Properties\<close>

lemma theme_sel [simp]:
  "th_theme (set_class t s) = th_theme s" "th_rendered (set_class t s) = th_rendered s"
  "th_dark (set_class t s) = th_dark s" "w_local (set_class t s) = w_local s"
  "th_theme (set_item k v s) = th_theme s" "th_rendered (set_item k v s) = th_rendered s"
  "th_dark (set_item k v s) = th_dark s" "th_classes (set_item k v s) = th_classes s"
  by (simp_all add: set_class_def set_item_def Let_def)

lemma set_item_local [simp]: "w_local (set_item k v s) = (w_local s)(k \<mapsto> to_str v)"
  by (simp add: set_item_def)

definition shown_class :: "'s theme_ui_scheme \<Rightarrow> jstr list" where
  "shown_class s = filter (\<lambda>c. c = js ''light'' \<or> c = js ''dark'') (th_classes s)"

lemma shown_class_set [simp]:
  "t = js ''light'' \<or> t = js ''dark'' \<Longrightarrow> shown_class (set_class t s) = [t]"
  by (auto simp: shown_class_def set_class_def Let_def filter_empty_conv)

text \<open>The root element carries exactly the class of the theme shown.\<close>

definition theme_inv :: "'s theme_ui_scheme \<Rightarrow> bool" where
  "theme_inv s \<longleftrightarrow> th_rendered s \<in> {js ''light'', js ''dark''} \<and> shown_class s = [th_rendered s]"

definition valid_theme :: "jstr \<Rightarrow> bool" where
  "valid_theme t \<longleftrightarrow> t \<in> {js ''light'', js ''dark'', js ''system''}"

lemma resolved_valid: "valid_theme (th_theme s) \<Longrightarrow> resolved_theme s = js ''light'' \<or> resolved_theme s = js ''dark''"
  by (auto simp: valid_theme_def resolved_theme_def system_theme_def)

lemma render_inv: "theme_inv s \<Longrightarrow> valid_theme (th_theme s) \<Longrightarrow> theme_inv (render_theme s)"
  using resolved_valid [of s] by (auto simp: render_theme_def Let_def theme_inv_def)

lemma mount_inv: "valid_theme (stored_theme k s) \<Longrightarrow> theme_inv (mount_theme k s)"
  using resolved_valid [of "s\<lparr>th_theme := stored_theme k s\<rparr>"]
  by (auto simp: mount_theme_def Let_def theme_inv_def)

lemma set_theme_inv: "theme_inv s \<Longrightarrow> valid_theme t \<Longrightarrow> theme_inv (handleSetTheme k t s)"
  unfolding handleSetTheme_def by (intro render_inv) (auto simp: theme_inv_def shown_class_def)

text \<open>
  C23: the theme button does what it shows and is remembered: from any consistent page, one click
  switches between the dark and the light class, and a page loaded later from the same storage
  comes up with the class that was chosen, whatever the system prefers.
\<close>

theorem toggle_theme_persists:
  assumes "theme_inv s" and "valid_theme (th_theme s)"
  shows "shown_class (toggleTheme k s) = [if shown_class s = [js ''dark''] then js ''light'' else js ''dark''] \<and>
    theme_inv (toggleTheme k s) \<and>
    shown_class (mount_theme k (t\<lparr>w_local := w_local (toggleTheme k s)\<rparr>)) = shown_class (toggleTheme k s)"
proof -
  let ?n = "if th_rendered s = js ''dark'' then js ''light'' else js ''dark''"
  have v: "valid_theme ?n" by (simp add: valid_theme_def)
  have i: "theme_inv (toggleTheme k s)"
    unfolding toggleTheme_def by (rule set_theme_inv [OF assms(1) v])
  have r: "th_rendered (toggleTheme k s) = ?n"
    by (simp add: toggleTheme_def handleSetTheme_def render_theme_def resolved_theme_def Let_def)
  have l: "w_local (toggleTheme k s) k = Some ?n"
    by (simp add: toggleTheme_def handleSetTheme_def render_theme_def Let_def)
  have c: "shown_class (toggleTheme k s) = [?n]"
    using i r by (simp add: theme_inv_def)
  have st: "stored_theme k (t\<lparr>w_local := w_local (toggleTheme k s)\<rparr>) = ?n"
    using l by (simp add: stored_theme_def get_item_def js_coalesce_def)
  have "shown_class (mount_theme k (t\<lparr>w_local := w_local (toggleTheme k s)\<rparr>)) = [?n]"
    unfolding mount_theme_def st Let_def by (auto simp: resolved_theme_def)
  with c i assms(1) show ?thesis by (auto simp: theme_inv_def)
qed

definition light_page :: theme_ui where
  "light_page =
     \<lparr>w_net = (\<lambda>_ _. Unreachable JNull), w_local = Map.empty, w_now = 0, w_random = (\<lambda>_. 0), w_draws = 0,
      w_log = [], th_theme = js ''system'', th_rendered = js ''light'', th_dark = False,
      th_classes = [js ''light'']\<rparr>"

theorem toggle_theme_persists_witness:
  "shown_class (toggleTheme admin_theme_key light_page) = [js ''dark'']"
proof -
  have "theme_inv light_page" "valid_theme (th_theme light_page)"
    by (simp_all add: theme_inv_def light_page_def shown_class_def valid_theme_def)
  from toggle_theme_persists [OF this, of admin_theme_key light_page] show ?thesis
    by (simp add: light_page_def shown_class_def)
qed

text \<open>
  Following a change of the system preference leaves the button behind: under the system theme the
  class follows the preference but the button still acts on the theme of the last render, so the next
  click asks for the theme that is already shown and changes nothing on the page.
\<close>

lemma toggle_after_system_change:
  assumes "theme_inv s" and "th_theme s = js ''system''" and "th_rendered s = system_theme s"
  shows "shown_class (system_changes s) = [system_theme (system_changes s)] \<and>
    shown_class (toggleTheme k (system_changes s)) = shown_class (system_changes s)"
proof -
  have d: "th_dark (system_changes s) = (\<not> th_dark s)" "th_rendered (system_changes s) = th_rendered s"
    "th_theme (system_changes s) = js ''system''"
    using assms(2) by (simp_all add: system_changes_def Let_def)
  have c: "shown_class (system_changes s) = [system_theme (system_changes s)]"
    using assms(2) by (simp add: system_changes_def Let_def system_theme_def)
  let ?n = "if th_rendered s = js ''dark'' then js ''light'' else js ''dark''"
  have "shown_class (toggleTheme k (system_changes s)) = [?n]"
    using d assms(3) unfolding toggleTheme_def handleSetTheme_def render_theme_def
    by (auto simp: resolved_theme_def Let_def system_theme_def)
  with c d assms(3) show ?thesis by (auto simp: system_theme_def)
qed

section \<open>The root providers\<close>

definition root_providers :: "view list \<Rightarrow> view" where
  "root_providers children =
     El ''QueryClientProvider'' []
       [El ''ThemeProvider'' []
         [El ''TooltipProvider'' []
           (children @ [El ''Toaster'' [flag ''richColors'' True, (''position'', js ''top-right'')] []])]]"

lemma root_providers_texts: "texts (root_providers vs) = concat (map texts vs)"
  by (simp add: root_providers_def)

text \<open>\<open>App\<close>: the routes inside the providers.\<close>

definition admin_app :: "view \<Rightarrow> view" where
  "admin_app router = root_providers [router]"

end
