(* ===== verification/Error_Text.thy ===== *)
theory Error_Text
  imports Query_Client
begin

text \<open>
  \<open>lib/api/error.ts\<close> of both applications: the tables of texts by error code, \<open>getErrorMessage\<close> and
  \<open>toastError\<close>. The tables are object literals, so a code that is the name of a property every
  object has is found through the prototype.
\<close>

section \<open>The functions\<close>

definition ApiError :: shape where
  "ApiError = ShObj [req ''code'' ShStr, req ''message'' ShStr, opt ''details'' ShAny]"

definition admin_error_fallback :: jstr where
  "admin_error_fallback = [0x64CD, 0x4F5C, 0x5931, 0x8D25, 0xFF0C, 0x8BF7, 0x7A0D, 0x540E, 0x91CD, 0x8BD5]"

text \<open>The two functions differ in their tables only.\<close>

definition error_message :: "(jstr \<times> jsval) list \<Rightarrow> jsval \<Rightarrow> jsval" where
  "error_message table err =
     (if truthy err \<and> has_own (js ''code'') err then
        js_coalesce (table_get table (to_str (field (js ''code'') err)))
          (js_coalesce (table_get table (to_str (field (js ''message'') err)))
             (js_coalesce (field (js ''message'') err) (JStr admin_error_fallback)))
      else case err of
          JError m \<Rightarrow> JStr m
        | _ \<Rightarrow> JStr admin_error_fallback)"

definition admin_error_messages :: "(jstr \<times> jsval) list" where
  "admin_error_messages =
     [(js ''INSUFFICIENT_BALANCE'',
        JStr ([0x4F59, 0x989D, 0x4E0D, 0x8DB3, 0xFF0C, 0x8BF7, 0x5148, 0x5145, 0x503C])),
      (js ''BLACKLISTED_NUMBER'',
        JStr ([0x8BE5, 0x53F7, 0x7801, 0x5DF2, 0x88AB, 0x52A0, 0x5165, 0x9ED1, 0x540D, 0x5355])),
      (js ''RATE_LIMIT_EXCEEDED'',
        JStr ([0x5DF2, 0x8FBE, 0x5230, 0x4ECA, 0x65E5, 0x547C, 0x53EB, 0x9650, 0x989D])),
      (js ''CONCURRENCY_LIMIT_EXCEEDED'',
        JStr ([0x5E76, 0x53D1, 0x6570, 0x5DF2, 0x8FBE, 0x4E0A, 0x9650])),
      (js ''INVALID_CREDENTIALS'',
        JStr ([0x7528, 0x6237, 0x540D, 0x6216, 0x5BC6, 0x7801, 0x9519, 0x8BEF])),
      (js ''USER_FROZEN'',
        JStr ([0x8BE5, 0x8D26, 0x6237, 0x5DF2, 0x88AB, 0x51BB, 0x7ED3])),
      (js ''USER_NOT_FOUND'',
        JStr ([0x7528, 0x6237, 0x4E0D, 0x5B58, 0x5728])),
      (js ''GATEWAY_NOT_FOUND'',
        JStr ([0x7F51, 0x5173, 0x4E0D, 0x5B58, 0x5728])),
      (js ''GATEWAY_DOWN'',
        JStr ([0x7F51, 0x5173, 0x79BB, 0x7EBF, 0xFF0C, 0x65E0, 0x6CD5, 0x64CD, 0x4F5C])),
      (js ''DID_NOT_AVAILABLE'',
        JStr ([0x8BE5] @ js '' DID '' @ [0x53F7, 0x7801, 0x4E0D, 0x53EF, 0x7528])),
      (js ''DID_ALREADY_ASSIGNED'',
        JStr ([0x8BE5] @ js '' DID '' @ [0x53F7, 0x7801, 0x5DF2, 0x5206, 0x914D])),
      (js ''DUPLICATE_ENTRY'',
        JStr ([0x8BB0, 0x5F55, 0x5DF2, 0x5B58, 0x5728])),
      (js ''PERMISSION_DENIED'',
        JStr ([0x6743, 0x9650, 0x4E0D, 0x8DB3])),
      (js ''INVALID_ARGUMENT'',
        JStr ([0x53C2, 0x6570, 0x65E0, 0x6548])),
      (js ''NOT_FOUND'',
        JStr ([0x8BB0, 0x5F55, 0x4E0D, 0x5B58, 0x5728])),
      (js ''INTERNAL'',
        JStr ([0x7CFB, 0x7EDF, 0x5185, 0x90E8, 0x9519, 0x8BEF, 0xFF0C, 0x8BF7, 0x7A0D, 0x540E, 0x91CD, 0x8BD5])),
      (js ''UNAUTHENTICATED'',
        JStr ([0x767B, 0x5F55, 0x5DF2, 0x8FC7, 0x671F, 0xFF0C, 0x8BF7, 0x91CD, 0x65B0, 0x767B, 0x5F55])),
      (js ''UNAVAILABLE'',
        JStr ([0x670D, 0x52A1, 0x6682, 0x4E0D, 0x53EF, 0x7528, 0xFF0C, 0x8BF7, 0x7A0D, 0x540E, 0x91CD, 0x8BD5]))]"

definition portal_error_messages :: "(jstr \<times> jsval) list" where
  "portal_error_messages =
     [(js ''INSUFFICIENT_BALANCE'',
        JStr ([0x4F59, 0x989D, 0x4E0D, 0x8DB3, 0xFF0C, 0x8BF7, 0x5148, 0x5145, 0x503C])),
      (js ''BLACKLISTED_NUMBER'',
        JStr ([0x8BE5, 0x53F7, 0x7801, 0x5DF2, 0x88AB, 0x52A0, 0x5165, 0x9ED1, 0x540D, 0x5355])),
      (js ''RATE_LIMIT_EXCEEDED'',
        JStr ([0x5DF2, 0x8FBE, 0x5230, 0x4ECA, 0x65E5, 0x547C, 0x53EB, 0x9650, 0x989D])),
      (js ''CONCURRENCY_LIMIT_EXCEEDED'',
        JStr ([0x5E76, 0x53D1, 0x6570, 0x5DF2, 0x8FBE, 0x4E0A, 0x9650])),
      (js ''INVALID_CREDENTIALS'',
        JStr ([0x7528, 0x6237, 0x540D, 0x6216, 0x5BC6, 0x7801, 0x9519, 0x8BEF])),
      (js ''USER_FROZEN'',
        JStr ([0x60A8, 0x7684, 0x8D26, 0x6237, 0x5DF2, 0x88AB, 0x51BB, 0x7ED3, 0xFF0C, 0x8BF7, 0x8054, 0x7CFB, 0x7BA1, 0x7406, 0x5458])),
      (js ''INVALID_ARGUMENT'',
        JStr ([0x53C2, 0x6570, 0x65E0, 0x6548])),
      (js ''NOT_FOUND'',
        JStr ([0x8BB0, 0x5F55, 0x4E0D, 0x5B58, 0x5728])),
      (js ''INTERNAL'',
        JStr ([0x7CFB, 0x7EDF, 0x5185, 0x90E8, 0x9519, 0x8BEF, 0xFF0C, 0x8BF7, 0x7A0D, 0x540E, 0x91CD, 0x8BD5])),
      (js ''UNAUTHENTICATED'',
        JStr ([0x767B, 0x5F55, 0x5DF2, 0x8FC7, 0x671F, 0xFF0C, 0x8BF7, 0x91CD, 0x65B0, 0x767B, 0x5F55])),
      (js ''UNAVAILABLE'',
        JStr ([0x670D, 0x52A1, 0x6682, 0x4E0D, 0x53EF, 0x7528, 0xFF0C, 0x8BF7, 0x7A0D, 0x540E, 0x91CD, 0x8BD5])),
      (js ''PERMISSION_DENIED'',
        JStr ([0x6743, 0x9650, 0x4E0D, 0x8DB3]))]"

definition admin_getErrorMessage :: "jsval \<Rightarrow> jsval" where
  "admin_getErrorMessage err = error_message admin_error_messages err"

definition portal_getErrorMessage :: "jsval \<Rightarrow> jsval" where
  "portal_getErrorMessage err = error_message portal_error_messages err"

definition admin_toastError :: "jsval \<Rightarrow> ('s, unit) app" where
  "admin_toastError err = emit (ToastError (to_str (admin_getErrorMessage err)))"

definition portal_toastError :: "jsval \<Rightarrow> ('s, unit) app" where
  "portal_toastError err = emit (ToastError (to_str (portal_getErrorMessage err)))"

section \<open>What the user reads\<close>

lemma map_of_texts: "list_all (\<lambda>(k, v). conforms ShStr v) t \<Longrightarrow> map_of t k = Some v \<Longrightarrow> \<exists>s. v = JStr s"
  by (induction t) (auto split: if_splits jsval.splits)

lemma table_texts:
  assumes "list_all (\<lambda>(k, v). conforms ShStr v) t" and "k \<notin> set (map js proto_names)"
  shows "(\<exists>s. table_get t k = JStr s \<and> map_of t k = Some (JStr s)) \<or> table_get t k = JUndef \<and> map_of t k = None"
  using assms map_of_texts [OF assms(1), of k]
  by (cases "map_of t k") (auto simp: table_get_def proto_get_def proto_names_def)

text \<open>The texts of a table by code, by message, and the message itself, in this order.\<close>

definition shown_error :: "(jstr \<times> jsval) list \<Rightarrow> jstr \<Rightarrow> jstr \<Rightarrow> jstr" where
  "shown_error t code message =
     (case map_of t code of
        Some (JStr s) \<Rightarrow> s
      | _ \<Rightarrow> (case map_of t message of Some (JStr s) \<Rightarrow> s | _ \<Rightarrow> message))"

lemma error_message_api:
  assumes "list_all (\<lambda>(k, v). conforms ShStr v) t"
    and "map_of fs (js ''code'') = Some (JStr code)" and "map_of fs (js ''message'') = Some (JStr message)"
    and "code \<notin> set (map js proto_names)" and "message \<notin> set (map js proto_names)"
  shows "error_message t (JObj fs) = JStr (shown_error t code message)"
proof -
  have "has_own (js ''code'') (JObj fs)"
    using assms(2) by (force simp: has_own_def dest: map_of_SomeD)
  then show ?thesis
    using assms table_texts [OF assms(1), of code] table_texts [OF assms(1), of message]
    by (auto simp: error_message_def shown_error_def js_coalesce_def)
qed

lemma admin_table_texts: "list_all (\<lambda>(k, v). conforms ShStr v) admin_error_messages"
  by (simp add: admin_error_messages_def)

lemma portal_table_texts: "list_all (\<lambda>(k, v). conforms ShStr v) portal_error_messages"
  by (simp add: portal_error_messages_def)

lemma tables_without_names:
  "list_all (\<lambda>k. js k \<notin> set (map fst admin_error_messages)) proto_names"
  "list_all (\<lambda>k. js k \<notin> set (map fst portal_error_messages)) proto_names"
  by code_simp+

lemma tables_own_names:
  assumes "k \<in> set (map js proto_names)"
  shows "table_get admin_error_messages k = proto_get k" "table_get portal_error_messages k = proto_get k"
proof -
  have "map_of t k = None" if "list_all (\<lambda>k. js k \<notin> set (map fst t)) proto_names" for t :: "(jstr \<times> jsval) list"
    using that assms by (auto simp: list_all_iff map_of_eq_None_iff)
  then show "table_get admin_error_messages k = proto_get k" "table_get portal_error_messages k = proto_get k"
    using tables_without_names by (simp_all add: table_get_def)
qed



end
