(* ===== verification/Session.thy ===== *)
theory Session
  imports View Error_Text Admin_Hooks Portal_Hooks Call_Ws
begin

text \<open>
  Signing in and the frame around the pages, for both applications: \<open>features/auth/login.tsx\<close>,
  \<open>app/layout.tsx\<close> (menu, guard, sign-out), \<open>app/router.tsx\<close>, \<open>app/nav-config.ts\<close> and the banner of
  the live connection. A page handler runs on the world extended with the states of its component.
\<close>

section \<open>The sign-in page\<close>

record login_page = world +
  lp_email :: jstr
  lp_password :: jstr
  lp_error :: jsval

type_synonym ('s, 'a) login_prog = "('s login_page_scheme, jsval, 'a) prog"

definition set_error :: "jsval \<Rightarrow> ('s, unit) login_prog" where
  "set_error e = effect (\<lambda>s. s\<lparr>lp_error := e\<rparr>)"

definition login_submit ::
    "'s login_page_ext mutation \<Rightarrow> (jsval \<Rightarrow> jsval) \<Rightarrow> ('s, unit) login_prog" where
  "login_submit login message = (\<lambda>s.
     bind (set_error (JStr [])) (\<lambda>_.
       try_catch
         (bind (mutate_async login (obj [(''email'', JStr (lp_email s)), (''password'', JStr (lp_password s))])) (\<lambda>_.
          emit (Navigated (js ''/'') True)))
         (\<lambda>err. set_error (message err))) s)"

definition admin_handleSubmit :: "('s, unit) login_prog" where
  "admin_handleSubmit = login_submit admin_useLogin admin_getErrorMessage"

definition portal_handleSubmit :: "('s, unit) login_prog" where
  "portal_handleSubmit = login_submit portal_useLogin portal_getErrorMessage"

definition login_view :: "jstr \<Rightarrow> string \<Rightarrow> bool \<Rightarrow> 's login_page_scheme \<Rightarrow> view" where
  "login_view subtitle placeholder pending s =
     El ''div'' [] [El ''Card'' []
       [El ''CardHeader'' [] [El ''CardTitle'' [] [lit ''BOS3000''], El ''p'' [] [Txt subtitle]],
        El ''CardContent'' [] [El ''form'' []
          [El ''div'' []
             [El ''Label'' [(''htmlFor'', js ''email'')] [Txt [0x90AE, 0x7BB1]],
              El ''Input'' [(''id'', js ''email''), (''type'', js ''email''), (''placeholder'', js placeholder),
                (''value'', lp_email s), flag ''required'' True] []],
           El ''div'' []
             [El ''Label'' [(''htmlFor'', js ''password'')] [Txt [0x5BC6, 0x7801]],
              El ''Input'' [(''id'', js ''password''), (''type'', js ''password''), (''value'', lp_password s),
                flag ''required'' True] []],
           only_if (truthy (lp_error s)) (El ''p'' [] [show_val (lp_error s)]),
           El ''Button'' [(''type'', js ''submit''), flag ''disabled'' pending]
             [if pending then Txt (([0x767B, 0x5F55, 0x4E2D] @ js ''...'')) else Txt [0x767B, 0x5F55]]]]]]"

definition admin_login_view :: "bool \<Rightarrow> 's login_page_scheme \<Rightarrow> view" where
  "admin_login_view pending s = login_view [0x7BA1, 0x7406, 0x540E, 0x53F0, 0x767B, 0x5F55] ''admin@example.com'' pending s"

definition portal_login_view :: "bool \<Rightarrow> 's login_page_scheme \<Rightarrow> view" where
  "portal_login_view pending s = login_view [0x5BA2, 0x6237, 0x95E8, 0x6237, 0x767B, 0x5F55] ''user@example.com'' pending s"

section \<open>The guard\<close>

text \<open>
  What the query library reports of a query that is not retried: it is loading until its function
  settles, and in error where the function rejected or resolved to \<open>undefined\<close>, which the library
  does not take for data.
\<close>

definition settled_error :: "jsval + jsval \<Rightarrow> bool" where
  "settled_error r = (case r of Inl e \<Rightarrow> True | Inr v \<Rightarrow> v = JUndef)"

definition settled_data :: "jsval + jsval \<Rightarrow> jsval" where
  "settled_data r = (case r of Inl e \<Rightarrow> JUndef | Inr v \<Rightarrow> v)"

definition guard_effect :: "bool \<Rightarrow> ('s, unit) app" where
  "guard_effect isError = (if isError then emit (Navigated (js ''/login'') True) else return ())"

definition skeleton :: view where
  "skeleton = El ''SkeletonPage'' [] []"

definition auth_guard :: "bool \<Rightarrow> bool \<Rightarrow> view \<Rightarrow> view" where
  "auth_guard isLoading isError children =
     (if isLoading then skeleton else if isError then nothing else Frag [children])"

section \<open>The menus and the routes\<close>

definition admin_menu :: "(jstr \<times> (jstr \<times> string \<times> string) list) list" where
  "admin_menu =
     [([0x76D1, 0x63A7],
       [([0x8FD0, 0x8425, 0x6982, 0x89C8], ''LayoutDashboard'', ''/''), ([0x8BDD, 0x5355, 0x7BA1, 0x7406], ''PhoneCall'', ''/cdr''), ([0x635F, 0x8017, 0x5206, 0x6790], ''TrendingDown'', ''/wastage'')]),
      ([0x7BA1, 0x7406],
       [([0x5BA2, 0x6237, 0x7BA1, 0x7406], ''Users'', ''/customers''), ([0x7F51, 0x5173, 0x7BA1, 0x7406], ''Network'', ''/gateways''), ((js ''DID '' @ [0x7BA1, 0x7406]), ''Hash'', ''/did'')]),
      ([0x8D22, 0x52A1], [([0x8D22, 0x52A1, 0x4E2D, 0x5FC3], ''Wallet'', ''/finance'')]),
      ([0x7CFB, 0x7EDF],
       [([0x5408, 0x89C4, 0x5BA1, 0x8BA1], ''Shield'', ''/compliance''), ([0x8FD0, 0x7EF4, 0x76D1, 0x63A7], ''Activity'', ''/ops''), ([0x7CFB, 0x7EDF, 0x8BBE, 0x7F6E], ''Settings'', ''/settings'')])]"

definition portal_menu :: "(jstr \<times> (jstr \<times> string \<times> string) list) list" where
  "portal_menu =
     [([0x6982, 0x89C8], [([0x4EEA, 0x8868, 0x76D8], ''LayoutDashboard'', ''/'')]),
      ([0x4E1A, 0x52A1],
       [([0x56DE, 0x62E8, 0x64CD, 0x4F5C], ''PhoneCall'', ''/callback''), ([0x8BDD, 0x5355, 0x67E5, 0x8BE2], ''FileText'', ''/cdr''), ([0x635F, 0x8017, 0x5206, 0x6790], ''TrendingDown'', ''/wastage'')]),
      ([0x8D26, 0x52A1], [([0x8D22, 0x52A1, 0x4E2D, 0x5FC3], ''Wallet'', ''/finance'')]),
      ([0x5F00, 0x53D1], [((js ''API'' @ [0x96C6, 0x6210]), ''Code2'', ''/api-integration'')]),
      ([0x8BBE, 0x7F6E], [([0x8D26, 0x6237, 0x8BBE, 0x7F6E], ''Settings'', ''/settings'')])]"

text \<open>The children of the layout route: a path, empty for the index, and the page it loads.\<close>

definition admin_routes :: "(string \<times> string) list" where
  "admin_routes =
     [('''', ''Dashboard''), (''customers'', ''Customers''), (''customers/:id'', ''Customers''),
      (''gateways'', ''Gateways''), (''cdr'', ''CDR''), (''wastage'', ''Wastage''), (''finance'', ''Finance''),
      (''did'', ''DID''), (''compliance'', ''Compliance''), (''ops'', ''Ops''), (''settings'', ''Settings'')]"

definition portal_routes :: "(string \<times> string) list" where
  "portal_routes =
     [('''', ''Dashboard''), (''callback'', ''Callback''), (''cdr'', ''CDR''), (''wastage'', ''Wastage''),
      (''finance'', ''Finance''), (''api-integration'', ''ApiIntegration''), (''settings'', ''PortalSettings'')]"

section \<open>The layouts\<close>

definition app_version :: jstr where
  "app_version = js ''0.8.0''"

definition menu_item :: "string \<Rightarrow> jstr \<times> string \<times> string \<Rightarrow> view" where
  "menu_item pathname item =
     (case item of (label, icon, path) \<Rightarrow>
        El ''SidebarMenuItem'' [] [El ''SidebarMenuButton''
          [flag ''isActive'' (pathname = path), (''tooltip'', label), (''navigate'', js path)]
          [El icon [] [], El ''span'' [] [Txt label]]])"

definition menu_view :: "string \<Rightarrow> (jstr \<times> (jstr \<times> string \<times> string) list) list \<Rightarrow> view list" where
  "menu_view pathname groups =
     map (\<lambda>(label, items). El ''SidebarGroup'' []
       [El ''SidebarGroupLabel'' [] [Txt label],
        El ''SidebarGroupContent'' [] [El ''SidebarMenu'' [] (map (menu_item pathname) items)]]) groups"

definition ws_banner :: "ws_status \<Rightarrow> view" where
  "ws_banner status =
     (if status = WsConnected then nothing
      else El ''div'' []
        [only_if (status = WsConnecting) (Frag [El ''Loader2'' [] [], El ''span'' [] [Txt (([0x6B63, 0x5728, 0x8FDE, 0x63A5, 0x5B9E, 0x65F6, 0x901A, 0x8BDD, 0x72B6, 0x6001] @ js ''...''))]]),
         only_if (status = WsDisconnected) (Frag [El ''WifiOff'' [] [], El ''span'' [] [Txt (([0x5B9E, 0x65F6, 0x8FDE, 0x63A5, 0x5DF2, 0x65AD, 0x5F00, 0xFF0C, 0x6B63, 0x5728, 0x91CD, 0x8FDE] @ js ''...''))]]),
         only_if (status = WsError) (Frag [El ''Wifi'' [] [], El ''span'' [] [Txt (([0x5B9E, 0x65F6, 0x8FDE, 0x63A5, 0x5F02, 0x5E38, 0xFF0C, 0x6B63, 0x5728, 0x91CD, 0x8FDE] @ js ''...''))]])])"

text \<open>
  The initial of the user name in capitals; the case mapping of Unicode is the argument \<open>upper\<close>.
\<close>

definition user_initial :: "(jstr \<Rightarrow> jstr) \<Rightarrow> string \<Rightarrow> jsval \<Rightarrow> view" where
  "user_initial upper dflt user =
     (case opt_get ''username'' user of
        JStr (u # us) \<Rightarrow> Txt (upper [u])
      | _ \<Rightarrow> lit dflt)"

definition user_name :: "jstr \<Rightarrow> jsval \<Rightarrow> view" where
  "user_name dflt user = show_val (js_coalesce (opt_get ''username'' user) (JStr dflt))"

text \<open>What the two headers have in common.\<close>

definition avatar_view :: "(jstr \<Rightarrow> jstr) \<Rightarrow> string \<Rightarrow> jsval \<Rightarrow> view" where
  "avatar_view upper dflt user = El ''Avatar'' [] [El ''AvatarFallback'' [] [user_initial upper dflt user]]"

definition icon_button :: "(string \<times> jstr) list \<Rightarrow> view \<Rightarrow> view" where
  "icon_button handlers icon = El ''Button'' ([(''variant'', js ''ghost''), (''size'', js ''icon'')] @ handlers) [icon]"

definition header_start :: "string \<Rightarrow> view list" where
  "header_start resolvedTheme =
     [El ''SidebarTrigger'' [] [], El ''Separator'' [(''orientation'', js ''vertical'')] [], El ''div'' [] [],
      El ''span'' [] [lit ''v'', Txt app_version],
      icon_button [(''onClick'', js ''toggleTheme'')]
        (El (if resolvedTheme = ''dark'' then ''Sun'' else ''Moon'') [] [])]"

definition user_menu_trigger :: "(jstr \<Rightarrow> jstr) \<Rightarrow> string \<Rightarrow> jsval \<Rightarrow> view" where
  "user_menu_trigger upper dflt user =
     El ''DropdownMenuTrigger'' [flag ''asChild'' True] [icon_button [] (avatar_view upper dflt user)]"

definition sign_out_item :: view where
  "sign_out_item =
     El ''DropdownMenuItem'' [(''navigate'', js ''/login'')] [El ''LogOut'' [] [], Txt [0x9000, 0x51FA, 0x767B, 0x5F55]]"

text \<open>
  The console's layout imports \<open>components/shared/ws-status-banner\<close>, a file that its sources do not
  have (the portal's layout holds the banner it draws, \<open>ws_banner\<close>): what the component would draw for a
  status is the argument \<open>banner\<close>.
\<close>

definition admin_layout ::
    "(ws_status \<Rightarrow> view) \<Rightarrow> (jstr \<Rightarrow> jstr) \<Rightarrow> string \<Rightarrow> jsval \<Rightarrow> bool \<Rightarrow> bool \<Rightarrow> string \<Rightarrow> ws_status \<Rightarrow> view \<Rightarrow> view" where
  "admin_layout banner upper pathname user isLoading isError resolvedTheme wsStatus outlet =
     auth_guard isLoading isError (El ''SidebarProvider'' []
       [El ''Sidebar'' []
          [El ''SidebarHeader'' [] [El ''span'' [] [lit ''BOS3000'']],
           El ''SidebarContent'' [] (menu_view pathname admin_menu),
           El ''SidebarFooter'' [] [El ''div'' []
             [avatar_view upper ''A'' user, El ''span'' [] [user_name [0x7BA1, 0x7406, 0x5458] user]]]],
        El ''SidebarInset'' []
          [El ''header'' [] (header_start resolvedTheme @
             [icon_button [] (El ''Bell'' [] []),
              El ''DropdownMenu'' []
                [user_menu_trigger upper ''A'' user,
                 El ''DropdownMenuContent'' [(''align'', js ''end'')] [sign_out_item]]]),
           banner wsStatus, El ''main'' [] [outlet]]])"

definition portal_layout ::
    "(jstr \<Rightarrow> jstr) \<Rightarrow> string \<Rightarrow> jsval \<Rightarrow> bool \<Rightarrow> bool \<Rightarrow> string \<Rightarrow> ws_status \<Rightarrow> view \<Rightarrow> view" where
  "portal_layout upper pathname user isLoading isError resolvedTheme wsStatus outlet =
     auth_guard isLoading isError (El ''SidebarProvider'' []
       [El ''Sidebar'' []
          [El ''SidebarHeader'' [] [El ''span'' [] [lit ''BOS3000''], El ''span'' [] [Txt [0x5BA2, 0x6237, 0x95E8, 0x6237]]],
           El ''SidebarContent'' [] (menu_view pathname portal_menu),
           El ''SidebarFooter'' [] [El ''div'' []
             [avatar_view upper ''U'' user, El ''span'' [] [user_name [0x7528, 0x6237] user]]]],
        El ''SidebarInset'' []
          [ws_banner wsStatus,
           El ''header'' [] (header_start resolvedTheme @
             [El ''DropdownMenu'' []
                [user_menu_trigger upper ''U'' user,
                 El ''DropdownMenuContent'' [(''align'', js ''end'')]
                   [El ''DropdownMenuItem'' [(''navigate'', js ''/settings'')]
                      [El ''Settings'' [] [], Txt [0x8D26, 0x6237, 0x8BBE, 0x7F6E]],
                    sign_out_item]]]),
           El ''main'' [] [outlet]]])"

text \<open>The sign-out item of both menus only navigates.\<close>

definition sign_out :: "('s, unit) app" where
  "sign_out = emit (Navigated (js ''/login'') False)"

section \<open>Properties\<close>

lemma set_error_run: "set_error e s = (Inr (), s\<lparr>lp_error := e\<rparr>)"
  by (simp add: set_error_def effect_def)

text \<open>The page after a submit, by what the sign-in mutation does.\<close>

lemma login_submit_result:
  "login_submit login message s =
     (case mutate_async login (obj [(''email'', JStr (lp_email s)), (''password'', JStr (lp_password s))])
         (s\<lparr>lp_error := JStr []\<rparr>) of
        (Inr r, s') \<Rightarrow> (Inr (), log_event (Navigated (js ''/'') True) s')
      | (Inl e, s') \<Rightarrow> (Inr (), s'\<lparr>lp_error := message e\<rparr>))"
  by (simp add: login_submit_def bind_def set_error_run try_catch_def emit_run split: prod.splits sum.splits)

definition login_request :: "'s login_page_scheme \<Rightarrow> httpreq" where
  "login_request s =
     \<lparr>rq_url = js ''/api/auth/admin/login'', rq_method = js ''POST'',
      rq_headers = [(js ''Content-Type'', js ''application/json'')],
      rq_body = json_stringify (obj [(''email'', JStr (lp_email s)), (''password'', JStr (lp_password s))]),
      rq_credentials = js ''include''\<rparr>"

text \<open>
  C15: submitting the console's sign-in form sends the typed credentials once, whatever the server answers. On a
  success answer with a JSON body the page is left for the console and the session query refreshed. In every other
  case, an unreachable server, a failure status or a body that is not JSON, the page stays, nothing is refreshed and the
  text of the error is shown: of the body of a failure, and of the error that reading it or reaching the server gave.
\<close>

theorem admin_login_outcome:
  "let s' = snd (admin_handleSubmit s); rq = login_request s;
       failed = (\<lambda>e. w_log s' = w_log s @ [Sent rq] \<and> lp_error s' = admin_getErrorMessage e) in
   case w_net s (sent s) rq of
     Unreachable e \<Rightarrow> failed e
   | Reply r \<Rightarrow>
       (case rs_json r of
          Inl e \<Rightarrow> failed e
        | Inr b \<Rightarrow>
            if resp_ok r
            then w_log s' = w_log s @ [Sent rq, Invalidated (key [''auth'']), Navigated (js ''/'') True] \<and>
              lp_error s' = JStr []
            else failed b)"
proof -
  have [simp]: "w_net (s\<lparr>lp_error := x\<rparr>) = w_net s" "sent (s\<lparr>lp_error := x\<rparr>) = sent s"
    "w_log (s\<lparr>lp_error := x\<rparr>) = w_log s" for x
    by (simp_all add: sent_def)
  show ?thesis
    unfolding login_request_def
    by (simp add: admin_handleSubmit_def login_submit_result mutate_async_def admin_useLogin_def
        admin_Login_def bind_def do_fetch_def lift_sum_def throw_def return_def invalidate_all_run Let_def
        log_event_def log_events_def del: invalidate_all.simps json_stringify.simps split: reply.split sum.split)
qed

definition sample_login :: login_page where
  "sample_login =
     \<lparr>w_net = (\<lambda>_ _. Reply \<lparr>rs_status = 401, rs_status_text = js ''Unauthorized'',
        rs_json = Inr (obj [(''code'', jlit ''INVALID_CREDENTIALS''), (''message'', jlit ''no'')])\<rparr>),
      w_local = Map.empty, w_now = 0, w_random = (\<lambda>_. 0), w_draws = 0, w_log = [],
      lp_email = js ''a@b.c'', lp_password = js ''x'', lp_error = JStr []\<rparr>"

theorem admin_login_outcome_witness:
  "lp_error (snd (admin_handleSubmit sample_login)) =
     JStr [0x7528, 0x6237, 0x540D, 0x6216, 0x5BC6, 0x7801, 0x9519, 0x8BEF]"
proof -
  have "w_net sample_login (sent sample_login) (login_request sample_login) =
      Reply \<lparr>rs_status = 401, rs_status_text = js ''Unauthorized'',
        rs_json = Inr (obj [(''code'', jlit ''INVALID_CREDENTIALS''), (''message'', jlit ''no'')])\<rparr>"
    by (simp add: sample_login_def)
  with admin_login_outcome [of sample_login] show ?thesis
    by (simp add: Let_def resp_ok_def admin_getErrorMessage_def error_message_def has_own_def table_get_def
        admin_error_messages_def js_coalesce_def)
qed

text \<open>
  C16: a portal sign-in sends the typed credentials once. Where the server answers with a success and a body that
  can hold a token, the token is stored, the portal's session query refreshed and the portal opened. Where it does not
  (no answer, a failure status, a body that is not JSON, \<open>null\<close> or empty), the text of that error is shown, the
  stored token is the one before, and the browser stays on the page: the request is all that happened.
\<close>

theorem portal_login_outcome:
  "let s' = snd (portal_handleSubmit s);
       rq = portal_build s (js ''/api/auth/client/login'') (with_json ''POST''
              (obj [(''email'', JStr (lp_email s)), (''password'', JStr (lp_password s))]));
       failed = (\<lambda>e. w_log s' = w_log s @ [Sent rq] \<and> getToken s' = getToken s \<and>
                   lp_error s' = portal_getErrorMessage e) in
   case response_result (w_net s (sent s) rq) of
     Inl e \<Rightarrow> failed e
   | Inr body \<Rightarrow>
       (case get ''token'' body of
          Inl e \<Rightarrow> failed e
        | Inr t \<Rightarrow>
            w_log s' = w_log s @ [Sent rq, Invalidated (key [''portal'', ''auth'']), Navigated (js ''/'') True] \<and>
            getToken s' = JStr (to_str t) \<and> lp_error s' = JStr [])"
proof -
  have [simp]: "w_net (w\<lparr>lp_error := x\<rparr>) = w_net w" "sent (w\<lparr>lp_error := x\<rparr>) = sent w"
    "w_log (w\<lparr>lp_error := x\<rparr>) = w_log w" "getToken (w\<lparr>lp_error := x\<rparr>) = getToken w"
    "portal_build (w\<lparr>lp_error := x\<rparr>) p opts = portal_build w p opts"
    for w :: "'a login_page_scheme" and x p opts
    by (simp_all add: sent_def getToken_def get_item_def portal_build_def)
  have [simp]: "lp_error (log_event e w) = lp_error w" "lp_error (log_events es w) = lp_error w"
    "lp_error (set_item k v w) = lp_error w" "w_log (set_item k v w) = w_log w"
    "getToken (set_item token_key v w) = JStr (to_str v)"
    for w :: "'a login_page_scheme" and e es k v
    by (simp_all add: log_event_def log_events_def set_item_def getToken_def get_item_def)
  show ?thesis
    by (simp add: portal_handleSubmit_def login_submit_result mutate_async_def portal_useLogin_def portal_login_def
        portal_http.run with_field_def bind_def lift_sum_def setToken_def effect_def return_def
        invalidate_all_run Let_def del: invalidate_all.simps split: sum.split)
qed


text \<open>
  Signing out of the portal leaves the session usable: the sign-out item only navigates, the token
  stays stored, and the next request of any kind is still authorised by it.
\<close>

lemma portal_sign_out_keeps_token:
  "getToken (snd (sign_out w)) = getToken w \<and>
   authorization_of (last (sent (snd (portal_request p no_options (snd (sign_out w)))))) =
     (if truthy (getToken w) then Some (header_value (js ''Bearer '' @ to_str (getToken w))) else None)"
  by (simp add: sign_out_def emit_run portal_http.run portal_authorization no_options_def)

text \<open>No dead ends: every entry of both menus leads to a route of its application.\<close>

lemma menus_are_routed:
  "set (map (\<lambda>(label, icon, path). tl path) (concat (map snd admin_menu))) \<subseteq> fst ` set admin_routes \<and>
   set (map (\<lambda>(label, icon, path). tl path) (concat (map snd portal_menu))) \<subseteq> fst ` set portal_routes"
  by (simp add: admin_menu_def portal_menu_def admin_routes_def portal_routes_def)

end
