(* ===== verification/Csv_Upload.thy ===== *)
theory Csv_Upload
  imports Shared_Views
begin

text \<open>
  \<open>components/shared/csv-upload.tsx\<close>: choosing a file, validating what the parser makes of it, the
  preview and the import. The parsers (\<open>papaparse\<close>, \<open>xlsx\<close>) run later and are parameters: a step
  delivers the rows they found. A row is an object; its values are strings from a CSV file and may be
  numbers from a spreadsheet.
\<close>

section \<open>State and handlers\<close>

record csv_upload = world +
  cs_data :: "jsval list"
  cs_errors :: "(int \<times> jstr) list"
  cs_file :: jstr
  cs_importing :: bool
  cs_input :: jstr

type_synonym ('s, 'a) csv_prog = "('s csv_upload_scheme, jsval, 'a) prog"

definition keys_of :: "jsval \<Rightarrow> jstr list" where
  "keys_of row = map fst (own_fields row)"

definition validate :: "jstr list \<Rightarrow> jsval list \<Rightarrow> (int \<times> jstr) list" where
  "validate columns rows =
     (case rows of
        [] \<Rightarrow> [(0, [0x6587, 0x4EF6, 0x4E3A, 0x7A7A])]
      | r # rs \<Rightarrow> map (\<lambda>col. (0, ([0x7F3A, 0x5C11, 0x5FC5, 0x9700, 0x5217] @ js '': '') @ col)) (filter (\<lambda>col. col \<notin> set (keys_of r)) columns))"

datatype parser = Spreadsheet | Csv

definition parser_of :: "jstr \<Rightarrow> parser" where
  "parser_of name =
     (if ends_with (js ''.xlsx'') name \<or> ends_with (js ''.xls'') name then Spreadsheet else Csv)"

text \<open>\<open>handleFile\<close>, and the callback of the parser it starts.\<close>

definition choose_file :: "jstr option \<Rightarrow> 's csv_upload_scheme \<Rightarrow> 's csv_upload_scheme" where
  "choose_file file s =
     (case file of None \<Rightarrow> s\<lparr>cs_input := []\<rparr> | Some name \<Rightarrow> s\<lparr>cs_input := name, cs_file := name\<rparr>)"

definition file_parsed :: "jstr list \<Rightarrow> jsval list \<Rightarrow> 's csv_upload_scheme \<Rightarrow> 's csv_upload_scheme" where
  "file_parsed columns rows s = s\<lparr>cs_data := rows, cs_errors := validate columns rows\<rparr>"

definition csv_reset :: "'s csv_upload_scheme \<Rightarrow> 's csv_upload_scheme" where
  "csv_reset s = s\<lparr>cs_data := [], cs_errors := [], cs_file := [], cs_input := []\<rparr>"

definition csv_import :: "(jsval list \<Rightarrow> ('s, unit) csv_prog) \<Rightarrow> ('s, unit) csv_prog" where
  "csv_import onImport = (\<lambda>s.
     bind (effect (\<lambda>s. s\<lparr>cs_importing := True\<rparr>)) (\<lambda>_.
       try_finally (bind (onImport (cs_data s)) (\<lambda>_. effect csv_reset))
         (effect (\<lambda>s. s\<lparr>cs_importing := False\<rparr>))) s)"

definition preview_headers :: "jsval list \<Rightarrow> jstr list" where
  "preview_headers rows = (case rows of [] \<Rightarrow> [] | r # rs \<Rightarrow> keys_of r)"

definition csv_view :: "jstr \<Rightarrow> nat \<Rightarrow> 's csv_upload_scheme \<Rightarrow> view" where
  "csv_view accept maxRows s =
     (let previewData = take maxRows (cs_data s); headers = preview_headers (cs_data s); n = int (length (cs_data s))
      in El ''div'' []
        [El ''Input'' [(''type'', js ''file''), (''accept'', accept)] [],
         only_if (cs_file s \<noteq> []) (El ''Button'' [(''onClick'', js ''reset'')] []),
         only_if (cs_errors s \<noteq> []) (El ''div'' [] (map (\<lambda>e. El ''span'' [] [Txt (snd e)]) (cs_errors s))),
         only_if (cs_data s \<noteq> [] \<and> cs_errors s = [])
           (Frag
             [El ''span'' [] [Txt (([0x89E3, 0x6790, 0x6210, 0x529F, 0xFF0C, 0x5171] @ js '' '')), Txt (show_int n), Txt ((js '' '' @ [0x6761, 0x8BB0, 0x5F55, 0xFF08, 0x9884, 0x89C8, 0x524D] @ js '' '')),
                Txt (show_int (min n (int maxRows))), Txt ((js '' '' @ [0x6761, 0xFF09]))],
              El ''Table'' []
                [El ''TableHeader'' [] [El ''TableRow'' [] (map (\<lambda>h. El ''TableHead'' [] [Txt h]) headers)],
                 El ''TableBody'' [] (map (\<lambda>row. El ''TableRow'' []
                   (map (\<lambda>h. El ''TableCell'' [] [show_val (field h row)]) headers)) previewData)],
              El ''Button'' [(''onClick'', js ''import''), flag ''disabled'' (cs_importing s)]
                [if cs_importing s then Txt (([0x5BFC, 0x5165, 0x4E2D] @ js ''...''))
                 else Txt (([0x786E, 0x8BA4, 0x5BFC, 0x5165] @ js '' '') @ show_int n @ (js '' '' @ [0x6761, 0x8BB0, 0x5F55]))]])])"

section \<open>Facts\<close>

lemma csv_import_result:
  "csv_import onImport s =
     (case onImport (cs_data s) (s\<lparr>cs_importing := True\<rparr>) of
        (Inr u, s') \<Rightarrow> (Inr (), (csv_reset s')\<lparr>cs_importing := False\<rparr>)
      | (Inl e, s') \<Rightarrow> (Inl e, s'\<lparr>cs_importing := False\<rparr>))"
  by (auto simp: csv_import_def bind_def effect_def try_finally_def split: prod.splits sum.splits)

lemma validate_nil_iff:
  "validate columns rows = [] \<longleftrightarrow> (\<exists>r rs. rows = r # rs \<and> set columns \<subseteq> set (keys_of r))"
  by (cases rows) (auto simp: validate_def filter_empty_conv)

definition import_offered :: "view \<Rightarrow> bool" where
  "import_offered v \<longleftrightarrow> (\<exists>as \<in> set (buttons v). (''onClick'', js ''import'') \<in> set as)"

text \<open>
  C25: an import is offered only for a file that was read and has what is needed: after a file is
  parsed, the import button is there exactly where the file has a row and its first row has every
  required column. Otherwise all the page says is what is wrong: that the file is empty, or the name of each missing
  column, in the order they are required.
\<close>

theorem import_only_valid:
  "let v = csv_view accept n (file_parsed columns rows s) in
   case rows of
     [] \<Rightarrow> \<not> import_offered v \<and> texts v = [[0x6587, 0x4EF6, 0x4E3A, 0x7A7A]]
   | r # rs \<Rightarrow>
       if set columns \<subseteq> set (keys_of r) then import_offered v
       else \<not> import_offered v \<and>
         texts v = map (\<lambda>col. ([0x7F3A, 0x5C11, 0x5FC5, 0x9700, 0x5217] @ js '': '') @ col) (filter (\<lambda>col. col \<notin> set (keys_of r)) columns)"
proof -
  have "import_offered (csv_view accept n (file_parsed columns rows s)) \<longleftrightarrow>
      rows \<noteq> [] \<and> validate columns rows = []"
    by (simp add: import_offered_def csv_view_def file_parsed_def Let_def flag_def comp_def) auto
  moreover have "texts (csv_view accept n (file_parsed columns rows s)) = map snd (validate columns rows)"
    if "validate columns rows \<noteq> []"
  proof -
    have "concat (map (\<lambda>e. [snd e]) es) = map snd es" for es :: "(int \<times> jstr) list"
      by (induction es) simp_all
    with that show ?thesis by (simp add: csv_view_def file_parsed_def Let_def comp_def)
  qed
  ultimately show ?thesis
    using validate_nil_iff [of columns rows]
    by (auto simp: Let_def validate_def comp_def split: list.split)
qed

text \<open>
  Two files chosen in quick succession can be mixed up: where the first is parsed last, its rows stand
  under the name of the second.
\<close>

lemma file_race:
  "cs_file (file_parsed columns rows1 (file_parsed columns rows2
     (choose_file (Some name2) (choose_file (Some name1) s)))) = name2"
  "cs_data (file_parsed columns rows1 (file_parsed columns rows2
     (choose_file (Some name2) (choose_file (Some name1) s)))) = rows1"
  by (simp_all add: file_parsed_def choose_file_def)

end
