(* ===== verification/Compliance.thy ===== *)
theory Compliance
  imports Csv_Upload Admin_Hooks
begin

text \<open>
  \<open>features/compliance\<close> of the console: the global blacklist with its forms and bulk import, and the
  audit log. The page's own state extends that of the upload form it contains. Dates are shown through
  the browser's locale database, which is the argument \<open>fmt_date\<close>.
\<close>

section \<open>The blacklist page\<close>

record blacklist_page = csv_upload +
  bl_pagination :: pagination
  bl_add_open :: bool
  bl_import_open :: bool
  bl_number :: jstr
  bl_reason :: jstr

type_synonym ('s, 'a) blacklist_prog = "('s blacklist_page_scheme, jsval, 'a) prog"

text \<open>\<open>data?.entries ?? []\<close> and \<open>data?.total ?? entries.length\<close>\<close>

definition list_of :: "jsval \<Rightarrow> jsval list" where
  "list_of v = (case v of JArr vs \<Rightarrow> vs | _ \<Rightarrow> [])"

definition blacklist_entries :: "jsval \<Rightarrow> jsval list" where
  "blacklist_entries data = list_of (js_coalesce (opt_get ''entries'' data) (JArr []))"

definition blacklist_total :: "jsval \<Rightarrow> jsval" where
  "blacklist_total data =
     js_coalesce (opt_get ''total'' data) (jint (int (length (blacklist_entries data))))"

definition handleRemove :: "jsval \<Rightarrow> ('s, unit) blacklist_prog" where
  "handleRemove item =
     try_catch
       (with_field ''id'' item (\<lambda>i.
        bind (mutate_async admin_useRemoveBlacklist (obj [(''id'', JStr (to_str i))])) (\<lambda>_.
        with_field ''number'' item (\<lambda>n.
        emit (ToastOk (([0x5DF2, 0x79FB, 0x9664, 0x53F7, 0x7801] @ js '' '') @ to_str n))))))
       (\<lambda>_. emit (ToastError [0x79FB, 0x9664, 0x5931, 0x8D25]))"

definition handleAdd :: "('s, unit) blacklist_prog" where
  "handleAdd = (\<lambda>s.
     let number = str_trim (bl_number s); reason = str_trim (bl_reason s) in
     if number = [] then (Inr (), s)
     else try_catch
       (bind (mutate_async admin_useAddBlacklist
          (obj [(''number'', JStr number),
                (''reason'', js_or (JStr reason) (JStr [0x624B, 0x52A8, 0x6DFB, 0x52A0]))])) (\<lambda>_.
        bind (effect (\<lambda>s. s\<lparr>bl_number := [], bl_reason := [], bl_add_open := False\<rparr>)) (\<lambda>_.
        emit (ToastOk (([0x5DF2, 0x6DFB, 0x52A0, 0x53F7, 0x7801] @ js '' '') @ number @ (js '' '' @ [0x5230, 0x9ED1, 0x540D, 0x5355]))))))
       (\<lambda>_. emit (ToastError [0x6DFB, 0x52A0, 0x5931, 0x8D25])) s)"

text \<open>One row of the bulk import, and the loop that counts the rows that went through.\<close>

definition import_row_body :: "jsval \<Rightarrow> jsval + jsval" where
  "import_row_body row =
     sbind (get ''number'' row) (\<lambda>n. sbind (get ''reason'' row) (\<lambda>r.
     Inr (obj [(''number'', n), (''reason'', js_or r (JStr [0x6279, 0x91CF, 0x5BFC, 0x5165]))])))"

fun import_rows :: "jsval list \<Rightarrow> int \<Rightarrow> ('s, int) blacklist_prog" where
  "import_rows [] success = return success"
| "import_rows (row # rows) success =
     bind (try_catch
        (bind (bind (lift_sum (import_row_body row)) (mutate_async admin_useAddBlacklist)) (\<lambda>_.
         return (success + 1)))
        (\<lambda>_. return success)) (import_rows rows)"

definition handleBulkImport :: "jsval list \<Rightarrow> ('s, unit) blacklist_prog" where
  "handleBulkImport rows =
     bind (import_rows rows 0) (\<lambda>success.
     bind (effect (\<lambda>s. s\<lparr>bl_import_open := False\<rparr>)) (\<lambda>_.
     emit (ToastOk (([0x5DF2, 0x5BFC, 0x5165] @ js '' '') @ show_int success @ (js '' '' @ [0x6761, 0x8BB0, 0x5F55])))))"

definition blacklist_columns :: "jsval column list" where
  "blacklist_columns =
     [column [0x53F7, 0x7801] (\<lambda>row. El ''span'' [] [show_val (opt_get ''number'' row)]),
      column [0x539F, 0x56E0] (\<lambda>row. show_val (opt_get ''reason'' row)),
      column [0x6DFB, 0x52A0, 0x4EBA] (\<lambda>row. Txt (([0x7528, 0x6237] @ js ''#'') @ to_str (opt_get ''created_by'' row))),
      column [0x64CD, 0x4F5C] (\<lambda>row. confirm_dialog
        \<lparr>cf_trigger = El ''Button'' [] [El ''Trash2'' [] [], Txt [0x79FB, 0x9664]],
         cf_title = [0x79FB, 0x9664, 0x9ED1, 0x540D, 0x5355, 0x53F7, 0x7801],
         cf_description = ([0x786E, 0x8BA4, 0x4ECE, 0x9ED1, 0x540D, 0x5355, 0x4E2D, 0x79FB, 0x9664, 0x53F7, 0x7801] @ js '' '') @
           to_str (opt_get ''number'' row) @ [0xFF1F],
         cf_confirm = Some [0x786E, 0x8BA4, 0x79FB, 0x9664], cf_cancel = None, cf_variant = Some ''danger'',
         cf_disabled = False\<rparr>)]"

definition blacklist_toolbar :: "bool \<Rightarrow> 's blacklist_page_scheme \<Rightarrow> view" where
  "blacklist_toolbar addPending s =
     El ''div'' []
       [El ''Dialog'' [flag ''open'' (bl_add_open s)]
          [El ''Button'' [(''onClick'', js ''openAdd'')] [El ''Plus'' [] [], Txt [0x6DFB, 0x52A0, 0x53F7, 0x7801]],
           El ''DialogTitle'' [] [Txt [0x6DFB, 0x52A0, 0x9ED1, 0x540D, 0x5355, 0x53F7, 0x7801]],
           El ''Label'' [] [Txt [0x7535, 0x8BDD, 0x53F7, 0x7801]],
           El ''Input'' [(''placeholder'', [0x8BF7, 0x8F93, 0x5165, 0x7535, 0x8BDD, 0x53F7, 0x7801]), (''value'', bl_number s)] [],
           El ''Label'' [] [Txt [0x539F, 0x56E0]],
           El ''Input'' [(''placeholder'', [0x8BF7, 0x8F93, 0x5165, 0x62C9, 0x9ED1, 0x539F, 0x56E0]), (''value'', bl_reason s)] [],
           El ''Button'' [(''onClick'', js ''closeAdd'')] [Txt [0x53D6, 0x6D88]],
           El ''Button'' [(''onClick'', js ''handleAdd''), flag ''disabled'' (str_trim (bl_number s) = [] \<or> addPending)]
             [Txt [0x786E, 0x8BA4, 0x6DFB, 0x52A0]]],
        El ''Dialog'' [flag ''open'' (bl_import_open s)]
          [El ''Button'' [(''onClick'', js ''openImport'')] [El ''Upload'' [] [], Txt [0x6279, 0x91CF, 0x5BFC, 0x5165]],
           El ''DialogTitle'' [] [Txt [0x6279, 0x91CF, 0x5BFC, 0x5165, 0x9ED1, 0x540D, 0x5355]],
           csv_view (js ''.csv,.xlsx'') 10 s]]"

definition blacklist_view ::
    "jsval \<Rightarrow> bool \<Rightarrow> bool \<Rightarrow> bool \<Rightarrow> bool \<Rightarrow> int \<Rightarrow> 's blacklist_page_scheme \<Rightarrow> view" where
  "blacklist_view data isLoading addPending canPrev canNext totalCount s =
     data_table blacklist_columns (blacklist_entries data) totalCount (bl_pagination s) isLoading
       (blacklist_toolbar addPending s) canPrev canNext"

section \<open>The audit log\<close>

definition action_badges :: "(jstr \<times> jsval) list" where
  "action_badges =
     map (\<lambda>(k, l, v). (js k, obj [(''label'', JStr l), (''variant'', jlit v)]))
       [(''create'', [0x521B, 0x5EFA], ''default''), (''update'', [0x66F4, 0x65B0], ''default''),
        (''delete'', [0x5220, 0x9664], ''destructive''), (''login'', [0x767B, 0x5F55], ''secondary''),
        (''freeze'', [0x51BB, 0x7ED3], ''destructive''), (''unfreeze'', [0x89E3, 0x51BB], ''default''),
        (''topup'', [0x5145, 0x503C], ''default''), (''deduct'', [0x6263, 0x6B3E], ''destructive'')]"

definition action_config :: "jsval \<Rightarrow> jsval" where
  "action_config action =
     js_coalesce (table_get action_badges (to_str action))
       (obj [(''label'', action), (''variant'', jlit ''outline'')])"

definition actor_text :: "jsval \<Rightarrow> jsval" where
  "actor_text row =
     js_or (opt_get ''actor_name'' row) (JStr (([0x7528, 0x6237] @ js ''#'') @ to_str (opt_get ''actor_id'' row)))"

definition audit_columns :: "(jsval \<Rightarrow> jstr) \<Rightarrow> jsval column list" where
  "audit_columns fmt_date =
     [column [0x65F6, 0x95F4] (\<lambda>row. El ''span'' [] [Txt (fmt_date (opt_get ''created_at'' row))]),
      column [0x64CD, 0x4F5C, 0x4EBA] (\<lambda>row. show_val (actor_text row)),
      column [0x64CD, 0x4F5C, 0x7C7B, 0x578B] (\<lambda>row.
        let config = action_config (opt_get ''action'' row) in
        El ''Badge'' [(''variant'', to_str (opt_get ''variant'' config))] [show_val (opt_get ''label'' config)]),
      column [0x8D44, 0x6E90, 0x7C7B, 0x578B] (\<lambda>row. show_val (opt_get ''target_type'' row)),
      column ([0x8D44, 0x6E90] @ js ''ID'') (\<lambda>row. El ''span'' [] [show_val (opt_get ''target_id'' row)]),
      column (js ''IP '' @ [0x5730, 0x5740]) (\<lambda>row. El ''span'' [] [show_val (js_or (opt_get ''ip_address'' row) (jlit ''-''))]),
      column [0x8BE6, 0x60C5] (\<lambda>row. El ''Button'' [] [El ''Eye'' [] [], Txt [0x67E5, 0x770B, 0x8BE6, 0x60C5]])]"

definition audit_detail :: "(jsval \<Rightarrow> jstr) \<Rightarrow> jsval \<Rightarrow> view" where
  "audit_detail fmt_date item =
     El ''Dialog'' [flag ''open'' (truthy item)]
       [El ''DialogTitle'' [] [Txt [0x64CD, 0x4F5C, 0x8BE6, 0x60C5]],
        only_if (truthy item)
          (Frag
            [El ''span'' [] [Txt [0x65F6, 0x95F4]], El ''span'' [] [Txt (fmt_date (opt_get ''created_at'' item))],
             El ''span'' [] [Txt [0x64CD, 0x4F5C, 0x4EBA]], El ''span'' [] [show_val (actor_text item)],
             El ''span'' [] [Txt [0x64CD, 0x4F5C, 0x7C7B, 0x578B]],
             El ''span'' [] [show_val (js_coalesce
               (opt_get ''label'' (table_get action_badges (to_str (opt_get ''action'' item))))
               (opt_get ''action'' item))],
             El ''span'' [] [Txt [0x8D44, 0x6E90]],
             El ''span'' [] [show_val (opt_get ''target_type'' item), lit '' / '', show_val (opt_get ''target_id'' item)],
             El ''span'' [] [Txt (js ''IP '' @ [0x5730, 0x5740])],
             El ''span'' [] [show_val (js_or (opt_get ''ip_address'' item) (jlit ''-''))],
             El ''span'' [] [Txt [0x8BE6, 0x7EC6, 0x6570, 0x636E]],
             El ''pre'' [] [show_val (js_or (opt_get ''details'' item) (JStr [0x65E0]))]])]"

definition audit_view ::
    "(jsval \<Rightarrow> jstr) \<Rightarrow> jsval \<Rightarrow> bool \<Rightarrow> pagination \<Rightarrow> int \<Rightarrow> jsval \<Rightarrow> bool \<Rightarrow> bool \<Rightarrow> view" where
  "audit_view fmt_date data isLoading p totalCount detailItem canPrev canNext =
     Frag
       [data_table (audit_columns fmt_date) (list_of (js_coalesce (opt_get ''logs'' data) (JArr [])))
          totalCount p isLoading nothing canPrev canNext,
        audit_detail fmt_date detailItem]"

definition compliance_view :: "view \<Rightarrow> view \<Rightarrow> view" where
  "compliance_view blacklistTable auditLogTable =
     El ''div'' []
       [El ''h1'' [] [Txt [0x5408, 0x89C4, 0x5BA1, 0x8BA1]],
        El ''p'' [] [Txt ([0x5168, 0x5C40, 0x9ED1, 0x540D, 0x5355, 0x7BA1, 0x7406, 0x548C, 0x5BA1, 0x8BA1, 0x65E5, 0x5FD7, 0x67E5, 0x8BE2])],
        El ''Tabs'' [(''defaultValue'', js ''blacklist'')]
          [El ''TabsTrigger'' [(''value'', js ''blacklist'')] [Txt [0x9ED1, 0x540D, 0x5355, 0x7BA1, 0x7406]],
           El ''TabsTrigger'' [(''value'', js ''audit'')] [Txt [0x5BA1, 0x8BA1, 0x65E5, 0x5FD7]],
           El ''TabsContent'' [(''value'', js ''blacklist'')] [blacklistTable],
           El ''TabsContent'' [(''value'', js ''audit'')] [auditLogTable]]]"

section \<open>Properties\<close>

text \<open>The request that adds an entry.\<close>

definition add_request :: "jsval \<Rightarrow> httpreq" where
  "add_request body =
     admin_rq (js ''/api/compliance/blacklist'') (with_json ''POST'' body)"

lemma add_run:
  "mutate_async admin_useAddBlacklist body w =
     (case response_result (w_net w (sent w) (add_request body)) of
        Inl e \<Rightarrow> (Inl e, log_events [Sent (add_request body)] w)
      | Inr r \<Rightarrow> (Inr r, log_events [Sent (add_request body), Invalidated (key [''blacklist''])] w))"
  using mutate_async_request [of admin_AddBlacklist body w "add_request body" "[key [''blacklist'']]"]
  by (simp add: admin_useAddBlacklist_def admin_AddBlacklist_def admin_request_run add_request_def split: sum.splits)

interpretation blacklist_add: one_request "mutate_async admin_useAddBlacklist" add_request "[key [''blacklist'']]"
  by unfold_locales (simp add: add_run split: sum.splits)

definition row_body :: "jsval \<Rightarrow> jsval" where
  "row_body row =
     (case import_row_body row of Inr b \<Rightarrow> b | Inl e \<Rightarrow> JUndef)"

lemma import_rows_run:
  assumes "\<forall>row \<in> set rows. \<exists>fs. row = JObj fs"
  shows "\<exists>es. import_rows rows n s =
      (Inr (n + int (accepted (w_net s) (sent s) (map (\<lambda>row. add_request (row_body row)) rows))), log_events es s) \<and>
    concat (map sent_of es) = map (\<lambda>row. add_request (row_body row)) rows"
  using assms
proof (induction rows arbitrary: n s)
  case Nil
  then show ?case by (intro exI [of _ "[]"]) (simp add: return_def)
next
  case (Cons row rows)
  then obtain b where b: "import_row_body row = Inr b" "row_body row = b"
    by (auto simp: import_row_body_def row_body_def get_obj)
  let ?ok = "succeeds (w_net s (sent s) (add_request b))"
  define es1 where "es1 = Sent (add_request b) # (if ?ok then [Invalidated (key [''blacklist''])] else [])"
  let ?s = "log_events es1 s"
  have sent1: "sent ?s = sent s @ [add_request b]" by (simp add: es1_def)
  obtain es where es: "import_rows rows (n + (if ?ok then 1 else 0)) ?s =
      (Inr (n + (if ?ok then 1 else 0) + int (accepted (w_net s) (sent s @ [add_request b])
         (map (\<lambda>row. add_request (row_body row)) rows))), log_events es ?s)"
    "concat (map sent_of es) = map (\<lambda>row. add_request (row_body row)) rows"
    using Cons.IH [of "n + (if ?ok then 1 else 0)" ?s] Cons.prems sent1 by auto
  have "import_rows (row # rows) n s = import_rows rows (n + (if ?ok then 1 else 0)) ?s"
    by (auto simp: b bind_def try_catch_def add_run succeeds_def es1_def return_def lift_sum_def split: sum.splits)
  with es b show ?case
    by (intro exI [of _ "es1 @ es"]) (simp add: es1_def add.assoc)
qed

text \<open>
  C10: the bulk import tries every row once and in order, whatever happened to the rows before it, and
  the number it reports is the number of rows the server accepted; it then closes its dialog and
  drops the rows, the refused ones too.
\<close>

theorem bulk_import_counts:
  assumes "\<forall>row \<in> set (cs_data s). \<exists>fs. row = JObj fs"
  shows "let s' = snd (csv_import handleBulkImport s); reqs = map (\<lambda>row. add_request (row_body row)) (cs_data s) in
    sent s' = sent s @ reqs \<and>
    last (w_log s') = ToastOk (([0x5DF2, 0x5BFC, 0x5165] @ js '' '') @
      show_int (int (accepted (w_net s) (sent s) reqs)) @ (js '' '' @ [0x6761, 0x8BB0, 0x5F55])) \<and>
    \<not> bl_import_open s' \<and> cs_data s' = []"
proof -
  let ?s = "s\<lparr>cs_importing := True\<rparr>"
  have w: "w_net ?s = w_net s" "sent ?s = sent s" by (simp_all add: sent_def)
  obtain es where r: "import_rows (cs_data s) 0 ?s =
      (Inr (int (accepted (w_net s) (sent s) (map (\<lambda>row. add_request (row_body row)) (cs_data s)))), log_events es ?s)"
    and es: "concat (map sent_of es) = map (\<lambda>row. add_request (row_body row)) (cs_data s)"
    using import_rows_run [OF assms, of 0 ?s] w by auto
  show ?thesis
    using es by (simp add: csv_import_result handleBulkImport_def bind_def r effect_def emit_run csv_reset_def
        Let_def sent_def log_events_def log_event_def)
qed

definition sample_blacklist :: blacklist_page where
  "sample_blacklist =
     \<lparr>w_net = (\<lambda>past r. Reply (if past = [] then ok_json JNull else
          \<lparr>rs_status = 409, rs_status_text = [], rs_json = Inr JNull\<rparr>)),
      w_local = Map.empty, w_now = 0, w_random = (\<lambda>_. 0), w_draws = 0, w_log = [],
      cs_data = [obj [(''number'', jlit ''1''), (''reason'', jlit ''x'')], obj [(''number'', jlit ''2'')]],
      cs_errors = [], cs_file = js ''a.csv'', cs_importing = False, cs_input = js ''a.csv'',
      bl_pagination = \<lparr>pg_index = 0, pg_size = 10\<rparr>, bl_add_open = False, bl_import_open = True,
      bl_number = [], bl_reason = []\<rparr>"

theorem bulk_import_counts_witness:
  "last (w_log (snd (csv_import handleBulkImport sample_blacklist))) =
     ToastOk (([0x5DF2, 0x5BFC, 0x5165] @ js '' '') @ js ''1'' @ (js '' '' @ [0x6761, 0x8BB0, 0x5F55]))"
proof -
  have "\<forall>row \<in> set (cs_data sample_blacklist). \<exists>fs. row = JObj fs"
    by (simp add: sample_blacklist_def)
  moreover have "accepted (w_net sample_blacklist) (sent sample_blacklist)
      (map (\<lambda>row. add_request (row_body row)) (cs_data sample_blacklist)) = 1"
    by (simp add: sample_blacklist_def sent_def succeeds_def response_result_def resp_ok_def)
  moreover have "show_int 1 = js ''1''" by code_simp
  ultimately show ?thesis
    using bulk_import_counts [of sample_blacklist] by (simp add: Let_def)
qed

text \<open>
  Adding a number by hand sends it trimmed with the typed reason or the default one; where the
  server accepts it, the form is emptied and closed, and where it does not, everything typed stays
  for another try. A blank number is never sent.
\<close>

lemma add_by_hand:
  fixes s :: "'s blacklist_page_scheme"
  defines "number \<equiv> str_trim (bl_number s)" and "reason \<equiv> str_trim (bl_reason s)"
  defines "rq \<equiv> add_request (obj [(''number'', JStr number),
    (''reason'', JStr (if reason = [] then [0x624B, 0x52A8, 0x6DFB, 0x52A0] else reason))])"
  shows "let s' = snd (handleAdd s) in
    sent s' = sent s @ (if number = [] then [] else [rq]) \<and>
    (if number = [] \<or> \<not> succeeds (w_net s (sent s) rq)
     then bl_number s' = bl_number s \<and> bl_reason s' = bl_reason s \<and> bl_add_open s' = bl_add_open s
     else bl_number s' = [] \<and> bl_reason s' = [] \<and> \<not> bl_add_open s')"
proof -
  have [simp]: "bl_number (log_events es w) = bl_number w" "bl_reason (log_events es w) = bl_reason w"
    "bl_add_open (log_events es w) = bl_add_open w" "sent (w\<lparr>bl_number := x, bl_reason := y, bl_add_open := z\<rparr>) = sent w"
    for w :: "'s blacklist_page_scheme" and es x y z
    by (simp_all add: log_events_def sent_def)
  have r: "js_or (JStr reason) (JStr [0x624B, 0x52A8, 0x6DFB, 0x52A0]) = JStr (if reason = [] then [0x624B, 0x52A8, 0x6DFB, 0x52A0] else reason)"
    by (simp add: js_or_def)
  define B where "B = obj [(''number'', JStr number),
    (''reason'', JStr (if reason = [] then [0x624B, 0x52A8, 0x6DFB, 0x52A0] else reason))]"
  have q: "rq = add_request B" by (simp only: rq_def B_def)
  show ?thesis
    unfolding handleAdd_def number_def [symmetric] reason_def [symmetric] Let_def r B_def [symmetric] q
    by (cases "response_result (w_net s (sent s) (add_request B))")
      (simp_all add: add_run succeeds_def bind_def try_catch_def effect_def emit_run log_event_as_events)
qed

end
