(* ===== verification/Did_Page.thy ===== *)
theory Did_Page
  imports Forms Csv_Upload Admin_Hooks
begin

text \<open>
  \<open>features/did\<close> of the console: the list of numbers with its counters, the bulk import and the
  assignment dialog. Dates are shown through the browser's locale database, the argument \<open>fmt_date\<close>.
\<close>

section \<open>State and rows\<close>

record did_row =
  dr_id :: jstr
  dr_number :: jsval
  dr_active :: bool
  dr_assigned :: jstr
  dr_name :: jstr
  dr_dedicated :: bool
  dr_created :: jsval

record did_page = csv_upload +
  dp_pagination :: pagination
  dp_assign_filter :: jstr
  dp_customer_filter :: jstr
  dp_import_open :: bool
  dp_assign_open :: bool
  dp_selected :: "did_row option"
  dp_customer :: jstr
  dp_pool :: jstr

type_synonym ('s, 'a) did_prog = "('s did_page_scheme, jsval, 'a) prog"

definition did_row_of :: "jsval \<Rightarrow> did_row" where
  "did_row_of d =
     \<lparr>dr_id = to_str (opt_get ''id'' d), dr_number = opt_get ''number'' d,
      dr_active = strict_eq (opt_get ''status'' d) (jlit ''available''),
      dr_assigned = (if truthy (opt_get ''assigned_user_id'' d) then to_str (opt_get ''assigned_user_id'' d) else []),
      dr_name = [], dr_dedicated = True, dr_created = opt_get ''created_at'' d\<rparr>"

definition did_rows :: "jsval \<Rightarrow> jsval + did_row list" where
  "did_rows data = rows_of did_row_of (js_coalesce (opt_get ''dids'' data) (JArr []))"

definition did_total :: "jsval \<Rightarrow> jsval" where
  "did_total data = js_coalesce (opt_get ''total'' data) (jint 0)"

definition assigned_count :: "did_row list \<Rightarrow> int" where
  "assigned_count dids = int (length (filter (\<lambda>d. dr_assigned d \<noteq> []) dids))"

definition unassigned_count :: "jsval \<Rightarrow> did_row list \<Rightarrow> jsnum" where
  "unassigned_count data dids = num_sub (to_number (did_total data)) (num_int (assigned_count dids))"

section \<open>Handlers\<close>

definition handleAssign :: "did_row \<Rightarrow> 's did_page_scheme \<Rightarrow> 's did_page_scheme" where
  "handleAssign did s = s\<lparr>dp_selected := Some did, dp_assign_open := True\<rparr>"

definition handleUnassign :: "did_row \<Rightarrow> ('s, unit) did_prog" where
  "handleUnassign did = emit (ToastOk (to_str (dr_number did) @ (js '' '' @ [0x5DF2, 0x53D6, 0x6D88, 0x5206, 0x914D])))"

definition handleToggle :: "did_row \<Rightarrow> ('s, unit) did_prog" where
  "handleToggle did =
     emit (ToastOk (to_str (dr_number did) @ (js '' '' @ [0x5DF2]) @ (if dr_active did then [0x505C, 0x7528] else [0x542F, 0x7528])))"

definition handleAssignSubmit :: "jstr \<Rightarrow> jstr \<Rightarrow> jstr \<Rightarrow> ('s, unit) did_prog" where
  "handleAssignSubmit didId customerId poolType =
     emit (ToastOk ([0x53F7, 0x7801, 0x5DF2, 0x5206, 0x914D, 0xFF08] @ (if poolType = js ''dedicated'' then [0x4E13, 0x5C5E] else [0x5171, 0x4EAB]) @ [0xFF09]))"

definition import_numbers :: "jsval list \<Rightarrow> jsval + jsval list" where
  "import_numbers rows = sbind (smap (get ''number'') rows) (\<lambda>ns. Inr (filter truthy ns))"

definition did_handleImport :: "jsval list \<Rightarrow> ('s, unit) did_prog" where
  "did_handleImport rows =
     bind (lift_sum (import_numbers rows)) (\<lambda>numbers.
     if numbers = [] then emit (ToastError [0x6CA1, 0x6709, 0x6709, 0x6548, 0x53F7, 0x7801])
     else try_catch
       (bind (mutate_async admin_useImportDIDs (obj [(''numbers'', JArr numbers)])) (\<lambda>result.
        with_field ''imported'' result (\<lambda>n.
        bind (emit (ToastOk (([0x6210, 0x529F, 0x5BFC, 0x5165] @ js '' '') @ to_str n @ (js '' '' @ [0x4E2A, 0x53F7, 0x7801])))) (\<lambda>_.
        effect (\<lambda>s. s\<lparr>dp_import_open := False\<rparr>)))))
       (\<lambda>_. emit (ToastError [0x5BFC, 0x5165, 0x5931, 0x8D25])))"

text \<open>The assignment dialog: its effect on opening, and its submit button.\<close>

definition assign_opened :: "'s did_page_scheme \<Rightarrow> 's did_page_scheme" where
  "assign_opened s = (if dp_assign_open s then s\<lparr>dp_customer := [], dp_pool := js ''dedicated''\<rparr> else s)"

definition assign_submit :: "('s, unit) did_prog" where
  "assign_submit = (\<lambda>s.
     case dp_selected s of
       None \<Rightarrow> (Inr (), s)
     | Some did \<Rightarrow>
         if dp_customer s = [] then (Inr (), s)
         else bind (handleAssignSubmit (dr_id did) (dp_customer s) (dp_pool s)) (\<lambda>_.
              effect (\<lambda>s. s\<lparr>dp_assign_open := False\<rparr>)) s)"

section \<open>Views\<close>

definition did_columns :: "(jsval \<Rightarrow> jstr) \<Rightarrow> did_row column list" where
  "did_columns fmt_date =
     [(column (js ''DID'' @ [0x53F7, 0x7801]) (\<lambda>d. El ''span'' [] [show_val (dr_number d)]))\<lparr>col_can_sort := False\<rparr>,
      (column [0x5206, 0x914D, 0x5BA2, 0x6237] (\<lambda>d. if dr_assigned d \<noteq> [] then El ''span'' [] [Txt (dr_name d)]
         else El ''span'' [] [Txt [0x672A, 0x5206, 0x914D]]))\<lparr>col_can_sort := False\<rparr>,
      (column [0x53F7, 0x7801, 0x6C60] (\<lambda>d. El ''Badge'' [] [if dr_dedicated d then Txt [0x4E13, 0x5C5E] else Txt [0x5171, 0x4EAB]]))\<lparr>col_can_sort := False\<rparr>,
      (column [0x72B6, 0x6001] (\<lambda>d. El ''Badge'' [] [if dr_active d then Txt [0x542F, 0x7528] else Txt [0x505C, 0x7528]]))\<lparr>col_can_sort := False\<rparr>,
      column [0x521B, 0x5EFA, 0x65F6, 0x95F4] (\<lambda>d. Txt (fmt_date (dr_created d))),
      (column [0x64CD, 0x4F5C] (\<lambda>d. El ''DropdownMenu'' []
         [El ''DropdownMenuItem'' [(''onClick'', js ''assign'')] [Txt [0x5206, 0x914D, 0x5BA2, 0x6237]],
          El ''DropdownMenuItem'' [(''onClick'', js ''unassign''), flag ''disabled'' (dr_assigned d = [])] [Txt [0x53D6, 0x6D88, 0x5206, 0x914D]],
          El ''DropdownMenuItem'' [(''onClick'', js ''toggle'')] [if dr_active d then Txt [0x505C, 0x7528] else Txt [0x542F, 0x7528]]]))
        \<lparr>col_can_sort := False\<rparr>]"

definition did_toolbar :: "(jstr \<times> jstr) list \<Rightarrow> 's did_page_scheme \<Rightarrow> view" where
  "did_toolbar customers s =
     El ''div'' []
       [El ''Select'' [(''value'', dp_assign_filter s), (''placeholder'', [0x5206, 0x914D, 0x72B6, 0x6001])]
          [El ''SelectItem'' [(''value'', js ''all'')] [Txt [0x5168, 0x90E8]],
           El ''SelectItem'' [(''value'', js ''assigned'')] [Txt [0x5DF2, 0x5206, 0x914D]],
           El ''SelectItem'' [(''value'', js ''unassigned'')] [Txt [0x672A, 0x5206, 0x914D]]],
        El ''Select'' [(''value'', dp_customer_filter s), (''placeholder'', [0x9009, 0x62E9, 0x5BA2, 0x6237])]
          (El ''SelectItem'' [(''value'', js ''all'')] [Txt [0x5168, 0x90E8, 0x5BA2, 0x6237]] #
           map (\<lambda>(i, n). El ''SelectItem'' [(''value'', i)] [Txt n]) customers)]"

definition mock_customers :: "(jstr \<times> jstr) list" where
  "mock_customers =
     [(js ''c1'', [0x793A, 0x4F8B, 0x79D1, 0x6280, 0x6709, 0x9650, 0x516C, 0x53F8]), (js ''c2'', [0x901A, 0x8FBE, 0x901A, 0x4FE1]), (js ''c3'', [0x6C47, 0x8054, 0x79D1, 0x6280]),
      (js ''c4'', [0x661F, 0x8FB0, 0x7F51, 0x7EDC]), (js ''c5'', [0x4E91, 0x6865, 0x901A, 0x8BAF]), (js ''c6'', [0x76DB, 0x8FBE, 0x79D1, 0x6280]), (js ''c7'', [0x660E, 0x8FDC, 0x901A, 0x8BAF])]"

definition assign_dialog_view :: "'s did_page_scheme \<Rightarrow> view" where
  "assign_dialog_view s =
     El ''Dialog'' [flag ''open'' (dp_assign_open s)]
       [El ''DialogTitle'' [] [Txt [0x5206, 0x914D, 0x5BA2, 0x6237]],
        El ''Label'' [] [Txt ((js ''DID'' @ [0x53F7, 0x7801]))],
        El ''p'' [] [case dp_selected s of None \<Rightarrow> nothing | Some d \<Rightarrow> show_val (dr_number d)],
        El ''Label'' [] [Txt [0x5BA2, 0x6237]],
        El ''Select'' [(''value'', dp_customer s), (''placeholder'', [0x8BF7, 0x9009, 0x62E9, 0x5BA2, 0x6237])]
          (map (\<lambda>(i, n). El ''SelectItem'' [(''value'', i)] [Txt n]) mock_customers),
        El ''Label'' [] [Txt [0x53F7, 0x7801, 0x6C60, 0x7C7B, 0x578B]],
        El ''Select'' [(''value'', dp_pool s)]
          [El ''SelectItem'' [(''value'', js ''dedicated'')] [Txt [0x4E13, 0x5C5E]],
           El ''SelectItem'' [(''value'', js ''shared'')] [Txt [0x5171, 0x4EAB]]],
        El ''Button'' [(''onClick'', js ''close'')] [Txt [0x53D6, 0x6D88]],
        El ''Button'' [(''onClick'', js ''submit''), flag ''disabled'' (dp_customer s = [])] [Txt [0x786E, 0x8BA4, 0x5206, 0x914D]]]"

definition did_stat :: "jstr \<Rightarrow> jsval \<Rightarrow> view" where
  "did_stat title v =
     stat_card \<lparr>sc_title = title, sc_value = v, sc_description = None, sc_trend = None, sc_loading = False\<rparr>"

definition did_view ::
    "(jsval \<Rightarrow> jstr) \<Rightarrow> jsval \<Rightarrow> bool \<Rightarrow> int \<Rightarrow> bool \<Rightarrow> bool \<Rightarrow> 's did_page_scheme \<Rightarrow> jsval + view" where
  "did_view fmt_date data isLoading totalCount canPrev canNext s =
     sbind (did_rows data) (\<lambda>dids.
     Inr (El ''div'' []
       [El ''h1'' [] [Txt ((js ''DID '' @ [0x7BA1, 0x7406]))],
        El ''p'' [] [Txt ([0x53F7, 0x7801, 0x5217, 0x8868, 0x3001, 0x6279, 0x91CF, 0x5BFC, 0x5165, 0x548C, 0x5206, 0x914D, 0x7BA1, 0x7406])],
        El ''Button'' [(''onClick'', js ''openImport'')] [El ''Upload'' [] [], Txt [0x6279, 0x91CF, 0x5BFC, 0x5165]],
        El ''Button'' [(''onClick'', js ''addInfo'')] [El ''Plus'' [] [], Txt [0x6DFB, 0x52A0, 0x53F7, 0x7801]],
        did_stat [0x603B, 0x53F7, 0x7801, 0x6570] (did_total data),
        did_stat [0x5DF2, 0x5206, 0x914D] (jint (assigned_count dids)),
        did_stat [0x672A, 0x5206, 0x914D] (JNum (unassigned_count data dids)),
        data_table (did_columns fmt_date) dids totalCount (dp_pagination s) isLoading
          (did_toolbar [] s) canPrev canNext,
        El ''Dialog'' [flag ''open'' (dp_import_open s)]
          [El ''DialogTitle'' [] [Txt (([0x6279, 0x91CF, 0x5BFC, 0x5165] @ js '' DID '' @ [0x53F7, 0x7801]))], csv_view (js ''.csv,.xlsx'') 10 s],
        assign_dialog_view s]))"

definition add_number_info :: "('s, unit) did_prog" where
  "add_number_info = emit (ToastInfo [0x6DFB, 0x52A0, 0x53F7, 0x7801, 0x529F, 0x80FD, 0x5F00, 0x53D1, 0x4E2D])"

section \<open>Properties\<close>

definition import_request :: "jsval list \<Rightarrow> httpreq" where
  "import_request numbers =
     admin_rq (js ''/api/routing/did-import'')
       (with_json ''POST'' (obj [(''numbers'', JArr numbers)]))"

lemma import_run:
  "mutate_async admin_useImportDIDs (JObj [(js ''numbers'', JArr numbers)]) w =
     (case response_result (w_net w (sent w) (import_request numbers)) of
        Inl e \<Rightarrow> (Inl e, log_events [Sent (import_request numbers)] w)
      | Inr r \<Rightarrow> (Inr r, log_events [Sent (import_request numbers), Invalidated (key [''dids''])] w))"
  using mutate_async_request [of admin_ImportDIDs "JObj [(js ''numbers'', JArr numbers)]" w
    "import_request numbers" "[key [''dids'']]"]
  by (simp add: admin_useImportDIDs_def admin_ImportDIDs_def admin_request_run import_request_def split: sum.splits)

interpretation did_import: one_request "\<lambda>numbers. mutate_async admin_useImportDIDs (JObj [(js ''numbers'', JArr numbers)])"
  import_request "[key [''dids'']]"
  by unfold_locales (simp add: import_run split: sum.splits)

lemma import_numbers_objects:
  "\<forall>row \<in> set rows. \<exists>fs. row = JObj fs \<Longrightarrow>
   import_numbers rows = Inr (filter truthy (map (field (js ''number'')) rows))"
proof -
  assume "\<forall>row \<in> set rows. \<exists>fs. row = JObj fs"
  then have "smap (get ''number'') rows = Inr (map (field (js ''number'')) rows)"
    by (intro smap_Inr) (auto simp: get_def)
  then show ?thesis by (simp add: import_numbers_def)
qed

text \<open>
  C26: the number import sends the number column of the file in a single request, in order and as it was read,
  without the rows where it is falsy: missing, an empty text or the number 0. A text of spaces is sent. Without such a
  number nothing is sent and the page says so. The page reports whether the server accepted the numbers, and closes the
  dialog only then; but the form is emptied in every case, file, rows and errors, so after a refused import nothing is
  left to try again.
\<close>

theorem did_import_once:
  assumes "\<forall>row \<in> set (cs_data s). \<exists>fs. row = JObj fs"
  shows "let s' = snd (csv_import did_handleImport s);
      numbers = filter truthy (map (field (js ''number'')) (cs_data s)); rq = import_request numbers;
      failed = ToastError [0x5BFC, 0x5165, 0x5931, 0x8D25] in
    (cs_data s', cs_errors s', cs_file s', cs_input s', cs_importing s') = ([], [], [], [], False) \<and>
    (w_log s', dp_import_open s') =
      (if numbers = [] then (w_log s @ [ToastError [0x6CA1, 0x6709, 0x6709, 0x6548, 0x53F7, 0x7801]], dp_import_open s)
       else case response_result (w_net s (sent s) rq) of
         Inl e \<Rightarrow> (w_log s @ [Sent rq, failed], dp_import_open s)
       | Inr r \<Rightarrow> (case get ''imported'' r of
           Inl e \<Rightarrow> (w_log s @ [Sent rq, Invalidated (key [''dids'']), failed], dp_import_open s)
         | Inr n \<Rightarrow> (w_log s @ [Sent rq, Invalidated (key [''dids'']),
             ToastOk (([0x6210, 0x529F, 0x5BFC, 0x5165] @ js '' '') @ to_str n @ (js '' '' @ [0x4E2A, 0x53F7, 0x7801]))], False)))"
proof -
  let ?s = "s\<lparr>cs_importing := True\<rparr>"
  have w: "w_net ?s = w_net s" "sent ?s = sent s" "w_log ?s = w_log s" "dp_import_open ?s = dp_import_open s"
    by (simp_all add: sent_def)
  note n = import_numbers_objects [OF assms]
  show ?thesis
    by (simp add: csv_import_result did_handleImport_def n bind_def lift_sum_def import_run try_catch_def w
        with_field_def emit_run effect_def csv_reset_def Let_def log_events_def log_event_def return_def throw_def
        split: sum.split)
qed

definition sample_did :: did_page where
  "sample_did =
     \<lparr>w_net = (\<lambda>past r. Unreachable (JError (js ''offline''))),
      w_local = Map.empty, w_now = 0, w_random = (\<lambda>_. 0), w_draws = 0, w_log = [],
      cs_data = [obj [(''number'', jlit ''1'')], obj [(''number'', JStr [])], obj [(''number'', jlit '' '')]],
      cs_errors = [], cs_file = js ''a.csv'', cs_importing = False, cs_input = js ''a.csv'',
      dp_pagination = \<lparr>pg_index = 0, pg_size = 10\<rparr>, dp_assign_filter = js ''all'', dp_customer_filter = js ''all'',
      dp_import_open = True, dp_assign_open = True,
      dp_selected = Some (did_row_of (obj [(''id'', jint 1), (''number'', jlit ''1'')])),
      dp_customer = js ''c1'', dp_pool = js ''dedicated''\<rparr>"

theorem did_import_once_witness:
  "sent (snd (csv_import did_handleImport sample_did)) = [import_request [jlit ''1'', jlit '' '']] \<and>
   dp_import_open (snd (csv_import did_handleImport sample_did)) \<and> cs_data (snd (csv_import did_handleImport sample_did)) = []"
proof -
  have "\<forall>row \<in> set (cs_data sample_did). \<exists>fs. row = JObj fs"
    by (simp add: sample_did_def)
  moreover have "filter truthy (map (field (js ''number'')) (cs_data sample_did)) = [jlit ''1'', jlit '' '']"
    by (simp add: sample_did_def)
  moreover have "response_result (w_net sample_did (sent sample_did) rq) = Inl (JError (js ''offline''))"
    "w_log sample_did = []" "dp_import_open sample_did" for rq
    by (simp_all add: sample_did_def response_result_def)
  ultimately show ?thesis
    using did_import_once [of sample_did] by (simp add: Let_def sent_def)
qed

text \<open>
  The counter of unassigned numbers is the total less the assigned numbers of the page shown: where
  every number is assigned and the list has more pages, it counts the whole rest as unassigned.
\<close>

lemma did_unassigned_of_page:
  assumes "map_of fs (js ''dids'') = Some (JArr items)" and "map_of fs (js ''total'') = Some (jint t)"
    and "\<forall>d \<in> set items. \<exists>u. u \<noteq> 0 \<and> \<bar>u\<bar> \<le> 2 ^ 53 \<and> opt_get ''assigned_user_id'' d = jint u"
    and "0 \<le> t" and "t \<le> 2 ^ 50" and "int (length items) < t"
  shows "did_rows (JObj fs) = Inr (map did_row_of items) \<and>
    unassigned_count (JObj fs) (map did_row_of items) = num_int (t - int (length items)) \<and> 0 < t - int (length items)"
proof -
  have ne: "show_int u \<noteq> []" for u
    using show_dec_not_Nil by (simp add: show_int_def js_def)
  have "dr_assigned (did_row_of d) \<noteq> []" if "d \<in> set items" for d
  proof -
    from that assms(3) obtain u where u: "u \<noteq> 0" "\<bar>u\<bar> \<le> 2 ^ 53" "opt_get ''assigned_user_id'' d = jint u"
      by blast
    then show ?thesis
      using ne [of u] num_to_string_int [OF u(2)] by (simp add: did_row_of_def del: num_to_string.simps)
  qed
  then have "filter (\<lambda>d. dr_assigned d \<noteq> []) (map did_row_of items) = map did_row_of items"
    by (auto simp: filter_map filter_id_conv)
  then have "assigned_count (map did_row_of items) = int (length items)" by (simp add: assigned_count_def)
  moreover have "did_rows (JObj fs) = Inr (map did_row_of items)"
  proof -
    have "\<not> nullish d" if "d \<in> set items" for d
      using that assms(3) by (cases d) (auto simp: opt_get_def)
    then show ?thesis using assms(1) by (simp add: did_rows_def opt_get_def js_coalesce_def rows_of_array)
  qed
  ultimately show ?thesis
    using assms(2,4,5,6) to_num_int [of "t - int (length items)"]
    by (simp add: unassigned_count_def did_total_def opt_get_def js_coalesce_def num_sub_def)
qed

text \<open>
  Unassigning, switching and assigning a number report success without asking the server anything:
  each of them logs one success message and no request.
\<close>

lemma did_actions_pretend:
  "sent (snd (handleUnassign did s)) = sent s \<and> sent (snd (handleToggle did s)) = sent s \<and>
   sent (snd (assign_submit s)) = sent s \<and>
   (dp_selected s = Some did \<and> dp_customer s \<noteq> [] \<longrightarrow>
      (\<exists>m. w_log (snd (assign_submit s)) = w_log s @ [ToastOk m]) \<and> \<not> dp_assign_open (snd (assign_submit s)))"
  by (auto simp: handleUnassign_def handleToggle_def assign_submit_def handleAssignSubmit_def emit_run bind_def
      effect_def sent_def log_event_def split: option.splits)

end
