(* ===== verification/Gateways.thy ===== *)
theory Gateways
  imports Forms Admin_Hooks
begin

text \<open>
  \<open>features/gateways\<close> of the console: the tables of the two gateway pools, switching a gateway, the sheet
  that edits its configuration and the test call dialog. Sorting is kept by the table library and left out
  of the state. A cell that reads a missing field may throw while the table renders, so the table is a sum.
\<close>

section \<open>State\<close>

record gateways_page = world +
  gp_tab :: jstr
  gp_a_pagination :: pagination
  gp_b_pagination :: pagination
  gp_sheet_open :: bool
  gp_editing :: "jsval option"
  gp_sheet_type :: jsval
  gp_form :: jsval
  gp_form_errors :: form_errors
  gp_test_open :: bool
  gp_testing :: "jsval option"
  gp_phone :: jsval
  gp_phone_errors :: form_errors
  gp_result :: "jsval option"
  gp_toggle :: "jsval option"

type_synonym ('s, 'a) gateways_prog = "('s gateways_page_scheme, jsval, 'a) prog"

abbreviation a_leg :: jsval where
  "a_leg \<equiv> jlit ''a_leg''"

abbreviation b_leg :: jsval where
  "b_leg \<equiv> jlit ''b_leg''"

text \<open>
  The lists of the page: a value that is not an array has no \<open>filter\<close>, and reading the type of a missing
  element throws.
\<close>

definition all_gateways :: "jsval \<Rightarrow> jsval + jsval list" where
  "all_gateways data =
     (case js_coalesce (opt_get ''gateways'' data) (JArr []) of JArr vs \<Rightarrow> Inr vs | _ \<Rightarrow> Inl type_error)"

definition leg_gateways :: "jsval \<Rightarrow> jsval list \<Rightarrow> jsval + jsval list" where
  "leg_gateways leg gws = sfilter (\<lambda>gw. sbind (get ''type'' gw) (\<lambda>t. Inr (t = leg))) gws"

section \<open>Handlers of the page\<close>

definition handleAddGateway :: "'s gateways_page_scheme \<Rightarrow> 's gateways_page_scheme" where
  "handleAddGateway s = s\<lparr>gp_editing := None, gp_sheet_type := JStr (gp_tab s), gp_sheet_open := True\<rparr>"

definition gw_handleEdit :: "jsval \<Rightarrow> 's gateways_page_scheme \<Rightarrow> 's gateways_page_scheme" where
  "gw_handleEdit gateway s =
     s\<lparr>gp_editing := Some gateway, gp_sheet_type := opt_get ''type'' gateway, gp_sheet_open := True\<rparr>"

definition gw_handleToggle :: "jsval \<Rightarrow> 's gateways_page_scheme \<Rightarrow> 's gateways_page_scheme" where
  "gw_handleToggle gateway s = s\<lparr>gp_toggle := Some gateway\<rparr>"

definition toggle_params :: "jsval \<Rightarrow> bool \<Rightarrow> jsval" where
  "toggle_params gateway enabled = obj [(''gateway_id'', opt_get ''id'' gateway), (''enabled'', JBool enabled)]"

definition gw_enabling :: "jsval \<Rightarrow> bool" where
  "gw_enabling target \<longleftrightarrow> opt_get ''status'' target = jlit ''disabled'' \<or> opt_get ''status'' target = jlit ''down''"

definition confirmToggle :: "('s, unit) gateways_prog" where
  "confirmToggle = (\<lambda>s.
     case gp_toggle s of
       None \<Rightarrow> (Inr (), s)
     | Some target \<Rightarrow>
         bind (try_catch
           (bind (mutate_async admin_useToggleGateway (toggle_params target (gw_enabling target))) (\<lambda>_.
            emit (ToastOk (if gw_enabling target then [0x7F51, 0x5173, 0x5DF2, 0x4E0A, 0x7EBF] else [0x7F51, 0x5173, 0x5DF2, 0x4E0B, 0x7EBF]))))
           (\<lambda>_. emit (ToastError [0x64CD, 0x4F5C, 0x5931, 0x8D25, 0xFF0C, 0x8BF7, 0x91CD, 0x8BD5]))) (\<lambda>_.
         effect (\<lambda>s. s\<lparr>gp_toggle := None\<rparr>)) s)"

text \<open>\<open>mutate\<close> with callbacks: one of them runs when the request settles.\<close>

definition handleSwitchToggle :: "jsval \<Rightarrow> bool \<Rightarrow> ('s, unit) gateways_prog" where
  "handleSwitchToggle gateway enabled =
     try_catch
       (bind (mutate_async admin_useToggleGateway (toggle_params gateway enabled)) (\<lambda>_.
        emit (ToastOk (if enabled then [0x7F51, 0x5173, 0x5DF2, 0x542F, 0x7528] else [0x7F51, 0x5173, 0x5DF2, 0x7981, 0x7528]))))
       (\<lambda>_. emit (ToastError [0x64CD, 0x4F5C, 0x5931, 0x8D25, 0xFF0C, 0x8BF7, 0x91CD, 0x8BD5]))"

definition handleTest :: "jsval \<Rightarrow> 's gateways_page_scheme \<Rightarrow> 's gateways_page_scheme" where
  "handleTest gateway s = s\<lparr>gp_testing := Some gateway, gp_test_open := True\<rparr>"

definition handleTestOriginate :: "jsval \<Rightarrow> jsval \<Rightarrow> ('s, jsval) gateways_prog" where
  "handleTestOriginate gatewayId phoneNumber =
     return (obj [(''success'', JBool True), (''message'', JStr [0x6D4B, 0x8BD5, 0x547C, 0x53EB, 0x6210, 0x529F]), (''duration_ms'', jint 1200)])"

definition handleSubmitConfig :: "jsval \<Rightarrow> ('s, unit) gateways_prog" where
  "handleSubmitConfig formData = (\<lambda>s.
     emit (ToastOk (if gp_editing s \<noteq> None then [0x7F51, 0x5173, 0x914D, 0x7F6E, 0x5DF2, 0x66F4, 0x65B0] else [0x7F51, 0x5173, 0x5DF2, 0x521B, 0x5EFA])) s)"

section \<open>The configuration sheet\<close>

definition baseSchema :: schema where
  "baseSchema =
     [(''name'', ZString [CkLength 1 [0x8BF7, 0x8F93, 0x5165, 0x7F51, 0x5173, 0x540D, 0x79F0]]),
      (''host'', ZString [CkLength 1 ([0x8BF7, 0x8F93, 0x5165] @ js '' SIP '' @ [0x5730, 0x5740])]),
      (''port'', ZCoerce [CkInt, CkMin (num_int 1) None, CkMax (num_int 65535) None]),
      (''max_concurrent'', ZCoerce [CkInt, CkMin (num_int 1) (Some [0x8BF7, 0x8F93, 0x5165, 0x6700, 0x5927, 0x5E76, 0x53D1, 0x6570])]),
      (''enabled'', ZBoolean)]"

definition aLegSchema :: schema where
  "aLegSchema = baseSchema @ [(''weight'', ZCoerce [CkInt, CkMin (num_int 1) None, CkMax (num_int 100) None])]"

definition bLegSchema :: schema where
  "bLegSchema = baseSchema @
     [(''prefix'', ZOptional (ZString [])), (''failover_gateway_id'', ZOptional (ZString []))]"

definition gateway_schema :: "jsval \<Rightarrow> schema" where
  "gateway_schema gatewayType = (if gatewayType = a_leg then aLegSchema else bLegSchema)"

definition new_gateway_values :: "jsval \<Rightarrow> jsval" where
  "new_gateway_values gatewayType = obj
     ([(''name'', JStr []), (''host'', JStr []), (''port'', jint 5060), (''max_concurrent'', jint 100),
       (''enabled'', JBool True)] @
      (if gatewayType = a_leg then [(''weight'', jint 50)]
       else [(''prefix'', JStr []), (''failover_gateway_id'', JStr [])]))"

definition edit_gateway_values :: "jsval \<Rightarrow> jsval \<Rightarrow> jsval" where
  "edit_gateway_values gatewayType gateway = obj
     ([(''name'', opt_get ''name'' gateway), (''host'', opt_get ''host'' gateway),
       (''port'', opt_get ''port'' gateway), (''max_concurrent'', opt_get ''max_concurrent'' gateway),
       (''enabled'', JBool (opt_get ''status'' gateway \<noteq> jlit ''disabled''))] @
      (if gatewayType = a_leg then [(''weight'', opt_get ''weight'' gateway)]
       else [(''prefix'', opt_get ''prefix'' gateway),
             (''failover_gateway_id'', opt_get ''failover_gateway_id'' gateway)]))"

text \<open>The effect on \<open>open\<close>, \<open>gateway\<close> and \<open>gatewayType\<close>.\<close>

definition config_effect :: "'s gateways_page_scheme \<Rightarrow> 's gateways_page_scheme" where
  "config_effect s =
     (if gp_sheet_open s then
        s\<lparr>gp_form := (case gp_editing s of
             Some gateway \<Rightarrow> edit_gateway_values (gp_sheet_type s) gateway
           | None \<Rightarrow> new_gateway_values (gp_sheet_type s)),
          gp_form_errors := []\<rparr>
      else s)"

text \<open>\<open>onSubmit({ ...data, type: gatewayType })\<close>, then the sheet closes.\<close>

definition config_data :: "jsval \<Rightarrow> jsval \<Rightarrow> jsval" where
  "config_data gatewayType d = JObj (set_field (js ''type'') gatewayType (own_fields d))"

definition gw_onFormSubmit :: "jsval \<Rightarrow> ('s, unit) gateways_prog" where
  "gw_onFormSubmit d = (\<lambda>s.
     bind (handleSubmitConfig (config_data (gp_sheet_type s) d)) (\<lambda>_.
     effect (\<lambda>s. s\<lparr>gp_sheet_open := False\<rparr>)) s)"

definition config_submit :: "parser_fn \<Rightarrow> ('s, unit) gateways_prog" where
  "config_submit parse = (\<lambda>s.
     submit_form parse (gateway_schema (gp_sheet_type s)) (gp_form s)
       (\<lambda>es. effect (\<lambda>s. s\<lparr>gp_form_errors := es\<rparr>)) gw_onFormSubmit s)"

definition gw_set_value :: "string \<Rightarrow> jsval \<Rightarrow> 's gateways_page_scheme \<Rightarrow> 's gateways_page_scheme" where
  "gw_set_value k v s = s\<lparr>gp_form := JObj (set_field (js k) v (own_fields (gp_form s)))\<rparr>"

definition choose_failover :: "jsval \<Rightarrow> 's gateways_page_scheme \<Rightarrow> 's gateways_page_scheme" where
  "choose_failover val = gw_set_value ''failover_gateway_id'' (if val = jlit ''_none'' then JStr [] else val)"

text \<open>
  \<open>gw.id !== gateway?.id\<close>: without an edited gateway nothing is excluded. The page has filtered the list
  before it draws the sheet, so no element is missing here or in the table's map of names.
\<close>

definition failover_choices :: "jsval list \<Rightarrow> jsval option \<Rightarrow> jsval list" where
  "failover_choices gws editing =
     filter (\<lambda>gw. opt_get ''type'' gw = b_leg \<and>
       \<not> strict_eq (opt_get ''id'' gw) (opt_get ''id'' (case editing of None \<Rightarrow> JUndef | Some g \<Rightarrow> g))) gws"

section \<open>The test call dialog\<close>

definition phoneSchema :: schema where
  "phoneSchema = [(''phoneNumber'', ZString [CkLength 1 [0x8BF7, 0x8F93, 0x5165, 0x6D4B, 0x8BD5, 0x53F7, 0x7801]])]"

definition test_onSubmit :: "jsval \<Rightarrow> ('s, unit) gateways_prog" where
  "test_onSubmit d = (\<lambda>s.
     case gp_testing s of
       None \<Rightarrow> (Inr (), s)
     | Some gateway \<Rightarrow>
         bind (effect (\<lambda>s. s\<lparr>gp_result := None\<rparr>)) (\<lambda>_.
         bind (handleTestOriginate (opt_get ''id'' gateway) (opt_get ''phoneNumber'' d)) (\<lambda>res.
         effect (\<lambda>s. s\<lparr>gp_result := Some res\<rparr>))) s)"

definition test_submit :: "parser_fn \<Rightarrow> ('s, unit) gateways_prog" where
  "test_submit parse = (\<lambda>s.
     submit_form parse phoneSchema (gp_phone s) (\<lambda>es. effect (\<lambda>s. s\<lparr>gp_phone_errors := es\<rparr>)) test_onSubmit s)"

definition test_handleOpenChange :: "bool \<Rightarrow> 's gateways_page_scheme \<Rightarrow> 's gateways_page_scheme" where
  "test_handleOpenChange opening s =
     (let s' = (if opening then s
                else s\<lparr>gp_phone := obj [(''phoneNumber'', JStr [])], gp_phone_errors := [], gp_result := None\<rparr>)
      in s'\<lparr>gp_test_open := opening\<rparr>)"

section \<open>Views\<close>

definition gw_statusConfig :: "(jstr \<times> jsval) list" where
  "gw_statusConfig =
     [(js ''up'', obj [(''label'', JStr [0x5728, 0x7EBF]), (''dotClass'', jlit ''bg-green-500''),
        (''badgeClass'', jlit ''bg-green-100 text-green-700 dark:bg-green-900/30 dark:text-green-400'')]),
      (js ''down'', obj [(''label'', JStr [0x5F02, 0x5E38]), (''dotClass'', jlit ''bg-red-500 animate-pulse''),
        (''badgeClass'', jlit ''bg-red-100 text-red-700 dark:bg-red-900/30 dark:text-red-400'')]),
      (js ''disabled'', obj [(''label'', JStr [0x5DF2, 0x7981, 0x7528]), (''dotClass'', jlit ''bg-gray-400''),
        (''badgeClass'', jlit ''bg-gray-100 text-gray-700 dark:bg-gray-800/50 dark:text-gray-400'')])]"

definition health_badge :: "jsval \<Rightarrow> jsval + view" where
  "health_badge status =
     (let config = table_get gw_statusConfig (to_str status) in
      sbind (get ''badgeClass'' config) (\<lambda>badge. sbind (get ''dotClass'' config) (\<lambda>dot.
      sbind (get ''label'' config) (\<lambda>label.
      Inr (El ''Badge'' [(''className'', to_str badge)]
        [El ''span'' [(''className'', js ''mr-1.5 inline-block h-2 w-2 rounded-full '' @ to_str dot)] [],
         show_val label])))))"

text \<open>The names of the failover gateways: the last entry of an identifier wins.\<close>

definition failoverMap :: "jsval list \<Rightarrow> jsval \<Rightarrow> jsval" where
  "failoverMap gws fid =
     (case map_of (rev (map (\<lambda>gw. (opt_get ''id'' gw, opt_get ''name'' gw)) gws)) fid of
        None \<Rightarrow> JUndef | Some name \<Rightarrow> name)"

definition failover_cell :: "jsval list \<Rightarrow> jsval \<Rightarrow> view" where
  "failover_cell gws gw =
     (let fid = opt_get ''failover_gateway_id'' gw in
      if truthy fid then show_val (js_coalesce (failoverMap gws fid) fid) else lit ''-'')"

type_synonym gateway_row = "jsval \<times> view"

text \<open>The columns, over the rows with their rendered badge.\<close>

definition gateway_columns :: "jsval list \<Rightarrow> jsval \<Rightarrow> gateway_row column list" where
  "gateway_columns allGateways gatewayType =
     map (\<lambda>c. c\<lparr>col_can_sort := False\<rparr>)
       [column [0x540D, 0x79F0] (\<lambda>(g, b). show_val (opt_get ''name'' g)),
        column (js ''SIP '' @ [0x5730, 0x5740]) (\<lambda>(g, b). El ''span'' []
          [show_val (opt_get ''host'' g), lit '':'', show_val (opt_get ''port'' g)]),
        column [0x7C7B, 0x578B] (\<lambda>(g, b). El ''Badge'' []
          [Txt (if opt_get ''type'' g = a_leg then (js ''A '' @ [0x8DEF]) else (js ''B '' @ [0x8DEF]))]),
        column [0x5065, 0x5EB7, 0x72B6, 0x6001] (\<lambda>(g, b). b)] @
     (if gatewayType = a_leg then [column [0x6743, 0x91CD] (\<lambda>(g, b). show_val (opt_get ''weight'' g))] else []) @
     (if gatewayType = b_leg then
        map (\<lambda>c. c\<lparr>col_can_sort := False\<rparr>)
          [column [0x524D, 0x7F00] (\<lambda>(g, b). El ''span'' [] [show_val (js_or (opt_get ''prefix'' g) (jlit ''-''))]),
           column [0x5BB9, 0x707E, 0x7F51, 0x5173] (\<lambda>(g, b). failover_cell allGateways g)]
      else []) @
     map (\<lambda>c. c\<lparr>col_can_sort := False\<rparr>)
       [column [0x542F, 0x7528, 0x72B6, 0x6001] (\<lambda>(g, b). El ''Switch''
          [flag ''checked'' (opt_get ''status'' g \<noteq> jlit ''disabled''), (''onCheckedChange'', js ''switchToggle'')] []),
        column ([0x5F53, 0x524D, 0x5E76, 0x53D1] @ js ''/'' @ [0x6700, 0x5927, 0x5E76, 0x53D1]) (\<lambda>(g, b). El ''span'' []
          [show_val (opt_get ''concurrent_calls'' g), lit '' / '', show_val (opt_get ''max_concurrent'' g)]),
        column [0x64CD, 0x4F5C] (\<lambda>(g, b). El ''DropdownMenu'' []
          [El ''DropdownMenuItem'' [(''onClick'', js ''edit'')] [Txt [0x7F16, 0x8F91, 0x914D, 0x7F6E]],
           El ''DropdownMenuItem'' [(''onClick'', js ''test'')] [Txt [0x6D4B, 0x8BD5, 0x547C, 0x53EB]],
           El ''DropdownMenuSeparator'' [] [],
           El ''DropdownMenuItem'' [(''onClick'', js ''toggle'')]
             [Txt (if opt_get ''status'' g = jlit ''up'' then [0x4E0B, 0x7EBF] else [0x4E0A, 0x7EBF])]])]"

definition gateway_table ::
    "jsval list \<Rightarrow> jsval list \<Rightarrow> jsval \<Rightarrow> pagination \<Rightarrow> bool \<Rightarrow> bool \<Rightarrow> bool \<Rightarrow> jsval + view" where
  "gateway_table allGateways rows gatewayType p isLoading canPrev canNext =
     sbind (if isLoading then Inr [] else smap (\<lambda>g. health_badge (opt_get ''status'' g)) rows) (\<lambda>badges.
     Inr (data_table (gateway_columns allGateways gatewayType) (zip rows badges) (int (length rows)) p isLoading
       nothing canPrev canNext))"

definition gateway_config_sheet :: "jsval list \<Rightarrow> bool \<Rightarrow> 's gateways_page_scheme \<Rightarrow> view" where
  "gateway_config_sheet otherGateways isSubmitting s =
     (let es = gp_form_errors s; kind = gp_sheet_type s; value = (\<lambda>k. opt_get k (gp_form s)) in
      El ''Sheet'' [flag ''open'' (gp_sheet_open s)]
        [El ''SheetTitle'' [] [Txt (if gp_editing s \<noteq> None then [0x7F16, 0x8F91, 0x7F51, 0x5173] else [0x6DFB, 0x52A0, 0x7F51, 0x5173])],
         El ''SheetDescription'' [] [Txt (if kind = a_leg then (js ''A '' @ [0x8DEF, 0x7F51, 0x5173, 0x914D, 0x7F6E]) else (js ''B '' @ [0x8DEF, 0x7F51, 0x5173, 0x914D, 0x7F6E]))],
         input_field es ''name'' [0x540D, 0x79F0] [(''placeholder'', ([0x4F8B] @ js '': GW-SH-01''))],
         input_field es ''host'' (js ''SIP '' @ [0x5730, 0x5740]) [(''placeholder'', js ''192.168.1.100'')],
         input_field es ''port'' [0x7AEF, 0x53E3] [(''type'', js ''number'')],
         input_field es ''max_concurrent'' [0x6700, 0x5927, 0x5E76, 0x53D1, 0x6570] [(''type'', js ''number'')],
         only_if (kind = a_leg)
           (input_field es ''weight'' ([0x6743, 0x91CD] @ js '' (1-100)'') [(''type'', js ''number''), (''min'', js ''1''), (''max'', js ''100'')]),
         only_if (kind = b_leg)
           (Frag
             [El ''div'' [] [El ''Label'' [] [Txt [0x524D, 0x7F00]],
                El ''Input'' [(''id'', js ''prefix''), (''placeholder'', js ''130,131,132'')] [],
                El ''p'' [] [Txt [0x591A, 0x4E2A, 0x524D, 0x7F00, 0x7528, 0x9017, 0x53F7, 0x5206, 0x9694]]],
              El ''div'' [] [El ''Label'' [] [Txt [0x5BB9, 0x707E, 0x7F51, 0x5173]],
                El ''Select'' [(''value'', to_str (js_or (value ''failover_gateway_id'') (JStr []))),
                    (''placeholder'', [0x9009, 0x62E9, 0x5BB9, 0x707E, 0x7F51, 0x5173, 0xFF08, 0x53EF, 0x9009, 0xFF09])]
                  (El ''SelectItem'' [(''value'', js ''_none'')] [Txt [0x65E0]] #
                   map (\<lambda>g. El ''SelectItem'' [(''value'', to_str (opt_get ''id'' g))] [show_val (opt_get ''name'' g)])
                     (failover_choices otherGateways (gp_editing s)))]]),
         El ''Label'' [] [Txt [0x542F, 0x7528]],
         El ''Switch'' [(''id'', js ''enabled''), flag ''checked'' (value ''enabled'' = JBool True)] [],
         button [0x53D6, 0x6D88] ''cancel'' False,
         button (if isSubmitting then ([0x4FDD, 0x5B58, 0x4E2D] @ js ''...'') else [0x4FDD, 0x5B58]) ''submit'' isSubmitting])"

definition test_result_view :: "jsval \<Rightarrow> view" where
  "test_result_view result =
     El ''div'' []
       [El ''span'' [] [Txt [0x7ED3, 0x679C, 0xFF1A]],
        El ''Badge'' [(''className'', if truthy (opt_get ''success'' result)
            then js ''bg-green-100 text-green-700 dark:bg-green-900/30 dark:text-green-400''
            else js ''bg-red-100 text-red-700 dark:bg-red-900/30 dark:text-red-400'')]
          [Txt (if truthy (opt_get ''success'' result) then [0x6210, 0x529F] else [0x5931, 0x8D25])],
        El ''p'' [] [show_val (opt_get ''message'' result)],
        only_if (num_lt (Fin 0) (to_number (opt_get ''duration_ms'' result)))
          (El ''p'' [] [Txt [0x8017, 0x65F6, 0xFF1A], show_val (opt_get ''duration_ms'' result), lit ''ms''])]"

definition test_originate_dialog :: "bool \<Rightarrow> 's gateways_page_scheme \<Rightarrow> view" where
  "test_originate_dialog isSubmitting s =
     El ''Dialog'' [flag ''open'' (gp_test_open s)]
       [El ''DialogTitle'' [] [Txt [0x6D4B, 0x8BD5, 0x547C, 0x53EB]],
        El ''DialogDescription'' []
          [Txt ([0x901A, 0x8FC7, 0x7F51, 0x5173] @ js '' ''), show_val (opt_get ''name'' (case gp_testing s of None \<Rightarrow> JNull | Some g \<Rightarrow> g)),
           Txt (js '' '' @ [0x53D1, 0x8D77, 0x6D4B, 0x8BD5, 0x547C, 0x53EB])],
        El ''div'' [] [El ''Label'' [] [Txt [0x6D4B, 0x8BD5, 0x53F7, 0x7801]], El ''Phone'' [] [],
          El ''Input'' [(''id'', js ''phoneNumber''), (''placeholder'', [0x8F93, 0x5165, 0x6D4B, 0x8BD5, 0x53F7, 0x7801])] [],
          field_error (gp_phone_errors s) ''phoneNumber''],
        case gp_result s of None \<Rightarrow> nothing | Some r \<Rightarrow> test_result_view r,
        button [0x5173, 0x95ED] ''close'' False,
        button (if isSubmitting then ([0x547C, 0x53EB, 0x4E2D] @ js ''...'') else [0x53D1, 0x8D77, 0x547C, 0x53EB]) ''submit'' isSubmitting]"

definition toggle_dialog :: "'s gateways_page_scheme \<Rightarrow> view" where
  "toggle_dialog s =
     (let target = (case gp_toggle s of None \<Rightarrow> JNull | Some g \<Rightarrow> g);
          up = (opt_get ''status'' target = jlit ''up''); name = to_str (opt_get ''name'' target) in
      El ''AlertDialog'' [flag ''open'' (gp_toggle s \<noteq> None)]
        [El ''AlertDialogTitle'' [] [Txt (if up then [0x786E, 0x8BA4, 0x4E0B, 0x7EBF, 0x7F51, 0x5173] else [0x786E, 0x8BA4, 0x4E0A, 0x7EBF, 0x7F51, 0x5173])],
         El ''AlertDialogDescription'' []
           [Txt (if up then ([0x786E, 0x8BA4, 0x5C06, 0x7F51, 0x5173] @ js '' '') @ name @ (js '' '' @ [0x4E0B, 0x7EBF, 0xFF1F, 0x4E0B, 0x7EBF, 0x540E, 0x8BE5, 0x7F51, 0x5173, 0x5C06, 0x4E0D, 0x518D, 0x63A5, 0x6536, 0x65B0, 0x547C, 0x53EB, 0x3002])
                 else ([0x786E, 0x8BA4, 0x5C06, 0x7F51, 0x5173] @ js '' '') @ name @ (js '' '' @ [0x4E0A, 0x7EBF, 0xFF1F]))],
         El ''AlertDialogCancel'' [] [Txt [0x53D6, 0x6D88]],
         El ''AlertDialogAction'' [(''onClick'', js ''confirmToggle'')] [Txt [0x786E, 0x8BA4]]])"

text \<open>The tabs of the component kit render the content of the chosen tab only.\<close>

definition gateways_view ::
    "jsval \<Rightarrow> bool \<Rightarrow> bool \<Rightarrow> bool \<Rightarrow> bool \<Rightarrow> bool \<Rightarrow> 's gateways_page_scheme \<Rightarrow> jsval + view" where
  "gateways_view data isLoading saving calling canPrev canNext s =
     sbind (all_gateways data) (\<lambda>allGateways.
      sbind (leg_gateways a_leg allGateways) (\<lambda>aLegGateways.
      sbind (leg_gateways b_leg allGateways) (\<lambda>bLegGateways.
      let content = (\<lambda>leg rows p. if JStr (gp_tab s) = leg
            then gateway_table allGateways rows leg p isLoading canPrev canNext else Inr nothing) in
      sbind (content a_leg aLegGateways (gp_a_pagination s)) (\<lambda>a.
      sbind (content b_leg bLegGateways (gp_b_pagination s)) (\<lambda>b.
      Inr (El ''div'' []
        [El ''h1'' [] [Txt [0x7F51, 0x5173, 0x7BA1, 0x7406]], El ''p'' [] [Txt (js ''A/B '' @ [0x8DEF, 0x7F51, 0x5173, 0x6C60, 0x548C, 0x5065, 0x5EB7, 0x72B6, 0x6001, 0x7BA1, 0x7406])],
         El ''Button'' [(''onClick'', js ''addGateway'')] [El ''Plus'' [] [], Txt [0x6DFB, 0x52A0, 0x7F51, 0x5173]],
         El ''Tabs'' [(''value'', gp_tab s)]
           [El ''TabsTrigger'' [(''value'', js ''a_leg'')] [Txt (js ''A '' @ [0x8DEF, 0x7F51, 0x5173, 0x6C60])],
            El ''TabsTrigger'' [(''value'', js ''b_leg'')] [Txt (js ''B '' @ [0x8DEF, 0x7F51, 0x5173, 0x6C60])],
            El ''TabsContent'' [(''value'', js ''a_leg'')] [a],
            El ''TabsContent'' [(''value'', js ''b_leg'')] [b]],
         gateway_config_sheet allGateways saving s,
         test_originate_dialog calling s,
         toggle_dialog s]))))))"

section \<open>Properties\<close>

definition toggle_rq :: "jsval \<Rightarrow> bool \<Rightarrow> httpreq" where
  "toggle_rq gateway enabled =
     admin_rq (js ''/api/routing/gateways/'' @ to_str (opt_get ''id'' gateway) @ js ''/toggle'')
       (with_json ''POST'' (obj [(''enabled'', JBool enabled)]))"

lemma toggle_run:
  "mutate_async admin_useToggleGateway (toggle_params g b) w =
     (case response_result (w_net w (sent w) (toggle_rq g b)) of
        Inl e \<Rightarrow> (Inl e, log_events [Sent (toggle_rq g b)] w)
      | Inr r \<Rightarrow> (Inr r, log_events [Sent (toggle_rq g b), Invalidated (key [''gateways''])] w))"
  using mutate_async_request [of admin_ToggleGateway "toggle_params g b" w "toggle_rq g b" "[key [''gateways'']]"]
  by (simp add: admin_useToggleGateway_def admin_ToggleGateway_def toggle_params_def with_field_obj opt_get_def
      admin_request_run toggle_rq_def split: sum.splits)

interpretation gw_toggle: one_request "\<lambda>(g, b). mutate_async admin_useToggleGateway (toggle_params g b)"
  "\<lambda>(g, b). toggle_rq g b" "[key [''gateways'']]"
  by unfold_locales (simp add: toggle_run split: sum.splits prod.splits)

lemma gateways_frame:
  "sent (s\<lparr>gp_toggle := t\<rparr>) = sent s" "sent (s\<lparr>gp_sheet_open := b\<rparr>) = sent s"
  "sent (s\<lparr>gp_form := v\<rparr>) = sent s" "sent (s\<lparr>gp_form_errors := es\<rparr>) = sent s"
  "sent (s\<lparr>gp_result := r\<rparr>) = sent s" "sent (s\<lparr>gp_phone_errors := es\<rparr>) = sent s"
  by (simp_all add: sent_def)

text \<open>A gateway as the client declares it has no status.\<close>

definition declared_gateway :: "jsval \<Rightarrow> bool" where
  "declared_gateway g \<longleftrightarrow> conforms Admin_Gateway g \<and> \<not> has_own (js ''status'') g"

lemma declared_no_status: "declared_gateway g \<Longrightarrow> opt_get ''status'' g = JUndef"
proof -
  assume d: "declared_gateway g"
  then obtain fs where g: "g = JObj fs"
    by (auto simp: declared_gateway_def Admin_Gateway_def split: jsval.splits)
  with d have "map_of fs (js ''status'') = None"
    by (simp add: declared_gateway_def has_own_def map_of_eq_None_iff)
  then show ?thesis by (simp add: g opt_get_def proto_get_def proto_names_def)
qed

text \<open>
  C9: for a gateway with one of the three statuses, as every row of the table has that can be drawn at all,
  confirming does what the dialog asks: a gateway that is up is taken offline, one that is down or disabled is
  brought online. The switch of a row sends what was chosen. Each sends one request and reports whether the
  server accepted it, and the confirmation closes in any case.
\<close>

theorem toggle_outcome:
  assumes g: "opt_get ''status'' g = jlit st" "st \<in> {''up'', ''down'', ''disabled''}" and t: "gp_toggle s = Some g"
  shows "let s1 = snd (handleSwitchToggle g b s); s2 = snd (confirmToggle s); online = (st \<noteq> ''up'');
      told = (\<lambda>ok yes. if ok then ToastOk yes else ToastError [0x64CD, 0x4F5C, 0x5931, 0x8D25, 0xFF0C, 0x8BF7, 0x91CD, 0x8BD5]) in
    sent s1 = sent s @ [toggle_rq g b] \<and>
    last (w_log s1) = told (succeeds (w_net s (sent s) (toggle_rq g b)))
      (if b then [0x7F51, 0x5173, 0x5DF2, 0x542F, 0x7528] else [0x7F51, 0x5173, 0x5DF2, 0x7981, 0x7528]) \<and>
    sent s2 = sent s @ [toggle_rq g online] \<and> gp_toggle s2 = None \<and>
    last (w_log s2) = told (succeeds (w_net s (sent s) (toggle_rq g online)))
      (if online then [0x7F51, 0x5173, 0x5DF2, 0x4E0A, 0x7EBF] else [0x7F51, 0x5173, 0x5DF2, 0x4E0B, 0x7EBF]) \<and>
    hd (texts (toggle_dialog s)) =
      (if online then [0x786E, 0x8BA4, 0x4E0A, 0x7EBF, 0x7F51, 0x5173] else [0x786E, 0x8BA4, 0x4E0B, 0x7EBF, 0x7F51, 0x5173])"
proof -
  have u: "opt_get ''status'' g = jlit ''up'' \<longleftrightarrow> st = ''up''"
    using g by (auto simp: js_Cons)
  have e: "gw_enabling g = (st \<noteq> ''up'')"
    using g by (auto simp: gw_enabling_def js_Cons)
  note r = gw_toggle.reported [of "(g, x)" for x, simplified]
  have s1: "snd (handleSwitchToggle g b s) = log_events (Sent (toggle_rq g b) #
      (if succeeds (w_net s (sent s) (toggle_rq g b))
       then [Invalidated (key [''gateways'']), ToastOk (if b then [0x7F51, 0x5173, 0x5DF2, 0x542F, 0x7528] else [0x7F51, 0x5173, 0x5DF2, 0x7981, 0x7528])]
       else [ToastError [0x64CD, 0x4F5C, 0x5931, 0x8D25, 0xFF0C, 0x8BF7, 0x91CD, 0x8BD5]])) s"
    by (simp add: handleSwitchToggle_def r)
  have s2: "snd (confirmToggle s) = (log_events (Sent (toggle_rq g (st \<noteq> ''up'')) #
      (if succeeds (w_net s (sent s) (toggle_rq g (st \<noteq> ''up'')))
       then [Invalidated (key [''gateways'']), ToastOk (if st \<noteq> ''up'' then [0x7F51, 0x5173, 0x5DF2, 0x4E0A, 0x7EBF] else [0x7F51, 0x5173, 0x5DF2, 0x4E0B, 0x7EBF])]
       else [ToastError [0x64CD, 0x4F5C, 0x5931, 0x8D25, 0xFF0C, 0x8BF7, 0x91CD, 0x8BD5]])) s)\<lparr>gp_toggle := None\<rparr>"
    by (simp add: confirmToggle_def t e prog_run_bind(1) [OF r] effect_def)
  show ?thesis
    unfolding Let_def s1 s2 by (simp add: toggle_dialog_def u t gateways_frame Let_def)
qed

lemma health_badge_undef: "health_badge JUndef = Inl type_error"
  by (simp add: health_badge_def table_get_def gw_statusConfig_def proto_get_def proto_names_def get_def)

lemma health_badge_known: "s \<in> {''up'', ''down'', ''disabled''} \<Longrightarrow> \<exists>v. health_badge (jlit s) = Inr v"
  by (auto simp: health_badge_def table_get_def gw_statusConfig_def get_def)

lemma health_badge_throws: "health_badge v = Inl e \<Longrightarrow> e = type_error"
  by (auto simp: health_badge_def get_def Let_def split: if_splits)

lemma gateway_table_throws:
  assumes "g \<in> set rows" and "declared_gateway g"
  shows "gateway_table gws rows leg p False c d = Inl type_error"
proof -
  let ?f = "\<lambda>g. health_badge (opt_get ''status'' g)"
  have "?f g = Inl type_error" by (simp add: declared_no_status [OF assms(2)] health_badge_undef)
  with assms(1) have "\<exists>e. smap ?f rows = Inl e" by (intro smap_throws) auto
  moreover have "smap ?f rows = Inl e \<Longrightarrow> e = type_error" for e
    by (auto dest!: smap_eq_Inl dest: health_badge_throws)
  ultimately show ?thesis by (auto simp: gateway_table_def)
qed

lemma gateway_table_renders:
  assumes "isLoading \<or> list_all (\<lambda>g. opt_get ''status'' g \<in> jlit ` {''up'', ''down'', ''disabled''}) rows"
  shows "\<exists>v. gateway_table gws rows leg p isLoading c d = Inr v"
proof (cases isLoading)
  case False
  have "\<exists>v. health_badge (opt_get ''status'' g) = Inr v" if "g \<in> set rows" for g
  proof -
    from assms False that obtain x where "opt_get ''status'' g = jlit x" "x \<in> {''up'', ''down'', ''disabled''}"
      unfolding list_all_iff by blast
    with health_badge_known [of x] show ?thesis by simp
  qed
  then obtain vs where "smap (\<lambda>g. health_badge (opt_get ''status'' g)) rows = Inr vs"
    using smap_total [of rows "\<lambda>g. health_badge (opt_get ''status'' g)"] by blast
  with False show ?thesis by (simp add: gateway_table_def)
qed (simp add: gateway_table_def)

lemma all_gateways_Inl: "all_gateways data = Inl e \<Longrightarrow> e = type_error"
  by (simp add: all_gateways_def split: jsval.splits)

lemma leg_gateways_missing:
  assumes "list_ex nullish gws"
  shows "leg_gateways leg gws = Inl type_error"
proof -
  let ?f = "\<lambda>gw. sbind (get ''type'' gw) (\<lambda>t. Inr (t = leg))"
  have "\<exists>x \<in> set gws. \<exists>e. ?f x = Inl e" using assms by (auto simp: list_ex_iff get_def)
  from sfilter_throws [OF this] obtain e where e: "leg_gateways leg gws = Inl e"
    by (auto simp: leg_gateways_def)
  then show ?thesis
    unfolding leg_gateways_def by (auto dest!: sfilter_eq_Inl simp: get_def split: if_splits)
qed

lemma leg_gateways_present:
  "\<not> list_ex nullish gws \<Longrightarrow> leg_gateways leg gws = Inr (filter (\<lambda>g. opt_get ''type'' g = leg) gws)"
  unfolding leg_gateways_def by (rule sfilter_Inr) (auto simp: list_ex_iff get_def opt_get_def)

lemma gateways_view_of_table:
  assumes "gp_tab s \<in> {js ''a_leg'', js ''b_leg''}" and "all_gateways data = Inr gws" and "\<not> list_ex nullish gws"
  obtains p where "\<And>e. gateway_table gws (filter (\<lambda>g. opt_get ''type'' g = JStr (gp_tab s)) gws) (JStr (gp_tab s))
      p isLoading c d = Inl e \<Longrightarrow> gateways_view data isLoading b1 b2 c d s = Inl e"
    and "\<And>v. gateway_table gws (filter (\<lambda>g. opt_get ''type'' g = JStr (gp_tab s)) gws) (JStr (gp_tab s))
      p isLoading c d = Inr v \<Longrightarrow> \<exists>v. gateways_view data isLoading b1 b2 c d s = Inr v"
proof (cases "gp_tab s = js ''a_leg''")
  case True
  then show ?thesis
    by (intro that [of "gp_a_pagination s"])
      (simp_all add: gateways_view_def assms(2) leg_gateways_present [OF assms(3)] Let_def)
next
  case False
  with assms(1) have "gp_tab s = js ''b_leg''" by simp
  then show ?thesis
    by (intro that [of "gp_b_pagination s"])
      (simp_all add: gateways_view_def assms(2) leg_gateways_present [OF assms(3)] Let_def)
qed

text \<open>A gateway the table can draw: one of the three statuses, and no object or array where a cell shows a value.\<close>

definition plain_value :: "jsval \<Rightarrow> bool" where
  "plain_value v = (case v of JObj fs \<Rightarrow> False | JArr vs \<Rightarrow> False | JError m \<Rightarrow> False | _ \<Rightarrow> True)"

definition drawable :: "jsval \<Rightarrow> bool" where
  "drawable g \<longleftrightarrow> \<not> nullish g \<and> opt_get ''status'' g \<in> jlit ` {''up'', ''down'', ''disabled''} \<and>
     list_all (\<lambda>k. plain_value (opt_get k g)) [''name'', ''host'', ''port'', ''weight'', ''prefix'',
       ''failover_gateway_id'', ''concurrent_calls'', ''max_concurrent'']"

text \<open>
  C7: when the page of the gateways can be drawn. An answer whose list is not an array, or that holds an empty
  element, makes it throw a \<open>TypeError\<close> in either pool. As soon as the chosen pool has a gateway of the shape
  the client declares it throws one as well: the badge looks up a status that such a gateway does not have. Where
  every gateway can be drawn, carrying one of the three statuses, and while the list is loading, the page is drawn.
\<close>

theorem gateways_page_throws:
  assumes leg: "gp_tab s \<in> {js ''a_leg'', js ''b_leg''}"
  shows "case all_gateways data of
      Inl e \<Rightarrow> gateways_view data isLoading saving calling c d s = Inl type_error
    | Inr gws \<Rightarrow>
        if list_ex nullish gws then gateways_view data isLoading saving calling c d s = Inl type_error
        else (list_ex (\<lambda>g. declared_gateway g \<and> opt_get ''type'' g = JStr (gp_tab s)) gws \<longrightarrow>
            gateways_view data False saving calling c d s = Inl type_error) \<and>
          (list_all drawable gws \<longrightarrow> (\<exists>v. gateways_view data isLoading saving calling c d s = Inr v))"
proof (cases "all_gateways data")
  case (Inl e)
  with all_gateways_Inl [OF this] show ?thesis by (simp add: gateways_view_def)
next
  case (Inr gws)
  show ?thesis
  proof (cases "list_ex nullish gws")
    case True
    with Inr show ?thesis by (simp add: gateways_view_def leg_gateways_missing)
  next
    case False
    let ?pool = "filter (\<lambda>g. opt_get ''type'' g = JStr (gp_tab s)) gws"
    have "gateways_view data False saving calling c d s = Inl type_error"
      if "list_ex (\<lambda>g. declared_gateway g \<and> opt_get ''type'' g = JStr (gp_tab s)) gws"
    proof -
      from that obtain g where "g \<in> set ?pool" "declared_gateway g" by (auto simp: list_ex_iff)
      note throws = gateway_table_throws [OF this]
      show ?thesis by (rule gateways_view_of_table [OF leg Inr False]) (blast intro: throws)
    qed
    moreover have "\<exists>v. gateways_view data isLoading saving calling c d s = Inr v" if "list_all drawable gws"
    proof -
      have "list_all (\<lambda>g. opt_get ''status'' g \<in> jlit ` {''up'', ''down'', ''disabled''}) ?pool"
        using that by (auto simp: list_all_iff drawable_def)
      note renders = gateway_table_renders [OF disjI2, OF this]
      show ?thesis by (rule gateways_view_of_table [OF leg Inr False]) (use renders in blast)
    qed
    ultimately show ?thesis using Inr False by simp
  qed
qed

definition sample_gateway :: jsval where
  "sample_gateway = obj [(''id'', jint 4), (''name'', jlit ''GW-SH-01''), (''type'', a_leg),
     (''host'', jlit ''10.0.0.1''), (''port'', jint 5060), (''enabled'', JBool False), (''weight'', jint 50),
     (''max_concurrent'', jint 100), (''health_status'', jlit ''up''), (''created_at'', jlit ''2026-03-10'')]"

definition sample_gateways :: gateways_page where
  "sample_gateways =
     \<lparr>w_net = (\<lambda>past r. Reply (ok_json JNull)),
      w_local = Map.empty, w_now = 0, w_random = (\<lambda>_. 0), w_draws = 0, w_log = [],
      gp_tab = js ''a_leg'', gp_a_pagination = \<lparr>pg_index = 0, pg_size = 20\<rparr>,
      gp_b_pagination = \<lparr>pg_index = 0, pg_size = 20\<rparr>, gp_sheet_open = True, gp_editing = None,
      gp_sheet_type = a_leg, gp_form = obj [(''name'', jlit ''gw''), (''host'', jlit ''h''), (''port'', jint 5060),
        (''max_concurrent'', jint 100), (''enabled'', JBool True), (''weight'', jint 50)],
      gp_form_errors = [], gp_test_open = False, gp_testing = None, gp_phone = obj [(''phoneNumber'', JStr [])],
      gp_phone_errors = [], gp_result = None, gp_toggle = Some sample_gateway\<rparr>"

lemma sample_declared: "declared_gateway sample_gateway"
  by (simp add: declared_gateway_def Admin_Gateway_def sample_gateway_def has_own_def)

text \<open>A gateway that carries a status, and the page with its confirmation open.\<close>

definition down_gateway :: jsval where
  "down_gateway = obj [(''id'', jint 4), (''name'', jlit ''GW-SH-01''), (''status'', jlit ''down'')]"

theorem toggle_outcome_witness:
  "last (w_log (snd (confirmToggle (sample_gateways\<lparr>gp_toggle := Some down_gateway\<rparr>)))) = ToastOk [0x7F51, 0x5173, 0x5DF2, 0x4E0A, 0x7EBF] \<and>
   sent (snd (handleSwitchToggle down_gateway True (sample_gateways\<lparr>gp_toggle := Some down_gateway\<rparr>))) = [toggle_rq down_gateway True]"
proof -
  let ?s = "sample_gateways\<lparr>gp_toggle := Some down_gateway\<rparr>"
  have "opt_get ''status'' down_gateway = jlit ''down''" by (simp add: down_gateway_def opt_get_def)
  moreover have "succeeds (w_net ?s (sent ?s) rq)" "sent ?s = []" for rq
    by (simp_all add: sample_gateways_def succeeds_def response_result_def sent_def)
  ultimately show ?thesis using toggle_outcome [of down_gateway "''down''" ?s True] by (simp add: Let_def)
qed

theorem gateways_page_throws_witness:
  "gateways_view (obj [(''gateways'', JArr [sample_gateway])]) False False False False False sample_gateways =
     Inl type_error"
proof -
  have leg: "gp_tab sample_gateways \<in> {js ''a_leg'', js ''b_leg''}" by (simp add: sample_gateways_def)
  have "all_gateways (obj [(''gateways'', JArr [sample_gateway])]) = Inr [sample_gateway]"
    by (simp add: all_gateways_def opt_get_def js_coalesce_def)
  moreover have "\<not> nullish sample_gateway" "opt_get ''type'' sample_gateway = JStr (gp_tab sample_gateways)"
    by (simp_all add: sample_gateway_def opt_get_def sample_gateways_def)
  ultimately show ?thesis
    using gateways_page_throws [OF leg, of "obj [(''gateways'', JArr [sample_gateway])]"] sample_declared
    by simp
qed

section \<open>What the sheet submits\<close>

lemma admits_int:
  assumes "admits (ZCoerce (CkInt # CkMin (num_int lo) m # cs)) (value_at kvs k)"
  obtains n where "opt_get k (JObj kvs) = jint n" and "lo \<le> n" and "list_all (\<lambda>c. passes c (jint n)) cs"
proof -
  obtain x where x: "map_of kvs (js k) = Some (JNum (Fin x))"
    using assms by (auto simp: value_at_def elim!: finite_numE split: option.splits)
  with assms have "\<exists>n. x = of_int n" and l: "of_int lo \<le> x"
    and cs: "list_all (\<lambda>c. passes c (JNum (Fin x))) cs" by (auto simp: num_le_def num_eq_def)
  then obtain n where "x = of_int n" by blast
  with x l cs show ?thesis by (intro that [of n]) (simp_all add: opt_get_def)
qed

lemma admits_present:
  "admits z (value_at kvs k) \<Longrightarrow> \<not> admits z JUndef \<Longrightarrow> opt_get k (JObj kvs) = value_at kvs k"
  by (auto simp: value_at_def opt_get_def split: option.splits)

definition base_ok :: "jsval \<Rightarrow> bool" where
  "base_ok d \<longleftrightarrow> (\<exists>p n b nm h. opt_get ''port'' d = jint p \<and> 1 \<le> p \<and> p \<le> 65535 \<and>
     opt_get ''max_concurrent'' d = jint n \<and> 1 \<le> n \<and> opt_get ''enabled'' d = JBool b \<and>
     opt_get ''name'' d = JStr nm \<and> nm \<noteq> [] \<and> opt_get ''host'' d = JStr h \<and> h \<noteq> [])"

lemma base_values:
  assumes "meets fs kvs" and "set baseSchema \<subseteq> set fs"
  shows "base_ok (JObj kvs)"
proof -
  have a: "(k, z) \<in> set baseSchema \<Longrightarrow> admits z (value_at kvs k)" for k z
    using assms by (auto simp: meets_def list_all_iff)
  have p: "admits (ZCoerce (CkInt # CkMin (num_int 1) None # [CkMax (num_int 65535) None])) (value_at kvs ''port'')"
    and n: "admits (ZCoerce (CkInt # CkMin (num_int 1) (Some [0x8BF7, 0x8F93, 0x5165, 0x6700, 0x5927, 0x5E76, 0x53D1, 0x6570]) # [])) (value_at kvs ''max_concurrent'')"
    and b: "admits ZBoolean (value_at kvs ''enabled'')"
    and nm: "admits (ZString [CkLength 1 [0x8BF7, 0x8F93, 0x5165, 0x7F51, 0x5173, 0x540D, 0x79F0]]) (value_at kvs ''name'')"
    and h: "admits (ZString [CkLength 1 ([0x8BF7, 0x8F93, 0x5165] @ js '' SIP '' @ [0x5730, 0x5740])]) (value_at kvs ''host'')"
    by (rule a, simp add: baseSchema_def)+
  from p obtain i where i: "opt_get ''port'' (JObj kvs) = jint i" "1 \<le> i"
      "list_all (\<lambda>c. passes c (jint i)) [CkMax (num_int 65535) None]"
    by (rule admits_int)
  from i(3) have u: "i \<le> 65535" by (simp add: num_le_def num_eq_def flip: of_int_le_iff) (use of_int_le_iff in auto)
  from n obtain j where j: "opt_get ''max_concurrent'' (JObj kvs) = jint j" "1 \<le> j"
    by (rule admits_int)
  have "\<exists>c. opt_get ''enabled'' (JObj kvs) = JBool c"
    using b admits_present [OF b] by (auto split: jsval.splits)
  moreover have "\<exists>x. opt_get ''name'' (JObj kvs) = JStr x \<and> x \<noteq> []" "\<exists>x. opt_get ''host'' (JObj kvs) = JStr x \<and> x \<noteq> []"
    using nm h admits_present [OF nm] admits_present [OF h] by (auto split: jsval.splits)
  ultimately show ?thesis using i(1,2) u j unfolding base_ok_def by blast
qed

lemma weight_value:
  assumes "meets aLegSchema kvs"
  shows "\<exists>w. opt_get ''weight'' (JObj kvs) = jint w \<and> 1 \<le> w \<and> w \<le> 100"
proof -
  have "admits (ZCoerce (CkInt # CkMin (num_int 1) None # [CkMax (num_int 100) None])) (value_at kvs ''weight'')"
    using assms by (simp add: meets_def aLegSchema_def baseSchema_def)
  then obtain w where w: "opt_get ''weight'' (JObj kvs) = jint w" "1 \<le> w"
      "list_all (\<lambda>c. passes c (jint w)) [CkMax (num_int 100) None]"
    by (rule admits_int)
  from w(3) have "w \<le> 100" by (simp add: num_le_def num_eq_def) linarith
  with w show ?thesis by blast
qed

text \<open>
  C13: the configuration sheet: what the page receives from the form is well typed, whatever was typed: a
  port between 1 and 65535, at least one concurrent call, a name and an address, and for the A pool a weight
  from 1 to 100. Nothing is sent: the page says the gateway was saved, and closes the sheet. Where the form is
  refused only its errors change.
\<close>

theorem config_submit_typed:
  assumes "schema_laws parse"
  shows "let s' = snd (config_submit parse s) in sent s' = sent s \<and>
    (case parse (gateway_schema (gp_sheet_type s)) (gp_form s) of
       Inl es \<Rightarrow> s' = s\<lparr>gp_form_errors := es\<rparr>
     | Inr d \<Rightarrow> base_ok d \<and>
         (gp_sheet_type s = a_leg \<longrightarrow> (\<exists>w. opt_get ''weight'' d = jint w \<and> 1 \<le> w \<and> w \<le> 100)) \<and>
         \<not> gp_sheet_open s' \<and>
         w_log s' = w_log s @ [ToastOk (if gp_editing s \<noteq> None then [0x7F51, 0x5173, 0x914D, 0x7F6E, 0x5DF2, 0x66F4, 0x65B0] else [0x7F51, 0x5173, 0x5DF2, 0x521B, 0x5EFA])])"
proof (cases "parse (gateway_schema (gp_sheet_type s)) (gp_form s)")
  case (Inl es)
  then show ?thesis by (simp add: config_submit_def submit_form_def effect_def gateways_frame)
next
  case (Inr d)
  from schema_lawsD [OF assms Inr] obtain kvs where d: "d = JObj kvs"
    and m: "meets (gateway_schema (gp_sheet_type s)) kvs" by blast
  have "set baseSchema \<subseteq> set (gateway_schema (gp_sheet_type s))"
    by (auto simp: gateway_schema_def aLegSchema_def bLegSchema_def)
  from base_values [OF m this] have b: "base_ok d" by (simp add: d)
  have "gp_sheet_type s = a_leg \<Longrightarrow> \<exists>w. opt_get ''weight'' d = jint w \<and> 1 \<le> w \<and> w \<le> 100"
    using weight_value [of kvs] m by (simp add: d gateway_schema_def)
  with b Inr show ?thesis
    by (simp add: config_submit_def submit_form_def gw_onFormSubmit_def handleSubmitConfig_def bind_def emit_run
        effect_def gateways_frame)
qed

theorem config_submit_typed_witness:
  "\<not> gp_sheet_open (snd (config_submit accept_all sample_gateways)) \<and>
   base_ok (gp_form sample_gateways)"
proof -
  have "accept_all (gateway_schema (gp_sheet_type sample_gateways)) (gp_form sample_gateways) =
      Inr (gp_form sample_gateways)"
    by (simp add: sample_gateways_def gateway_schema_def aLegSchema_def baseSchema_def accept_all_def Let_def
        value_at_def num_le_def num_eq_def)
  then show ?thesis using config_submit_typed [OF accept_all_laws, of sample_gateways] by (simp add: Let_def)
qed

end
