(* ===== verification/Js_Json.thy ===== *)
theory Js_Json
  imports Js_Value
begin

text \<open>
  Which texts \<open>JSON.parse\<close> accepts: a scanner of the JSON grammar over UTF-16 code units. It reads the text
  once, from left to right, with a stack of the brackets that are open; every step consumes input, which is
  its termination measure. What \<open>JSON.stringify\<close> writes is accepted.
\<close>

section \<open>Tokens\<close>

definition json_space :: "unit16 \<Rightarrow> bool" where
  "json_space u \<longleftrightarrow> u = 0x20 \<or> u = 9 \<or> u = 10 \<or> u = 13"

fun skip_space :: "jstr \<Rightarrow> jstr" where
  "skip_space [] = []"
| "skip_space (u # us) = (if json_space u then skip_space us else u # us)"

text \<open>The rest of a text after the end of a string whose opening quote was read.\<close>

definition is_hex :: "unit16 \<Rightarrow> bool" where
  "is_hex u \<longleftrightarrow> hex_value u \<noteq> None"

fun string_rest :: "jstr \<Rightarrow> jstr option" where
  "string_rest [] = None"
| "string_rest (u # us) =
     (if u = 0x22 then Some us
      else if u = 0x5C then
        (case us of
           [] \<Rightarrow> None
         | c # vs \<Rightarrow>
             if c \<in> {0x22, 0x5C, 0x2F, 0x62, 0x66, 0x6E, 0x72, 0x74} then string_rest vs
             else if c = 0x75 then
               (case vs of
                  h1 # h2 # h3 # h4 # ws \<Rightarrow>
                    if is_hex h1 \<and> is_hex h2 \<and> is_hex h3 \<and> is_hex h4 then string_rest ws else None
                | _ \<Rightarrow> None)
             else None)
      else if uint u < 32 then None
      else string_rest us)"

fun skip_digits :: "jstr \<Rightarrow> jstr" where
  "skip_digits [] = []"
| "skip_digits (u # us) = (if is_digit u then skip_digits us else u # us)"

text \<open>At least one digit, then as many as there are.\<close>

definition digits_rest :: "jstr \<Rightarrow> jstr option" where
  "digits_rest s = (case s of u # us \<Rightarrow> if is_digit u then Some (skip_digits us) else None | [] \<Rightarrow> None)"

definition int_rest :: "jstr \<Rightarrow> jstr option" where
  "int_rest s = (case s of u # us \<Rightarrow> if u = 0x30 then Some us else digits_rest s | [] \<Rightarrow> None)"

definition frac_rest :: "jstr \<Rightarrow> jstr option" where
  "frac_rest s = (case s of u # us \<Rightarrow> if u = 0x2E then digits_rest us else Some s | [] \<Rightarrow> Some s)"

definition sign_rest :: "jstr \<Rightarrow> jstr" where
  "sign_rest s = (case s of u # us \<Rightarrow> if u = 0x2B \<or> u = 0x2D then us else s | [] \<Rightarrow> s)"

definition exp_rest :: "jstr \<Rightarrow> jstr option" where
  "exp_rest s = (case s of u # us \<Rightarrow> if u = 0x65 \<or> u = 0x45 then digits_rest (sign_rest us) else Some s | [] \<Rightarrow> Some s)"

definition number_rest :: "jstr \<Rightarrow> jstr option" where
  "number_rest s =
     (let t = (case s of u # us \<Rightarrow> if u = 0x2D then us else s | [] \<Rightarrow> s) in
      Option.bind (int_rest t) (\<lambda>r. Option.bind (frac_rest r) exp_rest))"

fun literal_rest :: "jstr \<Rightarrow> jstr \<Rightarrow> jstr option" where
  "literal_rest [] s = Some s"
| "literal_rest (c # cs) [] = None"
| "literal_rest (c # cs) (u # us) = (if u = c then literal_rest cs us else None)"

definition word_rest :: "jstr \<Rightarrow> jstr option" where
  "word_rest s =
     (case literal_rest (js ''true'') s of
        Some r \<Rightarrow> Some r
      | None \<Rightarrow> (case literal_rest (js ''false'') s of Some r \<Rightarrow> Some r | None \<Rightarrow> literal_rest (js ''null'') s))"

section \<open>The scanner\<close>

datatype json_mode = WantValue | WantValueOrEnd | WantKey | WantKeyOrEnd | Done

datatype json_bracket = InArray | InObject

text \<open>A scalar value, or the key of a field with its colon, at the start of a text.\<close>

definition scalar_rest :: "jstr \<Rightarrow> jstr option" where
  "scalar_rest s =
     (case s of
        [] \<Rightarrow> None
      | u # us \<Rightarrow>
          if u = 0x22 then string_rest us
          else if u = 0x2D \<or> is_digit u then number_rest s
          else word_rest s)"

definition colon_rest :: "jstr \<Rightarrow> jstr option" where
  "colon_rest s = (case s of u # us \<Rightarrow> if u = 0x3A then Some us else None | [] \<Rightarrow> None)"

definition key_rest :: "jstr \<Rightarrow> jstr option" where
  "key_rest s =
     (case s of
        [] \<Rightarrow> None
      | u # us \<Rightarrow>
          if u = 0x22 then
            Option.bind (string_rest us) (\<lambda>r. colon_rest (skip_space r))
          else None)"

lemma length_skip [termination_simp]: "length (skip_space s) \<le> length s" "length (skip_digits s) \<le> length s"
  by (induction s) auto

lemma string_rest_shorter: "string_rest s = Some r \<Longrightarrow> length r < length s"
proof (induction s arbitrary: r rule: string_rest.induct)
  case (2 u us)
  then show ?case
    by (fastforce split: if_splits list.splits)
qed simp

lemma digits_rest_shorter: "digits_rest s = Some r \<Longrightarrow> length r < length s"
  using length_skip(2) by (auto simp: digits_rest_def less_Suc_eq_le split: list.splits if_splits)

lemma sign_rest_le: "length (sign_rest s) \<le> length s"
  by (auto simp: sign_rest_def split: list.splits)

lemma int_rest_shorter: "int_rest s = Some r \<Longrightarrow> length r < length s"
  by (auto simp: int_rest_def split: list.splits if_splits dest: digits_rest_shorter)

lemma frac_rest_le: "frac_rest s = Some r \<Longrightarrow> length r \<le> length s"
  using digits_rest_shorter by (fastforce simp: frac_rest_def split: list.splits if_splits)

lemma exp_rest_le: "exp_rest s = Some r \<Longrightarrow> length r \<le> length s"
  using digits_rest_shorter sign_rest_le
  by (fastforce simp: exp_rest_def split: list.splits if_splits dest: order_less_le_trans)

lemma number_rest_shorter: "number_rest s = Some r \<Longrightarrow> length r < length s"
  using int_rest_shorter frac_rest_le exp_rest_le
  by (fastforce simp: number_rest_def Let_def bind_eq_Some_conv split: list.splits if_splits)

lemma literal_rest_le: "literal_rest l s = Some r \<Longrightarrow> length r + length l = length s"
  by (induction l s rule: literal_rest.induct) (auto split: if_splits)

lemma word_rest_shorter: "word_rest s = Some r \<Longrightarrow> length r < length s"
  using literal_rest_le [of "js ''true''" s] literal_rest_le [of "js ''false''" s] literal_rest_le [of "js ''null''" s]
  by (fastforce simp: word_rest_def split: option.splits)

lemma scalar_rest_shorter [termination_simp]: "scalar_rest s = Some r \<Longrightarrow> length r < length s"
  using string_rest_shorter number_rest_shorter word_rest_shorter
  by (fastforce simp: scalar_rest_def split: list.splits if_splits)

lemma key_rest_shorter [termination_simp]: "key_rest s = Some r \<Longrightarrow> length r < length s"
proof -
  assume "key_rest s = Some r"
  then obtain us q where s: "s = 0x22 # us" "string_rest us = Some q" "colon_rest (skip_space q) = Some r"
    by (auto simp: key_rest_def bind_eq_Some_conv split: list.splits if_splits)
  then have "length r < length (skip_space q)"
    by (auto simp: colon_rest_def split: list.splits if_splits)
  then show ?thesis using string_rest_shorter [OF s(2)] length_skip(1) [of q] by (simp add: s)
qed

function json_scan :: "json_mode \<Rightarrow> json_bracket list \<Rightarrow> jstr \<Rightarrow> bool" where
  "json_scan m k [] = (m = Done \<and> k = [])"
| "json_scan m k (u # us) =
     (if json_space u then json_scan m k us
      else case m of
        Done \<Rightarrow>
          (case k of
             [] \<Rightarrow> False
           | InArray # k' \<Rightarrow> if u = 0x2C then json_scan WantValue k us
               else if u = 0x5D then json_scan Done k' us else False
           | InObject # k' \<Rightarrow> if u = 0x2C then json_scan WantKey k us
               else if u = 0x7D then json_scan Done k' us else False)
      | WantKey \<Rightarrow> (case key_rest (u # us) of None \<Rightarrow> False | Some r \<Rightarrow> json_scan WantValue k r)
      | WantKeyOrEnd \<Rightarrow>
          if u = 0x7D then json_scan Done (tl k) us
          else (case key_rest (u # us) of None \<Rightarrow> False | Some r \<Rightarrow> json_scan WantValue k r)
      | v \<Rightarrow>
          if v = WantValueOrEnd \<and> u = 0x5D then json_scan Done (tl k) us
          else if u = 0x5B then json_scan WantValueOrEnd (InArray # k) us
          else if u = 0x7B then json_scan WantKeyOrEnd (InObject # k) us
          else (case scalar_rest (u # us) of None \<Rightarrow> False | Some r \<Rightarrow> json_scan Done k r))"
  by pat_completeness auto

termination
  by (relation "measure (\<lambda>(m, k, s). length s)")
    (auto dest: key_rest_shorter scalar_rest_shorter)

declare json_scan.simps(2) [simp del]

definition json_parses :: "jstr \<Rightarrow> bool" where
  "json_parses s = json_scan WantValue [] s"

section \<open>What \<open>JSON.stringify\<close> writes\<close>

subsection \<open>Strings\<close>

lemma hex4_units: "\<exists>a b c d. hex4 u = [a, b, c, d] \<and> is_hex a \<and> is_hex b \<and> is_hex c \<and> is_hex d"
proof -
  have h: "is_hex (if d < 10 then of_int (48 + d) else of_int (87 + d))" if "0 \<le> d" "d < 16" for d :: int
  proof -
    have "uint (of_int n :: unit16) = n" if "0 \<le> n" "n < 65536" for n
      using that by (simp add: unsigned_of_int take_bit_eq_mod)
    then have "uint (of_int (48 + d) :: unit16) = 48 + d" "uint (of_int (87 + d) :: unit16) = 87 + d"
      using that by (simp_all del: of_int_add)
    with that show ?thesis by (auto simp: is_hex_def hex_value_def simp del: of_int_add)
  qed
  have u: "0 \<le> uint u" "uint u < 65536"
    using uint_lt2p [of u] by simp_all
  then have "uint u div 0x1000 < 16" by linarith
  moreover have "0 \<le> uint u div 0x1000"
    using u pos_imp_zdiv_nonneg_iff [of "0x1000" "uint u"] by linarith
  ultimately have q: "0 \<le> n \<and> n < 16" if "n \<in> {uint u div 0x1000, uint u div 0x100 mod 16, uint u div 16 mod 16, uint u mod 16}" for n
    using that by auto
  show ?thesis unfolding hex4_def list.map by (intro exI conjI) (rule refl h; use q in blast)+
qed

lemma string_rest_escape_u: "string_rest (js [CHR 0x5C, CHR ''u''] @ hex4 u @ t) = string_rest t"
proof -
  obtain a b c d where "hex4 u = [a, b, c, d]" "is_hex a" "is_hex b" "is_hex c" "is_hex d"
    using hex4_units [of u] by blast
  then show ?thesis by (simp add: js_lit)
qed

lemma string_rest_unit: "string_rest (quote_unit u @ t) = string_rest t"
proof -
  have "uint u < 32 \<Longrightarrow> u < 32" by (simp add: word_less_def)
  then show ?thesis
    using string_rest_escape_u [of u t] by (auto simp: quote_unit_def js_lit)
qed

lemma surrogate_plain:
  assumes "high_surrogate u \<or> low_surrogate u"
  shows "string_rest (u # t) = string_rest t"
proof -
  have "0xD800 \<le> uint u" using assms by (auto simp: high_surrogate_def low_surrogate_def)
  then have "u \<noteq> 0x22" "u \<noteq> 0x5C" "\<not> uint u < 32" by auto
  then show ?thesis by simp
qed

lemma string_rest_quoted: "string_rest (quote_units s @ 0x22 # r) = Some r"
proof (induction s rule: quote_units.induct)
  case (2 u us)
  show ?case
  proof (cases "high_surrogate u")
    case True
    show ?thesis
    proof (cases us)
      case Nil
      then show ?thesis using True string_rest_escape_u [of u "0x22 # r"] by simp
    next
      case (Cons v vs)
      then show ?thesis
        using True 2 surrogate_plain [of u] surrogate_plain [of v] string_rest_escape_u [of u "quote_units us @ 0x22 # r"]
        by (simp del: string_rest.simps)
    qed
  next
    case False
    then show ?thesis
      using 2 string_rest_escape_u [of u "quote_units us @ 0x22 # r"] string_rest_unit [of u]
      by (simp del: string_rest.simps)
  qed
qed simp

subsection \<open>Numbers\<close>

definition delim :: "jstr \<Rightarrow> bool" where
  "delim r \<longleftrightarrow> r = [] \<or> hd r \<in> {0x2C, 0x5D, 0x7D}"

lemma delim_facts:
  assumes "delim r"
  shows "skip_digits r = r" "frac_rest r = Some r" "exp_rest r = Some r"
  using assms by (cases r; auto simp: delim_def frac_rest_def exp_rest_def is_digit_def)+

lemma skip_digits_append: "\<forall>u \<in> set ds. is_digit u \<Longrightarrow> delim r \<Longrightarrow> skip_digits (ds @ r) = r"
  by (induction ds) (simp_all add: delim_facts)

lemma show_dec_first: "0 < n \<Longrightarrow> hd (show_dec n) \<noteq> 0x30"
proof (induction n rule: show_dec.induct)
  case (1 n)
  show ?case
  proof (cases "n < 10")
    case True
    then have "uint (digit_unit n) = 48 + n" using 1 by (intro uint_digit_unit) simp_all
    then have "digit_unit n \<noteq> 0x30" using 1 by auto
    with True show ?thesis by (simp add: show_dec.simps [of n])
  next
    case False
    with 1 show ?thesis by (simp add: show_dec.simps [of n])
  qed
qed

lemma int_rest_show: "0 \<le> n \<Longrightarrow> delim r \<Longrightarrow> int_rest (show_dec n @ r) = Some r"
proof (cases "n = 0")
  case True
  then show ?thesis by (simp add: show_dec.simps int_rest_def digit_unit_def)
next
  case False
  assume n: "0 \<le> n" "delim r"
  obtain d ds where d: "show_dec n = d # ds" using show_dec_not_Nil [of n] by (cases "show_dec n") auto
  have "d \<noteq> 0x30" using show_dec_first [of n] False n d by simp
  moreover have "\<forall>u \<in> set (d # ds). is_digit u" using show_dec_digits [OF n(1)] d by simp
  ultimately show ?thesis using n by (simp add: d int_rest_def digits_rest_def skip_digits_append)
qed

lemma show_dec_hd: "0 \<le> n \<Longrightarrow> show_dec n = d # ds \<Longrightarrow> is_digit d"
  using show_dec_digits [of n] by simp

lemma number_rest_show:
  assumes "delim r"
  shows "scalar_rest (show_int i @ r) = Some r"
proof (cases "i < 0")
  case True
  then show ?thesis
    using int_rest_show [of "- i" r] assms
    by (simp add: show_int_def js_lit scalar_rest_def number_rest_def delim_facts)
next
  case False
  obtain d ds where d: "show_dec i = d # ds" using show_dec_not_Nil [of i] by (cases "show_dec i") auto
  have "is_digit d" using show_dec_hd [OF _ d] False by simp
  then have "d \<noteq> 0x22" "d \<noteq> 0x2D" by (auto simp: is_digit_def)
  with False d \<open>is_digit d\<close> show ?thesis
    using int_rest_show [of i r] assms
    by (simp add: show_int_def scalar_rest_def number_rest_def delim_facts)
qed

subsection \<open>Values\<close>

text \<open>A text that is read as a value wherever one is wanted, and one that is read as a field.\<close>

definition scans :: "jstr \<Rightarrow> bool" where
  "scans s \<longleftrightarrow> (\<forall>m k r. m \<in> {WantValue, WantValueOrEnd} \<longrightarrow> delim r \<longrightarrow> json_scan m k (s @ r) = json_scan Done k r)"

definition field_scans :: "jstr \<Rightarrow> bool" where
  "field_scans s \<longleftrightarrow> (\<forall>m k r. m \<in> {WantKey, WantKeyOrEnd} \<longrightarrow> delim r \<longrightarrow> json_scan m k (s @ r) = json_scan Done k r)"

lemma scansD: "scans s \<Longrightarrow> m \<in> {WantValue, WantValueOrEnd} \<Longrightarrow> delim r \<Longrightarrow> json_scan m k (s @ r) = json_scan Done k r"
  unfolding scans_def by blast

lemma field_scansD: "field_scans s \<Longrightarrow> m \<in> {WantKey, WantKeyOrEnd} \<Longrightarrow> delim r \<Longrightarrow> json_scan m k (s @ r) = json_scan Done k r"
  unfolding field_scans_def by blast

lemma scalar_scans:
  assumes "s = u # us" and "\<And>r. delim r \<Longrightarrow> scalar_rest (s @ r) = Some r"
    and "\<not> json_space u" and "u \<notin> {0x5D, 0x5B, 0x7B}"
  shows "scans s"
  unfolding scans_def
proof (intro allI impI)
  fix m k r
  assume "m \<in> {WantValue, WantValueOrEnd}" and d: "delim r"
  with assms(2) [OF d] assms show "json_scan m k (s @ r) = json_scan Done k r"
    by (auto simp: json_scan.simps(2))
qed

lemma quote_scans: "scans (json_quote s)"
  by (rule scalar_scans [of _ "0x22" "quote_units s @ [0x22]"])
    (simp_all add: json_quote_def scalar_rest_def string_rest_quoted json_space_def)

lemma show_int_scans: "scans (show_int i)"
proof -
  obtain u us where s: "show_int i = u # us" "u = 0x2D \<or> is_digit u"
  proof (cases "i < 0")
    case True
    then show ?thesis by (intro that [of "0x2D"]) (simp_all add: show_int_def js_lit)
  next
    case False
    obtain d ds where "show_dec i = d # ds" using show_dec_not_Nil [of i] by (cases "show_dec i") auto
    with False show_dec_hd [of i d ds] show ?thesis by (intro that [of d ds]) (simp_all add: show_int_def)
  qed
  then have "\<not> json_space u" "u \<notin> {0x5D, 0x5B, 0x7B}" by (auto simp: json_space_def is_digit_def)
  with s(1) number_rest_show show ?thesis by (intro scalar_scans)
qed

lemma scans_true: "scans (js ''true'')"
  by (rule scalar_scans [of _ "0x74" "js ''rue''"])
    (simp_all add: js_lit scalar_rest_def word_rest_def json_space_def is_digit_def)

lemma scans_false: "scans (js ''false'')"
  by (rule scalar_scans [of _ "0x66" "js ''alse''"])
    (simp_all add: js_lit scalar_rest_def word_rest_def json_space_def is_digit_def)

lemma scans_null: "scans (js ''null'')"
  by (rule scalar_scans [of _ "0x6E" "js ''ull''"])
    (simp_all add: js_lit scalar_rest_def word_rest_def json_space_def is_digit_def)

lemma delim_simps [simp]: "delim (0x2C # r)" "delim (0x5D # r)" "delim (0x7D # r)" "delim []"
  by (simp_all add: delim_def)

lemma scan_comma: "json_scan Done (InArray # k) (0x2C # r) = json_scan WantValue (InArray # k) r"
  "json_scan Done (InObject # k) (0x2C # r) = json_scan WantKey (InObject # k) r"
  "json_scan Done (InArray # k) (0x5D # r) = json_scan Done k r"
  "json_scan Done (InObject # k) (0x7D # r) = json_scan Done k r"
  by (simp_all add: json_scan.simps(2) json_space_def)

lemma array_items:
  "\<forall>p \<in> set (p # ps). scans p \<Longrightarrow> m \<in> {WantValue, WantValueOrEnd} \<Longrightarrow>
   json_scan m (InArray # k) (str_join [0x2C] (p # ps) @ 0x5D # r) = json_scan Done k r"
proof (induction ps arbitrary: p m)
  case Nil
  then show ?case using scansD [of p m "0x5D # r"] by (simp add: scan_comma)
next
  case (Cons q ps)
  then have "json_scan m (InArray # k) (p @ 0x2C # str_join [0x2C] (q # ps) @ 0x5D # r) =
      json_scan Done (InArray # k) (0x2C # str_join [0x2C] (q # ps) @ 0x5D # r)"
    by (intro scansD) simp_all
  with Cons.IH [of q WantValue] Cons.prems show ?case by (simp add: scan_comma)
qed

lemma object_items:
  "\<forall>p \<in> set (p # ps). field_scans p \<Longrightarrow> m \<in> {WantKey, WantKeyOrEnd} \<Longrightarrow>
   json_scan m (InObject # k) (str_join [0x2C] (p # ps) @ 0x7D # r) = json_scan Done k r"
proof (induction ps arbitrary: p m)
  case Nil
  then show ?case using field_scansD [of p m "0x7D # r"] by (simp add: scan_comma)
next
  case (Cons q ps)
  then have "json_scan m (InObject # k) (p @ 0x2C # str_join [0x2C] (q # ps) @ 0x7D # r) =
      json_scan Done (InObject # k) (0x2C # str_join [0x2C] (q # ps) @ 0x7D # r)"
    by (intro field_scansD) simp_all
  with Cons.IH [of q WantKey] Cons.prems show ?case by (simp add: scan_comma)
qed

lemma array_scans: "\<forall>p \<in> set ps. scans p \<Longrightarrow> scans (js ''['' @ str_join [0x2C] ps @ js '']'')"
proof (cases ps)
  case Nil
  then show ?thesis by (auto simp: scans_def js_lit json_scan.simps(2) json_space_def)
next
  case (Cons p qs)
  assume "\<forall>p \<in> set ps. scans p"
  with Cons have "json_scan WantValueOrEnd (InArray # k) (str_join [0x2C] ps @ 0x5D # r) = json_scan Done k r" for k r
    using array_items [of p qs WantValueOrEnd] by simp
  then show ?thesis
    unfolding scans_def by (auto simp: js_lit json_scan.simps(2) json_space_def)
qed

lemma object_scans: "\<forall>p \<in> set ps. field_scans p \<Longrightarrow> scans ([0x7B] @ str_join [0x2C] ps @ [0x7D])"
proof (cases ps)
  case Nil
  then show ?thesis by (auto simp: scans_def json_scan.simps(2) json_space_def)
next
  case (Cons p qs)
  assume "\<forall>p \<in> set ps. field_scans p"
  with Cons have "json_scan WantKeyOrEnd (InObject # k) (str_join [0x2C] ps @ 0x7D # r) = json_scan Done k r" for k r
    using object_items [of p qs WantKeyOrEnd] by simp
  then show ?thesis
    unfolding scans_def by (auto simp: json_scan.simps(2) json_space_def)
qed

lemma field_scansI: "scans s \<Longrightarrow> field_scans (json_quote key @ js '':'' @ s)"
proof -
  assume s: "scans s"
  have k: "key_rest (json_quote key @ js '':'' @ t) = Some t" for t
    by (simp add: key_rest_def json_quote_def js_lit string_rest_quoted colon_rest_def json_space_def)
  show ?thesis
    using s k unfolding field_scans_def scans_def
    by (auto simp: json_scan.simps(2) json_quote_def json_space_def)
qed

subsection \<open>The round trip\<close>

text \<open>Values whose finite numbers are safe integers: their numerals are the ones the scanner proof covers.\<close>

fun safe_numbers :: "jsval \<Rightarrow> bool" where
  "safe_numbers (JNum n) = (case n of Fin x \<Rightarrow> x = of_int \<lfloor>x\<rfloor> \<and> \<bar>\<lfloor>x\<rfloor>\<bar> \<le> 2 ^ 53 | _ \<Rightarrow> True)"
| "safe_numbers (JArr vs) = list_all safe_numbers vs"
| "safe_numbers (JObj fs) = list_all (safe_numbers \<circ> snd) fs"
| "safe_numbers _ = True"

lemma number_scans: "safe_numbers (JNum n) \<Longrightarrow> json_stringify (JNum n) = Some s \<Longrightarrow> scans s"
proof (cases n)
  case (Fin x)
  assume "safe_numbers (JNum n)" "json_stringify (JNum n) = Some s"
  with Fin have "s = show_int \<lfloor>x\<rfloor>"
    using num_to_string_int [of "\<lfloor>x\<rfloor>"] by (simp del: num_to_string.simps)
  then show ?thesis by (simp add: show_int_scans)
qed (use scans_null in auto)

lemma comma_js: "js '','' = [0x2C]"
  by (simp add: js_lit)

lemma stringify_scans: "safe_numbers v \<Longrightarrow> json_stringify v = Some s \<Longrightarrow> scans s"
proof (induction v arbitrary: s)
  case (JNum n)
  then show ?case by (rule number_scans)
next
  case (JArr vs)
  have "scans (case json_stringify v of None \<Rightarrow> js ''null'' | Some s \<Rightarrow> s)" if "v \<in> set vs" for v
    using JArr.IH [OF that] JArr.prems(1) that
    by (auto simp: scans_null list_all_iff split: option.splits)
  then show ?case
    using JArr.prems(2) array_scans [of "map (\<lambda>v. case json_stringify v of None \<Rightarrow> js ''null'' | Some s \<Rightarrow> s) vs"]
    by (auto simp: comma_js)
next
  case (JObj fs)
  let ?f = "\<lambda>(k, v). case json_stringify v of None \<Rightarrow> [] | Some s \<Rightarrow> [json_quote k @ js '':'' @ s]"
  have "field_scans p" if "kv \<in> set fs" "p \<in> set (?f kv)" for kv p
  proof -
    obtain k v where kv: "kv = (k, v)" by force
    with that obtain t where t: "json_stringify v = Some t" "p = json_quote k @ js '':'' @ t"
      by (cases "json_stringify v") simp_all
    have "scans t"
      using JObj.IH [OF that(1), of v t] JObj.prems(1) that(1) kv t by (auto simp: list_all_iff)
    with t show ?thesis by (simp add: field_scansI)
  qed
  then have "\<forall>p \<in> set (concat (map ?f fs)). field_scans p" by auto
  from object_scans [OF this] show ?case
    using JObj.prems(2) by (simp add: comma_js)
qed (use object_scans [of "[]"] in \<open>auto simp: scans_null scans_true scans_false quote_scans split: if_splits\<close>)

lemma stringify_parses: "safe_numbers v \<Longrightarrow> json_stringify v = Some s \<Longrightarrow> json_parses s"
  using scansD [OF stringify_scans, of v s WantValue "[]" "[]"] by (simp add: json_parses_def)

text \<open>Samples: nested values and space are accepted; a trailing comma, a bare word and an open bracket are not.\<close>

lemma json_samples:
  "json_parses (js [CHR 0x7B, CHR 0x22, CHR ''a'', CHR 0x22, CHR '':'', CHR ''['', CHR ''1'', CHR '','', CHR '' '', CHR ''-'',
     CHR ''0'', CHR ''.'', CHR ''5'', CHR ''e'', CHR ''3'', CHR '']'', CHR 0x7D])"
  "\<not> json_parses (js ''[1,]'')" "\<not> json_parses (js ''yes'')" "\<not> json_parses (js ''[1'')" "\<not> json_parses (js ''01'')"
  "\<not> json_parses []"
  by code_simp+

end
