(* ===== verification/Settings.thy ===== *)
theory Settings
  imports Forms Js_Json
begin

text \<open>
  \<open>features/settings\<close> of the console: the editor of the system configuration. The page keeps the items; each
  row keeps a draft of its own, found by the key of its item. Saving stamps the item with the local time, whose
  text is the argument \<open>fmt_now\<close>. The description line of the toast, the key, is left out.
\<close>

section \<open>State\<close>

datatype config_type = StringConfig | NumberConfig | BooleanConfig | JsonConfig

record config_item =
  ci_key :: jstr
  ci_description :: jstr
  ci_value :: jsval
  ci_type :: config_type
  ci_modified :: jstr

record config_row =
  cr_editing :: bool
  cr_draft :: jstr
  cr_checked :: bool

record config_editor = world +
  ce_configs :: "config_item list"
  ce_rows :: "jstr \<Rightarrow> config_row"

definition ci :: "jstr \<Rightarrow> jstr \<Rightarrow> jsval \<Rightarrow> config_type \<Rightarrow> jstr \<Rightarrow> config_item" where
  "ci k d v t m = \<lparr>ci_key = k, ci_description = d, ci_value = v, ci_type = t, ci_modified = m\<rparr>"

definition MOCK_CONFIGS :: "config_item list" where
  "MOCK_CONFIGS =
     [ci (js ''call.max_duration_sec'') [0x5355, 0x6B21, 0x901A, 0x8BDD, 0x6700, 0x5927, 0x65F6, 0x957F, 0xFF08, 0x79D2, 0xFF09] (jint 3600) NumberConfig (js ''2026-03-10 14:30''),
      ci (js ''call.retry_attempts'') [0x547C, 0x53EB, 0x5931, 0x8D25, 0x91CD, 0x8BD5, 0x6B21, 0x6570] (jint 3) NumberConfig (js ''2026-03-08 09:15''),
      ci (js ''call.recording_enabled'') [0x662F, 0x5426, 0x542F, 0x7528, 0x901A, 0x8BDD, 0x5F55, 0x97F3] (JBool True) BooleanConfig (js ''2026-03-09 11:00''),
      ci (js ''call.codec_preference'') [0x7F16, 0x89E3, 0x7801, 0x5668, 0x4F18, 0x5148, 0x7EA7] (jlit ''PCMU,PCMA,G729'') StringConfig (js ''2026-02-20 16:45''),
      ci (js ''billing.currency'') [0x9ED8, 0x8BA4, 0x7ED3, 0x7B97, 0x8D27, 0x5E01] (jlit ''CNY'') StringConfig (js ''2026-01-15 10:00''),
      ci (js ''billing.tax_rate'') [0x7A0E, 0x7387, 0x767E, 0x5206, 0x6BD4] (jint 6) NumberConfig (js ''2026-02-28 08:30''),
      ci (js ''billing.auto_deduct'') [0x662F, 0x5426, 0x81EA, 0x52A8, 0x6263, 0x8D39] (JBool True) BooleanConfig (js ''2026-03-01 12:00''),
      ci (js ''billing.rate_table'') [0x8D39, 0x7387, 0x8868, 0x914D, 0x7F6E] (JStr (js ''{'' @ [0x22] @ js ''domestic'' @ [0x22] @ js '':0.06,'' @ [0x22] @ js ''international'' @ [0x22] @ js '':0.15}'')) JsonConfig (js ''2026-03-05 17:20''),
      ci (js ''compliance.data_retention_days'') (js ''CDR '' @ [0x6570, 0x636E, 0x4FDD, 0x7559, 0x5929, 0x6570]) (jint 180) NumberConfig (js ''2026-02-10 09:00''),
      ci (js ''compliance.gdpr_enabled'') ([0x662F, 0x5426, 0x542F, 0x7528] @ js '' GDPR '' @ [0x5408, 0x89C4]) (JBool False) BooleanConfig (js ''2026-01-20 14:00''),
      ci (js ''compliance.audit_log_level'') [0x5BA1, 0x8BA1, 0x65E5, 0x5FD7, 0x7EA7, 0x522B] (jlit ''info'') StringConfig (js ''2026-03-06 10:30''),
      ci (js ''system.maintenance_mode'') [0x662F, 0x5426, 0x5F00, 0x542F, 0x7EF4, 0x62A4, 0x6A21, 0x5F0F] (JBool False) BooleanConfig (js ''2026-03-10 22:00''),
      ci (js ''system.log_level'') [0x7CFB, 0x7EDF, 0x65E5, 0x5FD7, 0x7EA7, 0x522B] (jlit ''warn'') StringConfig (js ''2026-03-07 08:00''),
      ci (js ''system.feature_flags'') [0x529F, 0x80FD, 0x5F00, 0x5173, 0x914D, 0x7F6E] (JStr (js ''{'' @ [0x22] @ js ''new_dashboard'' @ [0x22] @ js '':true,'' @ [0x22] @ js ''v2_api'' @ [0x22] @ js '':false}'')) JsonConfig (js ''2026-03-09 15:45'')]"

definition CATEGORY_LABELS :: "(jstr \<times> jstr) list" where
  "CATEGORY_LABELS =
     [(js ''call'', [0x901A, 0x8BDD, 0x8BBE, 0x7F6E]), (js ''billing'', [0x8BA1, 0x8D39, 0x8BBE, 0x7F6E]), (js ''compliance'', [0x5408, 0x89C4, 0x8BBE, 0x7F6E]), (js ''system'', [0x7CFB, 0x7EDF, 0x8BBE, 0x7F6E])]"

definition isValidJson :: "jstr \<Rightarrow> bool" where
  "isValidJson s = json_parses s"

definition new_row :: "config_item \<Rightarrow> config_row" where
  "new_row i =
     \<lparr>cr_editing = False, cr_draft = (if ci_type i = BooleanConfig then [] else to_str (ci_value i)),
      cr_checked = (ci_type i = BooleanConfig \<and> truthy (ci_value i))\<rparr>"

section \<open>Handlers\<close>

definition save_item :: "jstr \<Rightarrow> jsval \<Rightarrow> jstr \<Rightarrow> config_item \<Rightarrow> config_item" where
  "save_item k v now c = (if ci_key c = k then c\<lparr>ci_value := v, ci_modified := now\<rparr> else c)"

definition ce_handleSave :: "(int \<Rightarrow> jstr) \<Rightarrow> jstr \<Rightarrow> jsval \<Rightarrow> 's config_editor_scheme \<Rightarrow> 's config_editor_scheme" where
  "ce_handleSave fmt_now k v s =
     log_event (ToastOk [0x914D, 0x7F6E, 0x5DF2, 0x4FDD, 0x5B58])
       (s\<lparr>ce_configs := map (save_item k v (fmt_now (w_now s))) (ce_configs s)\<rparr>)"

definition set_row :: "jstr \<Rightarrow> config_row \<Rightarrow> 's config_editor_scheme \<Rightarrow> 's config_editor_scheme" where
  "set_row k r s = s\<lparr>ce_rows := (ce_rows s)(k := r)\<rparr>"

definition final_value :: "config_item \<Rightarrow> config_row \<Rightarrow> jsval" where
  "final_value i r =
     (case ci_type i of
        NumberConfig \<Rightarrow> JNum (string_to_number (cr_draft r))
      | BooleanConfig \<Rightarrow> JBool (cr_checked r)
      | _ \<Rightarrow> JStr (cr_draft r))"

definition row_save :: "(int \<Rightarrow> jstr) \<Rightarrow> config_item \<Rightarrow> 's config_editor_scheme \<Rightarrow> 's config_editor_scheme" where
  "row_save fmt_now i s =
     (let r = ce_rows s (ci_key i) in
      set_row (ci_key i) (r\<lparr>cr_editing := False\<rparr>) (ce_handleSave fmt_now (ci_key i) (final_value i r) s))"

definition row_change :: "config_item \<Rightarrow> jstr \<Rightarrow> 's config_editor_scheme \<Rightarrow> 's config_editor_scheme" where
  "row_change i t s = set_row (ci_key i) ((ce_rows s (ci_key i))\<lparr>cr_editing := True, cr_draft := t\<rparr>) s"

definition row_focus :: "config_item \<Rightarrow> 's config_editor_scheme \<Rightarrow> 's config_editor_scheme" where
  "row_focus i s =
     (let r = ce_rows s (ci_key i) in
      if cr_editing r then s
      else set_row (ci_key i) (r\<lparr>cr_draft := to_str (ci_value i), cr_editing := True\<rparr>) s)"

definition row_switch :: "(int \<Rightarrow> jstr) \<Rightarrow> config_item \<Rightarrow> bool \<Rightarrow> 's config_editor_scheme \<Rightarrow> 's config_editor_scheme" where
  "row_switch fmt_now i v s =
     ce_handleSave fmt_now (ci_key i) (JBool v)
       (set_row (ci_key i) ((ce_rows s (ci_key i))\<lparr>cr_checked := v\<rparr>) s)"

text \<open>
  What the user can do with a row. A boolean row has only its switch; a save button is shown while the row
  is edited, and for a JSON row it is disabled unless the draft parses.
\<close>

definition can_save :: "config_item \<Rightarrow> config_row \<Rightarrow> bool" where
  "can_save i r \<longleftrightarrow> ci_type i \<noteq> BooleanConfig \<and> cr_editing r \<and> (ci_type i = JsonConfig \<longrightarrow> isValidJson (cr_draft r))"

inductive config_step :: "(int \<Rightarrow> jstr) \<Rightarrow> config_editor \<Rightarrow> config_editor \<Rightarrow> bool" for fmt_now where
  switch: "i \<in> set (ce_configs s) \<Longrightarrow> ci_type i = BooleanConfig \<Longrightarrow> config_step fmt_now s (row_switch fmt_now i v s)"
| change: "i \<in> set (ce_configs s) \<Longrightarrow> ci_type i \<noteq> BooleanConfig \<Longrightarrow> config_step fmt_now s (row_change i t s)"
| focus: "i \<in> set (ce_configs s) \<Longrightarrow> ci_type i \<noteq> BooleanConfig \<Longrightarrow> config_step fmt_now s (row_focus i s)"
| save: "i \<in> set (ce_configs s) \<Longrightarrow> can_save i (ce_rows s (ci_key i)) \<Longrightarrow> config_step fmt_now s (row_save fmt_now i s)"
| tick: "config_step fmt_now s (s\<lparr>w_now := n\<rparr>)"

inductive config_run :: "(int \<Rightarrow> jstr) \<Rightarrow> config_editor \<Rightarrow> config_editor \<Rightarrow> bool" for fmt_now where
  start: "config_run fmt_now s s"
| step: "config_run fmt_now s s' \<Longrightarrow> config_step fmt_now s' s'' \<Longrightarrow> config_run fmt_now s s''"

inductive_cases config_stepE: "config_step fmt_now s s'"

section \<open>Grouping and views\<close>

text \<open>The category of a key, and the items of each category in the order the categories first appear.\<close>

definition category :: "config_item \<Rightarrow> jstr" where
  "category i = hd (str_split (js ''.'') (ci_key i))"

definition add_to_group :: "config_item \<Rightarrow> (jstr \<times> config_item list) list \<Rightarrow> (jstr \<times> config_item list) list" where
  "add_to_group i acc =
     set_field (category i) ((case map_of acc (category i) of None \<Rightarrow> [] | Some g \<Rightarrow> g) @ [i]) acc"

definition grouped :: "config_item list \<Rightarrow> (jstr \<times> config_item list) list" where
  "grouped configs = fold add_to_group configs []"

definition type_text :: "config_type \<Rightarrow> jstr" where
  "type_text t = (case t of StringConfig \<Rightarrow> js ''string'' | NumberConfig \<Rightarrow> js ''number''
     | BooleanConfig \<Rightarrow> js ''boolean'' | JsonConfig \<Rightarrow> js ''json'')"

definition row_control :: "config_item \<Rightarrow> config_row \<Rightarrow> view" where
  "row_control i r =
     (let shown = (if cr_editing r then cr_draft r else to_str (ci_value i)); ok = isValidJson (cr_draft r) in
      case ci_type i of
        BooleanConfig \<Rightarrow> El ''Switch'' [flag ''checked'' (cr_checked r), (''onCheckedChange'', js ''switch'')] []
      | JsonConfig \<Rightarrow> El ''div'' []
          [El ''textarea'' [(''value'', shown)] [],
           only_if (cr_editing r) (El ''Button'' [(''onClick'', js ''save''), flag ''disabled'' (\<not> ok)] [Txt [0x4FDD, 0x5B58]]),
           only_if (cr_editing r) (El ''span'' [] [Txt (if ok then (js ''JSON '' @ [0x683C, 0x5F0F, 0x6709, 0x6548]) else (js ''JSON '' @ [0x683C, 0x5F0F, 0x65E0, 0x6548]))])]
      | NumberConfig \<Rightarrow> El ''div'' []
          [El ''Input'' [(''type'', js ''number''), (''value'', shown)] [],
           only_if (cr_editing r) (El ''Button'' [(''onClick'', js ''save'')] [Txt [0x4FDD, 0x5B58]])]
      | StringConfig \<Rightarrow> El ''div'' []
          [El ''Input'' [(''value'', shown)] [],
           only_if (cr_editing r) (El ''Button'' [(''onClick'', js ''save'')] [Txt [0x4FDD, 0x5B58]])])"

definition config_row_view :: "config_item \<Rightarrow> config_row \<Rightarrow> view" where
  "config_row_view i r =
     El ''div'' []
       [El ''code'' [] [Txt (ci_key i)], El ''Badge'' [(''variant'', js ''outline'')] [Txt (type_text (ci_type i))],
        El ''p'' [] [Txt (ci_description i)], El ''p'' [] [Txt (([0x6700, 0x540E, 0x4FEE, 0x6539] @ js '': '') @ ci_modified i)],
        row_control i r]"

definition config_editor_view :: "config_editor \<Rightarrow> view" where
  "config_editor_view s =
     El ''div'' [] (map (\<lambda>(c, items).
       El ''Card'' []
         [El ''CardTitle'' [] [Txt (case map_of CATEGORY_LABELS c of None \<Rightarrow> c | Some l \<Rightarrow> l)],
          El ''CardContent'' [] (map (\<lambda>(n, item).
            El ''div'' [] [only_if (0 < n) (El ''Separator'' [] []), config_row_view item (ce_rows s (ci_key item))])
            (enumerate 0 items))])
       (grouped (ce_configs s)))"

definition settings_page :: "config_editor \<Rightarrow> view" where
  "settings_page s =
     El ''div'' []
       [El ''h1'' [] [Txt [0x7CFB, 0x7EDF, 0x8BBE, 0x7F6E]], El ''p'' [] [Txt (js ''system_configs '' @ [0x53EF, 0x89C6, 0x5316, 0x7F16, 0x8F91])], config_editor_view s]"

definition new_config_editor :: "world \<Rightarrow> config_editor" where
  "new_config_editor w = world.extend w
     \<lparr>ce_configs = MOCK_CONFIGS,
      ce_rows = (\<lambda>k. case find (\<lambda>i. ci_key i = k) MOCK_CONFIGS of
        Some i \<Rightarrow> new_row i | None \<Rightarrow> \<lparr>cr_editing = False, cr_draft = [], cr_checked = False\<rparr>)\<rparr>"

section \<open>Properties\<close>

fun value_ok :: "config_type \<Rightarrow> jsval \<Rightarrow> bool" where
  "value_ok NumberConfig (JNum n) = True"
| "value_ok BooleanConfig (JBool b) = True"
| "value_ok StringConfig (JStr t) = True"
| "value_ok JsonConfig (JStr t) = isValidJson t"
| "value_ok _ _ = False"

definition item_ok :: "(jstr \<Rightarrow> config_row) \<Rightarrow> config_item \<Rightarrow> bool" where
  "item_ok rows i \<longleftrightarrow> value_ok (ci_type i) (ci_value i) \<and>
     (ci_type i = BooleanConfig \<longrightarrow> ci_value i = JBool (cr_checked (rows (ci_key i))))"

definition item_head :: "config_item \<Rightarrow> jstr \<times> jstr \<times> config_type" where
  "item_head i = (ci_key i, ci_description i, ci_type i)"

definition config_inv :: "config_editor \<Rightarrow> bool" where
  "config_inv s \<longleftrightarrow> map item_head (ce_configs s) = map item_head MOCK_CONFIGS \<and>
     list_all (item_ok (ce_rows s)) (ce_configs s)"

lemma save_item_head [simp]: "item_head (save_item k v n c) = item_head c"
  by (simp add: save_item_def item_head_def)

lemma ce_handleSave_simps [simp]:
  "ce_configs (ce_handleSave f k v s) = map (save_item k v (f (w_now s))) (ce_configs s)"
  "ce_rows (ce_handleSave f k v s) = ce_rows s"
  by (simp_all add: ce_handleSave_def log_event_def)

lemma set_row_simps [simp]:
  "ce_configs (set_row k r s) = ce_configs s" "ce_rows (set_row k r s) = (ce_rows s)(k := r)" "w_now (set_row k r s) = w_now s"
  by (simp_all add: set_row_def)

lemma distinct_config_keys: "distinct (map ci_key MOCK_CONFIGS)"
  by (simp add: MOCK_CONFIGS_def ci_def)

lemma config_key_determines:
  assumes "config_inv s" and "i \<in> set (ce_configs s)" and "c \<in> set (ce_configs s)" and "ci_key c = ci_key i"
  shows "c = i"
proof -
  have "map ci_key (ce_configs s) = map ci_key MOCK_CONFIGS"
    using arg_cong [OF conjunct1 [OF assms(1) [unfolded config_inv_def]], of "map fst"]
    by (simp add: item_head_def comp_def)
  with distinct_config_keys have "distinct (map ci_key (ce_configs s))" by simp
  with assms(2-4) show ?thesis by (auto simp: distinct_map dest: inj_onD)
qed

text \<open>A row's draft is free: only the switch of a boolean row is tied to its item.\<close>

lemma set_row_inv:
  assumes "config_inv s" and "i \<in> set (ce_configs s)" and "ci_type i \<noteq> BooleanConfig"
  shows "config_inv (set_row (ci_key i) r s)"
  using assms config_key_determines [OF assms(1,2)] by (fastforce simp: config_inv_def list_all_iff item_ok_def)

lemma save_inv:
  assumes inv: "config_inv s" and i: "i \<in> set (ce_configs s)" and v: "value_ok (ci_type i) v"
    and b: "ci_type i = BooleanConfig \<Longrightarrow> v = JBool (cr_checked r)"
  shows "config_inv (set_row (ci_key i) r (ce_handleSave f (ci_key i) v s))"
proof -
  have "item_ok ((ce_rows s)(ci_key i := r)) (save_item (ci_key i) v n c)" if "c \<in> set (ce_configs s)" for c n
  proof (cases "ci_key c = ci_key i")
    case True
    with config_key_determines [OF inv i that] v b show ?thesis by (simp add: item_ok_def save_item_def)
  next
    case False
    with inv that show ?thesis by (simp add: item_ok_def save_item_def config_inv_def list_all_iff)
  qed
  with inv show ?thesis by (simp add: config_inv_def list_all_iff comp_def)
qed

lemma row_switch_alt:
  "row_switch f i v s = set_row (ci_key i) ((ce_rows s (ci_key i))\<lparr>cr_checked := v\<rparr>) (ce_handleSave f (ci_key i) (JBool v) s)"
  by (simp add: row_switch_def ce_handleSave_def set_row_def log_event_def)

lemma final_value_ok: "can_save i r \<Longrightarrow> value_ok (ci_type i) (final_value i r)"
  by (auto simp: can_save_def final_value_def split: config_type.splits)

lemma config_step_inv: "config_step f s s' \<Longrightarrow> config_inv s \<Longrightarrow> config_inv s'"
proof (induction rule: config_step.induct)
  case (switch i s v)
  then show ?case by (simp add: row_switch_alt save_inv)
next
  case (change i s t)
  then show ?case by (simp add: row_change_def set_row_inv)
next
  case (focus i s)
  then show ?case by (simp add: row_focus_def set_row_inv Let_def)
next
  case (save i s)
  then show ?case
    using save_inv [OF save.prems save.hyps(1) final_value_ok [OF save.hyps(2)]]
    by (simp add: row_save_def can_save_def Let_def)
next
  case (tick s n)
  then show ?case by (simp add: config_inv_def)
qed

lemma config_start_inv: "config_inv (new_config_editor w)"
proof -
  have 1: "json_parses (js ''{'' @ [0x22] @ js ''domestic'' @ [0x22] @ js '':0.06,'' @ [0x22] @ js ''international'' @ [0x22] @ js '':0.15}'')"
    by code_simp
  have 2: "json_parses (js ''{'' @ [0x22] @ js ''new_dashboard'' @ [0x22] @ js '':true,'' @ [0x22] @ js ''v2_api'' @ [0x22] @ js '':false}'')"
    by code_simp
  have "list_all (\<lambda>i. value_ok (ci_type i) (ci_value i)) MOCK_CONFIGS"
    using 1 2 by (simp add: MOCK_CONFIGS_def ci_def isValidJson_def)
  moreover have "list_all (\<lambda>i. find (\<lambda>j. ci_key j = ci_key i) MOCK_CONFIGS = Some i) MOCK_CONFIGS"
    by (simp add: MOCK_CONFIGS_def ci_def)
  ultimately show ?thesis
    by (auto simp: config_inv_def new_config_editor_def world.extend_def list_all_iff item_ok_def new_row_def
        elim!: value_ok.elims)
qed

text \<open>
  C6: whatever is done with the rows, in any order, the configuration stays well typed: the items, their keys
  and types never change, a number item holds a number, a switch shows the value it stands for, and a JSON item
  always holds a text that parses.
\<close>

theorem config_well_typed:
  assumes "config_run fmt_now (new_config_editor w) s"
  shows "map item_head (ce_configs s) = map item_head MOCK_CONFIGS \<and> list_all (item_ok (ce_rows s)) (ce_configs s)"
  using assms
proof (induction "new_config_editor w" s rule: config_run.induct)
  case start
  then show ?case using config_start_inv by (simp add: config_inv_def)
next
  case (step s' s'')
  then show ?case using config_step_inv [of fmt_now s' s''] by (simp add: config_inv_def)
qed

lemma grouped_append: "grouped (cs @ [i]) = add_to_group i (grouped cs)"
  by (simp add: grouped_def)

lemma set_field_keys: "distinct (map fst fs) \<Longrightarrow> distinct (map fst (set_field k v fs)) \<and> set (map fst (set_field k v fs)) = insert k (set (map fst fs))"
  by (induction k v fs rule: set_field.induct) auto

definition sample_configs :: config_editor where
  "sample_configs = new_config_editor (world_of (\<lambda>past r. Unreachable JNull))"

definition recording :: config_item where
  "recording = ci (js ''call.recording_enabled'') [0x662F, 0x5426, 0x542F, 0x7528, 0x901A, 0x8BDD, 0x5F55, 0x97F3] (JBool True) BooleanConfig (js ''2026-03-09 11:00'')"

theorem config_well_typed_witness:
  "list_all (item_ok (ce_rows (row_switch (\<lambda>_. []) recording False sample_configs)))
     (ce_configs (row_switch (\<lambda>_. []) recording False sample_configs))"
proof -
  have "recording \<in> set (ce_configs sample_configs)" "ci_type recording = BooleanConfig"
    by (simp_all add: recording_def sample_configs_def new_config_editor_def world.extend_def MOCK_CONFIGS_def ci_def)
  then have "config_run (\<lambda>_. []) sample_configs (row_switch (\<lambda>_. []) recording False sample_configs)"
    by (intro config_run.step [OF config_run.start] config_step.switch)
  from config_well_typed [OF this [unfolded sample_configs_def]] show ?thesis by (simp add: sample_configs_def)
qed

text \<open>
  Grouping by category loses and reorders nothing: the categories are distinct, and the items listed under
  one are exactly the items of that category, in their order.
\<close>

lemma grouped_by_category:
  "distinct (map fst (grouped configs)) \<and>
   map_of (grouped configs) c =
     (let items = filter (\<lambda>i. category i = c) configs in if items = [] then None else Some items)"
proof (induction configs rule: rev_induct)
  case Nil
  then show ?case by (simp add: grouped_def)
next
  case (snoc i cs)
  then show ?case
    using set_field_keys [of "grouped cs"]
    by (auto simp: grouped_append add_to_group_def map_of_set_field Let_def split: option.splits if_splits)
qed

lemma number_text_back: "0 \<le> n \<Longrightarrow> n \<le> 2 ^ 53 \<Longrightarrow> string_to_number (num_to_string (num_int n)) = num_int n"
proof -
  assume n: "0 \<le> n" "n \<le> 2 ^ 53"
  then have "num_to_string (num_int n) = point_at 0 n"
    using num_to_string_int [of n] show_dec_not_Nil [of n]
    by (cases "show_dec n") (simp_all add: show_int_def point_at_def pad_start_def del: num_to_string.simps)
  with n show ?thesis using read_point_at [of n 0] to_num_int [of n] by simp
qed

text \<open>
  Opening a number for editing and saving it untouched keeps every value of the configuration; saving it
  after clearing the field stores 0, because the empty text converts to 0.
\<close>

lemma number_row_save:
  assumes inv: "config_inv s" and i: "i \<in> set (ce_configs s)" and t: "ci_type i = NumberConfig"
    and v: "ci_value i = jint n" "0 \<le> n" "n \<le> 2 ^ 53" and e: "\<not> cr_editing (ce_rows s (ci_key i))"
  shows "map ci_value (ce_configs (row_save f i (row_focus i s))) = map ci_value (ce_configs s) \<and>
    ce_configs (row_save f i (row_change i [] (row_focus i s))) =
      map (save_item (ci_key i) (jint 0) (f (w_now s))) (ce_configs s)"
proof -
  have keep: "ci_value (save_item (ci_key i) (jint n) m c) = ci_value c" if "c \<in> set (ce_configs s)" for c m
    using config_key_determines [OF inv i that] v(1) by (cases "ci_key c = ci_key i") (simp_all add: save_item_def)
  have "ce_configs (row_save f i (row_focus i s)) =
      map (save_item (ci_key i) (JNum (string_to_number (num_to_string (num_int n)))) (f (w_now s))) (ce_configs s)"
    by (simp add: row_save_def row_focus_def final_value_def Let_def e t v(1) del: num_to_string.simps)
  then have 1: "map ci_value (ce_configs (row_save f i (row_focus i s))) = map ci_value (ce_configs s)"
    using keep unfolding number_text_back [OF v(2,3)] by simp
  have "string_to_number [] = Fin 0"
    by (simp add: string_to_number_def str_trim_def)
  then have "ce_configs (row_save f i (row_change i [] (row_focus i s))) =
      map (save_item (ci_key i) (jint 0) (f (w_now s))) (ce_configs s)"
    by (simp add: row_save_def row_focus_def row_change_def final_value_def Let_def e t v(1) del: num_to_string.simps)
  with 1 show ?thesis by blast
qed

definition retries :: config_item where
  "retries = ci (js ''call.retry_attempts'') [0x547C, 0x53EB, 0x5931, 0x8D25, 0x91CD, 0x8BD5, 0x6B21, 0x6570] (jint 3) NumberConfig (js ''2026-03-08 09:15'')"

text \<open>
  C12: a JSON item accepts whatever \<open>JSON.stringify\<close> prints: for a value whose finite numbers are safe integers,
  typing its text enables the save button, and saving stores exactly that text in this item.
\<close>

theorem json_row_accepts_printed:
  assumes "safe_numbers v" and "json_stringify v = Some t" and "ci_type i = JsonConfig"
  shows "can_save i (ce_rows (row_change i t s) (ci_key i)) \<and>
    ce_configs (row_save f i (row_change i t s)) = map (save_item (ci_key i) (JStr t) (f (w_now s))) (ce_configs s)"
  using assms stringify_parses
  by (simp add: row_change_def can_save_def isValidJson_def row_save_def final_value_def Let_def)

theorem json_row_accepts_printed_witness:
  "can_save (ci (js ''billing.rate_table'') [] (jlit ''0'') JsonConfig [])
     (ce_rows (row_change (ci (js ''billing.rate_table'') [] (jlit ''0'') JsonConfig [])
       (js ''[1,'' @ json_quote (js ''a'') @ js '']'') sample_configs) (js ''billing.rate_table''))"
proof -
  have v: "safe_numbers (JArr [jint 1, jlit ''a''])" by simp
  have s: "json_stringify (JArr [jint 1, jlit ''a'']) = Some (js ''[1,'' @ json_quote (js ''a'') @ js '']'')"
    using num_to_string_int [of 1] by (simp add: show_int_def show_dec.simps digit_unit_def js_lit del: num_to_string.simps)
  show ?thesis
    using json_row_accepts_printed [OF v s, of "ci (js ''billing.rate_table'') [] (jlit ''0'') JsonConfig []" sample_configs]
    by (simp add: ci_def)
qed

end
