(* ===== verification/Dashboard.thy ===== *)
theory Dashboard
  imports Shared_Views Admin_Hooks Profit
begin

text \<open>
  \<open>features/dashboard\<close> of the console: the statistics of the overview, the four alert cards and the two
  trend charts. The values of the overview are used as they arrive, so an operation on a value of another
  type throws, as it does in the browser. A chart is shown as the data and colours it is given; the number
  format of the browser's own locale is the argument \<open>fmt_num\<close>.
\<close>

section \<open>Statistics\<close>

definition formatCNY :: "jsnum \<Rightarrow> jstr" where
  "formatCNY v = [0x00A5] @ to_locale 2 3 v"

datatype stat_format = NumberFormat | CnyFormat | PercentFormat

definition overview_rows :: "jsval \<Rightarrow> (jstr \<times> jsval \<times> stat_format) list" where
  "overview_rows data =
     (let value = (\<lambda>k. js_coalesce (opt_get k data) (jint 0)) in
      [([0x5B9E, 0x65F6, 0x5E76, 0x53D1], value ''concurrent_calls'', NumberFormat),
       ([0x4ECA, 0x65E5, 0x6536, 0x5165], value ''today_revenue'', CnyFormat),
       ([0x4ECA, 0x65E5, 0x635F, 0x8017], value ''today_wastage'', CnyFormat),
       ([0x6865, 0x63A5, 0x6210, 0x529F, 0x7387], value ''bridge_success_rate'', PercentFormat)])"

definition decimal_places :: "stat_format \<Rightarrow> int" where
  "decimal_places f = (if f = CnyFormat then 2 else if f = PercentFormat then 1 else 0)"

definition overview_stats :: "jsval \<Rightarrow> bool \<Rightarrow> view" where
  "overview_stats data isLoading =
     El ''div'' [] (map (\<lambda>(title, value, f).
       El ''Card'' []
         [El ''CardTitle'' [] [Txt title], El ''Icon'' [] [],
          El ''CardContent'' []
            [if isLoading then El ''Skeleton'' [] []
             else El ''div'' []
               [only_if (f = CnyFormat) (Txt [0x00A5]),
                El ''NumberTicker'' [(''value'', to_str value), (''decimalPlaces'', show_int (decimal_places f))] [],
                only_if (f = PercentFormat) (lit ''%'')]]])
       (overview_rows data))"

section \<open>The ticker\<close>

text \<open>
  \<open>components/ui/number-ticker.tsx\<close>: a number that runs up or down to its value once it is in view. The spring
  is the animation library's; what the ticker adds is the first text, the target, and the text for each value
  the spring passes.
\<close>

definition ticker_format :: "nat \<Rightarrow> jsnum \<Rightarrow> jstr" where
  "ticker_format decimalPlaces n = to_locale decimalPlaces decimalPlaces n"

definition ticker_first :: "bool \<Rightarrow> nat \<Rightarrow> jsnum \<Rightarrow> jstr" where
  "ticker_first down decimalPlaces value = ticker_format decimalPlaces (if down then value else num_int 0)"

definition ticker_target :: "bool \<Rightarrow> jsnum \<Rightarrow> jsnum" where
  "ticker_target down value = (if down then num_int 0 else value)"

definition ticker_change :: "nat \<Rightarrow> jsnum \<Rightarrow> jstr" where
  "ticker_change decimalPlaces latest = ticker_format decimalPlaces (string_to_number (to_fixed decimalPlaces latest))"

section \<open>Alert cards\<close>

definition BRIDGE_THRESHOLD :: int where
  "BRIDGE_THRESHOLD = 60"

definition WASTAGE_THRESHOLD :: int where
  "WASTAGE_THRESHOLD = 15"

datatype alert_status = AlertOk | AlertWarning | AlertCritical

text \<open>The callbacks of \<open>filter\<close> and \<open>some\<close> read the type of an element; \<open>some\<close> stops at a hit.\<close>

definition is_type :: "string \<Rightarrow> jsval \<Rightarrow> jsval + bool" where
  "is_type t a = sbind (get ''type'' a) (\<lambda>u. Inr (u = jlit t))"

definition count_type :: "string \<Rightarrow> jsval \<Rightarrow> jsval + int" where
  "count_type t alerts = sbind (as_array alerts) (\<lambda>vs. sbind (smap (is_type t) vs) (\<lambda>bs.
     Inr (int (length (filter id bs)))))"

fun some_list :: "('a \<Rightarrow> 'e + bool) \<Rightarrow> 'a list \<Rightarrow> 'e + bool" where
  "some_list p [] = Inr False"
| "some_list p (x # xs) = sbind (p x) (\<lambda>b. if b then Inr True else some_list p xs)"

definition some_type :: "string \<Rightarrow> jsval \<Rightarrow> jsval + bool" where
  "some_type t alerts = sbind (as_array alerts) (some_list (is_type t))"

text \<open>\<open>rate.toFixed(1)\<close> is a method of numbers only.\<close>

definition fixed1 :: "jsval \<Rightarrow> jsval + jstr" where
  "fixed1 v = (case v of JNum n \<Rightarrow> Inr (to_fixed 1 n) | _ \<Rightarrow> Inl type_error)"

definition below_bridge :: "jsval \<Rightarrow> bool" where
  "below_bridge rate = num_lt (to_number rate) (num_int BRIDGE_THRESHOLD)"

definition above_wastage :: "jsval \<Rightarrow> bool" where
  "above_wastage rate = num_lt (num_int WASTAGE_THRESHOLD) (to_number rate)"

record alert_def =
  ad_type :: string
  ad_label :: jstr
  ad_message :: "jsval \<Rightarrow> jsval \<Rightarrow> jsval \<Rightarrow> jsval + jstr"
  ad_status :: "jsval \<Rightarrow> jsval \<Rightarrow> jsval \<Rightarrow> jsval + alert_status"

definition bridge_def :: alert_def where
  "bridge_def =
     \<lparr>ad_type = ''bridge_rate_low'', ad_label = [0x6865, 0x63A5, 0x6210, 0x529F, 0x7387],
      ad_message = (\<lambda>a rate w. if below_bridge rate
        then sbind (fixed1 rate) (\<lambda>r. Inr (([0x544A, 0x8B66] @ js '': '') @ r @ js ''% < '' @ show_int BRIDGE_THRESHOLD @ js ''%''))
        else Inr [0x6B63, 0x5E38]),
      ad_status = (\<lambda>a rate w. Inr (if below_bridge rate then AlertCritical else AlertOk))\<rparr>"

definition balance_def :: alert_def where
  "balance_def =
     \<lparr>ad_type = ''balance_low'', ad_label = [0x4F59, 0x989D, 0x4E0D, 0x8DB3, 0x5BA2, 0x6237],
      ad_message = (\<lambda>alerts b w. sbind (count_type ''balance_low'' alerts) (\<lambda>n.
        Inr (if 0 < n then show_int n @ (js '' '' @ [0x4E2A, 0x5BA2, 0x6237, 0x4F59, 0x989D, 0x4E0D, 0x8DB3]) else [0x6B63, 0x5E38]))),
      ad_status = (\<lambda>alerts b w. sbind (some_type ''balance_low'' alerts) (\<lambda>x.
        Inr (if x then AlertWarning else AlertOk)))\<rparr>"

definition gateway_def :: alert_def where
  "gateway_def =
     \<lparr>ad_type = ''gateway_down'', ad_label = [0x7F51, 0x5173, 0x72B6, 0x6001],
      ad_message = (\<lambda>alerts b w. sbind (count_type ''gateway_down'' alerts) (\<lambda>n.
        Inr (if 0 < n then show_int n @ (js '' '' @ [0x4E2A, 0x7F51, 0x5173, 0x79BB, 0x7EBF]) else [0x5168, 0x90E8, 0x5728, 0x7EBF]))),
      ad_status = (\<lambda>alerts b w. sbind (some_type ''gateway_down'' alerts) (\<lambda>x.
        Inr (if x then AlertCritical else AlertOk)))\<rparr>"

definition wastage_def :: alert_def where
  "wastage_def =
     \<lparr>ad_type = ''wastage_high'', ad_label = [0x635F, 0x8017, 0x7387],
      ad_message = (\<lambda>a b rate. if above_wastage rate
        then sbind (fixed1 rate) (\<lambda>r. Inr (([0x544A, 0x8B66] @ js '': '') @ r @ js ''% > '' @ show_int WASTAGE_THRESHOLD @ js ''%''))
        else Inr [0x6B63, 0x5E38]),
      ad_status = (\<lambda>a b rate. Inr (if above_wastage rate then AlertCritical else AlertOk))\<rparr>"

definition alertDefs :: "alert_def list" where
  "alertDefs = [bridge_def, balance_def, gateway_def, wastage_def]"

definition alert_color :: "alert_status \<Rightarrow> string" where
  "alert_color st = (case st of AlertOk \<Rightarrow> ''bg-green-500'' | AlertWarning \<Rightarrow> ''bg-yellow-500''
     | AlertCritical \<Rightarrow> ''bg-red-500'')"

text \<open>The cards with their status and message; a property that is \<open>undefined\<close> takes its default.\<close>

definition or_default :: "jsval \<Rightarrow> jsval \<Rightarrow> jsval" where
  "or_default v d = (if v = JUndef then d else v)"

definition alert_rows :: "jsval \<Rightarrow> jsval \<Rightarrow> jsval \<Rightarrow> jsval + (jstr \<times> alert_status \<times> jstr) list" where
  "alert_rows alerts bridgeRate wastageRate =
     (let a = or_default alerts (JArr []); b = or_default bridgeRate (jint 100); w = or_default wastageRate (jint 0) in
      smap (\<lambda>d. sbind (ad_status d a b w) (\<lambda>st. sbind (ad_message d a b w) (\<lambda>m. Inr (ad_label d, st, m)))) alertDefs)"

definition alert_cards :: "jsval \<Rightarrow> jsval \<Rightarrow> jsval \<Rightarrow> bool \<Rightarrow> jsval + view" where
  "alert_cards alerts bridgeRate wastageRate isLoading =
     (if isLoading then Inr nothing
      else sbind (alert_rows alerts bridgeRate wastageRate) (\<lambda>rows.
        Inr (El ''div'' [] (map (\<lambda>(label, st, m).
          El ''div'' []
            [El ''span'' [(''className'', js (alert_color st)), flag ''pulse'' (st = AlertCritical)] [],
             El ''p'' [] [Txt label], El ''p'' [] [Txt m]]) rows))))"

section \<open>Charts and the page\<close>

text \<open>The value of a tooltip, and the label above it.\<close>

definition revenue_tooltip :: "(jsnum \<Rightarrow> jstr) \<Rightarrow> jsval \<Rightarrow> jstr \<times> jstr" where
  "revenue_tooltip fmt_num v = ([0x00A5] @ fmt_num (to_number v), [0x6536, 0x5165])"

definition calls_tooltip :: "(jsnum \<Rightarrow> jstr) \<Rightarrow> jsval \<Rightarrow> jstr \<times> jstr" where
  "calls_tooltip fmt_num v = (fmt_num (to_number v) @ (js '' '' @ [0x901A]), [0x901A, 0x8BDD, 0x91CF])"

definition date_label :: "jsval \<Rightarrow> jstr" where
  "date_label label = ([0x65E5, 0x671F] @ js '': '') @ to_str label"

text \<open>The rows a chart is given, with the fields it reads.\<close>

definition chart_rows :: "string list \<Rightarrow> jsval \<Rightarrow> view list" where
  "chart_rows ks data =
     (case data of
        JArr vs \<Rightarrow> map (\<lambda>v. El ''datum'' (map (\<lambda>k. (k, to_str (opt_get k v))) ks) []) vs
      | _ \<Rightarrow> [])"

definition trend_charts :: "jsval \<Rightarrow> jsval \<Rightarrow> bool \<Rightarrow> view" where
  "trend_charts revenueData callData isLoading =
     (if isLoading then El ''div'' [] [El ''Skeleton'' [] [], El ''Skeleton'' [] []]
      else El ''div'' []
        [El ''Card'' [] [El ''CardTitle'' [] [Txt ([0x8FD1] @ js '' 7 '' @ [0x65E5, 0x6536, 0x5165, 0x8D8B, 0x52BF])],
           El ''AreaChart'' [] (chart_rows [''date'', ''revenue''] revenueData @ [
             El ''linearGradient'' [(''id'', js ''revenueGrad''), (''stopColor'', chart_color ''primary'')] [],
             El ''XAxis'' [(''dataKey'', js ''date'')] [], El ''YAxis'' [] [], El ''Tooltip'' [] [],
             El ''Area'' [(''dataKey'', js ''revenue''), (''stroke'', chart_color ''primary''),
               (''fill'', js ''url(#revenueGrad)'')] []])],
         El ''Card'' [] [El ''CardTitle'' [] [Txt ([0x8FD1] @ js '' 7 '' @ [0x65E5, 0x901A, 0x8BDD, 0x91CF])],
           El ''BarChart'' [] (chart_rows [''date'', ''calls''] callData @ [
             El ''XAxis'' [(''dataKey'', js ''date'')] [], El ''YAxis'' [] [], El ''Tooltip'' [] [],
             El ''Bar'' [(''dataKey'', js ''calls''), (''fill'', chart_color ''secondary'')] []])]])"

text \<open>The share of the day's money that was wasted, in percent.\<close>

definition wastage_share :: "jsval \<Rightarrow> jsval" where
  "wastage_share overview =
     (let w = opt_get ''today_wastage'' overview; r = opt_get ''today_revenue'' overview in
      if truthy w \<and> truthy r then
        JNum (num_mul (num_div (to_number w) (num_add (to_number r) (to_number w))) (num_int 100))
      else jint 0)"

definition dashboard_view :: "jsval \<Rightarrow> bool \<Rightarrow> jsval \<Rightarrow> bool \<Rightarrow> jsval + view" where
  "dashboard_view overview isLoading trends trendsLoading =
     sbind (alert_cards (opt_get ''alerts'' overview) (opt_get ''bridge_success_rate'' overview)
         (wastage_share overview) isLoading) (\<lambda>cards.
     Inr (El ''div'' []
       [El ''h1'' [] [Txt [0x8FD0, 0x8425, 0x6982, 0x89C8]], El ''p'' [] [Txt [0x5B9E, 0x65F6, 0x76D1, 0x63A7, 0x5E73, 0x53F0, 0x8FD0, 0x8425, 0x6570, 0x636E]],
        overview_stats overview isLoading, cards,
        trend_charts (js_coalesce (opt_get ''revenue'' trends) (JArr []))
          (js_coalesce (opt_get ''calls'' trends) (JArr [])) trendsLoading]))"

section \<open>Properties\<close>

lemma some_list_Inr: "smap p xs = Inr bs \<Longrightarrow> some_list p xs = Inr (True \<in> set bs)"
proof (induction xs arbitrary: bs)
  case (Cons x xs)
  then obtain b cs where "p x = Inr b" "smap p xs = Inr cs" "bs = b # cs"
    by (cases "p x"; cases "smap p xs") simp_all
  with Cons.IH show ?case by simp
qed simp

lemma type_of_alert: "conforms Admin_Alert a \<Longrightarrow> is_type t a = Inr (opt_get ''type'' a = jlit t)"
  by (cases a) (simp_all add: Admin_Alert_def is_type_def get_def opt_get_def)

definition has_alert :: "string \<Rightarrow> jsval list \<Rightarrow> bool" where
  "has_alert t vs \<longleftrightarrow> list_ex (\<lambda>a. opt_get ''type'' a = jlit t) vs"

lemma alert_types:
  assumes "list_all (conforms Admin_Alert) vs"
  shows "some_type t (JArr vs) = Inr (has_alert t vs)"
    and "\<exists>n. count_type t (JArr vs) = Inr n \<and> (0 < n \<longleftrightarrow> has_alert t vs)"
proof -
  have m: "smap (is_type t) vs = Inr (map (\<lambda>a. opt_get ''type'' a = jlit t) vs)"
    using assms by (intro smap_Inr) (simp add: type_of_alert list_all_iff)
  show "some_type t (JArr vs) = Inr (has_alert t vs)"
    using some_list_Inr [OF m] by (auto simp: some_type_def as_array_def has_alert_def list_ex_iff)
  show "\<exists>n. count_type t (JArr vs) = Inr n \<and> (0 < n \<longleftrightarrow> has_alert t vs)"
    by (auto simp: count_type_def as_array_def m has_alert_def list_ex_iff filter_empty_conv filter_map comp_def)
qed

definition calm_messages :: "jstr set" where
  "calm_messages = {[0x6B63, 0x5E38], [0x5168, 0x90E8, 0x5728, 0x7EBF]}"

lemma counted_not_calm:
  "show_int n @ (js '' '' @ [0x4E2A, 0x5BA2, 0x6237, 0x4F59, 0x989D, 0x4E0D, 0x8DB3]) \<notin> calm_messages" "show_int n @ (js '' '' @ [0x4E2A, 0x7F51, 0x5173, 0x79BB, 0x7EBF]) \<notin> calm_messages"
proof -
  have "m \<in> calm_messages \<Longrightarrow> length m \<le> 4" for m by (auto simp: calm_messages_def)
  from this [of "show_int n @ (js '' '' @ [0x4E2A, 0x5BA2, 0x6237, 0x4F59, 0x989D, 0x4E0D, 0x8DB3])"] this [of "show_int n @ (js '' '' @ [0x4E2A, 0x7F51, 0x5173, 0x79BB, 0x7EBF])"]
  show "show_int n @ (js '' '' @ [0x4E2A, 0x5BA2, 0x6237, 0x4F59, 0x989D, 0x4E0D, 0x8DB3]) \<notin> calm_messages" "show_int n @ (js '' '' @ [0x4E2A, 0x7F51, 0x5173, 0x79BB, 0x7EBF]) \<notin> calm_messages"
    by auto
qed

text \<open>
  C14: for a list of alerts of the declared shape the four cards render: the bridge rate is critical below 60,
  the wastage above 15 percent, an alert of low balance warns and one of a gateway that is down is critical;
  and a card's message is the all-clear exactly where its status is.
\<close>

theorem alert_cards_correct:
  assumes "list_all (conforms Admin_Alert) vs"
  shows "\<exists>rows. alert_rows (JArr vs) (JNum b) (JNum w) = Inr rows \<and>
    map (fst \<circ> snd) rows =
      [if num_lt b (num_int 60) then AlertCritical else AlertOk,
       if has_alert ''balance_low'' vs then AlertWarning else AlertOk,
       if has_alert ''gateway_down'' vs then AlertCritical else AlertOk,
       if num_lt (num_int 15) w then AlertCritical else AlertOk] \<and>
    list_all (\<lambda>(label, st, m). st = AlertOk \<longleftrightarrow> m \<in> calm_messages) rows"
proof -
  note s = alert_types(1) [OF assms]
  obtain n1 where n1: "count_type ''balance_low'' (JArr vs) = Inr n1" "0 < n1 \<longleftrightarrow> has_alert ''balance_low'' vs"
    using alert_types(2) [OF assms] by blast
  obtain n2 where n2: "count_type ''gateway_down'' (JArr vs) = Inr n2" "0 < n2 \<longleftrightarrow> has_alert ''gateway_down'' vs"
    using alert_types(2) [OF assms] by blast
  have calm: "[0x6B63, 0x5E38] \<in> calm_messages" "[0x5168, 0x90E8, 0x5728, 0x7EBF] \<in> calm_messages" "([0x544A, 0x8B66] @ js '': '') @ r \<notin> calm_messages" for r
    by (simp_all add: calm_messages_def js_def)
  show ?thesis
    using n1(2) n2(2) calm counted_not_calm
    by (simp add: alert_rows_def or_default_def alertDefs_def bridge_def_def balance_def_def gateway_def_def wastage_def_def
        below_bridge_def above_wastage_def BRIDGE_THRESHOLD_def WASTAGE_THRESHOLD_def fixed1_def s n1(1) n2(1)
        del: num_lt.simps)
qed

theorem alert_cards_correct_witness:
  "\<exists>rows. alert_rows (JArr [obj [(''type'', jlit ''gateway_down''), (''message'', jlit ''m''), (''severity'', jlit ''critical'')]])
      (jint 59) (jint 15) = Inr rows \<and>
    map (fst \<circ> snd) rows = [AlertCritical, AlertOk, AlertCritical, AlertOk]"
proof -
  have "list_all (conforms Admin_Alert)
      [obj [(''type'', jlit ''gateway_down''), (''message'', jlit ''m''), (''severity'', jlit ''critical'')]]"
    by (simp add: Admin_Alert_def)
  from alert_cards_correct [OF this, of "num_int 59" "num_int 15"] show ?thesis
    by (auto simp: has_alert_def opt_get_def)
qed

text \<open>
  The share of wasted money is a percentage: for amounts in whole units up to \<open>2 ^ 50\<close> together it lies
  between 0 and 100. A day with wastage and no revenue counts as a day without wastage.
\<close>

lemma wastage_share_range:
  assumes "opt_get ''today_wastage'' ov = jint w" and "opt_get ''today_revenue'' ov = jint r"
    and "0 \<le> w" and "0 \<le> r" and "w + r \<le> 2 ^ 50"
  shows "\<exists>x. wastage_share ov = JNum (Fin x) \<and> 0 \<le> x \<and> x \<le> 100 \<and> (r = 0 \<longrightarrow> x = 0)"
proof (cases "w = 0 \<or> r = 0")
  case True
  then show ?thesis by (auto simp: wastage_share_def assms(1,2))
next
  case False
  with assms have w: "0 < w" "0 < r" by simp_all
  have a: "num_add (num_int r) (num_int w) = Fin (of_int w + of_int r)"
    using to_num_int [of "w + r"] assms(3-5) by (simp add: add.commute)
  have "\<exists>x. num_mul (num_div (num_int w) (num_int (w + r))) (num_int 100) = Fin x \<and> 0 \<le> x \<and> x \<le> 100"
    using assms w by (intro fl_percent_of) simp_all
  with w show ?thesis
    by (auto simp: wastage_share_def assms(1,2) a simp del: num_div.simps num_mul.simps num_add.simps)
qed

text \<open>The client's overview is a constant: the page asks no server, and none of its cards ever alerts.\<close>

lemma dashboard_never_alerts:
  "\<exists>ov. qu_fn admin_useDashboardOverview w = (Inr ov, w) \<and>
     (\<exists>rows. alert_rows (opt_get ''alerts'' ov) (opt_get ''bridge_success_rate'' ov) (wastage_share ov) = Inr rows \<and>
        list_all (\<lambda>(label, st, m). st = AlertOk) rows)"
proof -
  define ov where "ov = obj [(''concurrent_calls'', jint 0), (''today_revenue'', jint 0), (''today_wastage'', jint 0),
    (''bridge_success_rate'', jint 100), (''alerts'', JArr [])]"
  have q: "qu_fn admin_useDashboardOverview w = (Inr ov, w)"
    by (simp add: admin_useDashboardOverview_def query_of_def admin_GetOverview_def return_def ov_def)
  have f: "opt_get ''alerts'' ov = JArr []" "opt_get ''bridge_success_rate'' ov = jint 100" "wastage_share ov = jint 0"
    by (simp_all add: ov_def opt_get_def wastage_share_def)
  have "case alert_rows (JArr []) (jint 100) (jint 0) of Inl e \<Rightarrow> False
      | Inr rows \<Rightarrow> list_all (\<lambda>(label, st, m). st = AlertOk) rows"
    by code_simp
  then have "\<exists>rows. alert_rows (JArr []) (jint 100) (jint 0) = Inr rows \<and> list_all (\<lambda>(label, st, m). st = AlertOk) rows"
    by (auto split: sum.splits)
  with q f show ?thesis by metis
qed

text \<open>Alerts that are \<open>null\<close> instead of missing are not replaced by the default.\<close>

lemma null_alerts_throw: "alert_rows JNull b w = Inl type_error"
  by (simp add: alert_rows_def or_default_def alertDefs_def bridge_def_def balance_def_def some_type_def as_array_def
      fixed1_def Let_def split: jsval.splits)

text \<open>A ticker that counts whole things ends on the number itself, and starts on 0.\<close>

lemma ticker_settles:
  assumes "0 \<le> n" and "n < 10 ^ 21" and "n \<le> 2 ^ 53"
  shows "ticker_change 0 (ticker_target False (num_int n)) = ticker_format 0 (num_int n)"
proof -
  have "(of_int n :: rat) < 10 ^ 21"
    using assms(2) of_int_less_iff [of n "10 ^ 21", where 'a = rat] by simp
  moreover have "\<lfloor>1 / 2 :: rat\<rfloor> = 0" by (simp add: floor_eq_iff)
  ultimately have "to_fixed 0 (num_int n) = point_at 0 n"
    using assms(1) by (simp add: scaled_def)
  then show ?thesis
    using read_point_at [OF assms(1), of 0] to_num_int [of n] assms(1,3)
    by (simp add: ticker_change_def ticker_target_def)
qed

end
