(* ===== verification/Wastage.thy ===== *)
theory Wastage
  imports Dashboard
begin

text \<open>
  \<open>features/wastage\<close> of the console: the summary of the day and the three charts, as the data, labels and
  colours they show. The number format of the browser's own locale is the argument \<open>fmt_num\<close>.
\<close>

section \<open>Summary\<close>

text \<open>\<open>(v ?? 0).toLocaleString(...)\<close> and \<open>.toFixed(1)\<close> on a number; another value has no such method.\<close>

definition money_text :: "jsval \<Rightarrow> jsval + jstr" where
  "money_text v = (case js_coalesce v (jint 0) of JNum n \<Rightarrow> Inr ([0x00A5] @ to_locale 2 3 n) | _ \<Rightarrow> Inl type_error)"

definition rate_text :: "jsval \<Rightarrow> jsval + jstr" where
  "rate_text v = sbind (fixed1 (js_coalesce v (jint 0))) (\<lambda>t. Inr (t @ js ''%''))"

definition wastage_stat :: "jstr \<Rightarrow> jsval \<Rightarrow> bool \<Rightarrow> view" where
  "wastage_stat title v isLoading =
     stat_card \<lparr>sc_title = title, sc_value = v, sc_description = None, sc_trend = None, sc_loading = isLoading\<rparr>"

section \<open>Charts\<close>

text \<open>The tabs of the trend: a day, a week or a month.\<close>

definition wastage_periods :: "(jstr \<times> jstr) list" where
  "wastage_periods = [(js ''day'', [0x65E5]), (js ''week'', [0x5468]), (js ''month'', [0x6708])]"

definition trend_name :: "jsval \<Rightarrow> jstr" where
  "trend_name name = (if name = jlit ''wastage_rate'' then [0x635F, 0x8017, 0x7387] else [0x6865, 0x63A5, 0x6210, 0x529F, 0x7387])"

definition trend_tooltip :: "jsval \<Rightarrow> jsval \<Rightarrow> jstr \<times> jstr" where
  "trend_tooltip value name = (to_fixed 1 (to_number value) @ js ''%'', trend_name name)"

definition wastage_trend :: "jstr \<Rightarrow> jsval \<Rightarrow> bool \<Rightarrow> view" where
  "wastage_trend period data isLoading =
     El ''Card'' []
       [El ''CardTitle'' [] [Txt [0x635F, 0x8017, 0x7387, 0x8D8B, 0x52BF]],
        El ''Tabs'' [(''value'', period)] (map (\<lambda>(p, l). El ''TabsTrigger'' [(''value'', p)] [Txt l]) wastage_periods),
        if isLoading then El ''Skeleton'' [] []
        else El ''LineChart'' [] (chart_rows [''date'', ''wastage_rate'', ''bridge_rate''] data @
          [El ''XAxis'' [(''dataKey'', js ''date'')] [], El ''YAxis'' [(''unit'', js ''%'')] [],
           El ''Tooltip'' [] [], El ''Legend'' [] [],
           El ''Line'' [(''dataKey'', js ''wastage_rate''), (''stroke'', chart_color ''danger'')] [],
           El ''Line'' [(''dataKey'', js ''bridge_rate''), (''stroke'', chart_color ''primary'')] []])]"

definition GRADIENT_COLORS :: "jstr list" where
  "GRADIENT_COLORS = map js
     [''hsl(0, 75%, 55%)'', ''hsl(5, 72%, 57%)'', ''hsl(10, 70%, 59%)'', ''hsl(15, 68%, 61%)'', ''hsl(20, 65%, 63%)'',
      ''hsl(25, 62%, 65%)'', ''hsl(30, 60%, 67%)'', ''hsl(32, 58%, 69%)'', ''hsl(34, 55%, 71%)'', ''hsl(35, 52%, 73%)'']"

definition gradient_color :: "nat \<Rightarrow> jstr" where
  "gradient_color i = (if i < length GRADIENT_COLORS then GRADIENT_COLORS ! i else GRADIENT_COLORS ! 9)"

definition ranking_tooltip :: "(jsnum \<Rightarrow> jstr) \<Rightarrow> jsval \<Rightarrow> jstr \<times> jstr" where
  "ranking_tooltip fmt_num value = ([0x00A5] @ fmt_num (to_number value), [0x635F, 0x8017, 0x91D1, 0x989D])"

definition items_of :: "jsval \<Rightarrow> jsval list" where
  "items_of data = (case js_coalesce data (JArr []) of JArr vs \<Rightarrow> vs | _ \<Rightarrow> [])"

definition customer_ranking :: "jsval \<Rightarrow> bool \<Rightarrow> view" where
  "customer_ranking data isLoading =
     El ''Card'' []
       [El ''CardTitle'' [] [Txt ([0x5BA2, 0x6237, 0x635F, 0x8017] @ js '' TOP 10'')],
        if isLoading then El ''Skeleton'' [] []
        else El ''BarChart'' [(''layout'', js ''vertical'')] (chart_rows [''customer_name'', ''wastage_cost''] data @
          [El ''XAxis'' [(''type'', js ''number'')] [],
           El ''YAxis'' [(''type'', js ''category''), (''dataKey'', js ''customer_name'')] [], El ''Tooltip'' [] [],
           El ''Bar'' [(''dataKey'', js ''wastage_cost'')]
             (map (\<lambda>i. El ''Cell'' [(''fill'', gradient_color i)] []) [0..<length (items_of data)])])]"

definition FAILURE_LABELS :: "(jstr \<times> jsval) list" where
  "FAILURE_LABELS =
     [(js ''a_connected_b_failed'', JStr (js ''A '' @ [0x901A] @ js '' B '' @ [0x5931, 0x8D25])), (js ''bridge_broken_early'', JStr [0x6865, 0x63A5, 0x4E2D, 0x65AD]),
      (js ''b_no_answer'', JStr (js ''B '' @ [0x8DEF, 0x65E0, 0x5E94, 0x7B54])), (js ''b_busy'', JStr (js ''B '' @ [0x8DEF, 0x5FD9])), (js ''b_rejected'', JStr (js ''B '' @ [0x8DEF, 0x62D2, 0x63A5])),
      (js ''other'', JStr [0x5176, 0x4ED6])]"

definition failure_label :: "jsval \<Rightarrow> jsval" where
  "failure_label reason = js_coalesce (table_get FAILURE_LABELS (to_str reason)) reason"

definition chart_item :: "jsval \<Rightarrow> jsval" where
  "chart_item item = JObj (set_field (js ''label'') (failure_label (opt_get ''reason'' item)) (own_fields item))"

text \<open>The callback reads \<open>item.reason\<close>, which throws for a missing item.\<close>

definition chartData :: "jsval \<Rightarrow> jsval + jsval list" where
  "chartData data = sbind (as_array (js_coalesce data (JArr []))) (smap (\<lambda>item.
     if nullish item then Inl type_error else Inr (chart_item item)))"

definition pie_label :: "jsval \<Rightarrow> jsval \<Rightarrow> jstr" where
  "pie_label name percent =
     to_str (js_coalesce name (JStr [])) @ js '' '' @
     to_fixed 0 (num_mul (to_number (js_coalesce percent (jint 0))) (num_int 100)) @ js ''%''"

definition cycle_color :: "nat \<Rightarrow> jstr" where
  "cycle_color i = CHART_COLORS_ARRAY ! (i mod length CHART_COLORS_ARRAY)"

definition count_tooltip :: "jsval \<Rightarrow> jsval \<Rightarrow> jstr \<times> jstr" where
  "count_tooltip value name = (to_str value @ (js '' '' @ [0x6B21]), to_str name)"

definition failure_distribution :: "jsval \<Rightarrow> bool \<Rightarrow> jsval + view" where
  "failure_distribution data isLoading =
     sbind (chartData data) (\<lambda>rows.
     Inr (El ''Card'' []
       [El ''CardTitle'' [] [Txt (js ''B '' @ [0x8DEF, 0x5931, 0x8D25, 0x539F, 0x56E0, 0x5206, 0x5E03])],
        if isLoading then El ''Skeleton'' [] []
        else El ''PieChart'' []
          [El ''Pie'' [(''dataKey'', js ''count''), (''nameKey'', js ''label'')]
             (chart_rows [''label'', ''count''] (JArr rows) @
              map (\<lambda>i. El ''Cell'' [(''fill'', cycle_color i)] []) [0..<length rows]),
           El ''Tooltip'' [] [], El ''Legend'' [] []]]))"

section \<open>The page\<close>

definition wastage_view :: "jsval \<Rightarrow> bool \<Rightarrow> jstr \<Rightarrow> jsval \<times> bool \<Rightarrow> jsval \<times> bool \<Rightarrow> jsval \<times> bool \<Rightarrow> jsval + view" where
  "wastage_view summary isLoading period trend ranking distribution =
     sbind (money_text (opt_get ''today_wastage_cost'' summary)) (\<lambda>cost.
     sbind (rate_text (opt_get ''today_wastage_rate'' summary)) (\<lambda>rate.
     sbind (failure_distribution (fst distribution) (snd distribution)) (\<lambda>pie.
     Inr (El ''div'' []
       [El ''h1'' [] [Txt [0x635F, 0x8017, 0x5206, 0x6790, 0x4E2D, 0x5FC3]], El ''p'' [] [Txt [0x5E73, 0x53F0, 0x635F, 0x8017, 0x8D8B, 0x52BF, 0x3001, 0x5BA2, 0x6237, 0x6392, 0x540D, 0x548C, 0x5931, 0x8D25, 0x539F, 0x56E0, 0x5206, 0x6790]],
        wastage_stat [0x4ECA, 0x65E5, 0x635F, 0x8017, 0x91D1, 0x989D] (JStr cost) isLoading,
        wastage_stat [0x4ECA, 0x65E5, 0x635F, 0x8017, 0x7387] (JStr rate) isLoading,
        wastage_stat [0x6700, 0x5E38, 0x89C1, 0x5931, 0x8D25, 0x539F, 0x56E0] (js_coalesce (opt_get ''top_failure_reason'' summary) (jlit ''-'')) isLoading,
        wastage_trend period (fst trend) (snd trend),
        customer_ranking (fst ranking) (snd ranking), pie]))))"

section \<open>Properties\<close>

text \<open>The colours never run out.\<close>

lemma colors_in_tables: "gradient_color i \<in> set GRADIENT_COLORS" "cycle_color i \<in> set CHART_COLORS_ARRAY"
proof -
  have "length GRADIENT_COLORS = 10" "length CHART_COLORS_ARRAY = 6"
    by (simp_all add: GRADIENT_COLORS_def CHART_COLORS_ARRAY_def)
  then show "gradient_color i \<in> set GRADIENT_COLORS" "cycle_color i \<in> set CHART_COLORS_ARRAY"
    by (auto simp: gradient_color_def cycle_color_def intro!: nth_mem)
qed

lemma failure_label_known: "(k, l) \<in> set FAILURE_LABELS \<Longrightarrow> failure_label (JStr k) = l"
  by (auto simp: FAILURE_LABELS_def failure_label_def table_get_def js_coalesce_def)

text \<open>
  The failure chart keeps every reason: it has as many entries as the answer, in order, each with the count
  it had; the reasons the code knows are labelled with their text, and any other reason with itself.
\<close>

lemma distribution_keeps_counts:
  assumes "list_all (\<lambda>(r, n). r \<notin> set (map js proto_names)) rs"
  shows "\<exists>rows. chartData (JArr (map (\<lambda>(r, n). obj [(''reason'', JStr r), (''count'', jint n)]) rs)) = Inr rows \<and>
    map (opt_get ''count'') rows = map (\<lambda>(r, n). jint n) rs \<and>
    map (opt_get ''label'') rows =
      map (\<lambda>(r, n). case map_of FAILURE_LABELS r of None \<Rightarrow> JStr r | Some l \<Rightarrow> l) rs"
proof -
  have l: "failure_label (JStr r) = (case map_of FAILURE_LABELS r of None \<Rightarrow> JStr r | Some l \<Rightarrow> l)"
    if "r \<notin> set (map js proto_names)" for r
    using that by (auto simp: failure_label_def table_get_def proto_get_def js_coalesce_def proto_names_def
        FAILURE_LABELS_def)
  let ?row = "\<lambda>(r, n). obj [(''reason'', JStr r), (''count'', jint n)]"
  have s: "smap (\<lambda>item. if nullish item then Inl type_error else Inr (chart_item item)) (map ?row rs) =
      Inr (map chart_item (map ?row rs))"
    by (intro smap_Inr) auto
  have "opt_get ''count'' (chart_item (?row p)) = jint (snd p)"
    "opt_get ''label'' (chart_item (?row p)) = failure_label (JStr (fst p))" for p
    by (simp_all add: chart_item_def opt_get_def split: prod.split)
  with s l assms show ?thesis
    by (auto simp: chartData_def js_coalesce_def as_array_def list_all_iff)
qed

end
