(* ===== verification/Ops.thy ===== *)
theory Ops
  imports Shared_Views Js_Text
begin

text \<open>
  \<open>features/ops\<close> of the console: the list of system events, the cards of the two switches and the resource
  cards. The page shows constants only; what it computes from them is the overall status and the time of the
  last check.
\<close>

section \<open>Switches\<close>

record fs_instance =
  fi_hostname :: jstr
  fi_role :: jstr
  fi_esl_status :: jstr
  fi_last_check :: jstr
  fi_sessions :: int
  fi_uptime :: jstr

definition fs_instances :: "fs_instance list" where
  "fs_instances =
     [\<lparr>fi_hostname = js ''fs-primary-01.bos3000.local'', fi_role = [0x4E3B, 0x8282, 0x70B9], fi_esl_status = js ''connected'',
       fi_last_check = js ''2026-03-11 14:32:05'', fi_sessions = 24, fi_uptime = (js ''15 '' @ [0x5929] @ js '' 8 '' @ [0x5C0F, 0x65F6])\<rparr>,
      \<lparr>fi_hostname = js ''fs-standby-02.bos3000.local'', fi_role = [0x5907, 0x7528, 0x8282, 0x70B9], fi_esl_status = js ''disconnected'',
       fi_last_check = js ''2026-03-11 14:31:58'', fi_sessions = 0, fi_uptime = (js ''15 '' @ [0x5929] @ js '' 8 '' @ [0x5C0F, 0x65F6])\<rparr>]"

definition status_dot :: "bool \<Rightarrow> view" where
  "status_dot isConnected =
     El ''span'' [(''className'', if isConnected then js ''bg-green-500'' else js ''bg-red-500 animate-pulse'')] []"

text \<open>\<open>lastHealthCheck.split(' ')[1]\<close>: without a space there is no second part, and nothing is shown.\<close>

definition check_time :: "jstr \<Rightarrow> jsval" where
  "check_time s = (case str_split (js '' '') s of a # b # r \<Rightarrow> JStr b | _ \<Rightarrow> JUndef)"

definition instance_card :: "fs_instance \<Rightarrow> view" where
  "instance_card i =
     (let isConnected = (fi_esl_status i = js ''connected'') in
      El ''Card'' []
        [El ''Server'' [] [], El ''CardTitle'' [] [Txt (fi_role i)], status_dot isConnected,
         El ''Badge'' [(''variant'', if isConnected then js ''default'' else js ''destructive'')]
           [Txt (if isConnected then [0x5DF2, 0x8FDE, 0x63A5] else [0x5DF2, 0x65AD, 0x5F00])],
         El ''p'' [] [Txt (fi_hostname i)],
         El ''div'' [] [El ''Users'' [] [], Txt [0x4F1A, 0x8BDD], Txt (show_int (fi_sessions i))],
         El ''div'' [] [El ''Timer'' [] [], Txt [0x8FD0, 0x884C], Txt (fi_uptime i)],
         El ''div'' [] [El ''Clock'' [] [], Txt [0x68C0, 0x67E5], show_val (check_time (fi_last_check i))]])"

definition fs_status_cards :: view where
  "fs_status_cards = El ''div'' [] (map instance_card fs_instances)"

section \<open>Resources\<close>

datatype resource_status = ResNormal | ResWarning | ResError

record resource_card =
  rc_title :: jstr
  rc_status :: resource_status
  rc_metrics :: "(jstr \<times> jsval) list"

definition ops_resources :: "resource_card list" where
  "ops_resources =
     [\<lparr>rc_title = [0x6570, 0x636E, 0x5E93], rc_status = ResNormal,
       rc_metrics = [([0x6D3B, 0x8DC3, 0x8FDE, 0x63A5], jlit ''12 / 100''), ([0x7A7A, 0x95F2, 0x8FDE, 0x63A5], jint 38), ([0x5EF6, 0x8FDF], jlit ''2.4 ms'')]\<rparr>,
      \<lparr>rc_title = js ''Redis'', rc_status = ResNormal,
       rc_metrics = [([0x72B6, 0x6001], JStr [0x5DF2, 0x8FDE, 0x63A5]), ([0x5185, 0x5B58, 0x4F7F, 0x7528], jlit ''128 MB / 512 MB''), ([0x547D, 0x4E2D, 0x7387], jlit ''96.2%'')]\<rparr>,
      \<lparr>rc_title = (js ''API '' @ [0x7F51, 0x5173]), rc_status = ResNormal,
       rc_metrics = [(([0x8BF7, 0x6C42] @ js ''/'' @ [0x5206]), jint 342), ([0x9519, 0x8BEF, 0x7387], jlit ''0.12%''), ([0x5E73, 0x5747, 0x5EF6, 0x8FDF], jlit ''45 ms'')]\<rparr>,
      \<lparr>rc_title = [0x56DE, 0x547C, 0x5F15, 0x64CE], rc_status = ResWarning,
       rc_metrics = [([0x961F, 0x5217, 0x6DF1, 0x5EA6], jint 7), ([0x5904, 0x7406, 0x4E2D], jint 3), ([0x5931, 0x8D25, 0x7387], jlit ''1.8%'')]\<rparr>]"

definition overallStatus :: "resource_card list \<Rightarrow> bool" where
  "overallStatus cards = list_ex (\<lambda>c. rc_status c = ResError) cards"

definition resource_view :: "resource_card \<Rightarrow> view" where
  "resource_view r =
     El ''Card'' []
       (El ''CardTitle'' [] [Txt (rc_title r)] # El ''Icon'' [] [] #
        map (\<lambda>(l, v). El ''div'' [] [El ''span'' [] [Txt l], El ''span'' [] [show_val v]]) (rc_metrics r))"

definition system_health :: "resource_card list \<Rightarrow> view" where
  "system_health resources =
     (let isError = overallStatus resources in
      El ''div'' []
        [El ''span'' [] [Txt [0x7CFB, 0x7EDF, 0x72B6, 0x6001]],
         El ''Badge'' [(''className'', if isError then js ''bg-red-600 hover:bg-red-600'' else js ''bg-green-600 hover:bg-green-600'')]
           [Txt (if isError then [0x7CFB, 0x7EDF, 0x5F02, 0x5E38] else [0x7CFB, 0x7EDF, 0x6B63, 0x5E38])],
         El ''div'' [] (map resource_view resources)])"

section \<open>Events and the page\<close>

datatype event_level = EvInfo | EvSuccess | EvWarning | EvError

definition event_icon :: "event_level \<Rightarrow> string" where
  "event_icon l = (case l of EvInfo \<Rightarrow> ''Info'' | EvSuccess \<Rightarrow> ''CheckCircle'' | EvWarning \<Rightarrow> ''AlertTriangle''
     | EvError \<Rightarrow> ''XCircle'')"

definition level_color :: "event_level \<Rightarrow> string" where
  "level_color l = (case l of EvInfo \<Rightarrow> ''text-blue-500'' | EvSuccess \<Rightarrow> ''text-green-500''
     | EvWarning \<Rightarrow> ''text-yellow-500'' | EvError \<Rightarrow> ''text-red-500'')"

definition system_events :: "(jstr \<times> event_level \<times> jstr) list" where
  "system_events =
     [(js ''14:32:05'', EvInfo, (js ''FreeSWITCH '' @ [0x4E3B, 0x8282, 0x70B9, 0x5065, 0x5EB7, 0x68C0, 0x67E5, 0x901A, 0x8FC7])),
      (js ''14:31:58'', EvWarning, (js ''FreeSWITCH '' @ [0x5907, 0x7528, 0x8282, 0x70B9] @ js '' ESL '' @ [0x8FDE, 0x63A5, 0x65AD, 0x5F00])),
      (js ''14:30:00'', EvSuccess, [0x6570, 0x636E, 0x5E93, 0x8FDE, 0x63A5, 0x6C60, 0x56DE, 0x6536, 0x5B8C, 0x6210]),
      (js ''14:28:12'', EvInfo, (js ''API '' @ [0x7F51, 0x5173, 0x8BC1, 0x4E66, 0x81EA, 0x52A8, 0x7EED, 0x671F, 0x6210, 0x529F])),
      (js ''14:25:33'', EvError, ([0x56DE, 0x547C, 0x4EFB, 0x52A1] @ js '' #1087 '' @ [0x91CD, 0x8BD5, 0x5931, 0x8D25, 0xFF0C, 0x5DF2, 0x52A0, 0x5165, 0x6B7B, 0x4FE1, 0x961F, 0x5217])),
      (js ''14:20:01'', EvInfo, (js ''Redis '' @ [0x5185, 0x5B58, 0x6E05, 0x7406] @ js '' cron '' @ [0x6267, 0x884C, 0x5B8C, 0x6210])),
      (js ''14:15:44'', EvSuccess, ([0x56DE, 0x547C, 0x4EFB, 0x52A1] @ js '' #1086 '' @ [0x5B8C, 0x6210])),
      (js ''14:10:02'', EvInfo, [0x7CFB, 0x7EDF, 0x6307, 0x6807, 0x5FEB, 0x7167, 0x5DF2, 0x5199, 0x5165]),
      (js ''14:05:00'', EvInfo, (js ''FreeSWITCH '' @ [0x4E3B, 0x8282, 0x70B9, 0x5065, 0x5EB7, 0x68C0, 0x67E5, 0x901A, 0x8FC7])),
      (js ''14:00:00'', EvInfo, [0x5B9A, 0x65F6, 0x62A5, 0x8868, 0x751F, 0x6210, 0x4EFB, 0x52A1, 0x542F, 0x52A8])]"

definition ops_page :: view where
  "ops_page =
     El ''div'' []
       [El ''h1'' [] [Txt [0x8FD0, 0x7EF4, 0x76D1, 0x63A7]], El ''p'' [] [Txt (js ''FreeSWITCH '' @ [0x72B6, 0x6001, 0x548C, 0x7CFB, 0x7EDF, 0x5065, 0x5EB7, 0x76D1, 0x63A7])],
        fs_status_cards, El ''Separator'' [] [], system_health ops_resources, El ''Separator'' [] [],
        El ''h2'' [] [Txt [0x7CFB, 0x7EDF, 0x4E8B, 0x4EF6]],
        El ''div'' [] (map (\<lambda>(t, l, m).
          El ''div'' [] [El (event_icon l) [(''className'', js (level_color l))] [],
            El ''span'' [] [Txt t], El ''span'' [] [Txt m]]) system_events)]"

section \<open>Properties\<close>

text \<open>The badge is green while a resource only warns, as the page's own constants do.\<close>

lemma warning_is_normal: "list_all (\<lambda>c. rc_status c \<noteq> ResError) cards \<Longrightarrow> [0x7CFB, 0x7EDF, 0x6B63, 0x5E38] \<in> set (texts (system_health cards))"
  by (simp add: system_health_def overallStatus_def list_all_iff list_ex_iff)

lemma check_times: "map (check_time \<circ> fi_last_check) fs_instances = [jlit ''14:32:05'', jlit ''14:31:58'']"
  by code_simp

end
