(* ===== verification/Screen_Width.thy ===== *)
theory Screen_Width
  imports Js_Number
begin

text \<open>
  \<open>hooks/use-mobile.ts\<close> of both applications (the files are the same): the hook that tells whether the window
  is narrow. The media query fires a change event when the window crosses the breakpoint; the handler reads
  the width again. The browser is the inductive relation \<open>width_step\<close>.
\<close>

definition MOBILE_BREAKPOINT :: int where
  "MOBILE_BREAKPOINT = 768"

record width_hook =
  wh_width :: int
  wh_is_mobile :: "bool option"
  wh_listening :: bool

definition useIsMobile :: "'a width_hook_scheme \<Rightarrow> bool" where
  "useIsMobile s = (wh_is_mobile s = Some True)"

definition wh_onChange :: "'a width_hook_scheme \<Rightarrow> 'a width_hook_scheme" where
  "wh_onChange s = s\<lparr>wh_is_mobile := Some (wh_width s < MOBILE_BREAKPOINT)\<rparr>"

definition wh_mount :: "'a width_hook_scheme \<Rightarrow> 'a width_hook_scheme" where
  "wh_mount s = wh_onChange (s\<lparr>wh_listening := True\<rparr>)"

definition wh_unmount :: "'a width_hook_scheme \<Rightarrow> 'a width_hook_scheme" where
  "wh_unmount s = s\<lparr>wh_listening := False\<rparr>"

text \<open>\<open>(max-width: 767px)\<close>, and what a resize delivers to a mounted hook.\<close>

definition media_matches :: "int \<Rightarrow> bool" where
  "media_matches w \<longleftrightarrow> w \<le> MOBILE_BREAKPOINT - 1"

definition wh_resize :: "int \<Rightarrow> 'a width_hook_scheme \<Rightarrow> 'a width_hook_scheme" where
  "wh_resize w s =
     (let s' = s\<lparr>wh_width := w\<rparr> in
      if wh_listening s \<and> media_matches w \<noteq> media_matches (wh_width s) then wh_onChange s' else s')"

inductive width_step :: "width_hook \<Rightarrow> width_hook \<Rightarrow> bool" where
  resize: "0 \<le> w \<Longrightarrow> width_step s (wh_resize w s)"
| unmount: "width_step s (wh_unmount s)"
| mount: "\<not> wh_listening s \<Longrightarrow> width_step s (wh_mount s)"

inductive width_run :: "width_hook \<Rightarrow> width_hook \<Rightarrow> bool" where
  start: "width_run s s"
| step: "width_run s s' \<Longrightarrow> width_step s' s'' \<Longrightarrow> width_run s s''"

inductive_cases width_stepE: "width_step s s'"

definition new_hook :: "int \<Rightarrow> width_hook" where
  "new_hook w = \<lparr>wh_width = w, wh_is_mobile = None, wh_listening = False\<rparr>"

definition width_inv :: "'a width_hook_scheme \<Rightarrow> bool" where
  "width_inv s \<longleftrightarrow> (wh_listening s \<longrightarrow> wh_is_mobile s = Some (wh_width s < MOBILE_BREAKPOINT))"

lemma width_step_inv: "width_step s s' \<Longrightarrow> width_inv s \<Longrightarrow> width_inv s'"
  by (elim width_stepE) (auto simp: width_inv_def wh_resize_def wh_unmount_def wh_mount_def wh_onChange_def media_matches_def Let_def)

text \<open>
  While the hook is mounted its answer is the current one, although it only listens for the crossings of
  the breakpoint: after any sequence of resizes, unmounts and mounts it says mobile exactly where the window is
  narrower than 768 pixels.
\<close>

lemma width_hook_current:
  assumes "width_run (new_hook w) s" and "wh_listening s"
  shows "useIsMobile s \<longleftrightarrow> wh_width s < 768"
proof -
  have "width_inv s"
    using assms(1)
  proof (induction "new_hook w" s rule: width_run.induct)
    case start
    then show ?case by (simp add: width_inv_def new_hook_def)
  next
    case (step s' s'')
    show ?case by (rule width_step_inv [OF step(3) step(2)])
  qed
  with assms(2) show ?thesis by (simp add: width_inv_def useIsMobile_def MOBILE_BREAKPOINT_def)
qed

end
