(* ===== verification/Portal_Pages.thy ===== *)
theory Portal_Pages
  imports Shared_Views Forms Portal_Hooks Theme
begin

text \<open>
  The pages of the portal: the dashboard with the day's numbers, and the pages that only announce what is to
  come. The portal has its own copies of the console's shared components, the same files; they share the
  console's definitions.
\<close>

section \<open>Shared components\<close>

definition portal_confirm_dialog :: "confirm_props \<Rightarrow> view" where
  "portal_confirm_dialog = confirm_dialog"

definition portal_stat_card :: "stat_props \<Rightarrow> view" where
  "portal_stat_card = stat_card"

definition portal_skeleton_page :: view where
  "portal_skeleton_page = skeleton_page"

definition portal_data_table ::
    "'r column list \<Rightarrow> 'r list \<Rightarrow> int \<Rightarrow> pagination \<Rightarrow> bool \<Rightarrow> view \<Rightarrow> bool \<Rightarrow> bool \<Rightarrow> view" where
  "portal_data_table = data_table"

section \<open>Theme\<close>

text \<open>The theme provider of the portal: the console's with the portal's own storage key.\<close>

definition portal_mount_theme :: "'s theme_ui_scheme \<Rightarrow> 's theme_ui_scheme" where
  "portal_mount_theme = mount_theme portal_theme_key"

definition portal_handleSetTheme :: "jstr \<Rightarrow> 's theme_ui_scheme \<Rightarrow> 's theme_ui_scheme" where
  "portal_handleSetTheme = handleSetTheme portal_theme_key"

section \<open>Announcing pages\<close>

definition coming_page :: "jstr \<Rightarrow> jstr \<Rightarrow> jstr \<Rightarrow> view" where
  "coming_page title subtitle announcement =
     El ''div'' [] [El ''h1'' [] [Txt title], El ''p'' [] [Txt subtitle], El ''div'' [] [Txt announcement]]"

definition ApiIntegrationPage :: view where
  "ApiIntegrationPage = coming_page (js ''API'' @ [0x96C6, 0x6210]) (js ''API'' @ [0x5BC6, 0x94A5, 0x7BA1, 0x7406, 0x3001, 0x63A5, 0x53E3, 0x6587, 0x6863, 0x548C, 0x8C03, 0x7528, 0x793A, 0x4F8B]) (js ''API'' @ [0x5BC6, 0x94A5, 0x7BA1, 0x7406, 0x548C, 0x63A5, 0x53E3, 0x6587, 0x6863, 0x5C06, 0x5728, 0x540E, 0x7EED, 0x8FED, 0x4EE3, 0x4E2D, 0x5B9E, 0x73B0])"

definition CallbackPage :: view where
  "CallbackPage = coming_page [0x56DE, 0x62E8, 0x64CD, 0x4F5C] [0x53D1, 0x8D77, 0x56DE, 0x62E8, 0x547C, 0x53EB, 0x3001, 0x67E5, 0x770B, 0x5B9E, 0x65F6, 0x901A, 0x8BDD, 0x72B6, 0x6001] [0x56DE, 0x62E8, 0x53D1, 0x8D77, 0x8868, 0x5355, 0x548C, 0x5B9E, 0x65F6, 0x901A, 0x8BDD, 0x5217, 0x8868, 0x5C06, 0x5728, 0x540E, 0x7EED, 0x8FED, 0x4EE3, 0x4E2D, 0x5B9E, 0x73B0]"

definition CDRPage :: view where
  "CDRPage = coming_page [0x8BDD, 0x5355, 0x67E5, 0x8BE2] [0x67E5, 0x8BE2, 0x5386, 0x53F2, 0x901A, 0x8BDD, 0x8BB0, 0x5F55, 0x548C, 0x8BDD, 0x5355, 0x8BE6, 0x60C5] [0x8BDD, 0x5355, 0x67E5, 0x8BE2, 0x8868, 0x683C, 0x548C, 0x7B5B, 0x9009, 0x529F, 0x80FD, 0x5C06, 0x5728, 0x540E, 0x7EED, 0x8FED, 0x4EE3, 0x4E2D, 0x5B9E, 0x73B0]"

definition FinancePage :: view where
  "FinancePage = coming_page [0x8D22, 0x52A1, 0x4E2D, 0x5FC3] [0x67E5, 0x770B, 0x4F59, 0x989D, 0x3001, 0x4EA4, 0x6613, 0x8BB0, 0x5F55, 0x548C, 0x8D26, 0x5355] [0x4F59, 0x989D, 0x8BE6, 0x60C5, 0x548C, 0x4EA4, 0x6613, 0x8BB0, 0x5F55, 0x5C06, 0x5728, 0x540E, 0x7EED, 0x8FED, 0x4EE3, 0x4E2D, 0x5B9E, 0x73B0]"

definition PortalSettingsPage :: view where
  "PortalSettingsPage = coming_page [0x8D26, 0x6237, 0x8BBE, 0x7F6E] ([0x7BA1, 0x7406, 0x4E2A, 0x4EBA, 0x4FE1, 0x606F, 0x3001, 0x5BC6, 0x7801, 0x548C] @ js ''IP'' @ [0x767D, 0x540D, 0x5355]) [0x8D26, 0x6237, 0x8BBE, 0x7F6E, 0x529F, 0x80FD, 0x5C06, 0x5728, 0x540E, 0x7EED, 0x8FED, 0x4EE3, 0x4E2D, 0x5B9E, 0x73B0]"

definition WastagePage :: view where
  "WastagePage = coming_page [0x635F, 0x8017, 0x5206, 0x6790] [0x67E5, 0x770B, 0x901A, 0x8BDD, 0x635F, 0x8017, 0x7387, 0x548C, 0x5931, 0x8D25, 0x539F, 0x56E0, 0x5206, 0x5E03] [0x635F, 0x8017, 0x5206, 0x6790, 0x56FE, 0x8868, 0x548C, 0x7EDF, 0x8BA1, 0x5C06, 0x5728, 0x540E, 0x7EED, 0x8FED, 0x4EE3, 0x4E2D, 0x5B9E, 0x73B0]"

section \<open>Dashboard\<close>

text \<open>The values of the cards; \<open>data\<close> is \<open>undefined\<close> until the summary has arrived.\<close>

definition minutes_text :: "jsval \<Rightarrow> jsval" where
  "minutes_text data =
     (if truthy data then
        JStr (num_to_string (math_floor (num_div (to_number (opt_get ''today_duration'' data)) (num_int 60))) @ (js '' '' @ [0x5206, 0x949F]))
      else jlit ''-'')"

definition cost_text :: "jsval \<Rightarrow> jsval + jsval" where
  "cost_text data =
     (if truthy data then
        (case opt_get ''today_cost'' data of JNum n \<Rightarrow> Inr (JStr ([0x00A5] @ to_fixed 2 n)) | _ \<Rightarrow> Inl type_error)
      else Inr (jlit ''-''))"

definition concurrency_text :: "jsval \<Rightarrow> jsval" where
  "concurrency_text data =
     (if truthy data then
        JStr (to_str (opt_get ''concurrent_active'' data) @ js '' / '' @ to_str (opt_get ''concurrent_limit'' data))
      else jlit ''-'')"

definition portal_dashboard :: "jsval \<Rightarrow> bool \<Rightarrow> jsval + view" where
  "portal_dashboard data isLoading =
     sbind (cost_text data) (\<lambda>cost.
     let card = (\<lambda>title v. portal_stat_card
       \<lparr>sc_title = title, sc_value = v, sc_description = None, sc_trend = None, sc_loading = isLoading\<rparr>) in
     Inr (El ''div'' []
       [El ''h1'' [] [Txt [0x4EEA, 0x8868, 0x76D8]], El ''p'' [] [Txt [0x5B9E, 0x65F6, 0x4E1A, 0x52A1, 0x6982, 0x89C8]],
        card [0x4ECA, 0x65E5, 0x547C, 0x53EB] (js_coalesce (opt_get ''today_calls'' data) (jlit ''-'')),
        card [0x4ECA, 0x65E5, 0x901A, 0x8BDD, 0x65F6, 0x957F] (minutes_text data), card [0x4ECA, 0x65E5, 0x6D88, 0x8D39] cost, card [0x5F53, 0x524D, 0x5E76, 0x53D1] (concurrency_text data),
        El ''div'' [] [Txt [0x8D8B, 0x52BF, 0x56FE, 0x8868, 0x548C, 0x6700, 0x8FD1, 0x901A, 0x8BDD, 0x8BB0, 0x5F55, 0x5C06, 0x5728, 0x540E, 0x7EED, 0x8FED, 0x4EE3, 0x4E2D, 0x5B9E, 0x73B0]]]))"

section \<open>Properties\<close>

lemma portal_theme_separate: "portal_theme_key \<noteq> admin_theme_key"
  by (simp add: portal_theme_key_def admin_theme_key_def)

text \<open>The summary is a constant of the client: the dashboard asks no server and shows no usage.\<close>

lemma portal_dashboard_constant:
  "\<exists>data. qu_fn portal_useUsageSummary w = (Inr data, w) \<and> truthy data \<and>
     opt_get ''today_calls'' data = jint 0 \<and> opt_get ''today_duration'' data = jint 0 \<and>
     opt_get ''today_cost'' data = jint 0"
  by (simp add: portal_useUsageSummary_def query_of_def portal_getUsageSummary_def return_def opt_get_def)

text \<open>
  The minutes of the day are whole minutes, exactly: for a duration of up to \<open>2 ^ 50\<close> seconds the quotient
  computed in doubles and rounded down is the integer quotient.
\<close>

lemma dashboard_minutes:
  assumes "truthy data" and "opt_get ''today_duration'' data = jint d" and "0 \<le> d" and "d \<le> 2 ^ 50"
  shows "minutes_text data = JStr (show_int (d div 60) @ (js '' '' @ [0x5206, 0x949F]))"
proof -
  have "\<bar>d div 60\<bar> \<le> 2 ^ 53" using assms(3,4) by (simp add: abs_le_iff)
  then have "num_to_string (num_int (d div 60)) = show_int (d div 60)" by (rule num_to_string_int)
  moreover have "math_floor (num_div (num_int d) (num_int 60)) = num_int (d div 60)"
  proof -
    have q: "0 \<le> (of_int d / 60 :: rat)" "(of_int d / 60 :: rat) \<le> 2 ^ 53"
      using assms(3,4) of_int_le_iff [of d "2 ^ 50", where 'a = rat] by (simp_all add: divide_le_eq)
    then have "to_num (of_int d / 60) = Fin (fl (of_int d / 60))"
      by (intro to_num_bounded) simp
    then show ?thesis
      using floor_quotient [OF assms(3,4), of 60] by (simp add: math_floor_def)
  qed
  ultimately show ?thesis using assms(1,2) by (simp add: minutes_text_def del: num_to_string.simps num_div.simps)
qed

end
