(* ===== verification/Portal_Session.thy ===== *)
theory Portal_Session
  imports Session
begin

text \<open>
  The life of a portal session across its parts: the sign-in hook stores a token, the client's methods send
  it, the sign-out item of the layout navigates. The specification is the token alone: which it is after a
  sequence of operations, and which header every request carries.
\<close>

section \<open>Requests that carry the stored token\<close>

text \<open>The \<open>Authorization\<close> header that a stored token gives, as \<open>fetch\<close> sends it.\<close>

definition bearer_of :: "jsval \<Rightarrow> jstr option" where
  "bearer_of t = (if truthy t then Some (header_value (js ''Bearer '' @ to_str t)) else None)"

fun bears :: "jsval \<Rightarrow> event \<Rightarrow> bool" where
  "bears t (Sent r) = (authorization_of r = bearer_of t)"
| "bears t _ = False"

definition bearing :: "('s, 'a) app \<Rightarrow> bool" where
  "bearing m \<longleftrightarrow> (\<forall>w. \<exists>es. snd (m w) = log_events es w \<and> list_all (bears (getToken w)) es)"

named_theorems bearer "rules for programs whose requests carry the stored token"

lemma bearing_return [bearer]: "bearing (return a)"
  and bearing_throw [bearer]: "bearing (throw e)"
  and bearing_lift_sum [bearer]: "bearing (lift_sum r)"
  by (auto simp: bearing_def return_def throw_def lift_sum_def intro: exI [of _ "[]"])

lemma bearing_bind [bearer]:
  fixes m :: "('s, 'a) app"
  assumes "bearing m" and "\<And>x. bearing (f x)"
  shows "bearing (bind m f)"
  unfolding bearing_def
proof
  fix w :: "'s world_scheme"
  obtain es where e: "snd (m w) = log_events es w" "list_all (bears (getToken w)) es"
    using assms(1) unfolding bearing_def by blast
  show "\<exists>es. snd (bind m f w) = log_events es w \<and> list_all (bears (getToken w)) es"
  proof (cases "fst (m w)")
    case (Inl x)
    with e show ?thesis by (cases "m w") (auto simp: bind_def)
  next
    case (Inr x)
    obtain ds where d: "snd (f x (snd (m w))) = log_events ds (snd (m w))"
        "list_all (bears (getToken (snd (m w)))) ds"
      using assms(2) unfolding bearing_def by blast
    with e Inr show ?thesis
      by (cases "m w") (auto simp: bind_def intro!: exI [of _ "es @ ds"])
  qed
qed

lemma bearing_with_field [bearer]: "(\<And>x. bearing (f x)) \<Longrightarrow> bearing (with_field k v f)"
  unfolding with_field_def by (intro bearer)

lemma bearing_with_query [bearer]: "(\<And>x. bearing (f x)) \<Longrightarrow> bearing (with_query ps f)"
proof -
  assume "\<And>x. bearing (f x)"
  moreover have "bearing (lift_uri x)" for x :: "jstr option"
    by (cases x) (simp_all add: lift_uri_def bearer)
  ultimately show ?thesis unfolding with_query_def by (intro bearer)
qed

lemma bearing_request: "o_headers opts = [] \<Longrightarrow> bearing (portal_request p opts)"
  by (auto simp: bearing_def portal_http.run log_event_as_events portal_authorization bearer_of_def
      intro!: exI [of _ "[Sent (portal_build w p opts)]" for w])

lemma bearing_calls [bearer]:
  "bearing (portal_request p no_options)" "bearing (portal_request p (with_method m))"
  "bearing (portal_request p (with_json m v))"
  by (simp_all add: bearing_request no_options_def with_method_def with_json_def)

text \<open>All methods of the client.\<close>

definition portal_client :: "jsval \<Rightarrow> ('s, jsval) app list" where
  "portal_client v = portal_methods v @ [portal_getBalance, portal_listTransactions v]"

lemma portal_client_bearing: "list_all bearing (portal_client v)"
  unfolding portal_client_def portal_methods_def append.simps list.pred_inject portal_method_defs
    portal_getBalance_def portal_listTransactions_def
  by (intro conjI bearer) simp

section \<open>A session\<close>

text \<open>What a user does: sign in, let a page call a method, sign out. An operation that has no method does nothing.\<close>

datatype portal_op = SignIn jsval | CallMethod nat jsval | SignOut

definition run_op :: "portal_op \<Rightarrow> ('s, jsval) app" where
  "run_op op =
     (case op of
        SignIn v \<Rightarrow> mutate_async portal_useLogin v
      | CallMethod i v \<Rightarrow> (case drop i (portal_client v) of m # ms \<Rightarrow> m | [] \<Rightarrow> return JUndef)
      | SignOut \<Rightarrow> bind sign_out (\<lambda>_. return JUndef))"

fun run_ops :: "portal_op list \<Rightarrow> 's world_scheme \<Rightarrow> 's world_scheme" where
  "run_ops [] w = w"
| "run_ops (op # ops) w = run_ops ops (snd (run_op op w))"

text \<open>The specification: the token after an operation and its result.\<close>

definition token_after :: "portal_op \<Rightarrow> jsval + jsval \<Rightarrow> jsval \<Rightarrow> jsval" where
  "token_after op r t =
     (case (op, r) of (SignIn v, Inr x) \<Rightarrow> JStr (to_str (opt_get ''token'' x)) | _ \<Rightarrow> t)"

text \<open>The results of a sequence, and the requests of each operation with the token stored before it.\<close>

fun results :: "portal_op list \<Rightarrow> 's world_scheme \<Rightarrow> (portal_op \<times> (jsval + jsval)) list" where
  "results [] w = []"
| "results (op # ops) w = (op, fst (run_op op w)) # results ops (snd (run_op op w))"

fun traffic :: "portal_op list \<Rightarrow> 's world_scheme \<Rightarrow> (jsval \<times> httpreq list) list" where
  "traffic [] w = []"
| "traffic (op # ops) w =
     (getToken w, drop (length (sent w)) (sent (snd (run_op op w)))) # traffic ops (snd (run_op op w))"

definition tokens :: "(portal_op \<times> (jsval + jsval)) list \<Rightarrow> jsval \<Rightarrow> jsval" where
  "tokens rs t = fold (\<lambda>(op, r). token_after op r) rs t"

lemma sent_bears: "list_all (bears t) es \<Longrightarrow> list_all (\<lambda>r. authorization_of r = bearer_of t) (concat (map sent_of es))"
proof (induction es)
  case (Cons e es)
  then show ?case by (cases e) auto
qed simp

lemma bearing_outcome:
  assumes "bearing m"
  shows "getToken (snd (m w)) = getToken w \<and>
    list_all (\<lambda>r. authorization_of r = bearer_of (getToken w)) (drop (length (sent w)) (sent (snd (m w))))"
proof -
  obtain es where "snd (m w) = log_events es w" "list_all (bears (getToken w)) es"
    using assms unfolding bearing_def by blast
  then show ?thesis using sent_bears [of "getToken w" es] by simp
qed

lemma sign_in_outcome:
  "getToken (snd (run_op (SignIn v) w)) = token_after (SignIn v) (fst (run_op (SignIn v) w)) (getToken w) \<and>
   drop (length (sent w)) (sent (snd (run_op (SignIn v) w))) =
     [portal_build w (js ''/api/auth/client/login'') (with_json ''POST'' v)]"
proof -
  have s: "sent (set_item k x w') = sent w'" for k x and w' :: "'a world_scheme"
    by (simp add: set_item_def sent_def)
  have "drop (length (sent w)) (sent (snd (mutate_async portal_useLogin v w))) =
      [portal_build w (js ''/api/auth/client/login'') (with_json ''POST'' v)]"
    by (simp add: portal_useLogin_def mutate_async_def portal_login_def portal_http.run with_field_def bind_def
        lift_sum_def setToken_def effect_def return_def invalidate_all_run s get_def
        del: invalidate_all.simps split: sum.splits)
  with portal_login_result [where v = v and w = w] show ?thesis
    by (auto simp: run_op_def token_after_def split: prod.splits sum.splits)
qed

lemma drop_head: "drop i xs = m # ms \<Longrightarrow> m \<in> set xs"
  by (metis in_set_dropD list.set_intros(1))

lemma op_outcome:
  "getToken (snd (run_op op w)) = token_after op (fst (run_op op w)) (getToken w) \<and>
   list_all (\<lambda>r. authorization_of r = bearer_of (getToken w)) (drop (length (sent w)) (sent (snd (run_op op w))))"
proof (cases op)
  case (SignIn v)
  have "authorization_of (portal_build w (js ''/api/auth/client/login'') (with_json ''POST'' v)) = bearer_of (getToken w)"
    by (simp add: portal_authorization bearer_of_def with_json_def)
  with sign_in_outcome [of v w] SignIn show ?thesis by simp
next
  case (CallMethod i v)
  have "bearing (case drop i (portal_client v) of m # ms \<Rightarrow> m | [] \<Rightarrow> return JUndef)"
    using portal_client_bearing [of v] by (auto simp: bearer list_all_iff split: list.splits dest: drop_head)
  from bearing_outcome [OF this] CallMethod show ?thesis by (simp add: run_op_def token_after_def)
next
  case SignOut
  then show ?thesis by (simp add: run_op_def token_after_def sign_out_def bind_def emit_run return_def)
qed

text \<open>
  C1: the portal's session refines the token: after any sequence of sign-ins, method calls and sign-outs, whatever
  the server answers, the stored token is the one of the last sign-in that succeeded, and every request of every
  operation carried exactly the token stored before it. Signing out is not among the things that change it.
\<close>

theorem portal_session_refines:
  "getToken (run_ops ops w) = tokens (results ops w) (getToken w) \<and>
   list_all (\<lambda>(t, rqs). list_all (\<lambda>r. authorization_of r = bearer_of t) rqs) (traffic ops w)"
proof (induction ops arbitrary: w)
  case Nil
  then show ?case by (simp add: tokens_def)
next
  case (Cons op ops)
  with op_outcome [of op w] show ?case by (simp add: tokens_def)
qed

end
