(* ===== verification/Kit_Parts.thy ===== *)
theory Kit_Parts
  imports View
begin

text \<open>
  How the components of \<open>components/ui/*\<close> are put together. A component takes the properties and the
  children written at its use and returns one element of the page, or of the primitive library below it,
  whose tag then is the primitive's name: \<open><X a={..} {...props} />\<close> is an element whose own attributes give
  way to the caller's. Properties the component takes out of \<open>props\<close> are not passed on. The style
  classes that \<open>cn\<close> joins are left out, as in all views.
\<close>

type_synonym attrs = "(string \<times> jstr) list"
type_synonym component = "attrs \<Rightarrow> view list \<Rightarrow> view"

text \<open>The attributes of \<open><X own {...props} />\<close>: a property of the caller replaces the component's own.\<close>

definition over :: "attrs \<Rightarrow> attrs \<Rightarrow> attrs" where
  "over own props = filter (\<lambda>(k, v). map_of props k = None) own @ props"

text \<open>\<open>{ k = d, ...rest }\<close>: the value of a property with a default, and the properties that are left.\<close>

definition prop_or :: "string \<Rightarrow> string \<Rightarrow> attrs \<Rightarrow> jstr" where
  "prop_or k d props = (case map_of props k of None \<Rightarrow> js d | Some v \<Rightarrow> v)"

definition without :: "string list \<Rightarrow> attrs \<Rightarrow> attrs" where
  "without ks props = filter (\<lambda>(k, v). k \<notin> set ks) props"

text \<open>An attribute that is \<open>undefined\<close> where the caller does not give the property.\<close>

definition passed :: "string \<Rightarrow> string \<Rightarrow> attrs \<Rightarrow> attrs" where
  "passed k a props = (case map_of props k of None \<Rightarrow> [] | Some v \<Rightarrow> [(a, v)])"

definition is_true :: "string \<Rightarrow> attrs \<Rightarrow> bool" where
  "is_true k props \<longleftrightarrow> map_of props k = Some (js ''true'')"

definition slot :: "string \<Rightarrow> string \<times> jstr" where
  "slot s = (''data-slot'', js s)"

text \<open>
  The shapes most components have: one element with its slot name; one with a property that has a default
  and is shown as a data attribute; one with a property shown only where it is given.
\<close>

definition part :: "string \<Rightarrow> string \<Rightarrow> component" where
  "part tag s props vs = El tag (over [slot s] props) vs"

definition with_default :: "string \<Rightarrow> string \<Rightarrow> string \<Rightarrow> string \<Rightarrow> component" where
  "with_default tag s k d props vs = El tag (over [slot s, (''data-'' @ k, prop_or k d props)] (without [k] props)) vs"

definition with_inset :: "string \<Rightarrow> string \<Rightarrow> component" where
  "with_inset tag s props vs = El tag (over (slot s # passed ''inset'' ''data-inset'' props) (without [''inset''] props)) vs"

text \<open>\<open>asChild ? Slot.Root : tag\<close>\<close>

definition slot_or :: "string \<Rightarrow> attrs \<Rightarrow> string" where
  "slot_or tag props = (if is_true ''asChild'' props then ''Slot.Root'' else tag)"

text \<open>The name a screen reader hears for the buttons the kit adds.\<close>

definition sr_only :: "string \<Rightarrow> view" where
  "sr_only s = El ''span'' [(''className'', js ''sr-only'')] [lit s]"

lemma over_simps [simp]: "over [] props = props" "over own [] = own"
  by (simp_all add: over_def filter_id_conv)

lemma map_of_filter_free: "map_of (filter (\<lambda>(k, v). map_of ps k = None) os) k = (if map_of ps k = None then map_of os k else None)"
  by (induction os) auto

lemma map_of_over: "map_of (over own props) k = (case map_of props k of None \<Rightarrow> map_of own k | Some v \<Rightarrow> Some v)"
  by (auto simp: over_def map_add_def map_of_filter_free split: option.splits)

lemma texts_parts [simp]:
  "texts (part tag s props vs) = concat (map texts vs)"
  "texts (with_default tag s k d props vs) = concat (map texts vs)"
  "texts (with_inset tag s props vs) = concat (map texts vs)"
  "texts (sr_only l) = [js l]"
  by (simp_all add: part_def with_default_def with_inset_def sr_only_def)

section \<open>What a kit may do to a page\<close>

text \<open>
  A component shows no text but its children's, the values of its properties and labels of its own; and it shows
  all of its children's.
\<close>

definition adds_only :: "jstr set \<Rightarrow> component \<Rightarrow> bool" where
  "adds_only ls f \<longleftrightarrow>
     (\<forall>props vs. set (texts (f props vs)) \<subseteq> ls \<union> snd ` set props \<union> set (concat (map texts vs)))"

definition shows_children :: "component \<Rightarrow> bool" where
  "shows_children f \<longleftrightarrow> (\<forall>props vs. set (concat (map texts vs)) \<subseteq> set (texts (f props vs)))"

lemma adds_onlyD: "adds_only ls f \<Longrightarrow> set (texts (f props vs)) \<subseteq> ls \<union> snd ` set props \<union> set (concat (map texts vs))"
  unfolding adds_only_def by blast

lemma shows_childrenD: "shows_children f \<Longrightarrow> set (concat (map texts vs)) \<subseteq> set (texts (f props vs))"
  unfolding shows_children_def by blast

named_theorems kit_ok "components that add only labels, and those that show their children"

lemma parts_ok [kit_ok]:
  "adds_only ls (part t s)" "adds_only ls (with_default t s k d)" "adds_only ls (with_inset t s)"
  "adds_only ls (El t)"
  "shows_children (part t s)" "shows_children (with_default t s k d)" "shows_children (with_inset t s)"
  "shows_children (El t)"
  by (auto simp: adds_only_def shows_children_def part_def with_default_def with_inset_def)

text \<open>A kit is a table of components; a tag that is not one of them is an element of the page.\<close>

definition kit_of :: "(string \<times> component) list \<Rightarrow> string \<Rightarrow> component" where
  "kit_of table t = (case map_of table t of None \<Rightarrow> El t | Some f \<Rightarrow> f)"

text \<open>What the page becomes: every component is replaced by what it returns, from the inside out.\<close>

fun render_with :: "(string \<Rightarrow> component) \<Rightarrow> view \<Rightarrow> view" where
  "render_with kit (Txt s) = Txt s"
| "render_with kit (El t props vs) = kit t props (map (render_with kit) vs)"
| "render_with kit (Frag vs) = Frag (map (render_with kit) vs)"

definition attr_values :: "view \<Rightarrow> jstr set" where
  "attr_values v = (\<Union>e\<in>set (elements v). snd ` set (snd e))"

lemma attr_values_simps [simp]:
  "attr_values (Txt s) = {}"
  "attr_values (El t props vs) = snd ` set props \<union> (\<Union>v\<in>set vs. attr_values v)"
  "attr_values (Frag vs) = (\<Union>v\<in>set vs. attr_values v)"
  by (auto simp: attr_values_def)

fun tags :: "view \<Rightarrow> string list" where
  "tags (Txt s) = []"
| "tags (El t props vs) = t # concat (map tags vs)"
| "tags (Frag vs) = concat (map tags vs)"

text \<open>
  The contract of a kit, for a set of labels and a list of components that do not show their children. A page
  rendered with it shows its own texts and nothing else but labels and property values.
\<close>

locale ui_kit =
  fixes kit :: "string \<Rightarrow> component"
    and ls :: "jstr set"
    and leaves :: "string list"
  assumes adds: "adds_only ls (kit t)"
    and keeps: "t \<notin> set leaves \<Longrightarrow> shows_children (kit t)"
begin

lemma render_adds: "set (texts (render_with kit v)) \<subseteq> ls \<union> attr_values v \<union> set (texts v)"
proof (induction v)
  case (El t props vs)
  have "set (texts (render_with kit (El t props vs))) \<subseteq>
      ls \<union> snd ` set props \<union> set (concat (map texts (map (render_with kit) vs)))"
    unfolding render_with.simps by (rule adds_onlyD [OF adds])
  also have "\<dots> \<subseteq> ls \<union> attr_values (El t props vs) \<union> set (texts (El t props vs))"
  proof -
    have "set (concat (map texts (map (render_with kit) vs))) \<subseteq>
        (\<Union>v\<in>set vs. ls \<union> attr_values v \<union> set (texts v))"
      using El.IH by (simp, blast)
    then show ?thesis by auto
  qed
  finally show ?case .
qed fastforce+

lemma render_keeps: "set (tags v) \<inter> set leaves = {} \<Longrightarrow> set (texts v) \<subseteq> set (texts (render_with kit v))"
proof (induction v)
  case (El t props vs)
  have "set (texts (El t props vs)) \<subseteq> set (concat (map texts (map (render_with kit) vs)))"
    using El by fastforce
  also have "\<dots> \<subseteq> set (texts (render_with kit (El t props vs)))"
    unfolding render_with.simps by (rule shows_childrenD [OF keeps]) (use El.prems in auto)
  finally show ?case .
qed fastforce+

end

lemma kit_of_ok:
  assumes "list_all (\<lambda>(n, f). adds_only ls f) table" "list_all (\<lambda>(n, f). n \<in> set leaves \<or> shows_children f) table"
  shows "ui_kit (kit_of table) ls leaves"
proof
  fix t
  show "adds_only ls (kit_of table t)"
    using assms(1) by (auto simp: kit_of_def list_all_iff kit_ok dest!: map_of_SomeD split: option.split)
  show "shows_children (kit_of table t)" if "t \<notin> set leaves"
    using assms(2) that by (auto simp: kit_of_def list_all_iff kit_ok dest!: map_of_SomeD split: option.split)
qed

text \<open>The texts inside the controls of some kinds, in order: for instance the buttons that close a dialog.\<close>

fun texts_in :: "string list \<Rightarrow> view \<Rightarrow> jstr list" where
  "texts_in ts (Txt s) = []"
| "texts_in ts (El t props vs) = (if t \<in> set ts then concat (map texts vs) else concat (map (texts_in ts) vs))"
| "texts_in ts (Frag vs) = concat (map (texts_in ts) vs)"

end
