(* ===== verification/Sidebar.thy ===== *)
theory Sidebar
  imports Screen_Width Kit_Parts
begin

text \<open>
  \<open>components/ui/sidebar.tsx\<close>: the provider's state with its shortcut and its cookie, and what the
  components show. The callbacks of the provider close over the values of the last render, so a state
  keeps them beside the current ones. Whether the window is narrow comes from \<open>use-mobile.ts\<close>.
\<close>

section \<open>The provider\<close>

definition SIDEBAR_COOKIE_NAME :: jstr where
  "SIDEBAR_COOKIE_NAME = js ''sidebar_state''"

definition SIDEBAR_COOKIE_MAX_AGE :: int where
  "SIDEBAR_COOKIE_MAX_AGE = 60 * 60 * 24 * 7"

definition SIDEBAR_KEYBOARD_SHORTCUT :: jstr where
  "SIDEBAR_KEYBOARD_SHORTCUT = js ''b''"

text \<open>
  What the provider does outside: it writes \<open>document.cookie\<close>, calls \<open>onOpenChange\<close> and prevents a key's default.
\<close>

datatype sidebar_effect =
    CookieSet jstr
  | OpenChanged bool
  | DefaultPrevented

record sidebar = width_hook +
  sb_prop :: "bool option"
  sb_handler :: bool
  sb_open :: bool
  sb_mobile :: bool
  sb_keys :: bool
  sb_seen_open :: bool
  sb_seen_narrow :: bool
  sb_log :: "sidebar_effect list"

definition sidebar_open :: "sidebar \<Rightarrow> bool" where
  "sidebar_open s = (case sb_prop s of None \<Rightarrow> sb_open s | Some b \<Rightarrow> b)"

definition sb_emit :: "sidebar_effect \<Rightarrow> sidebar \<Rightarrow> sidebar" where
  "sb_emit e s = s\<lparr>sb_log := sb_log s @ [e]\<rparr>"

text \<open>The argument of a setter: a value, or a function of the old one.\<close>

datatype set_action =
    SetTo bool
  | Update "bool \<Rightarrow> bool"

fun apply_action :: "set_action \<Rightarrow> bool \<Rightarrow> bool" where
  "apply_action (SetTo b) x = b"
| "apply_action (Update f) x = f x"

definition bool_text :: "bool \<Rightarrow> jstr" where
  "bool_text b = (if b then js ''true'' else js ''false'')"

definition cookie_text :: "bool \<Rightarrow> jstr" where
  "cookie_text openState =
     SIDEBAR_COOKIE_NAME @ js ''='' @ bool_text openState @ js ''; path=/; max-age='' @ show_int SIDEBAR_COOKIE_MAX_AGE"

text \<open>\<open>setOpen\<close> applies a function to the \<open>open\<close> of its render; React's own setter to the current value.\<close>

definition setOpen :: "set_action \<Rightarrow> sidebar \<Rightarrow> sidebar" where
  "setOpen a s =
     (let openState = apply_action a (sb_seen_open s);
          s' = (if sb_handler s then sb_emit (OpenChanged openState) s else s\<lparr>sb_open := openState\<rparr>)
      in sb_emit (CookieSet (cookie_text openState)) s')"

definition setOpenMobile :: "set_action \<Rightarrow> sidebar \<Rightarrow> sidebar" where
  "setOpenMobile a s = s\<lparr>sb_mobile := apply_action a (sb_mobile s)\<rparr>"

definition toggleSidebar :: "sidebar \<Rightarrow> sidebar" where
  "toggleSidebar s = (if sb_seen_narrow s then setOpenMobile (Update Not) s else setOpen (Update Not) s)"

record key_event =
  ke_key :: jstr
  ke_meta :: bool
  ke_ctrl :: bool

definition is_shortcut :: "key_event \<Rightarrow> bool" where
  "is_shortcut e \<longleftrightarrow> ke_key e = SIDEBAR_KEYBOARD_SHORTCUT \<and> (ke_meta e \<or> ke_ctrl e)"

definition handleKeyDown :: "key_event \<Rightarrow> sidebar \<Rightarrow> sidebar" where
  "handleKeyDown e s = (if is_shortcut e then toggleSidebar (sb_emit DefaultPrevented s) else s)"

text \<open>The first state; \<open>defaultOpen\<close> is \<open>true\<close> where it is not given. A reload starts here again.\<close>

definition new_sidebar :: "bool option \<Rightarrow> bool option \<Rightarrow> bool \<Rightarrow> int \<Rightarrow> sidebar" where
  "new_sidebar defaultOpen openProp hasHandler w =
     \<lparr>wh_width = w, wh_is_mobile = None, wh_listening = False, sb_prop = openProp, sb_handler = hasHandler,
      sb_open = (case defaultOpen of None \<Rightarrow> True | Some b \<Rightarrow> b), sb_mobile = False, sb_keys = False,
      sb_seen_open = False, sb_seen_narrow = False, sb_log = []\<rparr>"

definition sb_render :: "sidebar \<Rightarrow> sidebar" where
  "sb_render s = s\<lparr>sb_seen_open := sidebar_open s, sb_seen_narrow := useIsMobile s\<rparr>"

text \<open>Mounting: a render, the effects of the width hook and of the shortcut, and the render they cause.\<close>

definition sb_mount :: "sidebar \<Rightarrow> sidebar" where
  "sb_mount s = sb_render ((wh_mount (sb_render s))\<lparr>sb_keys := True\<rparr>)"

text \<open>Both layouts use the provider without properties.\<close>

definition layout_sidebar :: "int \<Rightarrow> sidebar" where
  "layout_sidebar w = sb_mount (new_sidebar None None False w)"

text \<open>
  What happens to a mounted sidebar: the trigger or the rail is clicked, a key is pressed, the sheet of a
  narrow window asks to be opened or closed, the window is resized. Each is followed by a render.
\<close>

datatype sidebar_event =
    Clicked
  | KeyPressed key_event
  | SheetChanged bool
  | Resized int

definition sb_event :: "sidebar_event \<Rightarrow> sidebar \<Rightarrow> sidebar" where
  "sb_event e s =
     (case e of
        Clicked \<Rightarrow> toggleSidebar s
      | KeyPressed k \<Rightarrow> if sb_keys s then handleKeyDown k s else s
      | SheetChanged b \<Rightarrow> if sb_seen_narrow s then setOpenMobile (SetTo b) s else s
      | Resized w \<Rightarrow> wh_resize w s)"

definition sb_interact :: "sidebar_event \<Rightarrow> sidebar \<Rightarrow> sidebar" where
  "sb_interact e s = sb_render (sb_event e s)"

text \<open>The context, and the hook that reads it: outside a provider it throws.\<close>

record sidebar_context =
  sc_state :: jstr
  sc_open :: bool
  sc_isMobile :: bool
  sc_openMobile :: bool

definition contextValue :: "sidebar \<Rightarrow> sidebar_context" where
  "contextValue s =
     \<lparr>sc_state = (if sidebar_open s then js ''expanded'' else js ''collapsed''), sc_open = sidebar_open s,
      sc_isMobile = useIsMobile s, sc_openMobile = sb_mobile s\<rparr>"

definition useSidebar :: "sidebar_context option \<Rightarrow> jsval + sidebar_context" where
  "useSidebar c =
     (case c of
        None \<Rightarrow> Inl (JError (js ''useSidebar must be used within a SidebarProvider.''))
      | Some x \<Rightarrow> Inr x)"

section \<open>The sidebar as the user sees it\<close>

fun cookie_of :: "sidebar_effect \<Rightarrow> jstr list" where
  "cookie_of (CookieSet c) = [c]"
| "cookie_of _ = []"

definition last_cookie :: "sidebar \<Rightarrow> jstr option" where
  "last_cookie s = (case rev (concat (map cookie_of (sb_log s))) of [] \<Rightarrow> None | c # cs \<Rightarrow> Some c)"

text \<open>
  The specification keeps the width of the window, whether the panel of a wide window and the sheet of a narrow one
  are open, and the last value remembered. A toggle acts on the one that the width selects.
\<close>

type_synonym sidebar_spec = "int \<times> bool \<times> bool \<times> bool option"

fun spec_toggle :: "sidebar_spec \<Rightarrow> sidebar_spec" where
  "spec_toggle (w, panel, sheet, kept) =
     (if w < 768 then (w, panel, \<not> sheet, kept) else (w, \<not> panel, sheet, Some (\<not> panel)))"

fun spec_event :: "sidebar_event \<Rightarrow> sidebar_spec \<Rightarrow> sidebar_spec" where
  "spec_event Clicked a = spec_toggle a"
| "spec_event (KeyPressed e) a = (if is_shortcut e then spec_toggle a else a)"
| "spec_event (SheetChanged b) (w, panel, sheet, kept) = (w, panel, if w < 768 then b else sheet, kept)"
| "spec_event (Resized w') (w, panel, sheet, kept) = (w', panel, sheet, kept)"

text \<open>A state between two events: mounted, rendered, and not controlled from outside.\<close>

definition sb_settled :: "sidebar \<Rightarrow> bool" where
  "sb_settled s \<longleftrightarrow> sb_prop s = None \<and> \<not> sb_handler s \<and> sb_keys s \<and> wh_listening s \<and> width_inv s \<and>
     sb_seen_open s = sb_open s \<and> sb_seen_narrow s = (wh_width s < 768)"

definition sb_shows :: "sidebar \<Rightarrow> sidebar_spec \<Rightarrow> bool" where
  "sb_shows s a \<longleftrightarrow> a = (wh_width s, sb_open s, sb_mobile s, snd (snd (snd a))) \<and>
     last_cookie s = map_option cookie_text (snd (snd (snd a)))"

lemma sb_showsD: "sb_shows s (w, p, m, k) \<Longrightarrow>
    wh_width s = w \<and> sb_open s = p \<and> sb_mobile s = m \<and> last_cookie s = map_option cookie_text k"
  by (simp add: sb_shows_def)

lemma settled_mobile: "wh_listening s \<Longrightarrow> width_inv s \<Longrightarrow> useIsMobile s = (wh_width s < 768)"
  by (simp add: useIsMobile_def width_inv_def MOBILE_BREAKPOINT_def)

lemma render_settled:
  assumes "sb_prop s = None" "\<not> sb_handler s" "sb_keys s" "wh_listening s" "width_inv s"
  shows "sb_settled (sb_render s)"
  using assms settled_mobile [of s]
  by (simp add: sb_settled_def sb_render_def sidebar_open_def width_inv_def)

lemma width_inv_frame [simp]:
  "width_inv (s\<lparr>sb_open := b\<rparr>) = width_inv s" "width_inv (s\<lparr>sb_mobile := b\<rparr>) = width_inv s"
  "width_inv (s\<lparr>sb_log := l\<rparr>) = width_inv s" "width_inv (s\<lparr>sb_keys := b\<rparr>) = width_inv s"
  by (simp_all add: width_inv_def)

lemma resize_frame [simp]:
  "sb_prop (wh_resize w s) = sb_prop s" "sb_handler (wh_resize w s) = sb_handler s"
  "sb_keys (wh_resize w s) = sb_keys s" "sb_open (wh_resize w s) = sb_open s"
  "sb_mobile (wh_resize w s) = sb_mobile s" "sb_log (wh_resize w s) = sb_log s"
  "wh_width (wh_resize w s) = w" "wh_listening (wh_resize w s) = wh_listening s"
  by (simp_all add: wh_resize_def wh_onChange_def Let_def)

lemma resize_inv: "width_inv s \<Longrightarrow> width_inv (wh_resize w s)"
  by (simp add: width_inv_def wh_resize_def wh_onChange_def media_matches_def Let_def)

lemma toggle_event:
  assumes "sb_settled s" "sb_shows s a"
  shows "sb_settled (sb_render (toggleSidebar s)) \<and> sb_shows (sb_render (toggleSidebar s)) (spec_toggle a)"
proof -
  obtain w p m k where a: "a = (w, p, m, k)" by (cases a)
  note v = sb_showsD [OF assms(2) [unfolded a]]
  have "sb_settled (sb_render (toggleSidebar s))"
    using assms(1) by (intro render_settled)
      (simp_all add: sb_settled_def toggleSidebar_def setOpen_def setOpenMobile_def sb_emit_def Let_def)
  moreover have "sb_shows (sb_render (toggleSidebar s)) (spec_toggle a)"
    using assms(1) v by (simp add: a sb_settled_def toggleSidebar_def setOpen_def setOpenMobile_def sb_emit_def Let_def
        sb_shows_def sb_render_def last_cookie_def)
  ultimately show ?thesis ..
qed

lemma prevented_frame:
  assumes "sb_settled s" "sb_shows s a"
  shows "sb_settled (sb_emit DefaultPrevented s) \<and> sb_shows (sb_emit DefaultPrevented s) a"
  using assms by (simp add: sb_settled_def sb_shows_def sb_emit_def last_cookie_def)

lemma render_frame: "sb_settled s \<Longrightarrow> sb_render s = s"
  using settled_mobile [of s] by (simp add: sb_settled_def sb_render_def sidebar_open_def)

lemma sb_event_refines:
  assumes "sb_settled s" "sb_shows s a"
  shows "sb_settled (sb_interact e s) \<and> sb_shows (sb_interact e s) (spec_event e a)"
proof (cases e)
  case Clicked
  then show ?thesis using toggle_event [OF assms] by (simp add: sb_interact_def sb_event_def)
next
  case (KeyPressed k)
  have "sb_keys s" using assms(1) by (simp add: sb_settled_def)
  then show ?thesis
    using KeyPressed assms toggle_event [of "sb_emit DefaultPrevented s" a] prevented_frame [OF assms]
    by (simp add: sb_interact_def sb_event_def handleKeyDown_def render_frame)
next
  case (SheetChanged b)
  obtain w p m k where a: "a = (w, p, m, k)" by (cases a)
  note v = sb_showsD [OF assms(2) [unfolded a]]
  have "sb_settled (sb_interact e s)"
    using assms(1) unfolding sb_interact_def
    by (intro render_settled) (simp_all add: SheetChanged sb_settled_def sb_event_def setOpenMobile_def)
  moreover have "sb_shows (sb_interact e s) (spec_event e a)"
    using assms(1) v by (simp add: SheetChanged a sb_interact_def sb_event_def sb_settled_def setOpenMobile_def
        sb_shows_def sb_render_def last_cookie_def)
  ultimately show ?thesis ..
next
  case (Resized w')
  obtain w p m k where a: "a = (w, p, m, k)" by (cases a)
  note v = sb_showsD [OF assms(2) [unfolded a]]
  have "sb_settled (sb_interact e s)"
    using assms(1) unfolding sb_interact_def
    by (intro render_settled) (simp_all add: Resized sb_settled_def sb_event_def resize_inv)
  moreover have "sb_shows (sb_interact e s) (spec_event e a)"
    using v by (simp add: Resized a sb_interact_def sb_event_def sb_shows_def sb_render_def last_cookie_def)
  ultimately show ?thesis ..
qed

lemma layout_settled: "sb_settled (layout_sidebar w) \<and> sb_shows (layout_sidebar w) (w, True, False, None)"
proof -
  have "sb_settled (layout_sidebar w)"
    unfolding layout_sidebar_def sb_mount_def
    by (intro render_settled) (simp_all add: new_sidebar_def sb_render_def wh_mount_def wh_onChange_def width_inv_def)
  then show ?thesis
    by (simp add: sb_shows_def layout_sidebar_def sb_mount_def new_sidebar_def sb_render_def wh_mount_def
        wh_onChange_def last_cookie_def)
qed

lemma events_refine:
  "sb_settled s \<Longrightarrow> sb_shows s a \<Longrightarrow>
     sb_settled (fold sb_interact es s) \<and> sb_shows (fold sb_interact es s) (fold spec_event es a)"
proof (induction es arbitrary: s a)
  case (Cons e es)
  have "sb_settled (sb_interact e s)" "sb_shows (sb_interact e s) (spec_event e a)"
    using sb_event_refines [OF Cons.prems] by blast+
  then show ?case using Cons.IH by simp
qed simp

lemma sidebar_after:
  assumes "fold spec_event es (w, True, False, None) = (w', panel, sheet, kept)"
  shows "contextValue (fold sb_interact es (layout_sidebar w)) =
      \<lparr>sc_state = if panel then js ''expanded'' else js ''collapsed'', sc_open = panel,
       sc_isMobile = (w' < 768), sc_openMobile = sheet\<rparr>"
    and "last_cookie (fold sb_interact es (layout_sidebar w)) = map_option cookie_text kept"
proof -
  let ?s = "fold sb_interact es (layout_sidebar w)"
  have s: "sb_settled ?s" and v: "sb_shows ?s (w', panel, sheet, kept)"
    using events_refine [of "layout_sidebar w" "(w, True, False, None)" es] layout_settled [of w] assms by simp_all
  have "useIsMobile ?s = (w' < 768)" "sidebar_open ?s = panel"
    using s sb_showsD [OF v] settled_mobile [of ?s] by (simp_all add: sb_settled_def sidebar_open_def)
  then show "contextValue ?s = \<lparr>sc_state = if panel then js ''expanded'' else js ''collapsed'', sc_open = panel,
       sc_isMobile = (w' < 768), sc_openMobile = sheet\<rparr>" "last_cookie ?s = map_option cookie_text kept"
    using sb_showsD [OF v] by (simp_all add: contextValue_def)
qed

text \<open>
  C8: the sidebar of the layouts does what one expects of it: after any sequence of clicks on its trigger, keys,
  closings of the sheet and resizes, the panel and the sheet are open exactly where the specification says, the
  components are told the state of the one that the width selects, and the cookie holds the last panel state.
\<close>

theorem sidebar_refines:
  "let s = fold sb_interact es (layout_sidebar w);
       (w', panel, sheet, kept) = fold spec_event es (w, True, False, None)
   in contextValue s = \<lparr>sc_state = if panel then js ''expanded'' else js ''collapsed'', sc_open = panel,
        sc_isMobile = (w' < 768), sc_openMobile = sheet\<rparr> \<and>
      last_cookie s = map_option cookie_text kept"
  using sidebar_after [of es w] by (auto simp: Let_def split: prod.split)

text \<open>
  The cookie is written and never read: where the panel was closed last, the cookie says so, but a page that is loaded
  again starts with the panel open.
\<close>

lemma spec_kept: "kept = None \<and> panel \<or> kept = Some panel \<Longrightarrow>
    let (w', panel', sheet', kept') = fold spec_event es (w, panel, sheet, kept) in kept' = None \<and> panel' \<or> kept' = Some panel'"
proof (induction es arbitrary: w panel sheet kept)
  case (Cons e es)
  then show ?case by (cases e) auto
qed auto

lemma sidebar_forgets:
  assumes "\<not> sc_open (contextValue (fold sb_interact es (layout_sidebar w)))"
  shows "last_cookie (fold sb_interact es (layout_sidebar w)) = Some (cookie_text False) \<and>
    sc_open (contextValue (layout_sidebar w'))"
proof -
  obtain u p m k where a: "fold spec_event es (w, True, False, None) = (u, p, m, k)"
    by (cases "fold spec_event es (w, True, False, None)")
  have "\<not> p" using assms sidebar_after(1) [OF a] by simp
  with spec_kept [of None True es w False] a have "k = Some False" by auto
  then show ?thesis
    using sidebar_after(2) [OF a] sidebar_after(1) [where es = "[]" and w = w', OF fold_simps(1)] by simp
qed

text \<open>
  Two toggles before a render: the setter of a wide window applies both to the state of the render and one is lost, the
  sheet's setter applies them one after the other.
\<close>

lemma toggles_before_render:
  assumes "sb_settled s"
  shows "sb_open (toggleSidebar (toggleSidebar s)) = (if wh_width s < 768 then sb_open s else \<not> sb_open s) \<and>
    sb_mobile (toggleSidebar (toggleSidebar s)) = sb_mobile s"
  using assms by (simp add: sb_settled_def toggleSidebar_def setOpen_def setOpenMobile_def sb_emit_def Let_def)

end
