(* ===== verification/Admin_Kit.thy ===== *)
theory Admin_Kit
  imports Kit_Parts
begin

text \<open>
  \<open>components/ui/*\<close> of the console: wrappers around the Radix primitives, one table per file. The
  sidebar is in \<open>Sidebar_Kit\<close>, the calendar in \<open>Day_Button\<close> and the toaster in \<open>Toasts\<close>.
\<close>

section \<open>Buttons and badges\<close>

definition admin_Button :: component where
  "admin_Button props vs =
     El (slot_or ''button'' props)
       (over [slot ''button'', (''data-variant'', prop_or ''variant'' ''default'' props),
              (''data-size'', prop_or ''size'' ''default'' props)]
         (without [''variant'', ''size'', ''asChild''] props)) vs"

definition admin_Badge :: component where
  "admin_Badge props vs =
     El (slot_or ''span'' props)
       (over [slot ''badge'', (''data-variant'', prop_or ''variant'' ''default'' props)]
         (without [''variant'', ''asChild''] props)) vs"

section \<open>Dialogs\<close>

definition admin_AlertDialogContent :: component where
  "admin_AlertDialogContent props vs =
     part ''AlertDialogPrimitive.Portal'' ''alert-dialog-portal'' []
       [part ''AlertDialogPrimitive.Overlay'' ''alert-dialog-overlay'' [] [],
        with_default ''AlertDialogPrimitive.Content'' ''alert-dialog-content'' ''size'' ''default'' props vs]"

text \<open>A button of the dialog: the primitive, drawn as a \<open>Button\<close>.\<close>

definition alert_dialog_button :: "string \<Rightarrow> string \<Rightarrow> string \<Rightarrow> component" where
  "alert_dialog_button variant tag s props vs =
     admin_Button [(''variant'', prop_or ''variant'' variant props), (''size'', prop_or ''size'' ''default'' props),
                   flag ''asChild'' True]
       [part tag s (without [''variant'', ''size''] props) vs]"

definition admin_alert_dialog :: "(string \<times> component) list" where
  "admin_alert_dialog =
     [(''AlertDialog'', part ''AlertDialogPrimitive.Root'' ''alert-dialog''),
      (''AlertDialogTrigger'', part ''AlertDialogPrimitive.Trigger'' ''alert-dialog-trigger''),
      (''AlertDialogPortal'', part ''AlertDialogPrimitive.Portal'' ''alert-dialog-portal''),
      (''AlertDialogOverlay'', part ''AlertDialogPrimitive.Overlay'' ''alert-dialog-overlay''),
      (''AlertDialogContent'', admin_AlertDialogContent),
      (''AlertDialogHeader'', part ''div'' ''alert-dialog-header''),
      (''AlertDialogFooter'', part ''div'' ''alert-dialog-footer''),
      (''AlertDialogMedia'', part ''div'' ''alert-dialog-media''),
      (''AlertDialogTitle'', part ''AlertDialogPrimitive.Title'' ''alert-dialog-title''),
      (''AlertDialogDescription'', part ''AlertDialogPrimitive.Description'' ''alert-dialog-description''),
      (''AlertDialogAction'', alert_dialog_button ''default'' ''AlertDialogPrimitive.Action'' ''alert-dialog-action''),
      (''AlertDialogCancel'', alert_dialog_button ''outline'' ''AlertDialogPrimitive.Cancel'' ''alert-dialog-cancel'')]"

text \<open>The cross in the corner of a dialog or a sheet, and the contents of both.\<close>

definition close_cross :: "string \<Rightarrow> string \<Rightarrow> view" where
  "close_cross tag s =
     El tag [slot s, flag ''asChild'' True]
       [admin_Button [(''variant'', js ''ghost''), (''size'', js ''icon-sm'')] [El ''XIcon'' [] [], sr_only ''Close'']]"

definition admin_DialogContent :: component where
  "admin_DialogContent props vs =
     part ''DialogPrimitive.Portal'' ''dialog-portal'' []
       [part ''DialogPrimitive.Overlay'' ''dialog-overlay'' [] [],
        part ''DialogPrimitive.Content'' ''dialog-content'' (without [''showCloseButton''] props)
          (vs @ [only_if (prop_or ''showCloseButton'' ''true'' props = js ''true'')
             (close_cross ''DialogPrimitive.Close'' ''dialog-close'')])]"

definition admin_DialogFooter :: component where
  "admin_DialogFooter props vs =
     part ''div'' ''dialog-footer'' (without [''showCloseButton''] props)
       (vs @ [only_if (is_true ''showCloseButton'' props)
          (El ''DialogPrimitive.Close'' [flag ''asChild'' True] [admin_Button [(''variant'', js ''outline'')] [lit ''Close'']])])"

definition admin_dialog :: "(string \<times> component) list" where
  "admin_dialog =
     [(''Dialog'', part ''DialogPrimitive.Root'' ''dialog''),
      (''DialogTrigger'', part ''DialogPrimitive.Trigger'' ''dialog-trigger''),
      (''DialogPortal'', part ''DialogPrimitive.Portal'' ''dialog-portal''),
      (''DialogClose'', part ''DialogPrimitive.Close'' ''dialog-close''),
      (''DialogOverlay'', part ''DialogPrimitive.Overlay'' ''dialog-overlay''),
      (''DialogContent'', admin_DialogContent),
      (''DialogHeader'', part ''div'' ''dialog-header''),
      (''DialogFooter'', admin_DialogFooter),
      (''DialogTitle'', part ''DialogPrimitive.Title'' ''dialog-title''),
      (''DialogDescription'', part ''DialogPrimitive.Description'' ''dialog-description'')]"

definition admin_SheetContent :: component where
  "admin_SheetContent props vs =
     part ''SheetPrimitive.Portal'' ''sheet-portal'' []
       [part ''SheetPrimitive.Overlay'' ''sheet-overlay'' [] [],
        with_default ''SheetPrimitive.Content'' ''sheet-content'' ''side'' ''right'' (without [''showCloseButton''] props)
          (vs @ [only_if (prop_or ''showCloseButton'' ''true'' props = js ''true'')
             (close_cross ''SheetPrimitive.Close'' ''sheet-close'')])]"

definition admin_sheet :: "(string \<times> component) list" where
  "admin_sheet =
     [(''Sheet'', part ''SheetPrimitive.Root'' ''sheet''),
      (''SheetTrigger'', part ''SheetPrimitive.Trigger'' ''sheet-trigger''),
      (''SheetClose'', part ''SheetPrimitive.Close'' ''sheet-close''),
      (''SheetPortal'', part ''SheetPrimitive.Portal'' ''sheet-portal''),
      (''SheetOverlay'', part ''SheetPrimitive.Overlay'' ''sheet-overlay''),
      (''SheetContent'', admin_SheetContent),
      (''SheetHeader'', part ''div'' ''sheet-header''),
      (''SheetFooter'', part ''div'' ''sheet-footer''),
      (''SheetTitle'', part ''SheetPrimitive.Title'' ''sheet-title''),
      (''SheetDescription'', part ''SheetPrimitive.Description'' ''sheet-description'')]"

section \<open>Menus, popovers and tooltips\<close>

text \<open>The content of a popup: its placement has defaults and is passed to the primitive.\<close>

definition placed :: "(string \<times> string) list \<Rightarrow> attrs \<Rightarrow> attrs" where
  "placed ds props = map (\<lambda>(k, d). (k, prop_or k d props)) ds"

definition admin_DropdownMenuContent :: component where
  "admin_DropdownMenuContent props vs =
     El ''DropdownMenuPrimitive.Portal'' []
       [El ''DropdownMenuPrimitive.Content''
          (over (slot ''dropdown-menu-content'' # placed [(''sideOffset'', ''4''), (''align'', ''start'')] props)
            (without [''align'', ''sideOffset''] props)) vs]"

definition admin_DropdownMenuItem :: component where
  "admin_DropdownMenuItem props vs =
     El ''DropdownMenuPrimitive.Item''
       (over (slot ''dropdown-menu-item'' # passed ''inset'' ''data-inset'' props @
              [(''data-variant'', prop_or ''variant'' ''default'' props)])
         (without [''inset'', ''variant''] props)) vs"

text \<open>An item that can be checked: the mark comes before its children.\<close>

definition checked_item :: "string \<Rightarrow> string \<Rightarrow> string \<Rightarrow> component" where
  "checked_item tag indicator s props vs =
     with_inset tag s props
       (El ''span'' [slot (s @ ''-indicator'')] [El indicator [] [El ''CheckIcon'' [] []]] # vs)"

text \<open>The item that opens a menu inside the menu.\<close>

definition sub_trigger :: "string \<Rightarrow> component" where
  "sub_trigger tag props vs = with_inset tag ''dropdown-menu-sub-trigger'' props (vs @ [El ''ChevronRightIcon'' [] []])"

definition admin_dropdown_menu :: "(string \<times> component) list" where
  "admin_dropdown_menu =
     [(''DropdownMenu'', part ''DropdownMenuPrimitive.Root'' ''dropdown-menu''),
      (''DropdownMenuPortal'', part ''DropdownMenuPrimitive.Portal'' ''dropdown-menu-portal''),
      (''DropdownMenuTrigger'', part ''DropdownMenuPrimitive.Trigger'' ''dropdown-menu-trigger''),
      (''DropdownMenuContent'', admin_DropdownMenuContent),
      (''DropdownMenuGroup'', part ''DropdownMenuPrimitive.Group'' ''dropdown-menu-group''),
      (''DropdownMenuItem'', admin_DropdownMenuItem),
      (''DropdownMenuCheckboxItem'', checked_item ''DropdownMenuPrimitive.CheckboxItem''
         ''DropdownMenuPrimitive.ItemIndicator'' ''dropdown-menu-checkbox-item''),
      (''DropdownMenuRadioGroup'', part ''DropdownMenuPrimitive.RadioGroup'' ''dropdown-menu-radio-group'')]"

definition admin_dropdown_menu_more :: "(string \<times> component) list" where
  "admin_dropdown_menu_more =
     [(''DropdownMenuRadioItem'', checked_item ''DropdownMenuPrimitive.RadioItem''
         ''DropdownMenuPrimitive.ItemIndicator'' ''dropdown-menu-radio-item''),
      (''DropdownMenuLabel'', with_inset ''DropdownMenuPrimitive.Label'' ''dropdown-menu-label''),
      (''DropdownMenuSeparator'', part ''DropdownMenuPrimitive.Separator'' ''dropdown-menu-separator''),
      (''DropdownMenuShortcut'', part ''span'' ''dropdown-menu-shortcut''),
      (''DropdownMenuSub'', part ''DropdownMenuPrimitive.Sub'' ''dropdown-menu-sub''),
      (''DropdownMenuSubTrigger'', sub_trigger ''DropdownMenuPrimitive.SubTrigger''),
      (''DropdownMenuSubContent'', part ''DropdownMenuPrimitive.SubContent'' ''dropdown-menu-sub-content'')]"

definition admin_PopoverContent :: component where
  "admin_PopoverContent props vs =
     El ''PopoverPrimitive.Portal'' []
       [El ''PopoverPrimitive.Content''
          (over (slot ''popover-content'' # placed [(''align'', ''center''), (''sideOffset'', ''4'')] props)
            (without [''align'', ''sideOffset''] props)) vs]"

definition admin_popover :: "(string \<times> component) list" where
  "admin_popover =
     [(''Popover'', part ''PopoverPrimitive.Root'' ''popover''),
      (''PopoverTrigger'', part ''PopoverPrimitive.Trigger'' ''popover-trigger''),
      (''PopoverContent'', admin_PopoverContent),
      (''PopoverAnchor'', part ''PopoverPrimitive.Anchor'' ''popover-anchor''),
      (''PopoverHeader'', part ''div'' ''popover-header''),
      (''PopoverTitle'', part ''div'' ''popover-title''),
      (''PopoverDescription'', part ''p'' ''popover-description'')]"

text \<open>A component whose property has a default and is passed on under its own name.\<close>

definition with_prop :: "string \<Rightarrow> string \<Rightarrow> string \<Rightarrow> string \<Rightarrow> component" where
  "with_prop tag s k d props vs = El tag (over [slot s, (k, prop_or k d props)] (without [k] props)) vs"

definition admin_TooltipContent :: component where
  "admin_TooltipContent props vs =
     El ''TooltipPrimitive.Portal'' []
       [with_prop ''TooltipPrimitive.Content'' ''tooltip-content'' ''sideOffset'' ''0'' props
          (vs @ [El ''TooltipPrimitive.Arrow'' [] []])]"

definition admin_tooltip :: "(string \<times> component) list" where
  "admin_tooltip =
     [(''TooltipProvider'', with_prop ''TooltipPrimitive.Provider'' ''tooltip-provider'' ''delayDuration'' ''0''),
      (''Tooltip'', part ''TooltipPrimitive.Root'' ''tooltip''),
      (''TooltipTrigger'', part ''TooltipPrimitive.Trigger'' ''tooltip-trigger''),
      (''TooltipContent'', admin_TooltipContent)]"

section \<open>Form controls\<close>

definition admin_SelectTrigger :: component where
  "admin_SelectTrigger props vs =
     with_default ''SelectPrimitive.Trigger'' ''select-trigger'' ''size'' ''default'' props
       (vs @ [El ''SelectPrimitive.Icon'' [flag ''asChild'' True] [El ''ChevronDownIcon'' [] []]])"

text \<open>The scroll buttons have a child of their own, so the caller's are not shown.\<close>

definition scroll_button :: "string \<Rightarrow> string \<Rightarrow> string \<Rightarrow> component" where
  "scroll_button tag s icon props vs = part tag s props [El icon [] []]"

definition admin_SelectContent :: component where
  "admin_SelectContent props vs =
     (let position = prop_or ''position'' ''item-aligned'' props in
      El ''SelectPrimitive.Portal'' []
        [El ''SelectPrimitive.Content''
           (over [slot ''select-content'', flag ''data-align-trigger'' (position = js ''item-aligned''),
                  (''position'', position), (''align'', prop_or ''align'' ''center'' props)]
             (without [''position'', ''align''] props))
           [scroll_button ''SelectPrimitive.ScrollUpButton'' ''select-scroll-up-button'' ''ChevronUpIcon'' [] [],
            El ''SelectPrimitive.Viewport'' [(''data-position'', position)] vs,
            scroll_button ''SelectPrimitive.ScrollDownButton'' ''select-scroll-down-button'' ''ChevronDownIcon'' [] []]])"

definition admin_SelectItem :: component where
  "admin_SelectItem props vs =
     part ''SelectPrimitive.Item'' ''select-item'' props
       [El ''span'' [] [El ''SelectPrimitive.ItemIndicator'' [] [El ''CheckIcon'' [] []]],
        El ''SelectPrimitive.ItemText'' [] vs]"

definition admin_select :: "(string \<times> component) list" where
  "admin_select =
     [(''Select'', part ''SelectPrimitive.Root'' ''select''),
      (''SelectGroup'', part ''SelectPrimitive.Group'' ''select-group''),
      (''SelectValue'', part ''SelectPrimitive.Value'' ''select-value''),
      (''SelectTrigger'', admin_SelectTrigger),
      (''SelectContent'', admin_SelectContent),
      (''SelectLabel'', part ''SelectPrimitive.Label'' ''select-label''),
      (''SelectItem'', admin_SelectItem),
      (''SelectSeparator'', part ''SelectPrimitive.Separator'' ''select-separator''),
      (''SelectScrollUpButton'',
         scroll_button ''SelectPrimitive.ScrollUpButton'' ''select-scroll-up-button'' ''ChevronUpIcon''),
      (''SelectScrollDownButton'',
         scroll_button ''SelectPrimitive.ScrollDownButton'' ''select-scroll-down-button'' ''ChevronDownIcon'')]"

definition kit_switch :: component where
  "kit_switch props vs =
     with_default ''SwitchPrimitive.Root'' ''switch'' ''size'' ''default'' props
       [El ''SwitchPrimitive.Thumb'' [slot ''switch-thumb''] []]"

definition kit_input :: "string \<Rightarrow> component" where
  "kit_input tag props vs =
     El tag (over (passed ''type'' ''type'' props @ [slot ''input'']) (without [''type''] props)) vs"

section \<open>Layout\<close>

text \<open>The bar of a scroll area draws its own thumb.\<close>

definition scroll_bar :: "string \<Rightarrow> string \<Rightarrow> component" where
  "scroll_bar tag thumb props vs =
     (let o' = prop_or ''orientation'' ''vertical'' props in
      El tag (over [slot ''scroll-area-scrollbar'', (''data-orientation'', o'), (''orientation'', o')]
          (without [''orientation''] props))
        [El thumb [slot ''scroll-area-thumb''] []])"

definition scroll_area :: "string \<Rightarrow> string \<Rightarrow> component" where
  "scroll_area tag thumb props vs =
     part ''ScrollAreaPrimitive.Root'' ''scroll-area'' props
       [El ''ScrollAreaPrimitive.Viewport'' [slot ''scroll-area-viewport''] vs,
        scroll_bar tag thumb [] [],
        El ''ScrollAreaPrimitive.Corner'' [] []]"

definition admin_Separator :: component where
  "admin_Separator props vs =
     El ''SeparatorPrimitive.Root''
       (over [slot ''separator'', (''decorative'', prop_or ''decorative'' ''true'' props),
              (''orientation'', prop_or ''orientation'' ''horizontal'' props)]
         (without [''orientation'', ''decorative''] props)) vs"

definition admin_avatar :: "(string \<times> component) list" where
  "admin_avatar =
     [(''Avatar'', with_default ''AvatarPrimitive.Root'' ''avatar'' ''size'' ''default''),
      (''AvatarImage'', part ''AvatarPrimitive.Image'' ''avatar-image''),
      (''AvatarFallback'', part ''AvatarPrimitive.Fallback'' ''avatar-fallback''),
      (''AvatarBadge'', part ''span'' ''avatar-badge''),
      (''AvatarGroup'', part ''div'' ''avatar-group''),
      (''AvatarGroupCount'', part ''div'' ''avatar-group-count'')]"

definition admin_card :: "(string \<times> component) list" where
  "admin_card =
     [(''Card'', with_default ''div'' ''card'' ''size'' ''default''),
      (''CardHeader'', part ''div'' ''card-header''),
      (''CardTitle'', part ''div'' ''card-title''),
      (''CardDescription'', part ''div'' ''card-description''),
      (''CardAction'', part ''div'' ''card-action''),
      (''CardContent'', part ''div'' ''card-content''),
      (''CardFooter'', part ''div'' ''card-footer'')]"

text \<open>A table comes in a container that scrolls.\<close>

definition table_in_container :: component where
  "table_in_container props vs = El ''div'' [slot ''table-container''] [part ''table'' ''table'' props vs]"

definition admin_table :: "(string \<times> component) list" where
  "admin_table =
     [(''Table'', table_in_container),
      (''TableHeader'', part ''thead'' ''table-header''),
      (''TableBody'', part ''tbody'' ''table-body''),
      (''TableFooter'', part ''tfoot'' ''table-footer''),
      (''TableRow'', part ''tr'' ''table-row''),
      (''TableHead'', part ''th'' ''table-head''),
      (''TableCell'', part ''td'' ''table-cell''),
      (''TableCaption'', part ''caption'' ''table-caption'')]"

definition admin_tabs :: "(string \<times> component) list" where
  "admin_tabs =
     [(''Tabs'', with_default ''TabsPrimitive.Root'' ''tabs'' ''orientation'' ''horizontal''),
      (''TabsList'', with_default ''TabsPrimitive.List'' ''tabs-list'' ''variant'' ''default''),
      (''TabsTrigger'', part ''TabsPrimitive.Trigger'' ''tabs-trigger''),
      (''TabsContent'', part ''TabsPrimitive.Content'' ''tabs-content'')]"

definition admin_small_parts :: "(string \<times> component) list" where
  "admin_small_parts =
     [(''Button'', admin_Button), (''Badge'', admin_Badge), (''Input'', kit_input ''input''),
      (''Label'', part ''LabelPrimitive.Root'' ''label''), (''Separator'', admin_Separator),
      (''Skeleton'', part ''div'' ''skeleton''), (''Switch'', kit_switch),
      (''ScrollArea'', scroll_area ''ScrollAreaPrimitive.ScrollAreaScrollbar'' ''ScrollAreaPrimitive.ScrollAreaThumb''),
      (''ScrollBar'', scroll_bar ''ScrollAreaPrimitive.ScrollAreaScrollbar'' ''ScrollAreaPrimitive.ScrollAreaThumb'')]"

definition admin_parts :: "(string \<times> component) list" where
  "admin_parts =
     admin_small_parts @ admin_alert_dialog @ admin_dialog @ admin_sheet @ admin_dropdown_menu @
     admin_dropdown_menu_more @ admin_popover @ admin_tooltip @ admin_select @ admin_avatar @ admin_card @
     admin_table @ admin_tabs"

end
