(* ===== verification/Sidebar_Kit.thy ===== *)
theory Sidebar_Kit
  imports Sidebar Admin_Kit
begin

text \<open>
  What the components of \<open>components/ui/sidebar.tsx\<close> show, for the context a provider gives them. An entry of an
  inline style is an attribute named after it.
\<close>

definition SidebarProvider_view :: component where
  "SidebarProvider_view props vs =
     El ''SidebarContext.Provider'' []
       [El ''div''
          (over [slot ''sidebar-wrapper'', (''style.--sidebar-width'', js ''16rem''),
                 (''style.--sidebar-width-icon'', js ''3rem'')]
            (without [''defaultOpen'', ''open'', ''onOpenChange''] props)) vs]"

text \<open>Three shapes: fixed, the sheet of a narrow window, and the panel of a wide one.\<close>

definition sidebar_fixed :: component where
  "sidebar_fixed props vs = part ''div'' ''sidebar'' (without [''side'', ''variant'', ''collapsible'', ''dir''] props) vs"

definition sidebar_sheet :: "(attrs \<Rightarrow> view list \<Rightarrow> view) \<Rightarrow> sidebar_context \<Rightarrow> component" where
  "sidebar_sheet sheet_content c props vs =
     part ''SheetPrimitive.Root'' ''sheet''
       (over [flag ''open'' (sc_openMobile c)] (without [''side'', ''variant'', ''collapsible'', ''dir''] props))
       [sheet_content
          (passed ''dir'' ''dir'' props @
           [(''data-sidebar'', js ''sidebar''), slot ''sidebar'', flag ''data-mobile'' True,
            (''style.--sidebar-width'', js ''18rem''), (''side'', prop_or ''side'' ''left'' props)])
          [part ''div'' ''sheet-header'' []
             [part ''SheetPrimitive.Title'' ''sheet-title'' [] [lit ''Sidebar''],
              part ''SheetPrimitive.Description'' ''sheet-description'' [] [lit ''Displays the mobile sidebar.'']],
           El ''div'' [] vs]]"

definition sidebar_panel :: "sidebar_context \<Rightarrow> component" where
  "sidebar_panel c props vs =
     (let side = prop_or ''side'' ''left'' props; variant = prop_or ''variant'' ''sidebar'' props;
          collapsible = prop_or ''collapsible'' ''offcanvas'' props in
      El ''div''
        [(''data-state'', sc_state c), (''data-collapsible'', if sc_state c = js ''collapsed'' then collapsible else []),
         (''data-variant'', variant), (''data-side'', side), slot ''sidebar'']
        [El ''div'' [slot ''sidebar-gap''] [],
         El ''div''
           (over [slot ''sidebar-container'', (''data-side'', side)]
             (without [''side'', ''variant'', ''collapsible'', ''dir''] props))
           [El ''div'' [(''data-sidebar'', js ''sidebar''), slot ''sidebar-inner''] vs]])"

definition Sidebar_view :: "(attrs \<Rightarrow> view list \<Rightarrow> view) \<Rightarrow> sidebar_context \<Rightarrow> component" where
  "Sidebar_view sheet_content c props vs =
     (if prop_or ''collapsible'' ''offcanvas'' props = js ''none'' then sidebar_fixed props vs
      else if sc_isMobile c then sidebar_sheet sheet_content c props vs
      else sidebar_panel c props vs)"

text \<open>The trigger shows an icon and its name, whatever children it is given.\<close>

definition SidebarTrigger_view :: "component \<Rightarrow> component" where
  "SidebarTrigger_view button props vs =
     button
       (over [(''data-sidebar'', js ''trigger''), slot ''sidebar-trigger'', (''variant'', js ''ghost''),
              (''size'', js ''icon-sm'')] (without [''onClick''] props))
       [El ''PanelLeftIcon'' [] [], sr_only ''Toggle Sidebar'']"

definition SidebarRail_view :: component where
  "SidebarRail_view props vs =
     El ''button''
       (over [(''data-sidebar'', js ''rail''), slot ''sidebar-rail'', (''aria-label'', js ''Toggle Sidebar''),
              (''tabIndex'', js ''-1''), (''title'', js ''Toggle Sidebar'')] props) vs"

text \<open>Most parts carry their name twice.\<close>

definition sidebar_part :: "string \<Rightarrow> string \<Rightarrow> component" where
  "sidebar_part tag s props vs = El tag (over [slot (''sidebar-'' @ s), (''data-sidebar'', js s)] props) vs"

definition SidebarInput_view :: "string \<Rightarrow> component" where
  "SidebarInput_view tag props vs =
     kit_input tag (over [slot ''sidebar-input'', (''data-sidebar'', js ''input'')] props) vs"

definition SidebarSeparator_view :: "component \<Rightarrow> component" where
  "SidebarSeparator_view separator props vs =
     separator (over [slot ''sidebar-separator'', (''data-sidebar'', js ''separator'')] props) vs"

text \<open>A part that can be drawn as its child.\<close>

definition child_part :: "string \<Rightarrow> string \<Rightarrow> component" where
  "child_part tag s props vs = sidebar_part (slot_or tag props) s (without [''asChild''] props) vs"

text \<open>
  A menu button, with a tooltip where a text is given for it. The tooltip is hidden unless the panel is collapsed.
\<close>

definition menu_button :: component where
  "menu_button props vs =
     El (slot_or ''button'' props)
       (over [slot ''sidebar-menu-button'', (''data-sidebar'', js ''menu-button''),
              (''data-size'', prop_or ''size'' ''default'' props), flag ''data-active'' (is_true ''isActive'' props)]
         (without [''asChild'', ''isActive'', ''variant'', ''size'', ''tooltip''] props)) vs"

definition tooltip_hidden :: "sidebar_context \<Rightarrow> bool" where
  "tooltip_hidden c \<longleftrightarrow> sc_state c \<noteq> js ''collapsed'' \<or> sc_isMobile c"

definition SidebarMenuButton_view :: "sidebar_context \<Rightarrow> component" where
  "SidebarMenuButton_view c props vs =
     (let tooltip = prop_or ''tooltip'' '''' props in
      if tooltip = [] then menu_button props vs
      else part ''TooltipPrimitive.Root'' ''tooltip'' []
        [part ''TooltipPrimitive.Trigger'' ''tooltip-trigger'' [flag ''asChild'' True] [menu_button props vs],
         admin_TooltipContent
           [(''side'', js ''right''), (''align'', js ''center''), flag ''hidden'' (tooltip_hidden c)] [Txt tooltip]])"

definition SidebarMenuAction_view :: component where
  "SidebarMenuAction_view props vs = child_part ''button'' ''menu-action'' (without [''showOnHover''] props) vs"

text \<open>\<open>`${Math.floor(Math.random() * 40) + 50}%`\<close>\<close>

definition skeleton_width :: "('s, jstr) app" where
  "skeleton_width = bind random (\<lambda>r.
     return (num_to_string (num_add (math_floor (num_mul (Fin r) (num_int 40))) (num_int 50)) @ js ''%''))"

definition SidebarMenuSkeleton_view :: "jstr \<Rightarrow> component" where
  "SidebarMenuSkeleton_view width props vs =
     sidebar_part ''div'' ''menu-skeleton'' (without [''showIcon''] props)
       [only_if (is_true ''showIcon'' props) (part ''div'' ''skeleton'' [(''data-sidebar'', js ''menu-skeleton-icon'')] []),
        part ''div'' ''skeleton''
          [(''data-sidebar'', js ''menu-skeleton-text''), (''style.--skeleton-width'', width)] []]"

definition SidebarMenuSubButton_view :: component where
  "SidebarMenuSubButton_view props vs =
     El (slot_or ''a'' props)
       (over [slot ''sidebar-menu-sub-button'', (''data-sidebar'', js ''menu-sub-button''),
              (''data-size'', prop_or ''size'' ''md'' props), flag ''data-active'' (is_true ''isActive'' props)]
         (without [''asChild'', ''size'', ''isActive''] props)) vs"

definition plain_sidebar_parts :: "(string \<times> component) list" where
  "plain_sidebar_parts =
     [(''SidebarInset'', part ''main'' ''sidebar-inset''),
      (''SidebarHeader'', sidebar_part ''div'' ''header''),
      (''SidebarFooter'', sidebar_part ''div'' ''footer''),
      (''SidebarContent'', sidebar_part ''div'' ''content''),
      (''SidebarGroup'', sidebar_part ''div'' ''group''),
      (''SidebarGroupContent'', sidebar_part ''div'' ''group-content''),
      (''SidebarMenu'', sidebar_part ''ul'' ''menu''),
      (''SidebarMenuItem'', sidebar_part ''li'' ''menu-item''),
      (''SidebarMenuBadge'', sidebar_part ''div'' ''menu-badge''),
      (''SidebarMenuSub'', sidebar_part ''ul'' ''menu-sub''),
      (''SidebarMenuSubItem'', sidebar_part ''li'' ''menu-sub-item'')]"

definition admin_sidebar_parts :: "sidebar_context \<Rightarrow> jstr \<Rightarrow> (string \<times> component) list" where
  "admin_sidebar_parts c width =
     [(''SidebarProvider'', SidebarProvider_view),
      (''Sidebar'', Sidebar_view admin_SheetContent c),
      (''SidebarTrigger'', SidebarTrigger_view admin_Button),
      (''SidebarRail'', SidebarRail_view),
      (''SidebarInput'', SidebarInput_view ''input''),
      (''SidebarSeparator'', SidebarSeparator_view admin_Separator),
      (''SidebarGroupLabel'', child_part ''div'' ''group-label''),
      (''SidebarGroupAction'', child_part ''button'' ''group-action''),
      (''SidebarMenuButton'', SidebarMenuButton_view c),
      (''SidebarMenuAction'', SidebarMenuAction_view),
      (''SidebarMenuSkeleton'', SidebarMenuSkeleton_view width),
      (''SidebarMenuSubButton'', SidebarMenuSubButton_view)]"

definition admin_kit :: "sidebar_context \<Rightarrow> jstr \<Rightarrow> string \<Rightarrow> component" where
  "admin_kit c width = kit_of (admin_sidebar_parts c width @ plain_sidebar_parts @ admin_parts)"

text \<open>The width of a placeholder lies between 50 and 90 percent, as its comment says.\<close>

lemma skeleton_width_range:
  assumes "fair w"
  shows "\<exists>n. fst (skeleton_width w) = Inr (num_to_string (num_int n) @ js ''%'') \<and> 50 \<le> n \<and> n \<le> 90"
proof -
  let ?r = "w_random w (w_draws w)"
  let ?x = "fl (?r * 40)"
  have r: "0 \<le> ?r" "?r < 1" using assms by (simp_all add: fair_def)
  then have x: "0 \<le> ?x" "?x \<le> 40"
    using fl_mono [of 0 "?r * 40"] fl_mono [of "?r * 40" 40] fl_of_int [of 0] fl_of_int [of 40] by simp_all
  then have f: "0 \<le> \<lfloor>?x\<rfloor>" "\<lfloor>?x\<rfloor> \<le> 40" by (simp_all add: floor_le_iff)
  have "num_mul (Fin ?r) (num_int 40) = Fin ?x" using x by (simp add: to_num_fl)
  moreover have "num_add (num_int \<lfloor>?x\<rfloor>) (num_int 50) = num_int (\<lfloor>?x\<rfloor> + 50)"
    using f to_num_int [of "\<lfloor>?x\<rfloor> + 50"] by simp
  ultimately have "fst (skeleton_width w) = Inr (num_to_string (num_int (\<lfloor>?x\<rfloor> + 50)) @ js ''%'')"
    by (simp add: skeleton_width_def bind_def random_def return_def math_floor_def del: num_add.simps num_mul.simps)
  with f show ?thesis by (intro exI [of _ "\<lfloor>?x\<rfloor> + 50"]) simp
qed

end
