(* ===== verification/Portal_Kit.thy ===== *)
theory Portal_Kit
  imports Sidebar_Kit
begin

text \<open>
  \<open>components/ui/*\<close> of the portal. These files wrap the primitives of Base UI where the console's wrap
  Radix: a primitive is drawn as another element through its \<open>render\<close> property, which a view keeps as a first
  child named \<open>render\<close>, and \<open>useRender\<close> takes the data attributes as its \<open>state\<close>, kept as attributes of that name.
  Files that are the same in both applications share the definitions of \<open>Admin_Kit\<close>.
\<close>

definition drawn_as :: "view \<Rightarrow> view" where
  "drawn_as v = El ''render'' [] [v]"

definition use_render :: "string \<Rightarrow> (string \<times> jstr) list \<Rightarrow> component" where
  "use_render tag state props vs = El tag (map (\<lambda>(k, v). (''state.'' @ k, v)) state @ without [''render''] props) vs"

definition portal_Button :: component where
  "portal_Button props vs =
     El ''ButtonPrimitive'' (over [slot ''button''] (without [''variant'', ''size''] props)) vs"

definition portal_Badge :: component where
  "portal_Badge props vs =
     use_render ''span'' [(''slot'', js ''badge''), (''variant'', prop_or ''variant'' ''default'' props)]
       (without [''variant''] props) vs"

section \<open>Dialogs\<close>

definition portal_AlertDialogContent :: component where
  "portal_AlertDialogContent props vs =
     part ''AlertDialogPrimitive.Portal'' ''alert-dialog-portal'' []
       [part ''AlertDialogPrimitive.Backdrop'' ''alert-dialog-overlay'' [] [],
        with_default ''AlertDialogPrimitive.Popup'' ''alert-dialog-content'' ''size'' ''default'' props vs]"

definition portal_AlertDialogAction :: component where
  "portal_AlertDialogAction props vs = portal_Button (over [slot ''alert-dialog-action''] props) vs"

definition portal_AlertDialogCancel :: component where
  "portal_AlertDialogCancel props vs =
     part ''AlertDialogPrimitive.Close'' ''alert-dialog-cancel'' (without [''variant'', ''size''] props)
       (drawn_as (portal_Button
          [(''variant'', prop_or ''variant'' ''outline'' props), (''size'', prop_or ''size'' ''default'' props)] []) # vs)"

definition portal_alert_dialog :: "(string \<times> component) list" where
  "portal_alert_dialog =
     [(''AlertDialog'', part ''AlertDialogPrimitive.Root'' ''alert-dialog''),
      (''AlertDialogTrigger'', part ''AlertDialogPrimitive.Trigger'' ''alert-dialog-trigger''),
      (''AlertDialogPortal'', part ''AlertDialogPrimitive.Portal'' ''alert-dialog-portal''),
      (''AlertDialogOverlay'', part ''AlertDialogPrimitive.Backdrop'' ''alert-dialog-overlay''),
      (''AlertDialogContent'', portal_AlertDialogContent),
      (''AlertDialogHeader'', part ''div'' ''alert-dialog-header''),
      (''AlertDialogFooter'', part ''div'' ''alert-dialog-footer''),
      (''AlertDialogMedia'', part ''div'' ''alert-dialog-media''),
      (''AlertDialogTitle'', part ''AlertDialogPrimitive.Title'' ''alert-dialog-title''),
      (''AlertDialogDescription'', part ''AlertDialogPrimitive.Description'' ''alert-dialog-description''),
      (''AlertDialogAction'', portal_AlertDialogAction),
      (''AlertDialogCancel'', portal_AlertDialogCancel)]"

definition portal_cross :: "string \<Rightarrow> string \<Rightarrow> view" where
  "portal_cross tag s =
     El tag [slot s]
       [drawn_as (portal_Button [(''variant'', js ''ghost''), (''size'', js ''icon-sm'')] []),
        El ''XIcon'' [] [], sr_only ''Close'']"

definition portal_DialogContent :: component where
  "portal_DialogContent props vs =
     part ''DialogPrimitive.Portal'' ''dialog-portal'' []
       [part ''DialogPrimitive.Backdrop'' ''dialog-overlay'' [] [],
        part ''DialogPrimitive.Popup'' ''dialog-content'' (without [''showCloseButton''] props)
          (vs @ [only_if (prop_or ''showCloseButton'' ''true'' props = js ''true'')
             (portal_cross ''DialogPrimitive.Close'' ''dialog-close'')])]"

definition portal_DialogFooter :: component where
  "portal_DialogFooter props vs =
     part ''div'' ''dialog-footer'' (without [''showCloseButton''] props)
       (vs @ [only_if (is_true ''showCloseButton'' props)
          (El ''DialogPrimitive.Close'' [] [drawn_as (portal_Button [(''variant'', js ''outline'')] []), lit ''Close''])])"

definition portal_dialog :: "(string \<times> component) list" where
  "portal_dialog =
     [(''Dialog'', part ''DialogPrimitive.Root'' ''dialog''),
      (''DialogTrigger'', part ''DialogPrimitive.Trigger'' ''dialog-trigger''),
      (''DialogPortal'', part ''DialogPrimitive.Portal'' ''dialog-portal''),
      (''DialogClose'', part ''DialogPrimitive.Close'' ''dialog-close''),
      (''DialogOverlay'', part ''DialogPrimitive.Backdrop'' ''dialog-overlay''),
      (''DialogContent'', portal_DialogContent),
      (''DialogHeader'', part ''div'' ''dialog-header''),
      (''DialogFooter'', portal_DialogFooter),
      (''DialogTitle'', part ''DialogPrimitive.Title'' ''dialog-title''),
      (''DialogDescription'', part ''DialogPrimitive.Description'' ''dialog-description'')]"

definition portal_SheetContent :: component where
  "portal_SheetContent props vs =
     part ''SheetPrimitive.Portal'' ''sheet-portal'' []
       [part ''SheetPrimitive.Backdrop'' ''sheet-overlay'' [] [],
        with_default ''SheetPrimitive.Popup'' ''sheet-content'' ''side'' ''right'' (without [''showCloseButton''] props)
          (vs @ [only_if (prop_or ''showCloseButton'' ''true'' props = js ''true'')
             (portal_cross ''SheetPrimitive.Close'' ''sheet-close'')])]"

definition portal_sheet :: "(string \<times> component) list" where
  "portal_sheet =
     [(''Sheet'', part ''SheetPrimitive.Root'' ''sheet''),
      (''SheetTrigger'', part ''SheetPrimitive.Trigger'' ''sheet-trigger''),
      (''SheetClose'', part ''SheetPrimitive.Close'' ''sheet-close''),
      (''SheetPortal'', part ''SheetPrimitive.Portal'' ''sheet-portal''),
      (''SheetOverlay'', part ''SheetPrimitive.Backdrop'' ''sheet-overlay''),
      (''SheetContent'', portal_SheetContent),
      (''SheetHeader'', part ''div'' ''sheet-header''),
      (''SheetFooter'', part ''div'' ''sheet-footer''),
      (''SheetTitle'', part ''SheetPrimitive.Title'' ''sheet-title''),
      (''SheetDescription'', part ''SheetPrimitive.Description'' ''sheet-description'')]"

section \<open>Menus, popovers and tooltips\<close>

text \<open>The popups of Base UI take their placement in a positioner between the portal and the popup.\<close>

definition popup :: "string \<Rightarrow> string \<Rightarrow> (string \<times> string) list \<Rightarrow> component" where
  "popup lib s ds props vs =
     El (lib @ ''.Portal'') []
       [El (lib @ ''.Positioner'') (placed ds props) [part (lib @ ''.Popup'') s (without (map fst ds) props) vs]]"

definition portal_DropdownMenuContent :: component where
  "portal_DropdownMenuContent =
     popup ''MenuPrimitive'' ''dropdown-menu-content''
       [(''align'', ''start''), (''alignOffset'', ''0''), (''side'', ''bottom''), (''sideOffset'', ''4'')]"

definition portal_DropdownMenuItem :: component where
  "portal_DropdownMenuItem props vs =
     El ''MenuPrimitive.Item''
       (over (slot ''dropdown-menu-item'' # passed ''inset'' ''data-inset'' props @
              [(''data-variant'', prop_or ''variant'' ''default'' props)])
         (without [''inset'', ''variant''] props)) vs"

definition portal_DropdownMenuSubContent :: component where
  "portal_DropdownMenuSubContent props vs =
     (let ds = [(''align'', ''start''), (''alignOffset'', ''-3''), (''side'', ''right''), (''sideOffset'', ''0'')] in
      portal_DropdownMenuContent
        (over (slot ''dropdown-menu-sub-content'' # placed ds props) (without (map fst ds) props)) vs)"

definition portal_dropdown_menu :: "(string \<times> component) list" where
  "portal_dropdown_menu =
     [(''DropdownMenu'', part ''MenuPrimitive.Root'' ''dropdown-menu''),
      (''DropdownMenuPortal'', part ''MenuPrimitive.Portal'' ''dropdown-menu-portal''),
      (''DropdownMenuTrigger'', part ''MenuPrimitive.Trigger'' ''dropdown-menu-trigger''),
      (''DropdownMenuContent'', portal_DropdownMenuContent),
      (''DropdownMenuGroup'', part ''MenuPrimitive.Group'' ''dropdown-menu-group''),
      (''DropdownMenuLabel'', with_inset ''MenuPrimitive.GroupLabel'' ''dropdown-menu-label''),
      (''DropdownMenuItem'', portal_DropdownMenuItem),
      (''DropdownMenuSub'', part ''MenuPrimitive.SubmenuRoot'' ''dropdown-menu-sub''),
      (''DropdownMenuSubTrigger'', sub_trigger ''MenuPrimitive.SubmenuTrigger''),
      (''DropdownMenuSubContent'', portal_DropdownMenuSubContent)]"

definition portal_dropdown_menu_more :: "(string \<times> component) list" where
  "portal_dropdown_menu_more =
     [(''DropdownMenuCheckboxItem'', checked_item ''MenuPrimitive.CheckboxItem''
         ''MenuPrimitive.CheckboxItemIndicator'' ''dropdown-menu-checkbox-item''),
      (''DropdownMenuRadioGroup'', part ''MenuPrimitive.RadioGroup'' ''dropdown-menu-radio-group''),
      (''DropdownMenuRadioItem'', checked_item ''MenuPrimitive.RadioItem''
         ''MenuPrimitive.RadioItemIndicator'' ''dropdown-menu-radio-item''),
      (''DropdownMenuSeparator'', part ''MenuPrimitive.Separator'' ''dropdown-menu-separator''),
      (''DropdownMenuShortcut'', part ''span'' ''dropdown-menu-shortcut'')]"

definition portal_popover :: "(string \<times> component) list" where
  "portal_popover =
     [(''Popover'', part ''PopoverPrimitive.Root'' ''popover''),
      (''PopoverTrigger'', part ''PopoverPrimitive.Trigger'' ''popover-trigger''),
      (''PopoverContent'', popup ''PopoverPrimitive'' ''popover-content''
         [(''align'', ''center''), (''alignOffset'', ''0''), (''side'', ''bottom''), (''sideOffset'', ''4'')]),
      (''PopoverHeader'', part ''div'' ''popover-header''),
      (''PopoverTitle'', part ''PopoverPrimitive.Title'' ''popover-title''),
      (''PopoverDescription'', part ''PopoverPrimitive.Description'' ''popover-description'')]"

definition portal_TooltipContent :: component where
  "portal_TooltipContent props vs =
     popup ''TooltipPrimitive'' ''tooltip-content''
       [(''align'', ''center''), (''alignOffset'', ''0''), (''side'', ''top''), (''sideOffset'', ''4'')] props
       (vs @ [El ''TooltipPrimitive.Arrow'' [] []])"

definition portal_tooltip :: "(string \<times> component) list" where
  "portal_tooltip =
     [(''TooltipProvider'', with_prop ''TooltipPrimitive.Provider'' ''tooltip-provider'' ''delay'' ''0''),
      (''Tooltip'', part ''TooltipPrimitive.Root'' ''tooltip''),
      (''TooltipTrigger'', part ''TooltipPrimitive.Trigger'' ''tooltip-trigger''),
      (''TooltipContent'', portal_TooltipContent)]"

section \<open>Form controls and layout\<close>

definition portal_SelectTrigger :: component where
  "portal_SelectTrigger props vs =
     with_default ''SelectPrimitive.Trigger'' ''select-trigger'' ''size'' ''default'' props
       (vs @ [El ''SelectPrimitive.Icon'' [] [drawn_as (El ''ChevronDownIcon'' [] [])]])"

definition portal_SelectContent :: component where
  "portal_SelectContent props vs =
     (let ds = [(''side'', ''bottom''), (''sideOffset'', ''4''), (''align'', ''center''), (''alignOffset'', ''0''),
                (''alignItemWithTrigger'', ''true'')] in
      El ''SelectPrimitive.Portal'' []
        [El ''SelectPrimitive.Positioner'' (placed ds props)
           [El ''SelectPrimitive.Popup''
              (over [slot ''select-content'', (''data-align-trigger'', prop_or ''alignItemWithTrigger'' ''true'' props)]
                (without (map fst ds) props))
              [scroll_button ''SelectPrimitive.ScrollUpArrow'' ''select-scroll-up-button'' ''ChevronUpIcon'' [] [],
               El ''SelectPrimitive.List'' [] vs,
               scroll_button ''SelectPrimitive.ScrollDownArrow'' ''select-scroll-down-button'' ''ChevronDownIcon'' [] []]]])"

definition portal_SelectItem :: component where
  "portal_SelectItem props vs =
     part ''SelectPrimitive.Item'' ''select-item'' props
       [El ''SelectPrimitive.ItemText'' [] vs,
        El ''SelectPrimitive.ItemIndicator'' [] [drawn_as (El ''span'' [] []), El ''CheckIcon'' [] []]]"

text \<open>\<open>Select\<close> is the primitive itself, without a slot name.\<close>

definition portal_select :: "(string \<times> component) list" where
  "portal_select =
     [(''Select'', El ''SelectPrimitive.Root''),
      (''SelectGroup'', part ''SelectPrimitive.Group'' ''select-group''),
      (''SelectValue'', part ''SelectPrimitive.Value'' ''select-value''),
      (''SelectTrigger'', portal_SelectTrigger),
      (''SelectContent'', portal_SelectContent),
      (''SelectLabel'', part ''SelectPrimitive.GroupLabel'' ''select-label''),
      (''SelectItem'', portal_SelectItem),
      (''SelectSeparator'', part ''SelectPrimitive.Separator'' ''select-separator''),
      (''SelectScrollUpButton'',
         scroll_button ''SelectPrimitive.ScrollUpArrow'' ''select-scroll-up-button'' ''ChevronUpIcon''),
      (''SelectScrollDownButton'',
         scroll_button ''SelectPrimitive.ScrollDownArrow'' ''select-scroll-down-button'' ''ChevronDownIcon'')]"

definition portal_Separator :: component where
  "portal_Separator = with_prop ''SeparatorPrimitive'' ''separator'' ''orientation'' ''horizontal''"

definition portal_tabs :: "(string \<times> component) list" where
  "portal_tabs =
     [(''Tabs'', with_default ''TabsPrimitive.Root'' ''tabs'' ''orientation'' ''horizontal''),
      (''TabsList'', with_default ''TabsPrimitive.List'' ''tabs-list'' ''variant'' ''default''),
      (''TabsTrigger'', part ''TabsPrimitive.Tab'' ''tabs-trigger''),
      (''TabsContent'', part ''TabsPrimitive.Panel'' ''tabs-content'')]"

definition portal_avatar :: "(string \<times> component) list" where
  "portal_avatar = admin_avatar"

definition portal_card :: "(string \<times> component) list" where
  "portal_card = admin_card"

definition portal_table :: "(string \<times> component) list" where
  "portal_table = admin_table"

definition portal_small_parts :: "(string \<times> component) list" where
  "portal_small_parts =
     [(''Button'', portal_Button), (''Badge'', portal_Badge), (''Input'', kit_input ''InputPrimitive''),
      (''Label'', part ''label'' ''label''), (''Separator'', portal_Separator),
      (''Skeleton'', part ''div'' ''skeleton''), (''Switch'', kit_switch),
      (''ScrollArea'', scroll_area ''ScrollAreaPrimitive.Scrollbar'' ''ScrollAreaPrimitive.Thumb''),
      (''ScrollBar'', scroll_bar ''ScrollAreaPrimitive.Scrollbar'' ''ScrollAreaPrimitive.Thumb'')]"

section \<open>The sidebar\<close>

text \<open>A menu button with a tooltip is drawn as the trigger of the tooltip.\<close>

definition portal_menu_button :: "string \<Rightarrow> component" where
  "portal_menu_button tag props vs =
     use_render tag
       [(''slot'', js ''sidebar-menu-button''), (''sidebar'', js ''menu-button''),
        (''size'', prop_or ''size'' ''default'' props), flag ''active'' (is_true ''isActive'' props)]
       (without [''isActive'', ''variant'', ''size'', ''tooltip''] props) vs"

definition portal_SidebarMenuButton :: "sidebar_context \<Rightarrow> component" where
  "portal_SidebarMenuButton c props vs =
     (let tooltip = prop_or ''tooltip'' '''' props in
      if tooltip = [] then portal_menu_button ''button'' props vs
      else part ''TooltipPrimitive.Root'' ''tooltip'' []
        [portal_menu_button ''TooltipPrimitive.Trigger'' (over [slot ''tooltip-trigger''] props) vs,
         portal_TooltipContent
           [(''side'', js ''right''), (''align'', js ''center''), flag ''hidden'' (tooltip_hidden c)] [Txt tooltip]])"

text \<open>The parts whose element can be replaced.\<close>

definition replaceable_part :: "string \<Rightarrow> string \<Rightarrow> component" where
  "replaceable_part tag s = use_render tag [(''slot'', js (''sidebar-'' @ s)), (''sidebar'', js s)]"

definition portal_SidebarMenuAction :: component where
  "portal_SidebarMenuAction props vs = replaceable_part ''button'' ''menu-action'' (without [''showOnHover''] props) vs"

definition portal_SidebarMenuSubButton :: component where
  "portal_SidebarMenuSubButton props vs =
     use_render ''a''
       [(''slot'', js ''sidebar-menu-sub-button''), (''sidebar'', js ''menu-sub-button''),
        (''size'', prop_or ''size'' ''md'' props), flag ''active'' (is_true ''isActive'' props)]
       (without [''size'', ''isActive''] props) vs"

definition portal_sidebar_parts :: "sidebar_context \<Rightarrow> jstr \<Rightarrow> (string \<times> component) list" where
  "portal_sidebar_parts c width =
     [(''SidebarProvider'', SidebarProvider_view),
      (''Sidebar'', Sidebar_view portal_SheetContent c),
      (''SidebarTrigger'', SidebarTrigger_view portal_Button),
      (''SidebarRail'', SidebarRail_view),
      (''SidebarInput'', SidebarInput_view ''InputPrimitive''),
      (''SidebarSeparator'', SidebarSeparator_view portal_Separator),
      (''SidebarGroupLabel'', replaceable_part ''div'' ''group-label''),
      (''SidebarGroupAction'', replaceable_part ''button'' ''group-action''),
      (''SidebarMenuButton'', portal_SidebarMenuButton c),
      (''SidebarMenuAction'', portal_SidebarMenuAction),
      (''SidebarMenuSkeleton'', SidebarMenuSkeleton_view width),
      (''SidebarMenuSubButton'', portal_SidebarMenuSubButton)]"

definition portal_parts :: "(string \<times> component) list" where
  "portal_parts =
     portal_small_parts @ portal_alert_dialog @ portal_dialog @ portal_sheet @ portal_dropdown_menu @
     portal_dropdown_menu_more @ portal_popover @ portal_tooltip @ portal_select @ portal_avatar @ portal_card @
     portal_table @ portal_tabs"

definition portal_kit :: "sidebar_context \<Rightarrow> jstr \<Rightarrow> string \<Rightarrow> component" where
  "portal_kit c width = kit_of (portal_sidebar_parts c width @ plain_sidebar_parts @ portal_parts)"

end
