(* ===== verification/Ui_Kit.thy ===== *)
theory Ui_Kit
  imports Portal_Kit Session Shared_Views
begin

text \<open>
  The two kits meet the contract \<open>ui_kit\<close>, and what follows for the pages built from them: what a reader sees,
  which primitive each button of a dialog is, and when a page uses the sidebar outside its provider.
\<close>

section \<open>Both kits satisfy the contract\<close>

lemma kit_texts [simp]:
  "texts (admin_Button props vs) = concat (map texts vs)" "texts (admin_Badge props vs) = concat (map texts vs)"
  "texts (admin_AlertDialogContent props vs) = concat (map texts vs)"
  "texts (alert_dialog_button d t s props vs) = concat (map texts vs)"
  "texts (close_cross t s) = [js ''Close'']"
  "texts (admin_DropdownMenuContent props vs) = concat (map texts vs)"
  "texts (admin_DropdownMenuItem props vs) = concat (map texts vs)"
  "texts (checked_item t i s props vs) = concat (map texts vs)"
  "texts (sub_trigger t props vs) = concat (map texts vs)"
  "texts (admin_PopoverContent props vs) = concat (map texts vs)"
  "texts (with_prop t s k d props vs) = concat (map texts vs)"
  "texts (admin_TooltipContent props vs) = concat (map texts vs)"
  "texts (admin_SelectTrigger props vs) = concat (map texts vs)"
  "texts (scroll_button t s i props vs) = []"
  "texts (admin_SelectContent props vs) = concat (map texts vs)"
  "texts (admin_SelectItem props vs) = concat (map texts vs)"
  "texts (kit_switch props vs) = []" "texts (kit_input t props vs) = concat (map texts vs)"
  "texts (scroll_bar t h props vs) = []" "texts (scroll_area t h props vs) = concat (map texts vs)"
  "texts (admin_Separator props vs) = concat (map texts vs)"
  "texts (table_in_container props vs) = concat (map texts vs)"
  by (simp_all add: admin_Button_def admin_Badge_def admin_AlertDialogContent_def alert_dialog_button_def
      close_cross_def admin_DropdownMenuContent_def admin_DropdownMenuItem_def checked_item_def sub_trigger_def
      admin_PopoverContent_def with_prop_def admin_TooltipContent_def admin_SelectTrigger_def scroll_button_def
      admin_SelectContent_def admin_SelectItem_def kit_switch_def kit_input_def scroll_bar_def scroll_area_def
      admin_Separator_def table_in_container_def Let_def)

lemma portal_kit_texts [simp]:
  "texts (drawn_as v) = texts v" "texts (use_render t st props vs) = concat (map texts vs)"
  "texts (portal_Button props vs) = concat (map texts vs)" "texts (portal_Badge props vs) = concat (map texts vs)"
  "texts (portal_AlertDialogContent props vs) = concat (map texts vs)"
  "texts (portal_AlertDialogAction props vs) = concat (map texts vs)"
  "texts (portal_AlertDialogCancel props vs) = concat (map texts vs)"
  "texts (portal_cross t s) = [js ''Close'']"
  "texts (popup lib s ds props vs) = concat (map texts vs)"
  "texts (portal_DropdownMenuContent props vs) = concat (map texts vs)"
  "texts (portal_DropdownMenuItem props vs) = concat (map texts vs)"
  "texts (portal_DropdownMenuSubContent props vs) = concat (map texts vs)"
  "texts (portal_TooltipContent props vs) = concat (map texts vs)"
  "texts (portal_SelectTrigger props vs) = concat (map texts vs)"
  "texts (portal_SelectContent props vs) = concat (map texts vs)"
  "texts (portal_SelectItem props vs) = concat (map texts vs)"
  "texts (portal_Separator props vs) = concat (map texts vs)"
  by (simp_all add: drawn_as_def use_render_def portal_Button_def portal_Badge_def portal_AlertDialogContent_def
      portal_AlertDialogAction_def portal_AlertDialogCancel_def portal_cross_def popup_def
      portal_DropdownMenuContent_def portal_DropdownMenuItem_def portal_DropdownMenuSubContent_def
      portal_TooltipContent_def portal_SelectTrigger_def portal_SelectContent_def portal_SelectItem_def
      portal_Separator_def Let_def)

lemma sidebar_texts [simp]:
  "texts (SidebarProvider_view props vs) = concat (map texts vs)"
  "texts (sidebar_part t s props vs) = concat (map texts vs)" "texts (child_part t s props vs) = concat (map texts vs)"
  "texts (SidebarRail_view props vs) = concat (map texts vs)"
  "texts (SidebarInput_view t props vs) = concat (map texts vs)"
  "texts (SidebarMenuAction_view props vs) = concat (map texts vs)"
  "texts (SidebarMenuSkeleton_view w props vs) = []"
  "texts (SidebarMenuSubButton_view props vs) = concat (map texts vs)"
  "texts (menu_button props vs) = concat (map texts vs)"
  "texts (portal_menu_button t props vs) = concat (map texts vs)"
  "texts (replaceable_part t s props vs) = concat (map texts vs)"
  "texts (portal_SidebarMenuAction props vs) = concat (map texts vs)"
  "texts (portal_SidebarMenuSubButton props vs) = concat (map texts vs)"
  by (simp_all add: SidebarProvider_view_def sidebar_part_def child_part_def SidebarRail_view_def
      SidebarInput_view_def SidebarMenuAction_view_def SidebarMenuSkeleton_view_def SidebarMenuSubButton_view_def
      menu_button_def portal_menu_button_def replaceable_part_def portal_SidebarMenuAction_def
      portal_SidebarMenuSubButton_def)

definition kit_labels :: "jstr set" where
  "kit_labels = {js ''Close'', js ''Toggle Sidebar'', js ''Sidebar'', js ''Displays the mobile sidebar.''}"

definition kit_leaves :: "string list" where
  "kit_leaves =
     [''SelectScrollUpButton'', ''SelectScrollDownButton'', ''Switch'', ''ScrollBar'', ''SidebarTrigger'',
      ''SidebarMenuSkeleton'']"

lemma transparent_ok [kit_ok]:
  "\<forall>props vs. texts (f props vs) = concat (map texts vs) \<Longrightarrow> adds_only ls f"
  "\<forall>props vs. texts (f props vs) = concat (map texts vs) \<Longrightarrow> shows_children f"
  "\<forall>props vs. set (texts (f props vs)) \<subseteq> ls \<Longrightarrow> adds_only ls f"
  by (auto simp: adds_only_def shows_children_def)

lemma content_ok [kit_ok]:
  "adds_only kit_labels admin_DialogContent" "adds_only kit_labels admin_DialogFooter"
  "adds_only kit_labels admin_SheetContent" "adds_only kit_labels portal_DialogContent"
  "adds_only kit_labels portal_DialogFooter" "adds_only kit_labels portal_SheetContent"
  "shows_children admin_DialogContent" "shows_children admin_DialogFooter" "shows_children admin_SheetContent"
  "shows_children portal_DialogContent" "shows_children portal_DialogFooter" "shows_children portal_SheetContent"
  by (auto simp: adds_only_def shows_children_def kit_labels_def admin_DialogContent_def admin_DialogFooter_def
      admin_SheetContent_def portal_DialogContent_def portal_DialogFooter_def portal_SheetContent_def)

lemma sheet_content_texts:
  "set (texts (admin_SheetContent props vs)) \<subseteq> kit_labels \<union> set (concat (map texts vs))"
  "set (texts (portal_SheetContent props vs)) \<subseteq> kit_labels \<union> set (concat (map texts vs))"
  by (auto simp: kit_labels_def admin_SheetContent_def portal_SheetContent_def)

lemma sidebar_view_ok:
  assumes c: "\<And>props vs. set (texts (content props vs)) \<subseteq> kit_labels \<union> set (concat (map texts vs))"
    and k: "shows_children content"
  shows "adds_only kit_labels (Sidebar_view content c)" "shows_children (Sidebar_view content c)"
proof -
  have sheet: "set (texts (sidebar_sheet content c props vs)) \<subseteq> kit_labels \<union> set (concat (map texts vs))"
    "set (concat (map texts vs)) \<subseteq> set (texts (sidebar_sheet content c props vs))" for props vs
    unfolding sidebar_sheet_def texts_parts
    using c shows_childrenD [OF k] by (fastforce simp: kit_labels_def)+
  show "adds_only kit_labels (Sidebar_view content c)" "shows_children (Sidebar_view content c)"
    using sheet by (auto simp: adds_only_def shows_children_def Sidebar_view_def sidebar_fixed_def sidebar_panel_def Let_def)
qed

lemmas sidebars_ok [kit_ok] =
  sidebar_view_ok [OF sheet_content_texts(1) content_ok(9)] sidebar_view_ok [OF sheet_content_texts(2) content_ok(12)]

lemma tooltip_button_ok [kit_ok]:
  "adds_only ls (SidebarMenuButton_view c)" "shows_children (SidebarMenuButton_view c)"
  "adds_only ls (portal_SidebarMenuButton c)" "shows_children (portal_SidebarMenuButton c)"
  by (auto simp: adds_only_def shows_children_def SidebarMenuButton_view_def portal_SidebarMenuButton_def Let_def
      prop_or_def split: option.splits dest!: map_of_SomeD) (force+)?

lemma trigger_ok [kit_ok]:
  "adds_only kit_labels (SidebarTrigger_view admin_Button)" "adds_only kit_labels (SidebarTrigger_view portal_Button)"
  by (simp_all add: adds_only_def SidebarTrigger_view_def kit_labels_def)

lemma admin_parts_ok:
  "list_all (\<lambda>(n, f). adds_only kit_labels f) admin_parts"
  "list_all (\<lambda>(n, f). n \<in> set kit_leaves \<or> shows_children f) admin_parts"
  by (simp_all add: admin_parts_def admin_small_parts_def admin_alert_dialog_def admin_dialog_def admin_sheet_def
      admin_dropdown_menu_def admin_dropdown_menu_more_def admin_popover_def admin_tooltip_def admin_select_def
      admin_avatar_def admin_card_def admin_table_def admin_tabs_def kit_ok kit_leaves_def)

lemma portal_parts_ok:
  "list_all (\<lambda>(n, f). adds_only kit_labels f) portal_parts"
  "list_all (\<lambda>(n, f). n \<in> set kit_leaves \<or> shows_children f) portal_parts"
  by (simp_all add: portal_parts_def portal_small_parts_def portal_alert_dialog_def portal_dialog_def portal_sheet_def
      portal_dropdown_menu_def portal_dropdown_menu_more_def portal_popover_def portal_tooltip_def portal_select_def
      portal_avatar_def portal_card_def portal_table_def portal_tabs_def admin_avatar_def admin_card_def admin_table_def
      kit_ok kit_leaves_def)

lemma sidebar_parts_ok:
  "list_all (\<lambda>(n, f). adds_only kit_labels f) (admin_sidebar_parts c w @ portal_sidebar_parts c w @ plain_sidebar_parts)"
  "list_all (\<lambda>(n, f). n \<in> set kit_leaves \<or> shows_children f)
     (admin_sidebar_parts c w @ portal_sidebar_parts c w @ plain_sidebar_parts)"
  by (simp_all add: admin_sidebar_parts_def portal_sidebar_parts_def plain_sidebar_parts_def SidebarSeparator_view_def
      kit_ok kit_leaves_def)

interpretation console_kit: ui_kit "admin_kit c width" kit_labels kit_leaves for c width
  unfolding admin_kit_def using sidebar_parts_ok [of c width] admin_parts_ok by (intro kit_of_ok) simp_all

interpretation client_kit: ui_kit "portal_kit c width" kit_labels kit_leaves for c width
  unfolding portal_kit_def using sidebar_parts_ok [of c width] portal_parts_ok by (intro kit_of_ok) simp_all

section \<open>Pages drawn with the kits\<close>

text \<open>
  What the user reads is the page: drawn with either kit, for any state of the sidebar, a page shows nothing but its own
  texts, the texts given as properties, and the labels of the kit; and it shows all of its own texts, unless they stand
  in one of the controls that do not take children.
\<close>

lemma kits_show_the_page:
  assumes "kit = admin_kit c w \<or> kit = portal_kit c w"
  shows "set (texts (render_with kit v)) \<subseteq> kit_labels \<union> attr_values v \<union> set (texts v) \<and>
    (set (tags v) \<inter> set kit_leaves = {} \<longrightarrow> set (texts v) \<subseteq> set (texts (render_with kit v)))"
  using assms console_kit.render_adds console_kit.render_keeps client_kit.render_adds client_kit.render_keeps
  by blast

lemma alert_dialog_entries [simp]:
  "admin_kit c w ''AlertDialog'' = part ''AlertDialogPrimitive.Root'' ''alert-dialog''"
  "admin_kit c w ''AlertDialogTrigger'' = part ''AlertDialogPrimitive.Trigger'' ''alert-dialog-trigger''"
  "admin_kit c w ''AlertDialogContent'' = admin_AlertDialogContent"
  "admin_kit c w ''AlertDialogHeader'' = part ''div'' ''alert-dialog-header''"
  "admin_kit c w ''AlertDialogFooter'' = part ''div'' ''alert-dialog-footer''"
  "admin_kit c w ''AlertDialogTitle'' = part ''AlertDialogPrimitive.Title'' ''alert-dialog-title''"
  "admin_kit c w ''AlertDialogDescription'' = part ''AlertDialogPrimitive.Description'' ''alert-dialog-description''"
  "admin_kit c w ''AlertDialogAction'' =
     alert_dialog_button ''default'' ''AlertDialogPrimitive.Action'' ''alert-dialog-action''"
  "admin_kit c w ''AlertDialogCancel'' =
     alert_dialog_button ''outline'' ''AlertDialogPrimitive.Cancel'' ''alert-dialog-cancel''"
  "portal_kit c w ''AlertDialog'' = part ''AlertDialogPrimitive.Root'' ''alert-dialog''"
  "portal_kit c w ''AlertDialogTrigger'' = part ''AlertDialogPrimitive.Trigger'' ''alert-dialog-trigger''"
  "portal_kit c w ''AlertDialogContent'' = portal_AlertDialogContent"
  "portal_kit c w ''AlertDialogHeader'' = part ''div'' ''alert-dialog-header''"
  "portal_kit c w ''AlertDialogFooter'' = part ''div'' ''alert-dialog-footer''"
  "portal_kit c w ''AlertDialogTitle'' = part ''AlertDialogPrimitive.Title'' ''alert-dialog-title''"
  "portal_kit c w ''AlertDialogDescription'' = part ''AlertDialogPrimitive.Description'' ''alert-dialog-description''"
  "portal_kit c w ''AlertDialogAction'' = portal_AlertDialogAction"
  "portal_kit c w ''AlertDialogCancel'' = portal_AlertDialogCancel"
  by (simp_all add: admin_kit_def portal_kit_def kit_of_def admin_sidebar_parts_def portal_sidebar_parts_def
      plain_sidebar_parts_def admin_parts_def portal_parts_def admin_small_parts_def portal_small_parts_def
      admin_alert_dialog_def portal_alert_dialog_def)

text \<open>
  Which primitive of the library below each button of the confirmation dialog is: in the console the confirm button is the
  action of the alert dialog and the cancel button its cancel; in the portal the cancel button is its close button, and the
  confirm button a plain button.
\<close>

lemma confirm_dialog_primitives:
  "let cancel = (case cf_cancel p of None \<Rightarrow> [0x53D6, 0x6D88] | Some t \<Rightarrow> t);
       confirm = (case cf_confirm p of None \<Rightarrow> [0x786E, 0x8BA4] | Some t \<Rightarrow> t);
       console = render_with (admin_kit c w); portal = render_with (portal_kit c w);
       radix = [''AlertDialogPrimitive.Action'', ''AlertDialogPrimitive.Cancel'']; base = [''AlertDialogPrimitive.Close'']
   in texts_in radix (console (confirm_dialog p)) = texts_in radix (console (cf_trigger p)) @ [cancel, confirm] \<and>
      texts_in base (portal (confirm_dialog p)) = texts_in base (portal (cf_trigger p)) @ [cancel] \<and>
      confirm \<in> set (texts (portal (confirm_dialog p)))"
  by (simp add: confirm_dialog_def Let_def part_def with_default_def
      admin_AlertDialogContent_def portal_AlertDialogContent_def alert_dialog_button_def admin_Button_def
      portal_AlertDialogAction_def portal_AlertDialogCancel_def portal_Button_def drawn_as_def slot_or_def
      is_true_def flag_def over_def)

text \<open>
  The components that read the sidebar's context throw outside a provider. Both layouts use them inside one, whatever
  page they show, provided the page does not use them.
\<close>

definition context_readers :: "string list" where
  "context_readers = [''Sidebar'', ''SidebarTrigger'', ''SidebarRail'', ''SidebarMenuButton'']"

fun reads_outside :: "view \<Rightarrow> bool" where
  "reads_outside (Txt s) = False"
| "reads_outside (El t props vs) =
     (t \<in> set context_readers \<or> t \<noteq> ''SidebarProvider'' \<and> list_ex reads_outside vs)"
| "reads_outside (Frag vs) = list_ex reads_outside vs"

lemma layouts_read_inside:
  "\<not> reads_outside (admin_layout banner upper path user l e theme st outlet)"
  "\<not> reads_outside (portal_layout upper path user l e theme st outlet)"
  by (simp_all add: admin_layout_def portal_layout_def auth_guard_def context_readers_def nothing_def skeleton_def)

text \<open>The shape of the sidebar for a state of the specification: the sheet of a narrow window or the panel of a wide one.\<close>

definition expected_sidebar :: "sidebar_spec \<Rightarrow> string \<times> attrs" where
  "expected_sidebar a =
     (case a of (w, panel, sheet, kept) \<Rightarrow>
        if w < 768 then (''SheetPrimitive.Root'', [slot ''sheet'', flag ''open'' sheet])
        else (''div'', [(''data-state'', if panel then js ''expanded'' else js ''collapsed''),
               (''data-collapsible'', if panel then [] else js ''offcanvas''), (''data-variant'', js ''sidebar''),
               (''data-side'', js ''left''), slot ''sidebar'']))"

lemma sidebar_drawn:
  assumes "kit ''Sidebar'' = Sidebar_view content c"
    and "c = \<lparr>sc_state = if panel then js ''expanded'' else js ''collapsed'', sc_open = panel,
       sc_isMobile = (w' < 768), sc_openMobile = sheet\<rparr>"
  shows "expected_sidebar (w', panel, sheet, kept) \<in> set (elements (render_with kit (El ''Sidebar'' [] vs)))"
  using assms by (simp add: Sidebar_view_def sidebar_sheet_def sidebar_panel_def expected_sidebar_def part_def
      prop_or_def without_def over_def Let_def passed_def slot_def flag_def)

lemma layout_shape:
  "\<exists>vs ws. admin_layout banner upper path user False False theme st outlet =
     Frag [El ''SidebarProvider'' [] (El ''Sidebar'' [] vs # ws)]"
  "\<exists>vs ws. portal_layout upper path user False False theme st outlet =
     Frag [El ''SidebarProvider'' [] (El ''Sidebar'' [] vs # ws)]"
  by (simp_all add: admin_layout_def portal_layout_def auth_guard_def)

lemma provider_drawn:
  assumes "\<exists>vs ws. v = Frag [El ''SidebarProvider'' [] (El ''Sidebar'' [] vs # ws)]"
    and "kit ''SidebarProvider'' = SidebarProvider_view"
    and "\<And>vs. e \<in> set (elements (render_with kit (El ''Sidebar'' [] vs)))"
  shows "e \<in> set (elements (render_with kit v))"
proof -
  obtain vs ws where v: "v = Frag [El ''SidebarProvider'' [] (El ''Sidebar'' [] vs # ws)]"
    using assms(1) by blast
  show ?thesis
    using assms(3) [of vs] by (simp add: v assms(2) SidebarProvider_view_def)
qed

text \<open>
  C18: clicks on the trigger reach the page. In a signed-in session, after any sequence of clicks, keys and resizes, the
  layout of either application drawn with its kit contains the sidebar in the shape and the state the specification says:
  a sheet, open or closed, where the window is narrower than 768 pixels, and otherwise a panel, expanded or collapsed
  off the canvas.
\<close>

theorem layouts_draw_sidebar:
  "let a = fold spec_event es (w, True, False, None); c = contextValue (fold sb_interact es (layout_sidebar w)) in
   expected_sidebar a \<in> set (elements (render_with (admin_kit c width)
     (admin_layout banner upper path user False False theme st outlet))) \<and>
   expected_sidebar a \<in> set (elements (render_with (portal_kit c width)
     (portal_layout upper path user False False theme st outlet)))"
proof -
  let ?c = "contextValue (fold sb_interact es (layout_sidebar w))"
  obtain w' p m k where a: "fold spec_event es (w, True, False, None) = (w', p, m, k)"
    by (cases "fold spec_event es (w, True, False, None)")
  note c = sidebar_after(1) [OF a]
  have kits: "admin_kit ?c width ''SidebarProvider'' = SidebarProvider_view"
    "portal_kit ?c width ''SidebarProvider'' = SidebarProvider_view"
    "admin_kit ?c width ''Sidebar'' = Sidebar_view admin_SheetContent ?c"
    "portal_kit ?c width ''Sidebar'' = Sidebar_view portal_SheetContent ?c"
    by (simp_all add: admin_kit_def portal_kit_def kit_of_def admin_sidebar_parts_def portal_sidebar_parts_def)
  note drawn = sidebar_drawn [where kit = "admin_kit ?c width", OF kits(3) c]
    sidebar_drawn [where kit = "portal_kit ?c width", OF kits(4) c]
  show ?thesis
    unfolding a Let_def
    by (intro conjI
        provider_drawn [where kit = "admin_kit ?c width", OF layout_shape(1) kits(1)]
        provider_drawn [where kit = "portal_kit ?c width", OF layout_shape(2) kits(2)] drawn)
qed

end
