(* ===== verification/Day_Button.thy ===== *)
theory Day_Button
  imports Admin_Kit
begin

text \<open>
  \<open>components/ui/calendar.tsx\<close> of both applications: the properties passed to the day picker and the button of
  one day. The picker decides a day's modifiers; the button shows them and takes the focus when it becomes the focused
  day. The style classes are left out.
\<close>

record day_modifiers =
  dm_selected :: bool
  dm_range_start :: bool
  dm_range_end :: bool
  dm_range_middle :: bool
  dm_focused :: bool

definition day_attrs :: "jstr \<Rightarrow> day_modifiers \<Rightarrow> attrs" where
  "day_attrs label m =
     [(''variant'', js ''ghost''), (''size'', js ''icon''), (''data-day'', label),
      flag ''data-selected-single''
        (dm_selected m \<and> \<not> dm_range_start m \<and> \<not> dm_range_end m \<and> \<not> dm_range_middle m),
      flag ''data-range-start'' (dm_range_start m), flag ''data-range-end'' (dm_range_end m),
      flag ''data-range-middle'' (dm_range_middle m)]"

definition CalendarDayButton :: "component \<Rightarrow> jstr \<Rightarrow> day_modifiers \<Rightarrow> component" where
  "CalendarDayButton button label m props vs = button (over (day_attrs label m) props) vs"

text \<open>
  \<open>ref.current\<close> once the button is mounted: the console's button carries the ref, the portal's does not. The effect
  runs when \<open>modifiers.focused\<close> changed, and at the first render; the value is the element that gets the focus.
\<close>

definition admin_day_ref :: "'el \<Rightarrow> 'el option" where
  "admin_day_ref el = Some el"

definition portal_day_ref :: "'el \<Rightarrow> 'el option" where
  "portal_day_ref el = None"

definition focus_effect :: "'el option \<Rightarrow> bool \<Rightarrow> 'el list" where
  "focus_effect ref focused = (if focused then (case ref of None \<Rightarrow> [] | Some el \<Rightarrow> [el]) else [])"

fun focus_calls :: "'el option \<Rightarrow> bool option \<Rightarrow> bool list \<Rightarrow> 'el list" where
  "focus_calls ref seen [] = []"
| "focus_calls ref seen (f # fs) =
     (if seen = Some f then [] else focus_effect ref f) @ focus_calls ref (Some f) fs"

text \<open>The picker, with the two defaults, and the arrows it draws.\<close>

definition calendar :: component where
  "calendar props vs =
     El ''DayPicker''
       (over [(''showOutsideDays'', prop_or ''showOutsideDays'' ''true'' props),
              (''captionLayout'', prop_or ''captionLayout'' ''label'' props)]
         (without [''showOutsideDays'', ''captionLayout'', ''buttonVariant''] props)) vs"

definition calendar_chevron :: "jstr \<Rightarrow> component" where
  "calendar_chevron orientation props vs =
     El (if orientation = js ''left'' then ''ChevronLeftIcon''
         else if orientation = js ''right'' then ''ChevronRightIcon'' else ''ChevronDownIcon'') props vs"

section \<open>Properties\<close>

text \<open>A day is marked as a single selection or as a part of a range, never as both.\<close>

lemma day_marks_exclusive:
  assumes "map_of (day_attrs label m) ''data-selected-single'' = Some (js ''true'')"
  shows "map_of (day_attrs label m) k = Some (js ''true'') \<longleftrightarrow>
    k = ''data-selected-single'' \<or> k = ''data-day'' \<and> label = js ''true''"
  using assms by (auto simp: day_attrs_def flag_def split: if_splits)

text \<open>
  The keyboard moves the focus in the console's calendar and not in the portal's: a day of the console gets the focus
  each time it becomes the focused one, a day of the portal never does, because its ref is never attached.
\<close>

fun rises :: "bool \<Rightarrow> bool list \<Rightarrow> nat" where
  "rises b [] = 0"
| "rises b (f # fs) = (if f \<and> \<not> b then 1 else 0) + rises f fs"

lemma focus_calls_some: "focus_calls (Some el) (Some b) fs = replicate (rises b fs) el"
  by (induction fs arbitrary: b) (auto simp: focus_effect_def)

lemma focus_calls_none: "focus_calls None seen fs = []"
  by (induction fs arbitrary: seen) (auto simp: focus_effect_def)

lemma day_focus:
  "focus_calls (admin_day_ref el) None fs = replicate (rises False fs) el \<and> focus_calls (portal_day_ref el) None fs = []"
  by (cases fs) (auto simp: admin_day_ref_def portal_day_ref_def focus_calls_some focus_calls_none focus_effect_def)

end
