(* ===== verification/Toasts.thy ===== *)
theory Toasts
  imports Kit_Parts
begin

text \<open>
  \<open>components/ui/sonner.tsx\<close> of both applications (they differ in a directive only): the toaster takes its theme from
  the library \<open>next-themes\<close>, while the theme of the page is kept by \<open>app/providers.tsx\<close>.
\<close>

text \<open>The icons by kind of toast.\<close>

definition toast_icons :: "(string \<times> string) list" where
  "toast_icons =
     [(''success'', ''CircleCheckIcon''), (''info'', ''InfoIcon''), (''warning'', ''TriangleAlertIcon''),
      (''error'', ''OctagonXIcon''), (''loading'', ''Loader2Icon'')]"

text \<open>The argument is the \<open>theme\<close> of \<open>useTheme()\<close> of \<open>next-themes\<close>, with the default of the destructuring.\<close>

definition toaster :: "jstr option \<Rightarrow> component" where
  "toaster theme props vs =
     El ''Sonner''
       (over ([(''theme'', case theme of None \<Rightarrow> js ''system'' | Some t \<Rightarrow> t)] @
              map (\<lambda>(k, i). (''icons.'' @ k, js i)) toast_icons @
              [(''style.--normal-bg'', js ''var(--popover)''), (''style.--normal-text'', js ''var(--popover-foreground)''),
               (''style.--normal-border'', js ''var(--border)''), (''style.--border-radius'', js ''var(--radius)'')])
         props) vs"

text \<open>The toaster as the root providers use it.\<close>

definition app_toaster :: "jstr option \<Rightarrow> view" where
  "app_toaster theme = toaster theme [flag ''richColors'' True, (''position'', js ''top-right'')] []"

text \<open>
  The theme property of the toaster is the library's theme, and \<open>system\<close> where the library has none; the plain
  colours are variables of the page's own theme.
\<close>

lemma app_toaster_theme:
  "\<exists>as. elements (app_toaster theme) = [(''Sonner'', as)] \<and>
     map_of as ''theme'' = Some (case theme of None \<Rightarrow> js ''system'' | Some t \<Rightarrow> t) \<and>
     map_of as ''style.--normal-bg'' = Some (js ''var(--popover)'')"
  by (simp add: app_toaster_def toaster_def over_def flag_def toast_icons_def)

end
