(* ===== verification/Spec2Isabelle.thy ===== *)
theory Spec2Isabelle
  imports Customers Customer_Detail Cdr_Page Rate_Plans Transactions Profit Admin_Call_Ws Portal_Call_Ws
    Theme Session Error_Text Compliance Did_Page Gateways Settings Wastage Ops Screen_Width Portal_Pages
    Portal_Session Ui_Kit Day_Button Toasts
begin

text \<open>
  BOS3000 is a callback telephony platform: a Go backend and two single-page applications in TypeScript, the
  operators' console (\<open>src/admin\<close>) and the customers' portal (\<open>src/portal\<close>). This library models the two
  applications: what they send, what they keep, what they show, and what of that goes wrong.

  \<^bold>\<open>How the parts interact.\<close> A page (\<open>features/*\<close>) keeps local state and renders a tree of elements. Its handlers
  call hooks (\<open>lib/api/hooks.ts\<close>), which wrap the methods of the API client (\<open>lib/api/client.ts\<close>) into
  queries and mutations of a caching library; a mutation that succeeds invalidates the keys of the queries that
  show what it changed. The client's methods call one function \<open>request\<close>, which calls \<open>fetch\<close>. Beside that, a
  socket (\<open>hooks/use-call-ws.ts\<close>) announces call events, and the providers (\<open>app/providers.tsx\<close>) keep the theme.

  \<^bold>\<open>How code becomes definitions.\<close> A JavaScript string is a list of 16 bit code units; a number is a double, the
  rational it denotes or an infinity or NaN, and every operation rounds (\<open>Js_Number\<close>); a value of unknown type
  is a \<open>jsval\<close>, and the declared TypeScript interfaces are runtime shapes (\<open>Admin_Types\<close>, \<open>Portal_Types\<close>). An
  asynchronous function is a state transformer that returns the thrown value or the result, over a world of
  network, local storage, clock, random numbers and a log of everything done to the outside (requests,
  invalidations, toasts, navigations). A page's state is a record that extends this world, so that a handler is
  one function from state to state. What a component renders is a value of type \<open>view\<close>: elements with the
  attributes that carry meaning; style classes are left out except where code computes them. A render that may
  throw is a sum.

  \<^bold>\<open>Theories and sources\<close>, bottom up; paths are below \<open>src/admin/src\<close> or, where said, \<open>src/portal/src\<close>.

  \<^item> \<open>Js_Prelude\<close>, \<open>Js_Number\<close>, \<open>Js_Text\<close>, \<open>Js_Regex\<close>, \<open>Js_Date\<close>, \<open>Js_Value\<close>, \<open>Js_Json\<close>: the part of the
    language and its library the sources use. The lemmas are the bridges: numerals read back, double arithmetic
    on whole amounts is exact, quotients round to the right integer, a query component decodes to what was
    encoded, what \<open>JSON.stringify\<close> prints is accepted by the scanner.
  \<^item> \<open>Http\<close>, \<open>Query_Client\<close>: \<open>fetch\<close>, the query string (\<open>qs\<close>), the caching library's queries and mutations,
    and the client's default options (\<open>app/providers.tsx\<close>).
    Locale \<open>http_service\<close> is the contract of both \<open>request\<close> functions, locale \<open>one_request\<close> that of a page
    action that sends one request and refreshes its keys; \<open>footprint\<close> bounds what a program does outside.
  \<^item> \<open>Admin_Types\<close>, \<open>Admin_Client\<close>, \<open>Admin_Hooks\<close>: \<open>lib/api/client.ts\<close> and \<open>hooks.ts\<close>; \<open>Portal_Types\<close>,
    \<open>Portal_Client\<close>, \<open>Portal_Hooks\<close>: the portal's. One definition per method and hook.
  \<^item> \<open>Error_Text\<close>: \<open>lib/api/error.ts\<close> of both. \<open>Session\<close>: \<open>features/auth/login.tsx\<close>, \<open>app/layout.tsx\<close>,
    \<open>app/router.tsx\<close>, \<open>nav-config.ts\<close> of both. \<open>Theme\<close>: \<open>app/providers.tsx\<close> of both.
    \<open>Portal_Session\<close>: the portal's token over sequences of operations.
  \<^item> \<open>Call_Ws\<close>, \<open>Admin_Call_Ws\<close>, \<open>Portal_Call_Ws\<close>: \<open>hooks/use-call-ws.ts\<close> of both, as a step relation over
    sockets and timers; locale \<open>ws_client\<close> has the invariant once for both. \<open>Screen_Width\<close>: \<open>use-mobile.ts\<close>.
  \<^item> \<open>View\<close>, \<open>Shared_Views\<close>, \<open>Csv_Upload\<close>, \<open>Forms\<close>: \<open>components/shared/*\<close> and what forms and lists share.
  \<^item> \<open>Kit_Parts\<close>, \<open>Admin_Kit\<close>, \<open>Portal_Kit\<close>: \<open>components/ui/*\<close> of both, a table of components per file: the
    element or primitive each returns, with its slot, data attributes and defaults. \<open>Sidebar\<close> and \<open>Sidebar_Kit\<close>:
    \<open>sidebar.tsx\<close>, its provider as a state machine over the width hook, and its components; \<open>Day_Button\<close>:
    \<open>calendar.tsx\<close>; \<open>Toasts\<close>: \<open>sonner.tsx\<close>. \<open>Ui_Kit\<close> draws a page with a kit (\<open>render_with\<close>): locale \<open>ui_kit\<close>
    is the contract of a kit, that a drawn page shows its own texts and only labels besides, interpreted on both.
  \<^item> One theory per page: \<open>Customers\<close>, \<open>Customer_Detail\<close>, \<open>Cdr_Page\<close>, \<open>Rate_Plans\<close>, \<open>Transactions\<close>, \<open>Profit\<close>,
    \<open>Compliance\<close>, \<open>Did_Page\<close>, \<open>Gateways\<close>, \<open>Settings\<close>, \<open>Wastage\<close>, \<open>Dashboard\<close>, \<open>Ops\<close> for
    \<open>features/{customers,cdr,finance,compliance,did,gateways,settings,wastage,dashboard,ops}\<close>, and
    \<open>Portal_Pages\<close> for the portal's \<open>features/*\<close>.

  \<^bold>\<open>What the lemmas show.\<close> Safety and error behaviour of requests and sessions (which header, how often, what is
  kept on failure); invariants of the state machines (at most one live socket, the whitelist, the configuration,
  the width hook); equivalence with a plainer specification (day filters, address format, grouping, the two
  clients); refinement (the portal's session by its token, the sidebar by
  two flags); for every mutation exactly the cached queries it makes stale (\<open>refreshed\<close>); bounds of
  the double arithmetic behind every number shown; round trips (durations, JSON texts, the theme). Where
  the code does not do what it means to, the theorem states what it does, and the manifest has a finding.

  \<^bold>\<open>Parameters.\<close> Not under \<open>src\<close>, and therefore arguments: the server (\<open>w_net\<close>, unrestricted), which cached keys a
  key reaches (\<open>matches\<close>, with \<open>prefix_rule\<close>: an invalidated key of texts reaches the keys it is a prefix of), the
  schema and form libraries (\<open>parse\<close>, with \<open>schema_laws\<close>: a parsed object has no other fields than the schema and
  each passes its checks, and \<open>schema_keeps\<close>: a field without a transformation keeps its value), the table library's
  row model, the file parsers, the banner the console's layout imports but does not have (\<open>banner\<close>), the theme the
  toaster reads from another library's provider (\<open>theme\<close>), and the browser's locale texts (\<open>fmt_date\<close>,
  \<open>fmt_time\<close>, \<open>fmt_num\<close>). \<open>Sent r\<close> records a call of \<open>fetch\<close>: where \<open>fetch\<close> refuses its arguments, the network
  answers \<open>Unreachable\<close>. The headers of \<open>r\<close> are those of the init object; \<open>wire_header\<close> reads them the way they are
  sent, without regard to case and with equal names joined. Of the cookies, a script sees those that are not
  \<open>HttpOnly\<close> (\<open>document_cookie\<close>).

  \<^bold>\<open>Bounds.\<close> Statements on amounts assume whole numbers up to \<open>2 ^ 50\<close> (or \<open>2 ^ 53\<close>, where a double is exact);
  the platform's amounts are far smaller. The only fuel is that of \<open>num_to_string\<close>: 17 digits always identify a
  double, and 330 steps reach the exponent of the smallest one. All loops of the code are structural recursions
  or have a measure; the JSON scanner's is the length of the text that is left.

  \<^bold>\<open>Not modelled.\<close> The style classes of \<open>components/ui/*\<close> and what the primitives below them (Radix, Base UI) do
  with the elements they are given, such as opening a menu, closing a dialog, trapping the focus or placing a popup
  (\<open>texts_in\<close> only lists the texts inside primitives of given names), and what the toast library does with the
  theme it is given. The month formatter and the class table of the calendar.
  \<open>lib/utils.ts\<close>: one call of a class name library. \<open>main.tsx\<close>: mounts the root. The
  cache of the query library, the layout of charts, transitions and focus. Sorting of tables, which the table
  library does and no handler reads. The Go backend and the deployment files: other languages. Portal pages that
  are announced but not written yet have no behaviour beyond their text.
\<close>

section \<open>The two clients\<close>

text \<open>
  C19: the two applications treat an answer alike: for the same reply of the server to the two requests, the
  console's and the portal's \<open>request\<close> resolve to the same value or throw the same error, each after exactly
  one request, to the same address with the same method and body.
\<close>

theorem clients_agree:
  assumes "w_net w (sent w) (admin_build w p opts) = w_net u (sent u) (portal_build u p opts)"
  shows "fst (admin_request p opts w) = fst (portal_request p opts u) \<and>
    sent (snd (admin_request p opts w)) = sent w @ [admin_build w p opts] \<and>
    sent (snd (portal_request p opts u)) = sent u @ [portal_build u p opts] \<and>
    rq_url (admin_build w p opts) = rq_url (portal_build u p opts) \<and>
    rq_method (admin_build w p opts) = rq_method (portal_build u p opts) \<and>
    rq_body (admin_build w p opts) = rq_body (portal_build u p opts)"
  using assms
  by (simp add: admin_http.run portal_http.run admin_http.url portal_http.url admin_http.verb portal_http.verb
      admin_http.body portal_http.body)

theorem clients_agree_witness:
  "fst (admin_request (js ''/api/auth/me'') no_options (world_of (\<lambda>past r. Reply (ok_json (jint 1))))) =
   fst (portal_request (js ''/api/auth/me'') no_options (world_of (\<lambda>past r. Reply (ok_json (jint 1)))))"
  using clients_agree [of "world_of (\<lambda>past r. Reply (ok_json (jint 1)))" "js ''/api/auth/me''" no_options
      "world_of (\<lambda>past r. Reply (ok_json (jint 1)))"]
  by simp

end
